(* ===== verification/Prelude.thy ===== *)
theory Prelude
  imports Main "HOL-Library.Word"
begin

unbundle bit_operations_syntax

text \<open>
  The prelude of the library.  It names the machine types of the Rust code, gives the
  computation type in which the provider's fallible, stateful functions are written, the
  slice operations with their panics, and the small rule calculus (the collections
  \<open>yields_intro\<close>, \<open>ensures_intro\<close> and \<open>no_panic_intro\<close>) that the component proofs
  apply.

  A computation takes the state of the foreign library (wolfCrypt: its entropy source, its
  allocator) and returns an outcome together with the state afterwards.  An outcome is Rust's
  \<open>Ok\<close>, Rust's \<open>Err\<close>, or a panic (an \<open>expect\<close> on an error, a slice index out of range,
  a length mismatch in \<open>copy_from_slice\<close>), each as a value.
\<close>

section \<open>Machine types\<close>

type_synonym u8 = "8 word"
type_synonym u16 = "16 word"
type_synonym u32 = "32 word"
type_synonym u64 = "64 word"

text \<open>\<open>i32\<close> is a 32-bit word read with \<open>sint\<close>; \<open>usize\<close> values are lengths of
  buffers in memory and are naturals.\<close>

type_synonym i32 = "32 word"
type_synonym usize = nat
type_synonym bytes = "u8 list"

text \<open>A buffer of zero bytes, \<open>[0u8; n]\<close> or \<open>vec![0u8; n]\<close>.\<close>

definition zeros :: "usize \<Rightarrow> bytes" where
  "zeros n = replicate n 0"

lemma length_zeros [simp]: "length (zeros n) = n"
  by (simp add: zeros_def)

lemma take_zeros [simp]: "take k (zeros n) = zeros (min k n)"
  by (simp add: zeros_def)

lemma drop_zeros [simp]: "drop k (zeros n) = zeros (n - k)"
  by (simp add: zeros_def)

lemma zeros_0 [simp]: "zeros 0 = []"
  by (simp add: zeros_def)

section \<open>Outcomes and computations\<close>

datatype ('e, 'a) outcome = Ok 'a | Err 'e | Panic string

type_synonym ('s, 'e, 'a) rust = "'s \<Rightarrow> ('e, 'a) outcome \<times> 's"

text \<open>A call into a foreign library: it may fail with an error value, it does not panic.\<close>

type_synonym ('s, 'x, 'a) ffi = "'s \<Rightarrow> ('x + 'a) \<times> 's"

definition ok :: "'a \<Rightarrow> ('s, 'e, 'a) rust" where
  "ok x = (\<lambda>s. (Ok x, s))"

definition err :: "'e \<Rightarrow> ('s, 'e, 'a) rust" where
  "err e = (\<lambda>s. (Err e, s))"

definition panic :: "string \<Rightarrow> ('s, 'e, 'a) rust" where
  "panic msg = (\<lambda>s. (Panic msg, s))"

text \<open>Sequencing with the \<open>?\<close> operator: an error or a panic ends the computation.\<close>

definition and_then :: "('s, 'e, 'a) rust \<Rightarrow> ('a \<Rightarrow> ('s, 'e, 'b) rust) \<Rightarrow> ('s, 'e, 'b) rust" where
  "and_then m f = (\<lambda>s. case m s of
       (Ok x, s') \<Rightarrow> f x s'
     | (Err e, s') \<Rightarrow> (Err e, s')
     | (Panic p, s') \<Rightarrow> (Panic p, s'))"

text \<open>\<open>call.map_err(f)?\<close> and \<open>call.expect(msg)\<close> on a foreign call.\<close>

definition map_err :: "('x \<Rightarrow> 'e) \<Rightarrow> ('s, 'x, 'a) ffi \<Rightarrow> ('s, 'e, 'a) rust" where
  "map_err f c = (\<lambda>s. case c s of (Inr x, s') \<Rightarrow> (Ok x, s') | (Inl e, s') \<Rightarrow> (Err (f e), s'))"

definition expect :: "('s, 'x, 'a) ffi \<Rightarrow> string \<Rightarrow> ('s, 'e, 'a) rust" where
  "expect c msg = (\<lambda>s. case c s of (Inr x, s') \<Rightarrow> (Ok x, s') | (Inl e, s') \<Rightarrow> (Panic msg, s'))"

text \<open>The same operations on a \<open>Result\<close> that the provider's own code returned.\<close>

definition map_err_result :: "('e \<Rightarrow> 'f) \<Rightarrow> ('s, 'e, 'a) rust \<Rightarrow> ('s, 'f, 'a) rust" where
  "map_err_result f m = (\<lambda>s. case m s of
       (Ok x, s') \<Rightarrow> (Ok x, s')
     | (Err e, s') \<Rightarrow> (Err (f e), s')
     | (Panic p, s') \<Rightarrow> (Panic p, s'))"

definition expect_result :: "('s, 'e, 'a) rust \<Rightarrow> string \<Rightarrow> ('s, 'f, 'a) rust" where
  "expect_result m msg = (\<lambda>s. case m s of
       (Ok x, s') \<Rightarrow> (Ok x, s')
     | (Err e, s') \<Rightarrow> (Panic msg, s')
     | (Panic p, s') \<Rightarrow> (Panic p, s'))"

definition or_else :: "('s, 'e, 'a) rust \<Rightarrow> ('e \<Rightarrow> ('s, 'f, 'a) rust) \<Rightarrow> ('s, 'f, 'a) rust" where
  "or_else m f = (\<lambda>s. case m s of
       (Ok x, s') \<Rightarrow> (Ok x, s')
     | (Err e, s') \<Rightarrow> f e s'
     | (Panic p, s') \<Rightarrow> (Panic p, s'))"

text \<open>An \<open>Option\<close> from a library function that panics instead of returning \<open>None\<close>.\<close>

definition some_or_panic :: "'a option \<Rightarrow> string \<Rightarrow> ('s, 'e, 'a) rust" where
  "some_or_panic x msg = (case x of Some y \<Rightarrow> ok y | None \<Rightarrow> panic msg)"

text \<open>A \<open>Result\<close> computed without the foreign library, and its \<open>map_err\<close>.\<close>

definition of_result :: "('x + 'a) \<Rightarrow> ('s, 'x, 'a) ffi" where
  "of_result r = (\<lambda>s. (r, s))"

lemmas rust_defs = ok_def err_def panic_def and_then_def map_err_def expect_def
  map_err_result_def expect_result_def or_else_def of_result_def

lemma and_then_ok [simp]: "and_then (ok x) f = f x"
  by (simp add: and_then_def ok_def)

lemma and_then_err [simp]: "and_then (err e) f = err e"
  by (simp add: and_then_def err_def)

lemma and_then_panic [simp]: "and_then (panic p) f = panic p"
  by (simp add: and_then_def panic_def)

lemma some_or_panic_Some [simp]: "some_or_panic (Some x) msg = ok x"
  by (simp add: some_or_panic_def)

lemma map_err_of_result [simp]:
  "map_err f (of_result (Inr x)) = ok x"
  "map_err f (of_result (Inl e)) = err (f e)"
  by (simp_all add: rust_defs)

lemma and_then_assoc: "and_then (and_then m f) g = and_then m (\<lambda>x. and_then (f x) g)"
  by (rule ext) (simp add: and_then_def split: prod.split outcome.split)

lemma and_then_ok_right [simp]: "and_then m ok = m"
  by (rule ext) (simp add: and_then_def ok_def split: prod.split outcome.split)

lemma expect_result_and_then:
  "expect_result (and_then m f) msg = and_then (expect_result m msg) (\<lambda>x. expect_result (f x) msg)"
  by (rule ext) (simp add: and_then_def expect_result_def split: prod.split outcome.split)

lemma expect_result_simps [simp]:
  "expect_result (ok x) msg = ok x" "expect_result (some_or_panic y msg') msg = some_or_panic y msg'"
  by (auto simp: expect_result_def ok_def panic_def some_or_panic_def split: option.split)

text \<open>The value a computation returns, and the state it leaves, from a given state.\<close>

lemma fst_run [simp]:
  "fst (ok x s) = Ok x" "fst (err e s) = Err e" "fst (panic p s) = Panic p"
  by (simp_all add: rust_defs)

section \<open>Slices, arrays and \<open>usize\<close> arithmetic\<close>

text \<open>\<open>&xs[a..b]\<close>, \<open>&xs[a..]\<close> and \<open>&xs[..b]\<close>.\<close>

definition slice_range :: "'a list \<Rightarrow> usize \<Rightarrow> usize \<Rightarrow> ('s, 'e, 'a list) rust" where
  "slice_range xs a b =
     (if a \<le> b \<and> b \<le> length xs then ok (take (b - a) (drop a xs))
      else panic ''range out of range for slice'')"

definition slice_from :: "'a list \<Rightarrow> usize \<Rightarrow> ('s, 'e, 'a list) rust" where
  "slice_from xs a = slice_range xs a (length xs)"

definition slice_to :: "'a list \<Rightarrow> usize \<Rightarrow> ('s, 'e, 'a list) rust" where
  "slice_to xs b = slice_range xs 0 b"

text \<open>\<open>xs[i]\<close>.\<close>

definition index :: "'a list \<Rightarrow> usize \<Rightarrow> ('s, 'e, 'a) rust" where
  "index xs i = (if i < length xs then ok (xs ! i) else panic ''index out of bounds'')"

text \<open>\<open>dst.copy_from_slice(src)\<close> and \<open>dst[a..b].copy_from_slice(src)\<close>: the
  destination afterwards.\<close>

definition copy_from_slice :: "'a list \<Rightarrow> 'a list \<Rightarrow> ('s, 'e, 'a list) rust" where
  "copy_from_slice dst src =
     (if length src = length dst then ok src
      else panic ''copy_from_slice: source slice length does not match'')"

definition copy_into_range :: "'a list \<Rightarrow> usize \<Rightarrow> usize \<Rightarrow> 'a list \<Rightarrow> ('s, 'e, 'a list) rust" where
  "copy_into_range dst a b src =
     and_then (slice_range dst a b) (\<lambda>d.
     and_then (copy_from_slice d src) (\<lambda>d'.
     ok (take a dst @ d' @ drop b dst)))"

text \<open>\<open>xs.try_into()\<close> for an array type of \<open>n\<close> elements.\<close>

definition try_into_array :: "usize \<Rightarrow> 'a list \<Rightarrow> unit + 'a list" where
  "try_into_array n xs = (if length xs = n then Inr xs else Inl ())"

text \<open>\<open>a - b\<close> on \<open>usize\<close>, with the overflow check that stops the program.\<close>

definition usize_sub :: "usize \<Rightarrow> usize \<Rightarrow> ('s, 'e, usize) rust" where
  "usize_sub a b = (if b \<le> a then ok (a - b) else panic ''attempt to subtract with overflow'')"

definition vec_truncate :: "usize \<Rightarrow> 'a list \<Rightarrow> 'a list" where
  "vec_truncate n xs = take n xs"

text \<open>\<open>offered.contains(&x)\<close> and \<open>iter().find_map(f)\<close>.\<close>

fun find_map :: "('a \<Rightarrow> 'b option) \<Rightarrow> 'a list \<Rightarrow> 'b option" where
  "find_map f [] = None"
| "find_map f (x # xs) = (case f x of Some y \<Rightarrow> Some y | None \<Rightarrow> find_map f xs)"

text \<open>The decimal rendering that \<open>format!\<close> gives an integer.\<close>

fun show_nat :: "nat \<Rightarrow> string" where
  "show_nat n = (if n < 10 then [char_of (48 + n)] else show_nat (n div 10) @ [char_of (48 + n mod 10)])"

declare show_nat.simps [simp del]

definition show_i32 :: "i32 \<Rightarrow> string" where
  "show_i32 w = (if sint w < 0 then ''-'' @ show_nat (nat (- sint w)) else show_nat (nat (sint w)))"

text \<open>\<open>u64::to_be_bytes\<close>.\<close>

definition be64 :: "u64 \<Rightarrow> bytes" where
  "be64 x = map (\<lambda>i. ucast (drop_bit (8 * (7 - i)) x)) [0..<8]"

lemma slice_range_ok [simp]:
  "a \<le> b \<Longrightarrow> b \<le> length xs \<Longrightarrow> slice_range xs a b = ok (take (b - a) (drop a xs))"
  by (simp add: slice_range_def)

lemma slice_from_ok [simp]: "a \<le> length xs \<Longrightarrow> slice_from xs a = ok (drop a xs)"
  by (simp add: slice_from_def)

lemma slice_to_ok [simp]: "b \<le> length xs \<Longrightarrow> slice_to xs b = ok (take b xs)"
  by (simp add: slice_to_def)

lemma index_ok [simp]: "i < length xs \<Longrightarrow> index xs i = ok (xs ! i)"
  by (simp add: index_def)

lemma copy_from_slice_ok [simp]: "length src = length dst \<Longrightarrow> copy_from_slice dst src = ok src"
  by (simp add: copy_from_slice_def)

lemma copy_into_range_ok [simp]:
  "a \<le> b \<Longrightarrow> b \<le> length dst \<Longrightarrow> length src = b - a \<Longrightarrow>
   copy_into_range dst a b src = ok (take a dst @ src @ drop b dst)"
  by (simp add: copy_into_range_def)

lemma usize_sub_ok [simp]: "b \<le> a \<Longrightarrow> usize_sub a b = ok (a - b)"
  by (simp add: usize_sub_def)

lemma try_into_array_ok [simp]: "length xs = n \<Longrightarrow> try_into_array n xs = Inr xs"
  by (simp add: try_into_array_def)

lemma find_map_if:
  "find_map (\<lambda>x. if P x then Some (f x) else None) xs = map_option f (List.find P xs)"
  by (induction xs) auto

lemma length_be64 [simp]: "length (be64 x) = 8"
  by (simp add: be64_def)

lemma be64_inject: "be64 x = be64 y \<longleftrightarrow> x = y"
proof
  assume eq: "be64 x = be64 y"
  show "x = y"
  proof (rule bit_word_eqI)
    fix n assume n: "n < LENGTH(64)"
    define i where "i = 7 - n div 8"
    have i: "i < 8" and ni: "8 * (7 - i) + n mod 8 = n" using n by (auto simp: i_def)
    have "be64 x ! i = be64 y ! i" using eq by simp
    then have "(ucast (drop_bit (8 * (7 - i)) x) :: u8) = ucast (drop_bit (8 * (7 - i)) y)"
      using i by (simp add: be64_def)
    then have "bit (ucast (drop_bit (8 * (7 - i)) x) :: u8) (n mod 8)
             = bit (ucast (drop_bit (8 * (7 - i)) y) :: u8) (n mod 8)" by simp
    then show "bit x n = bit y n" using ni by (simp add: bit_ucast_iff bit_drop_bit_eq)
  qed
qed simp

section \<open>Reasoning about computations\<close>

text \<open>
  \<open>yields m P\<close>: from every state the computation returns \<open>Ok\<close> of a value with \<open>P\<close>.
  \<open>ensures m P\<close>: whenever it returns \<open>Ok\<close>, the value has \<open>P\<close>.
  \<open>no_panic m\<close>: it never panics.  The versions with \<open>ffi\<close> are about foreign calls.
\<close>

definition yields :: "('s, 'e, 'a) rust \<Rightarrow> ('a \<Rightarrow> bool) \<Rightarrow> bool" where
  "yields m P \<longleftrightarrow> (\<forall>s. \<exists>x s'. m s = (Ok x, s') \<and> P x)"

definition ensures :: "('s, 'e, 'a) rust \<Rightarrow> ('a \<Rightarrow> bool) \<Rightarrow> bool" where
  "ensures m P \<longleftrightarrow> (\<forall>s x s'. m s = (Ok x, s') \<longrightarrow> P x)"

definition no_panic :: "('s, 'e, 'a) rust \<Rightarrow> bool" where
  "no_panic m \<longleftrightarrow> (\<forall>s p s'. m s \<noteq> (Panic p, s'))"

definition ffi_yields :: "('s, 'x, 'a) ffi \<Rightarrow> ('a \<Rightarrow> bool) \<Rightarrow> bool" where
  "ffi_yields c P \<longleftrightarrow> (\<forall>s. \<exists>x s'. c s = (Inr x, s') \<and> P x)"

definition ffi_ensures :: "('s, 'x, 'a) ffi \<Rightarrow> ('a \<Rightarrow> bool) \<Rightarrow> bool" where
  "ffi_ensures c P \<longleftrightarrow> (\<forall>s x s'. c s = (Inr x, s') \<longrightarrow> P x)"

definition ffi_fails :: "('s, 'x, 'a) ffi \<Rightarrow> bool" where
  "ffi_fails c \<longleftrightarrow> (\<forall>s. \<exists>e s'. c s = (Inl e, s'))"

named_theorems yields_intro "rules for computations that return"
named_theorems ensures_intro "rules for what a returned value satisfies"
named_theorems no_panic_intro "rules for computations that do not panic"

lemma yieldsI: "(\<And>s. \<exists>x s'. m s = (Ok x, s') \<and> P x) \<Longrightarrow> yields m P"
  by (simp add: yields_def)

lemma yieldsD: "yields m P \<Longrightarrow> \<exists>x s'. m s = (Ok x, s') \<and> P x"
  by (simp add: yields_def)

lemma yields_unit: "yields m P \<Longrightarrow> \<exists>x. m () = (Ok x, ()) \<and> P x"
  using yieldsD [of m P "()"] by auto

lemma ensuresD: "ensures m P \<Longrightarrow> m s = (Ok x, s') \<Longrightarrow> P x"
  unfolding ensures_def by blast

lemma ffi_yieldsD: "ffi_yields c P \<Longrightarrow> \<exists>x s'. c s = (Inr x, s') \<and> P x"
  by (simp add: ffi_yields_def)

lemma ffi_ensuresD: "ffi_ensures c P \<Longrightarrow> c s = (Inr x, s') \<Longrightarrow> P x"
  unfolding ffi_ensures_def by blast

lemma ffi_yields_weaken: "ffi_yields c P \<Longrightarrow> (\<And>x. P x \<Longrightarrow> Q x) \<Longrightarrow> ffi_yields c Q"
  unfolding ffi_yields_def by blast

lemma ffi_ensures_weaken: "ffi_ensures c P \<Longrightarrow> (\<And>x. P x \<Longrightarrow> Q x) \<Longrightarrow> ffi_ensures c Q"
  unfolding ffi_ensures_def by blast

lemma yields_ok [yields_intro]: "P x \<Longrightarrow> yields (ok x) P"
  by (simp add: yields_def ok_def)

lemma yields_and_then [yields_intro]:
  "yields m P \<Longrightarrow> (\<And>x. P x \<Longrightarrow> yields (f x) Q) \<Longrightarrow> yields (and_then m f) Q"
proof (rule yieldsI)
  fix s
  assume m: "yields m P" and f: "\<And>x. P x \<Longrightarrow> yields (f x) Q"
  obtain x s' where 1: "m s = (Ok x, s')" "P x" using yieldsD [OF m] by blast
  obtain y s'' where "f x s' = (Ok y, s'')" "Q y" using yieldsD [OF f [OF 1(2)]] by blast
  with 1(1) show "\<exists>y s''. and_then m f s = (Ok y, s'') \<and> Q y" by (simp add: and_then_def)
qed

lemma yields_map_err [yields_intro]: "ffi_yields c P \<Longrightarrow> yields (map_err f c) P"
  unfolding yields_def ffi_yields_def by (rule allI, drule_tac x = s in spec) (auto simp: map_err_def)

lemma yields_expect [yields_intro]: "ffi_yields c P \<Longrightarrow> yields (expect c msg) P"
  unfolding yields_def ffi_yields_def by (rule allI, drule_tac x = s in spec) (auto simp: expect_def)

lemma yields_map_err_result [yields_intro]: "yields m P \<Longrightarrow> yields (map_err_result f m) P"
  unfolding yields_def by (rule allI, drule_tac x = s in spec) (auto simp: map_err_result_def)

lemma yields_expect_result [yields_intro]: "yields m P \<Longrightarrow> yields (expect_result m msg) P"
  unfolding yields_def by (rule allI, drule_tac x = s in spec) (auto simp: expect_result_def)

lemma yields_weaken: "yields m P \<Longrightarrow> (\<And>x. P x \<Longrightarrow> Q x) \<Longrightarrow> yields m Q"
  unfolding yields_def by blast

lemma yields_no_panic: "yields m P \<Longrightarrow> no_panic m"
  unfolding yields_def no_panic_def
  by (metis outcome.distinct(3) prod.inject)

lemma ensures_ok [ensures_intro]: "P x \<Longrightarrow> ensures (ok x) P"
  by (simp add: ensures_def ok_def)

lemma ensures_err [ensures_intro]: "ensures (err e) P"
  by (simp add: ensures_def err_def)

lemma ensures_panic [ensures_intro]: "ensures (panic p) P"
  by (simp add: ensures_def panic_def)

lemma ensures_and_then [ensures_intro]:
  "ensures m P \<Longrightarrow> (\<And>x. P x \<Longrightarrow> ensures (f x) Q) \<Longrightarrow> ensures (and_then m f) Q"
  by (fastforce simp: ensures_def and_then_def split: prod.splits outcome.splits)

lemma ensures_copy_into_range:
  "ensures (copy_into_range dst a b src) (\<lambda>r. r = take a dst @ src @ drop b dst \<and> a \<le> length dst)"
  by (auto simp: ensures_def copy_into_range_def slice_range_def copy_from_slice_def rust_defs)

lemma ensures_map_err [ensures_intro]: "ffi_ensures c P \<Longrightarrow> ensures (map_err f c) P"
  by (fastforce simp: ensures_def ffi_ensures_def map_err_def split: prod.splits sum.splits)

lemma ensures_expect [ensures_intro]: "ffi_ensures c P \<Longrightarrow> ensures (expect c msg) P"
  by (fastforce simp: ensures_def ffi_ensures_def expect_def split: prod.splits sum.splits)

lemma ensures_map_err_result [ensures_intro]: "ensures m P \<Longrightarrow> ensures (map_err_result f m) P"
  by (fastforce simp: ensures_def map_err_result_def split: prod.splits outcome.splits)

lemma ensures_expect_result [ensures_intro]: "ensures m P \<Longrightarrow> ensures (expect_result m msg) P"
  by (fastforce simp: ensures_def expect_result_def split: prod.splits outcome.splits)

lemma ensures_True: "ensures m (\<lambda>_. True)"
  by (simp add: ensures_def)

lemma no_panic_ok [no_panic_intro]: "no_panic (ok x)"
  by (simp add: no_panic_def ok_def)

lemma no_panic_err [no_panic_intro]: "no_panic (err e)"
  by (simp add: no_panic_def err_def)

lemma no_panic_map_err [no_panic_intro]: "no_panic (map_err f c)"
  by (simp add: no_panic_def map_err_def split: prod.split sum.split)

lemma no_panic_map_err_result [no_panic_intro]: "no_panic m \<Longrightarrow> no_panic (map_err_result f m)"
  by (fastforce simp: no_panic_def map_err_result_def split: prod.splits outcome.splits)

lemma no_panic_or_else [no_panic_intro]:
  "no_panic m \<Longrightarrow> (\<And>e. no_panic (f e)) \<Longrightarrow> no_panic (or_else m f)"
  by (fastforce simp: no_panic_def or_else_def split: prod.splits outcome.splits)

lemma no_panic_and_then:
  "no_panic m \<Longrightarrow> ensures m P \<Longrightarrow> (\<And>x. P x \<Longrightarrow> no_panic (f x)) \<Longrightarrow> no_panic (and_then m f)"
  by (fastforce simp: no_panic_def ensures_def and_then_def split: prod.splits outcome.splits)

lemma no_panic_and_then_any [no_panic_intro]:
  "no_panic m \<Longrightarrow> (\<And>x. no_panic (f x)) \<Longrightarrow> no_panic (and_then m f)"
  by (rule no_panic_and_then [OF _ ensures_True]) simp_all

lemma ffi_yields_of_result [simp]: "ffi_yields (of_result r) P \<longleftrightarrow> (\<exists>x. r = Inr x \<and> P x)"
  by (simp add: ffi_yields_def of_result_def)

lemma ffi_ensures_of_result [simp]: "ffi_ensures (of_result r) P \<longleftrightarrow> (\<forall>x. r = Inr x \<longrightarrow> P x)"
  by (simp add: ffi_ensures_def of_result_def)

text \<open>Inversion of a successful run, for reasoning forwards from an \<open>Ok\<close>.\<close>

lemma and_then_Ok:
  "and_then m f s = (Ok y, s'') \<longleftrightarrow> (\<exists>x s'. m s = (Ok x, s') \<and> f x s' = (Ok y, s''))"
  by (auto simp: and_then_def split: prod.split outcome.split)

end
