(* ===== verification/WolfAead.thy ===== *)
theory WolfAead
  imports Prelude
begin

text \<open>
  The AEAD part of the \<open>wolfssl-wolfcrypt\<close> crate, which is not under \<open>src/\<close>: the operations
  the provider calls are fields of parameter records, and what wolfCrypt documents of them are
  the predicates \<open>gcm_ok\<close> and \<open>chacha_ok\<close>.

  A slice passed as \<open>&mut [u8]\<close> is an argument (its contents before the call) and a result (its
  contents after it).  A context that is mutated is returned as well, unless it is dropped right
  after the call.
\<close>

text \<open>The opaque memory of a \<open>wolfssl_wolfcrypt::aes::GCM\<close> context.\<close>

datatype GCM = GCM_ctx bytes

record 's wolf_gcm =
  gcm_new :: "('s, i32, GCM) ffi"
  gcm_init :: "GCM \<Rightarrow> bytes \<Rightarrow> ('s, i32, GCM) ffi"
  gcm_encrypt :: "GCM \<Rightarrow> bytes \<Rightarrow> bytes \<Rightarrow> bytes \<Rightarrow> bytes \<Rightarrow> bytes \<Rightarrow> ('s, i32, bytes \<times> bytes) ffi"
    \<comment> \<open>plaintext, ciphertext buffer, nonce, aad, tag buffer: ciphertext and tag\<close>
  gcm_decrypt :: "GCM \<Rightarrow> bytes \<Rightarrow> bytes \<Rightarrow> bytes \<Rightarrow> bytes \<Rightarrow> bytes \<Rightarrow> ('s, i32, bytes) ffi"
    \<comment> \<open>ciphertext, plaintext buffer, nonce, aad, tag: plaintext\<close>

record 's wolf_chacha =
  chacha_encrypt :: "bytes \<Rightarrow> bytes \<Rightarrow> bytes \<Rightarrow> bytes \<Rightarrow> bytes \<Rightarrow> bytes \<Rightarrow> ('s, i32, bytes \<times> bytes) ffi"
    \<comment> \<open>key, nonce, aad, plaintext, ciphertext buffer, tag buffer: ciphertext and tag\<close>
  chacha_decrypt :: "bytes \<Rightarrow> bytes \<Rightarrow> bytes \<Rightarrow> bytes \<Rightarrow> bytes \<Rightarrow> bytes \<Rightarrow> ('s, i32, bytes) ffi"
    \<comment> \<open>key, nonce, aad, ciphertext, tag, plaintext buffer: plaintext\<close>
  chacha_keysize :: usize

text \<open>
  An AEAD algorithm as a mathematical function: the ciphertext and the 16-byte tag of a key, a
  nonce, associated data and a plaintext.
\<close>

type_synonym aead_fun = "bytes \<Rightarrow> bytes \<Rightarrow> bytes \<Rightarrow> bytes \<Rightarrow> bytes \<times> bytes"

text \<open>
  What a call that returns \<open>Ok\<close> has done: an output slice keeps its length, an encryption wrote
  the AEAD's ciphertext and tag, and a decryption only accepts the AEAD's ciphertext and tag of
  the plaintext it wrote.  \<open>keyed g k\<close> says that the context \<open>g\<close> was given the key \<open>k\<close>.
\<close>

definition gcm_sound :: "'s wolf_gcm \<Rightarrow> (GCM \<Rightarrow> bytes \<Rightarrow> bool) \<Rightarrow> aead_fun \<Rightarrow> bool" where
  "gcm_sound w keyed seal \<longleftrightarrow>
     (\<forall>g k. ffi_ensures (gcm_init w g k) (\<lambda>g'. keyed g' k))
   \<and> (\<forall>g k p out n a t. keyed g k \<longrightarrow> length out = length p \<longrightarrow> length n = 12 \<longrightarrow> length t = 16 \<longrightarrow>
        ffi_ensures (gcm_encrypt w g p out n a t)
          (\<lambda>(c, t'). length c = length out \<and> length t' = length t \<and> seal k n a p = (c, t')))
   \<and> (\<forall>g k c out n a t. keyed g k \<longrightarrow> length out = length c \<longrightarrow> length n = 12 \<longrightarrow> length t = 16 \<longrightarrow>
        ffi_ensures (gcm_decrypt w g c out n a t)
          (\<lambda>p. length p = length out \<and> seal k n a p = (c, t)))"

text \<open>
  Which calls return \<open>Ok\<close>: initialisation with a key of 16 or 32 bytes, encryption, and
  decryption of what the AEAD made of a plaintext, which gives that plaintext back.
\<close>

definition gcm_live :: "'s wolf_gcm \<Rightarrow> (GCM \<Rightarrow> bytes \<Rightarrow> bool) \<Rightarrow> aead_fun \<Rightarrow> bool" where
  "gcm_live w keyed seal \<longleftrightarrow>
     ffi_yields (gcm_new w) (\<lambda>_. True)
   \<and> (\<forall>g k. length k = 16 \<or> length k = 32 \<longrightarrow> ffi_yields (gcm_init w g k) (\<lambda>g'. keyed g' k))
   \<and> (\<forall>g k p out n a t. keyed g k \<longrightarrow> length out = length p \<longrightarrow> length n = 12 \<longrightarrow> length t = 16 \<longrightarrow>
        ffi_yields (gcm_encrypt w g p out n a t)
          (\<lambda>(c, t'). length c = length out \<and> length t' = length t \<and> seal k n a p = (c, t')))
   \<and> (\<forall>g k p c out n a t. keyed g k \<longrightarrow> length out = length c \<longrightarrow> length n = 12 \<longrightarrow> length t = 16 \<longrightarrow>
        seal k n a p = (c, t) \<longrightarrow> ffi_yields (gcm_decrypt w g c out n a t) (\<lambda>p'. p' = p))"

definition gcm_ok :: "'s wolf_gcm \<Rightarrow> bool" where
  "gcm_ok w \<longleftrightarrow> (\<exists>keyed seal. gcm_sound w keyed seal \<and> gcm_live w keyed seal)"

definition chacha_sound :: "'s wolf_chacha \<Rightarrow> aead_fun \<Rightarrow> bool" where
  "chacha_sound w seal \<longleftrightarrow>
     (\<forall>k p out n a t. length out = length p \<longrightarrow> length n = 12 \<longrightarrow> length t = 16 \<longrightarrow>
        ffi_ensures (chacha_encrypt w k n a p out t)
          (\<lambda>(c, t'). length c = length out \<and> length t' = length t \<and> seal k n a p = (c, t')))
   \<and> (\<forall>k c out n a t. length out = length c \<longrightarrow> length n = 12 \<longrightarrow> length t = 16 \<longrightarrow>
        ffi_ensures (chacha_decrypt w k n a c t out)
          (\<lambda>p. length p = length out \<and> seal k n a p = (c, t)))"

definition chacha_live :: "'s wolf_chacha \<Rightarrow> aead_fun \<Rightarrow> bool" where
  "chacha_live w seal \<longleftrightarrow> chacha_keysize w = 32
   \<and> (\<forall>k p out n a t. length k = 32 \<longrightarrow> length out = length p \<longrightarrow> length n = 12 \<longrightarrow> length t = 16 \<longrightarrow>
        ffi_yields (chacha_encrypt w k n a p out t)
          (\<lambda>(c, t'). length c = length out \<and> length t' = length t \<and> seal k n a p = (c, t')))
   \<and> (\<forall>k p c out n a t. length k = 32 \<longrightarrow> length out = length c \<longrightarrow> length n = 12 \<longrightarrow> length t = 16 \<longrightarrow>
        seal k n a p = (c, t) \<longrightarrow> ffi_yields (chacha_decrypt w k n a c t out) (\<lambda>p'. p' = p))"

definition chacha_ok :: "'s wolf_chacha \<Rightarrow> bool" where
  "chacha_ok w \<longleftrightarrow> (\<exists>seal. chacha_sound w seal \<and> chacha_live w seal)"

lemma gcm_soundD:
  assumes "gcm_sound w keyed seal"
  shows "ffi_ensures (gcm_init w g k) (\<lambda>g'. keyed g' k)"
    and "keyed g k \<Longrightarrow> length out = length p \<Longrightarrow> length n = 12 \<Longrightarrow> length t = 16 \<Longrightarrow>
         ffi_ensures (gcm_encrypt w g p out n a t)
           (\<lambda>(c, t'). length c = length out \<and> length t' = length t \<and> seal k n a p = (c, t'))"
    and "keyed g k \<Longrightarrow> length out = length c \<Longrightarrow> length n = 12 \<Longrightarrow> length t = 16 \<Longrightarrow>
         ffi_ensures (gcm_decrypt w g c out n a t)
           (\<lambda>p. length p = length out \<and> seal k n a p = (c, t))"
  using assms unfolding gcm_sound_def by blast+

lemma gcm_liveD:
  assumes "gcm_live w keyed seal"
  shows "ffi_yields (gcm_new w) (\<lambda>_. True)"
    and "length k = 16 \<or> length k = 32 \<Longrightarrow> ffi_yields (gcm_init w g k) (\<lambda>g'. keyed g' k)"
    and "keyed g k \<Longrightarrow> length out = length p \<Longrightarrow> length n = 12 \<Longrightarrow> length t = 16 \<Longrightarrow>
         ffi_yields (gcm_encrypt w g p out n a t)
           (\<lambda>(c, t'). length c = length out \<and> length t' = length t \<and> seal k n a p = (c, t'))"
    and "keyed g k \<Longrightarrow> length out = length c \<Longrightarrow> length n = 12 \<Longrightarrow> length t = 16 \<Longrightarrow>
         seal k n a p = (c, t) \<Longrightarrow> ffi_yields (gcm_decrypt w g c out n a t) (\<lambda>p'. p' = p)"
  using assms unfolding gcm_live_def by blast+

lemma chacha_soundD:
  assumes "chacha_sound w seal"
  shows "length out = length p \<Longrightarrow> length n = 12 \<Longrightarrow> length t = 16 \<Longrightarrow>
         ffi_ensures (chacha_encrypt w k n a p out t)
           (\<lambda>(c, t'). length c = length out \<and> length t' = length t \<and> seal k n a p = (c, t'))"
    and "length out = length c \<Longrightarrow> length n = 12 \<Longrightarrow> length t = 16 \<Longrightarrow>
         ffi_ensures (chacha_decrypt w k n a c t out)
           (\<lambda>p. length p = length out \<and> seal k n a p = (c, t))"
  using assms unfolding chacha_sound_def by blast+

lemma chacha_liveD:
  assumes "chacha_live w seal"
  shows "chacha_keysize w = 32"
    and "length k = 32 \<Longrightarrow> length out = length p \<Longrightarrow> length n = 12 \<Longrightarrow> length t = 16 \<Longrightarrow>
         ffi_yields (chacha_encrypt w k n a p out t)
           (\<lambda>(c, t'). length c = length out \<and> length t' = length t \<and> seal k n a p = (c, t'))"
    and "length k = 32 \<Longrightarrow> length out = length c \<Longrightarrow> length n = 12 \<Longrightarrow> length t = 16 \<Longrightarrow>
         seal k n a p = (c, t) \<Longrightarrow> ffi_yields (chacha_decrypt w k n a c t out) (\<lambda>p'. p' = p)"
  using assms unfolding chacha_live_def by blast+

section \<open>The call sequences of the provider\<close>

text \<open>
  The provider makes a fresh GCM context for every record: new, init with the key, one
  operation.  The lemmas give the result of the whole sequence, whatever the error messages.
\<close>

definition aes_key :: "bytes \<Rightarrow> bool" where
  "aes_key k \<longleftrightarrow> length k = 16 \<or> length k = 32"

lemma gcm_encrypt_sequence:
  assumes w: "gcm_live w keyed seal" and k: "aes_key k"
    and len: "length out = length p" "length n = 12" "length t = 16"
    and rest: "\<And>c t'. seal k n a p = (c, t') \<Longrightarrow> length c = length p \<Longrightarrow> length t' = 16 \<Longrightarrow>
                 yields (f (c, t')) Q"
  shows "yields (and_then (map_err e1 (gcm_new w)) (\<lambda>g.
                 and_then (map_err e2 (gcm_init w g k)) (\<lambda>g.
                 and_then (map_err e3 (gcm_encrypt w g p out n a t)) f))) Q"
proof (rule yields_and_then [OF yields_map_err [OF gcm_liveD(1) [OF w]]])
  fix g :: GCM
  have init: "ffi_yields (gcm_init w g k) (\<lambda>g'. keyed g' k)"
    using k by (intro gcm_liveD(2) [OF w]) (simp add: aes_key_def)
  show "yields (and_then (map_err e2 (gcm_init w g k)) (\<lambda>g.
                and_then (map_err e3 (gcm_encrypt w g p out n a t)) f)) Q"
    by (rule yields_and_then [OF yields_map_err [OF init]],
        rule yields_and_then [OF yields_map_err [OF gcm_liveD(3) [OF w _ len]]])
       (auto simp: len intro!: rest)
qed

lemma gcm_decrypt_sequence:
  assumes w: "gcm_live w keyed seal" and k: "aes_key k"
    and len: "length out = length c" "length n = 12" "length t = 16"
    and seal: "seal k n a p = (c, t)" and rest: "yields (f p) Q"
  shows "yields (and_then (map_err e1 (gcm_new w)) (\<lambda>g.
                 and_then (map_err e2 (gcm_init w g k)) (\<lambda>g.
                 and_then (map_err e3 (gcm_decrypt w g c out n a t)) f))) Q"
proof (rule yields_and_then [OF yields_map_err [OF gcm_liveD(1) [OF w]]])
  fix g :: GCM
  have init: "ffi_yields (gcm_init w g k) (\<lambda>g'. keyed g' k)"
    using k by (intro gcm_liveD(2) [OF w]) (simp add: aes_key_def)
  show "yields (and_then (map_err e2 (gcm_init w g k)) (\<lambda>g.
                and_then (map_err e3 (gcm_decrypt w g c out n a t)) f)) Q"
    by (rule yields_and_then [OF yields_map_err [OF init]],
        rule yields_and_then [OF yields_map_err [OF gcm_liveD(4) [OF w _ len seal]]])
       (auto intro: rest)
qed

lemma gcm_accept_sequence:
  assumes w: "gcm_sound w keyed seal"
    and len: "length out = length c" "length n = 12" "length t = 16"
    and rest: "\<And>p. seal k n a p = (c, t) \<Longrightarrow> length p = length c \<Longrightarrow> ensures (f p) Q"
  shows "ensures (and_then (map_err e1 (gcm_new w)) (\<lambda>g.
                  and_then (map_err e2 (gcm_init w g k)) (\<lambda>g.
                  and_then (map_err e3 (gcm_decrypt w g c out n a t)) f))) Q"
  by (rule ensures_and_then [OF ensures_True],
      rule ensures_and_then [OF ensures_map_err [OF gcm_soundD(1) [OF w]]],
      rule ensures_and_then [OF ensures_map_err [OF gcm_soundD(3) [OF w _ len]]])
     (auto simp: len intro!: rest)

lemma gcm_decrypt_no_panic:
  assumes w: "gcm_sound w keyed seal"
    and len: "length out = length c" "length n = 12" "length t = 16"
    and rest: "\<And>p. length p = length c \<Longrightarrow> no_panic (f p)"
  shows "no_panic (and_then (map_err e1 (gcm_new w)) (\<lambda>g.
                   and_then (map_err e2 (gcm_init w g k)) (\<lambda>g.
                   and_then (map_err e3 (gcm_decrypt w g c out n a t)) f)))"
  by (rule no_panic_and_then_any [OF no_panic_map_err],
      rule no_panic_and_then [OF no_panic_map_err ensures_map_err [OF gcm_soundD(1) [OF w]]],
      rule no_panic_and_then [OF no_panic_map_err ensures_map_err [OF gcm_soundD(3) [OF w _ len]]])
     (auto simp: len intro!: rest)

text \<open>The lengths of what the AEAD makes.\<close>

lemma gcm_seal_lengths:
  assumes w: "gcm_live w keyed seal" and k: "aes_key k" and n: "length n = 12"
    and eq: "seal k n a p = (c, t)"
  shows "length c = length p" "length t = 16"
proof -
  have "yields (and_then (map_err (\<lambda>_. ()) (gcm_new w)) (\<lambda>g.
        and_then (map_err (\<lambda>_. ()) (gcm_init w g k)) (\<lambda>g.
        and_then (map_err (\<lambda>_. ()) (gcm_encrypt w g p (zeros (length p)) n a (zeros 16))) ok)))
        (\<lambda>_. length c = length p \<and> length t = 16)"
    by (rule gcm_encrypt_sequence [OF w k]) (use n eq in \<open>auto intro!: yields_ok\<close>)
  then show "length c = length p" "length t = 16" by (auto simp: yields_def)
qed

end
