(* ===== verification/RustlsTypes.thy ===== *)
theory RustlsTypes
  imports Prelude
begin

text \<open>
  The part of the \<open>rustls\<close> crate that the provider's code is written against.  Its enums and
  message structs are data; its functions are not under \<open>src/\<close> and are fields of the parameter
  record \<open>rustls_cipher\<close>, which every definition that calls them takes as an argument.  What
  their documentation promises is the predicate \<open>rustls_cipher_ok\<close>.
\<close>

section \<open>Enums\<close>

datatype ContentType =
  ChangeCipherSpec | Alert | Handshake | ApplicationData | Heartbeat | ContentUnknown u8

datatype ProtocolVersion = TLSv1_2 | TLSv1_3 | ProtocolOther u16

datatype SignatureScheme =
    RSA_PKCS1_SHA256 | RSA_PKCS1_SHA384 | RSA_PKCS1_SHA512
  | RSA_PSS_SHA256 | RSA_PSS_SHA384 | RSA_PSS_SHA512
  | ECDSA_NISTP256_SHA256 | ECDSA_NISTP384_SHA384 | ECDSA_NISTP521_SHA512
  | ED25519 | SchemeOther u16

datatype SignatureAlgorithm = AlgRSA | AlgECDSA | AlgED25519 | AlgOther u8

datatype NamedGroup = GroupX25519 | Group_secp256r1 | Group_secp384r1 | Group_secp521r1 | GroupOther u16

datatype HashAlgorithm = HashSHA256 | HashSHA384 | HashOther u8

datatype CipherSuite =
    Suite_TLS13_CHACHA20_POLY1305_SHA256
  | Suite_TLS13_AES_128_GCM_SHA256
  | Suite_TLS13_AES_256_GCM_SHA384
  | Suite_TLS_ECDHE_RSA_WITH_CHACHA20_POLY1305_SHA256
  | Suite_TLS_ECDHE_RSA_WITH_AES_128_GCM_SHA256
  | Suite_TLS_ECDHE_RSA_WITH_AES_256_GCM_SHA384
  | Suite_TLS_ECDHE_ECDSA_WITH_CHACHA20_POLY1305_SHA256
  | Suite_TLS_ECDHE_ECDSA_WITH_AES_128_GCM_SHA256
  | Suite_TLS_ECDHE_ECDSA_WITH_AES_256_GCM_SHA384

text \<open>
  \<open>rustls::Error\<close>: the provider itself makes \<open>General\<close> and \<open>DecryptError\<close>; the last
  constructor stands for the variants it only passes on.
\<close>

datatype rustls_error = General string | DecryptError | RustlsOther string

datatype UnsupportedOperationError = UnsupportedOperationError
datatype OutputLengthError = OutputLengthError
datatype GetRandomFailed = GetRandomFailed
datatype InvalidSignature = InvalidSignature

text \<open>\<open>PrivateKeyDer\<close>: the DER bytes of a private key under the label of their format.  The enum
  is \<open>#[non_exhaustive]\<close>, which the last constructor stands for.\<close>

datatype PrivateKeyDer =
  Pkcs1 (secret_der: bytes) | Sec1 (secret_der: bytes) | Pkcs8 (secret_der: bytes)
  | OtherKeyDer (secret_der: bytes)

section \<open>Record layer messages\<close>

type_synonym AeadKey = bytes
type_synonym Iv = bytes

text \<open>The payload of an outbound message is a sequence of chunks.\<close>

record OutboundPlainMessage =
  pm_typ :: ContentType
  pm_version :: ProtocolVersion
  pm_payload :: "bytes list"

record OutboundOpaqueMessage =
  oo_typ :: ContentType
  oo_version :: ProtocolVersion
  oo_payload :: bytes

record InboundOpaqueMessage =
  io_typ :: ContentType
  io_version :: ProtocolVersion
  io_payload :: bytes

record InboundPlainMessage =
  ip_typ :: ContentType
  ip_version :: ProtocolVersion
  ip_payload :: bytes

record KeyBlockShape =
  enc_key_len :: usize
  fixed_iv_len :: usize
  explicit_nonce_len :: usize

datatype ConnectionTrafficSecrets =
    SecretsAes128Gcm AeadKey Iv
  | SecretsAes256Gcm AeadKey Iv
  | SecretsChacha20Poly1305 AeadKey Iv

text \<open>\<open>m.payload.len()\<close> and the bytes that \<open>extend_from_chunks\<close> appends.\<close>

definition chunks_len :: "bytes list \<Rightarrow> usize" where
  "chunks_len cs = sum_list (map length cs)"

definition chunks_bytes :: "bytes list \<Rightarrow> bytes" where
  "chunks_bytes cs = concat cs"

lemma length_chunks_bytes [simp]: "length (chunks_bytes cs) = chunks_len cs"
  by (simp add: chunks_len_def chunks_bytes_def length_concat)

text \<open>The header and payload that one side writes are what the other side reads.\<close>

definition deliver :: "OutboundOpaqueMessage \<Rightarrow> InboundOpaqueMessage" where
  "deliver m = \<lparr>io_typ = oo_typ m, io_version = oo_version m, io_payload = oo_payload m\<rparr>"

lemma deliver_simps [simp]:
  "io_typ (deliver m) = oo_typ m" "io_version (deliver m) = oo_version m"
  "io_payload (deliver m) = oo_payload m"
  by (simp_all add: deliver_def)

section \<open>The functions of rustls that the AEAD code calls\<close>

record rustls_cipher =
  nonce_new :: "Iv \<Rightarrow> u64 \<Rightarrow> bytes"
  make_tls12_aad :: "u64 \<Rightarrow> ContentType \<Rightarrow> ProtocolVersion \<Rightarrow> usize \<Rightarrow> bytes"
  make_tls13_aad :: "usize \<Rightarrow> bytes"
  typ_to_array :: "ContentType \<Rightarrow> bytes"
  iv_copy :: "bytes \<Rightarrow> Iv option"
  into_plain_message :: "InboundOpaqueMessage \<Rightarrow> InboundPlainMessage"
  into_tls13_unpadded_message :: "InboundOpaqueMessage \<Rightarrow> rustls_error + InboundPlainMessage"

text \<open>The nonce of RFC 8446 section 5.3, \<open>iv ^ seq\<close> with the sequence number as a 96-bit
  big-endian integer: the documented value of \<open>Nonce::new\<close>.\<close>

definition xor_nonce :: "Iv \<Rightarrow> u64 \<Rightarrow> bytes" where
  "xor_nonce iv seq = map2 (XOR) iv (replicate 4 0 @ be64 seq)"

definition record_types :: "ContentType set" where
  "record_types = {ChangeCipherSpec, Alert, Handshake, ApplicationData}"

definition max_fragment_len :: usize where
  "max_fragment_len = 16384"

text \<open>
  The documented behaviour: \<open>Nonce::new\<close> is \<open>xor_nonce\<close>; a content type is one byte; \<open>Iv::copy\<close>
  takes a slice of exactly twelve bytes; \<open>into_plain_message\<close> keeps the message;
  \<open>into_tls13_unpadded_message\<close> strips the zero padding and the inner content type of a
  message whose content is within the maximum fragment length.
\<close>

definition rustls_cipher_ok :: "rustls_cipher \<Rightarrow> bool" where
  "rustls_cipher_ok rl \<longleftrightarrow>
     (\<forall>iv seq. length iv = 12 \<longrightarrow> nonce_new rl iv seq = xor_nonce iv seq)
   \<and> (\<forall>t. length (typ_to_array rl t) = 1)
   \<and> (\<forall>iv. length iv = 12 \<longrightarrow> iv_copy rl iv = Some iv)
   \<and> (\<forall>m. into_plain_message rl m =
          \<lparr>ip_typ = io_typ m, ip_version = io_version m, ip_payload = io_payload m\<rparr>)
   \<and> (\<forall>m t p n. t \<in> record_types \<longrightarrow> length p + n \<le> max_fragment_len \<longrightarrow>
          io_payload m = p @ typ_to_array rl t @ zeros n \<longrightarrow>
          (\<exists>v. into_tls13_unpadded_message rl m =
               Inr \<lparr>ip_typ = t, ip_version = v, ip_payload = p\<rparr>))"

lemma rustls_cipher_okD:
  assumes "rustls_cipher_ok rl"
  shows "length iv = 12 \<Longrightarrow> nonce_new rl iv seq = xor_nonce iv seq"
    and "length (typ_to_array rl t) = 1"
    and "length iv = 12 \<Longrightarrow> iv_copy rl iv = Some iv"
    and "into_plain_message rl m =
          \<lparr>ip_typ = io_typ m, ip_version = io_version m, ip_payload = io_payload m\<rparr>"
    and "t \<in> record_types \<Longrightarrow> length p + n \<le> max_fragment_len \<Longrightarrow>
         io_payload m = p @ typ_to_array rl t @ zeros n \<Longrightarrow>
         \<exists>v. into_tls13_unpadded_message rl m = Inr \<lparr>ip_typ = t, ip_version = v, ip_payload = p\<rparr>"
  using assms unfolding rustls_cipher_ok_def by blast+

lemma length_xor_nonce [simp]: "length iv = 12 \<Longrightarrow> length (xor_nonce iv seq) = 12"
  by (simp add: xor_nonce_def)

lemma take_xor_nonce:
  assumes "length iv = 12" shows "take 4 (xor_nonce iv seq) = take 4 iv"
proof -
  have "take 4 (xor_nonce iv seq) = map2 (XOR) (take 4 iv) (replicate 4 0)"
    using assms by (simp add: xor_nonce_def take_map take_zip)
  also have "\<dots> = take 4 iv"
    using assms by (intro nth_equalityI) simp_all
  finally show ?thesis .
qed

lemma drop_xor_nonce:
  "length iv = 12 \<Longrightarrow> drop 4 (xor_nonce iv seq) = map2 (XOR) (drop 4 iv) (be64 seq)"
  by (simp add: xor_nonce_def drop_map drop_zip)

lemma map2_xor_inject:
  fixes xs :: "'a::len word list"
  assumes "length ys = length xs" "length zs = length xs"
  shows "map2 (XOR) xs ys = map2 (XOR) xs zs \<longleftrightarrow> ys = zs"
proof
  assume eq: "map2 (XOR) xs ys = map2 (XOR) xs zs"
  show "ys = zs"
  proof (rule nth_equalityI)
    fix i assume i: "i < length ys"
    have "map2 (XOR) xs ys ! i = map2 (XOR) xs zs ! i" using eq by simp
    then have "xs ! i XOR ys ! i = xs ! i XOR zs ! i" using i assms by simp
    then have "xs ! i XOR (xs ! i XOR ys ! i) = xs ! i XOR (xs ! i XOR zs ! i)" by simp
    then show "ys ! i = zs ! i" by (simp flip: xor.assoc)
  qed (use assms in simp)
qed simp

text \<open>Under one IV, different sequence numbers give different nonces, and they differ already in
  the last eight bytes.\<close>

lemma drop_xor_nonce_inject:
  "length iv = 12 \<Longrightarrow> drop 4 (xor_nonce iv a) = drop 4 (xor_nonce iv b) \<longleftrightarrow> a = b"
  by (simp add: drop_xor_nonce map2_xor_inject be64_inject)

lemma xor_nonce_inject: "length iv = 12 \<Longrightarrow> xor_nonce iv a = xor_nonce iv b \<longleftrightarrow> a = b"
  using drop_xor_nonce_inject by metis

end
