(* ===== verification/RecordLayer.thy ===== *)
theory RecordLayer
  imports RustlsTypes
begin

text \<open>
  The interface between the AEAD components and the TLS record layer: the pair
  \<open>MessageEncrypter\<close> / \<open>MessageDecrypter\<close> as a locale.  Its laws are what the record layer of
  rustls relies on; the lemmas of the locale lift them from one record to a whole direction of a
  connection, where sequence numbers count up.  Each AEAD theory interprets the locale on its
  own encrypt and decrypt functions.
\<close>

text \<open>The content of a message, which must survive the transport.\<close>

definition same_content :: "OutboundPlainMessage \<Rightarrow> InboundPlainMessage \<Rightarrow> bool" where
  "same_content m ip \<longleftrightarrow> ip_typ ip = pm_typ m \<and> ip_payload ip = chunks_bytes (pm_payload m)"

text \<open>A direction of a connection: records protected, and unprotected, under consecutive
  sequence numbers, as the record layer of rustls drives the provider.\<close>

fun send_all :: "(OutboundPlainMessage \<Rightarrow> u64 \<Rightarrow> ('s, rustls_error, OutboundOpaqueMessage) rust) \<Rightarrow>
    OutboundPlainMessage list \<Rightarrow> u64 \<Rightarrow> ('s, rustls_error, OutboundOpaqueMessage list) rust" where
  "send_all enc [] seq = ok []"
| "send_all enc (m # ms) seq =
     and_then (enc m seq) (\<lambda>om. and_then (send_all enc ms (seq + 1)) (\<lambda>oms. ok (om # oms)))"

fun recv_all :: "(InboundOpaqueMessage \<Rightarrow> u64 \<Rightarrow> ('s, rustls_error, InboundPlainMessage) rust) \<Rightarrow>
    InboundOpaqueMessage list \<Rightarrow> u64 \<Rightarrow> ('s, rustls_error, InboundPlainMessage list) rust" where
  "recv_all dec [] seq = ok []"
| "recv_all dec (m # ms) seq =
     and_then (dec m seq) (\<lambda>ip. and_then (recv_all dec ms (seq + 1)) (\<lambda>ips. ok (ip # ips)))"

locale record_protection =
  fixes lib_ok :: "'w \<Rightarrow> bool"
    and encrypt :: "'w \<Rightarrow> 'enc \<Rightarrow> OutboundPlainMessage \<Rightarrow> u64 \<Rightarrow>
                    ('s, rustls_error, OutboundOpaqueMessage) rust"
    and decrypt :: "'w \<Rightarrow> 'dec \<Rightarrow> InboundOpaqueMessage \<Rightarrow> u64 \<Rightarrow>
                    ('s, rustls_error, InboundPlainMessage) rust"
    and payload_len :: "'enc \<Rightarrow> usize \<Rightarrow> usize"
    and overhead :: usize
    and paired :: "'enc \<Rightarrow> 'dec \<Rightarrow> bool"
    and sendable :: "'enc \<Rightarrow> OutboundPlainMessage \<Rightarrow> bool"
  assumes protects: "lib_ok w \<Longrightarrow> paired e d \<Longrightarrow> sendable e m \<Longrightarrow>
      yields (encrypt w e m seq) (\<lambda>om.
        length (oo_payload om) = payload_len e (chunks_len (pm_payload m))
        \<and> yields (decrypt w d (deliver om) seq) (same_content m))"
    and decrypt_panic_free: "lib_ok w \<Longrightarrow> paired e d \<Longrightarrow> no_panic (decrypt w d im seq)"
    and decrypt_short: "length (io_payload im) < overhead \<Longrightarrow> decrypt w d im seq = err DecryptError"
begin

lemma session_ends_agree:
  assumes "lib_ok w" "paired e d" "\<forall>m \<in> set ms. sendable e m"
  shows "yields (send_all (encrypt w e) ms seq)
           (\<lambda>oms. yields (recv_all (decrypt w d) (map deliver oms) seq) (list_all2 same_content ms))"
  using assms(3)
proof (induction ms arbitrary: seq)
  case Nil
  show ?case by (simp add: yields_ok)
next
  case (Cons m ms)
  have m: "yields (encrypt w e m seq) (\<lambda>om.
        length (oo_payload om) = payload_len e (chunks_len (pm_payload m))
        \<and> yields (decrypt w d (deliver om) seq) (same_content m))"
    using Cons.prems by (intro protects assms(1,2)) simp
  have ms: "yields (send_all (encrypt w e) ms (seq + 1))
      (\<lambda>oms. yields (recv_all (decrypt w d) (map deliver oms) (seq + 1)) (list_all2 same_content ms))"
    using Cons.prems by (intro Cons.IH) simp
  show ?case
    unfolding send_all.simps
  proof (rule yields_and_then [OF m], rule yields_and_then [OF ms], rule yields_ok)
    fix om oms
    assume "length (oo_payload om) = payload_len e (chunks_len (pm_payload m))
        \<and> yields (decrypt w d (deliver om) seq) (same_content m)"
      and oms: "yields (recv_all (decrypt w d) (map deliver oms) (seq + 1)) (list_all2 same_content ms)"
    then have om: "yields (decrypt w d (deliver om) seq) (same_content m)" by simp
    show "yields (recv_all (decrypt w d) (map deliver (om # oms)) seq) (list_all2 same_content (m # ms))"
      by (simp, rule yields_and_then [OF om], rule yields_and_then [OF oms], rule yields_ok) simp
  qed
qed

text \<open>Receiving never stops the program, whatever the peer or an attacker puts on the wire.\<close>

lemma recv_all_panic_free:
  assumes "lib_ok w" "paired e d"
  shows "no_panic (recv_all (decrypt w d) ims seq)"
  by (induction ims arbitrary: seq)
     (auto intro!: no_panic_intro decrypt_panic_free [OF assms])

end

text \<open>
  A stronger contract: a record is accepted only if it is the very record that the encrypter makes
  of the returned message.  It extends to everything a receiver accepts in a row.
\<close>

definition resend :: "InboundPlainMessage \<Rightarrow> OutboundPlainMessage" where
  "resend ip = \<lparr>pm_typ = ip_typ ip, pm_version = ip_version ip, pm_payload = [ip_payload ip]\<rparr>"

locale exact_protection = record_protection +
  assumes accepts_only_sent: "lib_ok w \<Longrightarrow> paired e d \<Longrightarrow> decrypt w d im seq s = (Ok ip, s') \<Longrightarrow>
      yields (encrypt w e (resend ip) seq) (\<lambda>om. deliver om = im)"
begin

lemma session_accepts_only_sent:
  assumes lib: "lib_ok w" and pair: "paired e d"
    and "recv_all (decrypt w d) ims seq s = (Ok ips, s')"
  shows "yields (send_all (encrypt w e) (map resend ips) seq) (\<lambda>oms. map deliver oms = ims)"
  using assms(3)
proof (induction ims arbitrary: seq s ips)
  case Nil
  then have "ips = []" by (simp add: ok_def)
  then show ?case by (simp add: yields_ok)
next
  case (Cons im ims)
  from Cons.prems obtain ip ips' s'' where ip: "decrypt w d im seq s = (Ok ip, s'')"
    and ips: "recv_all (decrypt w d) ims (seq + 1) s'' = (Ok ips', s')" and eq: "ips = ip # ips'"
    by (auto simp: and_then_Ok ok_def)
  show ?case
    unfolding eq list.map send_all.simps
    by (rule yields_and_then [OF accepts_only_sent [OF lib pair ip]],
        rule yields_and_then [OF Cons.IH [OF ips]], rule yields_ok) simp
qed

end

end
