(* ===== verification/AeadSpec.thy ===== *)
theory AeadSpec
  imports WolfAead RecordLayer
begin

text \<open>
  What the AEAD components promise, as functions of the abstract AEAD: the bytes a protected
  record has on the wire, and what it means for a receiver to accept a record.  The three AEAD
  theories show that the code computes exactly these.
\<close>

text \<open>
  The record a TLS 1.2 encrypter puts on the wire: explicit nonce, ciphertext, tag; and the
  record of TLS 1.3: ciphertext of content and content type, tag.
\<close>

definition gcm12_wire :: "rustls_cipher \<Rightarrow> aead_fun \<Rightarrow> bytes \<Rightarrow> Iv \<Rightarrow> OutboundPlainMessage \<Rightarrow> u64 \<Rightarrow> bytes" where
  "gcm12_wire rl seal key iv m seq =
     (let nonce = xor_nonce iv seq;
          (c, t) = seal key nonce (make_tls12_aad rl seq (pm_typ m) (pm_version m) (chunks_len (pm_payload m)))
                     (chunks_bytes (pm_payload m))
      in drop 4 nonce @ c @ t)"

definition tls13_wire :: "rustls_cipher \<Rightarrow> aead_fun \<Rightarrow> bytes \<Rightarrow> Iv \<Rightarrow> OutboundPlainMessage \<Rightarrow> u64 \<Rightarrow> bytes" where
  "tls13_wire rl seal key iv m seq =
     (let (c, t) = seal key (xor_nonce iv seq) (make_tls13_aad rl (17 + chunks_len (pm_payload m)))
                     (chunks_bytes (pm_payload m) @ typ_to_array rl (pm_typ m))
      in c @ t)"

text \<open>The same from the receiver's side: what the parts of an accepted record satisfy.\<close>

definition gcm12_accepts ::
    "rustls_cipher \<Rightarrow> aead_fun \<Rightarrow> bytes \<Rightarrow> bytes \<Rightarrow> InboundOpaqueMessage \<Rightarrow> u64 \<Rightarrow>
     InboundPlainMessage \<Rightarrow> bool" where
  "gcm12_accepts rl seal key implicit im seq ip \<longleftrightarrow>
     24 \<le> length (io_payload im)
   \<and> ip_typ ip = io_typ im \<and> ip_version ip = io_version im
   \<and> length (ip_payload ip) = length (io_payload im) - 24
   \<and> seal key (implicit @ take 8 (io_payload im))
       (make_tls12_aad rl seq (io_typ im) (io_version im) (length (io_payload im) - 24))
       (ip_payload ip)
     = (take (length (io_payload im) - 24) (drop 8 (io_payload im)),
        drop (length (io_payload im) - 16) (io_payload im))"

definition tls13_accepts ::
    "rustls_cipher \<Rightarrow> aead_fun \<Rightarrow> bytes \<Rightarrow> Iv \<Rightarrow> InboundOpaqueMessage \<Rightarrow> u64 \<Rightarrow>
     InboundPlainMessage \<Rightarrow> bool" where
  "tls13_accepts rl seal key iv im seq ip \<longleftrightarrow>
     16 \<le> length (io_payload im)
   \<and> (\<exists>inner. length inner = length (io_payload im) - 16
       \<and> seal key (xor_nonce iv seq) (make_tls13_aad rl (length (io_payload im))) inner
         = (take (length (io_payload im) - 16) (io_payload im),
            drop (length (io_payload im) - 16) (io_payload im))
       \<and> into_tls13_unpadded_message rl (im\<lparr>io_payload := inner\<rparr>) = Inr ip)"

section \<open>A wire record is accepted, and accepted with the same content\<close>

text \<open>The parts of a wire record, from the lengths of the AEAD's outputs.\<close>

lemma gcm12_wire_parts:
  assumes w: "gcm_live w keyed seal" and k: "aes_key key" and iv: "length iv = 12"
  obtains c t where "gcm12_wire rl seal key iv m seq = drop 4 (xor_nonce iv seq) @ c @ t"
    and "seal key (xor_nonce iv seq)
          (make_tls12_aad rl seq (pm_typ m) (pm_version m) (chunks_len (pm_payload m)))
          (chunks_bytes (pm_payload m)) = (c, t)"
    and "length c = chunks_len (pm_payload m)" and "length t = 16"
proof -
  let ?r = "seal key (xor_nonce iv seq)
          (make_tls12_aad rl seq (pm_typ m) (pm_version m) (chunks_len (pm_payload m)))
          (chunks_bytes (pm_payload m))"
  have eq: "?r = (fst ?r, snd ?r)" by simp
  have "length (fst ?r) = chunks_len (pm_payload m)" "length (snd ?r) = 16"
    using gcm_seal_lengths [OF w k _ eq] iv by simp_all
  then show ?thesis by (intro that [OF _ eq]) (simp_all add: gcm12_wire_def Let_def case_prod_beta)
qed

text \<open>A nonce splits into the implicit and the explicit part.\<close>

lemma implicit_explicit:
  "length iv = 12 \<Longrightarrow> take 4 iv @ drop 4 (xor_nonce iv seq) = xor_nonce iv seq"
  by (metis append_take_drop_id take_xor_nonce)

lemma gcm13_wire_parts:
  assumes rl: "rustls_cipher_ok rl" and w: "gcm_live w keyed seal" and k: "aes_key key"
    and iv: "length iv = 12"
  obtains c t where "tls13_wire rl seal key iv m seq = c @ t"
    and "seal key (xor_nonce iv seq) (make_tls13_aad rl (17 + chunks_len (pm_payload m)))
          (chunks_bytes (pm_payload m) @ typ_to_array rl (pm_typ m)) = (c, t)"
    and "length c = chunks_len (pm_payload m) + 1" and "length t = 16"
proof -
  let ?r = "seal key (xor_nonce iv seq) (make_tls13_aad rl (17 + chunks_len (pm_payload m)))
          (chunks_bytes (pm_payload m) @ typ_to_array rl (pm_typ m))"
  have eq: "?r = (fst ?r, snd ?r)" by simp
  have "length (fst ?r) = chunks_len (pm_payload m) + 1" "length (snd ?r) = 16"
    using gcm_seal_lengths [OF w k _ eq] iv by (simp_all add: rustls_cipher_okD(2) [OF rl])
  then show ?thesis by (intro that [OF _ eq]) (simp_all add: tls13_wire_def Let_def case_prod_beta)
qed

text \<open>The messages a TLS 1.3 record can carry: a record type, at most a full fragment.\<close>

definition sendable13 :: "OutboundPlainMessage \<Rightarrow> bool" where
  "sendable13 m \<longleftrightarrow> pm_typ m \<in> record_types \<and> chunks_len (pm_payload m) \<le> max_fragment_len"

lemma unpad_sent:
  assumes rl: "rustls_cipher_ok rl" and m: "sendable13 m"
  obtains ip where "into_tls13_unpadded_message rl (im\<lparr>io_payload :=
      chunks_bytes (pm_payload m) @ typ_to_array rl (pm_typ m)\<rparr>) = Inr ip" "same_content m ip"
proof -
  have "\<exists>v. into_tls13_unpadded_message rl (im\<lparr>io_payload :=
      chunks_bytes (pm_payload m) @ typ_to_array rl (pm_typ m)\<rparr>)
      = Inr \<lparr>ip_typ = pm_typ m, ip_version = v, ip_payload = chunks_bytes (pm_payload m)\<rparr>"
    using m by (intro rustls_cipher_okD(5) [OF rl, where n = 0]) (simp_all add: sendable13_def zeros_def)
  then show ?thesis by (auto intro!: that simp: same_content_def)
qed

end
