(* ===== verification/AeadDemo.thy ===== *)
theory AeadDemo
  imports AeadSpec
begin

text \<open>
  A concrete instance of the AEAD parameters: small functions that satisfy the documented laws, so
  that the hypotheses of the AEAD theorems are seen to hold together.  It is used by witnesses
  only.  The demonstration AEAD leaves the plaintext as it is and makes a checksum its tag.
\<close>

fun demo_typ_to_array :: "ContentType \<Rightarrow> bytes" where
  "demo_typ_to_array ChangeCipherSpec = [20]"
| "demo_typ_to_array Alert = [21]"
| "demo_typ_to_array Handshake = [22]"
| "demo_typ_to_array ApplicationData = [23]"
| "demo_typ_to_array Heartbeat = [24]"
| "demo_typ_to_array (ContentUnknown b) = [b]"

definition demo_typ_of_byte :: "u8 \<Rightarrow> ContentType" where
  "demo_typ_of_byte b =
     (if b = 20 then ChangeCipherSpec else if b = 21 then Alert else if b = 22 then Handshake
      else if b = 23 then ApplicationData else if b = 24 then Heartbeat else ContentUnknown b)"

definition demo_unpad :: "InboundOpaqueMessage \<Rightarrow> rustls_error + InboundPlainMessage" where
  "demo_unpad m =
     (case dropWhile (\<lambda>b. b = 0) (rev (io_payload m)) of
        [] \<Rightarrow> Inl (RustlsOther ''IllegalTlsInnerPlaintext'')
      | b # r \<Rightarrow> Inr \<lparr>ip_typ = demo_typ_of_byte b, ip_version = TLSv1_3, ip_payload = rev r\<rparr>)"

definition demo_rustls :: rustls_cipher where
  "demo_rustls = \<lparr>
     nonce_new = xor_nonce,
     make_tls12_aad = (\<lambda>seq t v n. be64 seq @ demo_typ_to_array t @ [of_nat n]),
     make_tls13_aad = (\<lambda>n. [23, 3, 3, of_nat n]),
     typ_to_array = demo_typ_to_array,
     iv_copy = (\<lambda>iv. if length iv = 12 then Some iv else None),
     into_plain_message =
       (\<lambda>m. \<lparr>ip_typ = io_typ m, ip_version = io_version m, ip_payload = io_payload m\<rparr>),
     into_tls13_unpadded_message = demo_unpad\<rparr>"

lemma demo_rustls_ok: "rustls_cipher_ok demo_rustls"
proof -
  have one: "length (demo_typ_to_array t) = 1" for t by (cases t) simp_all
  have unpad: "demo_unpad m = Inr \<lparr>ip_typ = t, ip_version = TLSv1_3, ip_payload = p\<rparr>"
    if "t \<in> record_types" "io_payload m = p @ demo_typ_to_array t @ zeros n" for m t p n
  proof -
    have z: "dropWhile (\<lambda>b. b = 0) (rev (zeros n :: bytes) @ xs) = dropWhile (\<lambda>b. b = 0) xs" for xs
      by (rule dropWhile_append2) (simp add: zeros_def)
    show ?thesis
      using that by (auto simp: demo_unpad_def record_types_def z demo_typ_of_byte_def)
  qed
  show ?thesis
    unfolding rustls_cipher_ok_def by (auto simp: demo_rustls_def one unpad)
qed

definition demo_seal :: aead_fun where
  "demo_seal k n a p =
     (p, [sum_list k, sum_list n, sum_list a, sum_list p] @ replicate 12 7)"

definition demo_gcm :: "'s wolf_gcm" where
  "demo_gcm = \<lparr>
     gcm_new = (\<lambda>s. (Inr (GCM_ctx []), s)),
     gcm_init = (\<lambda>g k s. (Inr (GCM_ctx k), s)),
     gcm_encrypt = (\<lambda>g p out n a t s. case g of GCM_ctx k \<Rightarrow> (Inr (demo_seal k n a p), s)),
     gcm_decrypt = (\<lambda>g c out n a t s. case g of GCM_ctx k \<Rightarrow>
        (if demo_seal k n a c = (c, t) then Inr c else Inl (-180), s))\<rparr>"

definition demo_chacha :: "'s wolf_chacha" where
  "demo_chacha = \<lparr>
     chacha_encrypt = (\<lambda>k n a p out t s. (Inr (demo_seal k n a p), s)),
     chacha_decrypt = (\<lambda>k n a c t out s. (if demo_seal k n a c = (c, t) then Inr c else Inl (-213), s)),
     chacha_keysize = 32\<rparr>"

lemma demo_gcm_laws:
  "gcm_sound demo_gcm (\<lambda>g k. g = GCM_ctx k) demo_seal"
  "gcm_live demo_gcm (\<lambda>g k. g = GCM_ctx k) demo_seal"
  by (auto simp: gcm_sound_def gcm_live_def demo_gcm_def ffi_ensures_def ffi_yields_def demo_seal_def
      split: if_splits)

lemma demo_gcm_ok: "gcm_ok demo_gcm"
  unfolding gcm_ok_def using demo_gcm_laws by blast

lemma demo_chacha_laws: "chacha_sound demo_chacha demo_seal" "chacha_live demo_chacha demo_seal"
  by (auto simp: chacha_sound_def chacha_live_def demo_chacha_def ffi_ensures_def ffi_yields_def
      demo_seal_def split: if_splits)

lemma demo_chacha_ok: "chacha_ok demo_chacha"
  unfolding chacha_ok_def using demo_chacha_laws by blast

end
