(* ===== verification/Aes128Gcm.thy ===== *)
theory Aes128Gcm
  imports AeadDemo
begin

text \<open>
  \<open>src/aead/aes128gcm.rs\<close>: AES-128-GCM record protection for TLS 1.2 and TLS 1.3.  A method of a
  struct takes the struct's record as an argument; a \<open>PrefixedPayload\<close> and a payload vector are
  the bytes they hold.  The struct \<open>WCTls13Cipher\<close> is both encrypter and decrypter.
\<close>

section \<open>The code\<close>

definition GCM_NONCE_LENGTH :: usize where "GCM_NONCE_LENGTH = 12"
definition GCM_TAG_LENGTH :: usize where "GCM_TAG_LENGTH = 16"

lemmas gcm_consts = GCM_NONCE_LENGTH_def GCM_TAG_LENGTH_def

record WCTls12Encrypter =
  te_iv :: Iv
  te_key :: bytes

record WCTls12Decrypter =
  td_implicit_iv :: bytes
  td_key :: bytes

record WCTls13Cipher =
  tc_key :: bytes
  tc_iv :: Iv

text \<open>\<open>impl Tls12AeadAlgorithm for Aes128Gcm\<close>.\<close>

definition aes128_tls12_encrypter ::
    "AeadKey \<Rightarrow> bytes \<Rightarrow> bytes \<Rightarrow> ('s, 'e, WCTls12Encrypter) rust" where
  "aes128_tls12_encrypter key iv extra =
     (let iv_as_array = zeros GCM_NONCE_LENGTH in
      and_then (copy_into_range iv_as_array 0 (GCM_NONCE_LENGTH - 8) iv) (\<lambda>iv_as_array.
      and_then (copy_into_range iv_as_array (GCM_NONCE_LENGTH - 8) (length iv_as_array) extra)
        (\<lambda>iv_as_array.
      ok \<lparr>te_iv = iv_as_array, te_key = key\<rparr>)))"

definition aes128_tls12_decrypter :: "AeadKey \<Rightarrow> bytes \<Rightarrow> ('s, 'e, WCTls12Decrypter) rust" where
  "aes128_tls12_decrypter key iv =
     (let iv_implicit_as_array = zeros (GCM_NONCE_LENGTH - 8) in
      and_then (copy_from_slice iv_implicit_as_array iv) (\<lambda>iv_implicit_as_array.
      ok \<lparr>td_implicit_iv = iv_implicit_as_array, td_key = key\<rparr>))"

definition aes128_key_block_shape :: KeyBlockShape where
  "aes128_key_block_shape = \<lparr>enc_key_len = 16, fixed_iv_len = 4, explicit_nonce_len = 8\<rparr>"

definition aes128_tls12_extract_keys ::
    "AeadKey \<Rightarrow> bytes \<Rightarrow> bytes \<Rightarrow>
     ('s, UnsupportedOperationError, ConnectionTrafficSecrets) rust" where
  "aes128_tls12_extract_keys key iv explicit =
     (let iv_arr = zeros GCM_NONCE_LENGTH in
      and_then (copy_into_range iv_arr 0 4 iv) (\<lambda>iv_arr.
      and_then (copy_into_range iv_arr 4 (length iv_arr) explicit) (\<lambda>iv_arr.
      ok (SecretsAes128Gcm key iv_arr))))"

text \<open>\<open>impl MessageEncrypter for WCTls12Encrypter\<close> and \<open>impl MessageDecrypter for
  WCTls12Decrypter\<close>.\<close>

definition aes128_tls12_encrypted_payload_len :: "WCTls12Encrypter \<Rightarrow> usize \<Rightarrow> usize" where
  "aes128_tls12_encrypted_payload_len self payload_len =
     payload_len + (GCM_NONCE_LENGTH - 4) + GCM_TAG_LENGTH"

definition aes128_tls12_encrypt ::
    "rustls_cipher \<Rightarrow> 's wolf_gcm \<Rightarrow> WCTls12Encrypter \<Rightarrow> OutboundPlainMessage \<Rightarrow> u64 \<Rightarrow>
     ('s, rustls_error, OutboundOpaqueMessage) rust" where
  "aes128_tls12_encrypt rl w self m seq =
     (let payload = [];
          nonce = nonce_new rl (te_iv self) seq in
      and_then (slice_from nonce (GCM_NONCE_LENGTH - 8)) (\<lambda>explicit.
      let payload = payload @ explicit;
          payload = payload @ chunks_bytes (pm_payload m);
          aad = make_tls12_aad rl seq (pm_typ m) (pm_version m) (chunks_len (pm_payload m));
          auth_tag = zeros GCM_TAG_LENGTH;
          payload_start = GCM_NONCE_LENGTH - 4;
          payload_end = chunks_len (pm_payload m) + (GCM_NONCE_LENGTH - 4) in
      and_then (slice_range payload payload_start payload_end) (\<lambda>plaintext.
      let ciphertext = zeros (length plaintext) in
      and_then (map_err (\<lambda>_. General ''wc_AesGcmInit failed'') (gcm_new w)) (\<lambda>gcm.
      and_then (map_err (\<lambda>_. General ''wc_AesGcmSetKey failed'') (gcm_init w gcm (te_key self))) (\<lambda>gcm.
      and_then (map_err (\<lambda>_. General ''wc_AesGcmEncrypt failed'')
          (gcm_encrypt w gcm plaintext ciphertext nonce aad auth_tag)) (\<lambda>(ciphertext, auth_tag).
      and_then (copy_into_range payload payload_start payload_end ciphertext) (\<lambda>payload.
      let payload = payload @ auth_tag in
      ok \<lparr>oo_typ = pm_typ m, oo_version = pm_version m, oo_payload = payload\<rparr>)))))))"

definition aes128_tls12_decrypt ::
    "rustls_cipher \<Rightarrow> 's wolf_gcm \<Rightarrow> WCTls12Decrypter \<Rightarrow> InboundOpaqueMessage \<Rightarrow> u64 \<Rightarrow>
     ('s, rustls_error, InboundPlainMessage) rust" where
  "aes128_tls12_decrypt rl w self m seq =
     (let payload = io_payload m;
          payload_len = length payload;
          explicit_nonce_len = GCM_NONCE_LENGTH - 4 in
      if payload_len < explicit_nonce_len + GCM_TAG_LENGTH then err DecryptError
      else
      let nonce = zeros GCM_NONCE_LENGTH in
      and_then (copy_into_range nonce 0 (GCM_NONCE_LENGTH - 8) (td_implicit_iv self)) (\<lambda>nonce.
      and_then (slice_to payload (GCM_NONCE_LENGTH - 4)) (\<lambda>explicit.
      and_then (copy_into_range nonce (GCM_NONCE_LENGTH - 8) (length nonce) explicit) (\<lambda>nonce.
      let auth_tag = zeros GCM_TAG_LENGTH in
      and_then (usize_sub payload_len GCM_TAG_LENGTH) (\<lambda>tag_start.
      and_then (slice_from payload tag_start) (\<lambda>tag.
      and_then (copy_from_slice auth_tag tag) (\<lambda>auth_tag.
      and_then (usize_sub payload_len GCM_TAG_LENGTH) (\<lambda>rest_len.
      and_then (usize_sub rest_len explicit_nonce_len) (\<lambda>message_len.
      let aad = make_tls12_aad rl seq (io_typ m) (io_version m) message_len;
          payload_start = GCM_NONCE_LENGTH - 4 in
      and_then (usize_sub payload_len GCM_TAG_LENGTH) (\<lambda>payload_end.
      and_then (slice_range payload payload_start payload_end) (\<lambda>ciphertext.
      let plaintext = zeros (length ciphertext) in
      and_then (map_err (\<lambda>_. General ''wc_AesGcmInit failed'') (gcm_new w)) (\<lambda>gcm.
      and_then (map_err (\<lambda>_. General ''wc_AesGcmSetKey failed'') (gcm_init w gcm (td_key self))) (\<lambda>gcm.
      and_then (map_err (\<lambda>_. General ''wc_AesGcmDecrypt failed'')
          (gcm_decrypt w gcm ciphertext plaintext nonce aad auth_tag)) (\<lambda>plaintext.
      and_then (copy_into_range payload 0 (length plaintext) plaintext) (\<lambda>payload.
      let payload = vec_truncate (length plaintext) payload in
      ok (into_plain_message rl (m\<lparr>io_payload := payload\<rparr>)))))))))))))))))"

text \<open>\<open>impl Tls13AeadAlgorithm for Aes128Gcm\<close>.\<close>

definition aes128_tls13_encrypter :: "AeadKey \<Rightarrow> Iv \<Rightarrow> WCTls13Cipher" where
  "aes128_tls13_encrypter key iv = \<lparr>tc_key = key, tc_iv = iv\<rparr>"

definition aes128_tls13_decrypter :: "AeadKey \<Rightarrow> Iv \<Rightarrow> WCTls13Cipher" where
  "aes128_tls13_decrypter key iv = \<lparr>tc_key = key, tc_iv = iv\<rparr>"

definition aes128_key_len :: usize where
  "aes128_key_len = 16"

definition aes128_tls13_extract_keys ::
    "AeadKey \<Rightarrow> Iv \<Rightarrow> UnsupportedOperationError + ConnectionTrafficSecrets" where
  "aes128_tls13_extract_keys key iv = Inr (SecretsAes128Gcm key iv)"

text \<open>\<open>impl MessageEncrypter for WCTls13Cipher\<close> and \<open>impl MessageDecrypter for WCTls13Cipher\<close>.\<close>

definition aes128_tls13_encrypted_payload_len :: "WCTls13Cipher \<Rightarrow> usize \<Rightarrow> usize" where
  "aes128_tls13_encrypted_payload_len self payload_len = payload_len + 1 + GCM_TAG_LENGTH"

definition aes128_tls13_encrypt ::
    "rustls_cipher \<Rightarrow> 's wolf_gcm \<Rightarrow> WCTls13Cipher \<Rightarrow> OutboundPlainMessage \<Rightarrow> u64 \<Rightarrow>
     ('s, rustls_error, OutboundOpaqueMessage) rust" where
  "aes128_tls13_encrypt rl w self m seq =
     (let payload_len = chunks_len (pm_payload m);
          total_len = aes128_tls13_encrypted_payload_len self payload_len;
          payload = [];
          payload = payload @ chunks_bytes (pm_payload m);
          payload = payload @ typ_to_array rl (pm_typ m);
          nonce = nonce_new rl (tc_iv self) seq;
          aad = make_tls13_aad rl total_len;
          auth_tag = zeros GCM_TAG_LENGTH in
      and_then (slice_to payload (payload_len + 1)) (\<lambda>plaintext.
      let ciphertext = zeros (length plaintext) in
      and_then (map_err (\<lambda>_. General ''wc_AesGcmInit failed'') (gcm_new w)) (\<lambda>gcm.
      and_then (map_err (\<lambda>_. General ''wc_AesGcmSetKey failed'') (gcm_init w gcm (tc_key self))) (\<lambda>gcm.
      and_then (map_err (\<lambda>_. General ''wc_AesGcmEncrypt failed'')
          (gcm_encrypt w gcm plaintext ciphertext nonce aad auth_tag)) (\<lambda>(ciphertext, auth_tag).
      and_then (copy_into_range payload 0 (payload_len + 1) ciphertext) (\<lambda>payload.
      let payload = payload @ auth_tag in
      ok \<lparr>oo_typ = ApplicationData, oo_version = TLSv1_2, oo_payload = payload\<rparr>))))))"

definition aes128_tls13_decrypt ::
    "rustls_cipher \<Rightarrow> 's wolf_gcm \<Rightarrow> WCTls13Cipher \<Rightarrow> InboundOpaqueMessage \<Rightarrow> u64 \<Rightarrow>
     ('s, rustls_error, InboundPlainMessage) rust" where
  "aes128_tls13_decrypt rl w self m seq =
     (let payload = io_payload m in
      if length payload < GCM_TAG_LENGTH then err DecryptError
      else
      let nonce = nonce_new rl (tc_iv self) seq;
          aad = make_tls13_aad rl (length payload);
          auth_tag = zeros GCM_TAG_LENGTH in
      and_then (usize_sub (length payload) GCM_TAG_LENGTH) (\<lambda>message_len.
      and_then (slice_from payload message_len) (\<lambda>tag.
      and_then (copy_from_slice auth_tag tag) (\<lambda>auth_tag.
      and_then (slice_to payload message_len) (\<lambda>ciphertext.
      let plaintext = zeros message_len in
      and_then (map_err (\<lambda>_. General ''wc_AesGcmInit failed'') (gcm_new w)) (\<lambda>gcm.
      and_then (map_err (\<lambda>_. General ''wc_AesGcmSetKey failed'') (gcm_init w gcm (tc_key self))) (\<lambda>gcm.
      and_then (map_err (\<lambda>_. General ''wc_AesGcmDecrypt failed'')
          (gcm_decrypt w gcm ciphertext plaintext nonce aad auth_tag)) (\<lambda>plaintext.
      and_then (copy_into_range payload 0 message_len plaintext) (\<lambda>payload.
      let payload = vec_truncate message_len payload in
      map_err (\<lambda>e. e) (of_result (into_tls13_unpadded_message rl (m\<lparr>io_payload := payload\<rparr>))))))))))))"

section \<open>What each function does\<close>

lemma aes128_tls12_encrypt_yields:
  assumes rl: "rustls_cipher_ok rl" and w: "gcm_live w keyed seal"
    and iv: "length (te_iv e) = 12" and key: "aes_key (te_key e)"
  shows "yields (aes128_tls12_encrypt rl w e m seq) (\<lambda>om.
           om = \<lparr>oo_typ = pm_typ m, oo_version = pm_version m,
                 oo_payload = gcm12_wire rl seal (te_key e) (te_iv e) m seq\<rparr>)"
  unfolding aes128_tls12_encrypt_def
  by (simp add: gcm_consts Let_def rustls_cipher_okD [OF rl] iv)
     (rule gcm_encrypt_sequence [OF w key], auto simp: iv gcm12_wire_def intro!: yields_ok)

lemma aes128_tls12_decrypt_yields:
  assumes rl: "rustls_cipher_ok rl" and w: "gcm_live w keyed seal"
    and iv: "length (td_implicit_iv d) = 4" and key: "aes_key (td_key d)"
    and pl: "io_payload im = explicit @ c @ t" "length explicit = 8" "length t = 16"
    and seal: "seal (td_key d) (td_implicit_iv d @ explicit)
                 (make_tls12_aad rl seq (io_typ im) (io_version im) (length c)) p = (c, t)"
  shows "yields (aes128_tls12_decrypt rl w d im seq) (\<lambda>ip.
           ip = \<lparr>ip_typ = io_typ im, ip_version = io_version im, ip_payload = p\<rparr>)"
proof -
  have "length p = length c" using gcm_seal_lengths [OF w key _ seal] iv pl by simp
  then show ?thesis
    unfolding aes128_tls12_decrypt_def
    by (simp add: gcm_consts Let_def iv pl zeros_def)
       (rule gcm_decrypt_sequence [OF w key _ _ _ seal],
        auto simp: iv pl vec_truncate_def rustls_cipher_okD(4) [OF rl] intro!: yields_ok)
qed

text \<open>An accepted record is the AEAD's encryption of the plaintext that is handed out, under the
  nonce and the associated data of this position.\<close>

lemma aes128_tls12_decrypt_ensures:
  assumes rl: "rustls_cipher_ok rl" and w: "gcm_sound w keyed seal"
    and iv: "length (td_implicit_iv d) = 4"
  shows "ensures (aes128_tls12_decrypt rl w d im seq) (\<lambda>ip.
           gcm12_accepts rl seal (td_key d) (td_implicit_iv d) im seq ip)"
proof (cases "length (io_payload im) < 24")
  case True
  then show ?thesis by (simp add: aes128_tls12_decrypt_def gcm_consts ensures_err)
next
  case False
  then show ?thesis
    unfolding aes128_tls12_decrypt_def
    by (simp add: gcm_consts Let_def iv zeros_def)
       (rule gcm_accept_sequence [OF w],
        auto simp: iv vec_truncate_def rustls_cipher_okD(4) [OF rl] gcm12_accepts_def
          intro!: ensures_ok)
qed

lemma aes128_tls12_decrypt_no_panic:
  assumes w: "gcm_sound w keyed seal" and iv: "length (td_implicit_iv d) = 4"
  shows "no_panic (aes128_tls12_decrypt rl w d im seq)"
proof (cases "length (io_payload im) < 24")
  case True
  then show ?thesis by (simp add: aes128_tls12_decrypt_def gcm_consts no_panic_err)
next
  case False
  then show ?thesis
    unfolding aes128_tls12_decrypt_def
    by (simp add: gcm_consts Let_def iv)
       (rule gcm_decrypt_no_panic [OF w], auto simp: iv intro!: no_panic_ok)
qed

lemma aes128_tls13_encrypt_yields:
  assumes rl: "rustls_cipher_ok rl" and w: "gcm_live w keyed seal"
    and iv: "length (tc_iv e) = 12" and key: "aes_key (tc_key e)"
  shows "yields (aes128_tls13_encrypt rl w e m seq) (\<lambda>om.
           om = \<lparr>oo_typ = ApplicationData, oo_version = TLSv1_2,
                 oo_payload = tls13_wire rl seal (tc_key e) (tc_iv e) m seq\<rparr>)"
  unfolding aes128_tls13_encrypt_def
  by (simp add: gcm_consts Let_def rustls_cipher_okD [OF rl] iv aes128_tls13_encrypted_payload_len_def)
     (rule gcm_encrypt_sequence [OF w key],
      auto simp: iv tls13_wire_def rustls_cipher_okD [OF rl] intro!: yields_ok)

lemma aes128_tls13_decrypt_yields:
  assumes rl: "rustls_cipher_ok rl" and w: "gcm_live w keyed seal"
    and iv: "length (tc_iv d) = 12" and key: "aes_key (tc_key d)"
    and pl: "io_payload im = c @ t" "length t = 16"
    and seal: "seal (tc_key d) (xor_nonce (tc_iv d) seq) (make_tls13_aad rl (length c + 16)) inner = (c, t)"
    and unpad: "into_tls13_unpadded_message rl (im\<lparr>io_payload := inner\<rparr>) = Inr ip"
  shows "yields (aes128_tls13_decrypt rl w d im seq) (\<lambda>ip'. ip' = ip)"
proof -
  have "length inner = length c" using gcm_seal_lengths [OF w key _ seal] iv by simp
  then show ?thesis
    unfolding aes128_tls13_decrypt_def
    by (simp add: gcm_consts Let_def iv pl rustls_cipher_okD [OF rl])
       (rule gcm_decrypt_sequence [OF w key _ _ _ seal],
        auto simp: iv pl vec_truncate_def unpad intro!: yields_ok)
qed

lemma aes128_tls13_decrypt_ensures:
  assumes rl: "rustls_cipher_ok rl" and w: "gcm_sound w keyed seal" and iv: "length (tc_iv d) = 12"
  shows "ensures (aes128_tls13_decrypt rl w d im seq) (\<lambda>ip.
           tls13_accepts rl seal (tc_key d) (tc_iv d) im seq ip)"
proof (cases "length (io_payload im) < 16")
  case True
  then show ?thesis by (simp add: aes128_tls13_decrypt_def gcm_consts ensures_err)
next
  case False
  then show ?thesis
    unfolding aes128_tls13_decrypt_def
    by (simp add: gcm_consts Let_def iv rustls_cipher_okD [OF rl])
       (rule gcm_accept_sequence [OF w],
        auto simp: iv vec_truncate_def tls13_accepts_def intro!: ensures_map_err)
qed

lemma aes128_tls13_decrypt_no_panic:
  assumes rl: "rustls_cipher_ok rl" and w: "gcm_sound w keyed seal" and iv: "length (tc_iv d) = 12"
  shows "no_panic (aes128_tls13_decrypt rl w d im seq)"
proof (cases "length (io_payload im) < 16")
  case True
  then show ?thesis by (simp add: aes128_tls13_decrypt_def gcm_consts no_panic_err)
next
  case False
  then show ?thesis
    unfolding aes128_tls13_decrypt_def
    by (simp add: gcm_consts Let_def iv rustls_cipher_okD [OF rl])
       (rule gcm_decrypt_no_panic [OF w], auto simp: iv intro!: no_panic_map_err)
qed

section \<open>The record layer's contract\<close>

text \<open>The two ends of a direction: the decrypter has the key and the implicit nonce of the
  encrypter's initialisation vector (TLS 1.2), or is the same cipher (TLS 1.3).\<close>

definition gcm12_paired :: "WCTls12Encrypter \<Rightarrow> WCTls12Decrypter \<Rightarrow> bool" where
  "gcm12_paired e d \<longleftrightarrow>
     length (te_iv e) = 12 \<and> td_implicit_iv d = take 4 (te_iv e)
   \<and> td_key d = te_key e \<and> aes_key (te_key e)"

definition gcm13_paired :: "WCTls13Cipher \<Rightarrow> WCTls13Cipher \<Rightarrow> bool" where
  "gcm13_paired e d \<longleftrightarrow> d = e \<and> length (tc_iv e) = 12 \<and> aes_key (tc_key e)"

definition gcm_lib_ok :: "rustls_cipher \<times> 's wolf_gcm \<Rightarrow> bool" where
  "gcm_lib_ok = (\<lambda>(rl, w). rustls_cipher_ok rl \<and> gcm_ok w)"

lemma aes128_tls12_protects:
  assumes lib: "rustls_cipher_ok rl" "gcm_ok w" and pair: "gcm12_paired e d"
  shows "yields (aes128_tls12_encrypt rl w e m seq) (\<lambda>om.
           length (oo_payload om) = aes128_tls12_encrypted_payload_len e (chunks_len (pm_payload m))
         \<and> yields (aes128_tls12_decrypt rl w d (deliver om) seq) (same_content m))"
proof -
  obtain keyed seal where w: "gcm_live w keyed seal" using lib(2) unfolding gcm_ok_def by blast
  have e: "length (te_iv e) = 12" "aes_key (te_key e)"
    and d: "td_implicit_iv d = take 4 (te_iv e)" "td_key d = te_key e"
    using pair by (simp_all add: gcm12_paired_def)
  obtain c t where wire: "gcm12_wire rl seal (te_key e) (te_iv e) m seq = drop 4 (xor_nonce (te_iv e) seq) @ c @ t"
    and seal: "seal (te_key e) (xor_nonce (te_iv e) seq)
        (make_tls12_aad rl seq (pm_typ m) (pm_version m) (chunks_len (pm_payload m)))
        (chunks_bytes (pm_payload m)) = (c, t)"
    and len: "length c = chunks_len (pm_payload m)" "length t = 16"
    by (rule gcm12_wire_parts [OF w e(2,1)])
  show ?thesis
  proof (rule yields_weaken [OF aes128_tls12_encrypt_yields [OF lib(1) w e]], rule conjI)
    fix om assume om: "om = \<lparr>oo_typ = pm_typ m, oo_version = pm_version m,
        oo_payload = gcm12_wire rl seal (te_key e) (te_iv e) m seq\<rparr>"
    show "length (oo_payload om) = aes128_tls12_encrypted_payload_len e (chunks_len (pm_payload m))"
      by (simp add: om wire len e aes128_tls12_encrypted_payload_len_def gcm_consts)
    show "yields (aes128_tls12_decrypt rl w d (deliver om) seq) (same_content m)"
      by (rule yields_weaken [OF aes128_tls12_decrypt_yields [OF lib(1) w, where
              explicit = "drop 4 (xor_nonce (te_iv e) seq)" and c = c and t = t
              and p = "chunks_bytes (pm_payload m)"]])
         (simp_all add: om d e wire len seal implicit_explicit same_content_def)
  qed
qed

lemma aes128_tls13_protects:
  assumes lib: "rustls_cipher_ok rl" "gcm_ok w" and pair: "gcm13_paired e d"
    and m: "sendable13 m"
  shows "yields (aes128_tls13_encrypt rl w e m seq) (\<lambda>om.
           length (oo_payload om) = aes128_tls13_encrypted_payload_len e (chunks_len (pm_payload m))
         \<and> yields (aes128_tls13_decrypt rl w d (deliver om) seq) (same_content m))"
proof -
  obtain keyed seal where w: "gcm_live w keyed seal" using lib(2) unfolding gcm_ok_def by blast
  have e: "length (tc_iv e) = 12" "aes_key (tc_key e)" and d: "d = e"
    using pair by (simp_all add: gcm13_paired_def)
  obtain c t where wire: "tls13_wire rl seal (tc_key e) (tc_iv e) m seq = c @ t"
    and seal: "seal (tc_key e) (xor_nonce (tc_iv e) seq)
        (make_tls13_aad rl (17 + chunks_len (pm_payload m)))
        (chunks_bytes (pm_payload m) @ typ_to_array rl (pm_typ m)) = (c, t)"
    and len: "length c = chunks_len (pm_payload m) + 1" "length t = 16"
    by (rule gcm13_wire_parts [OF lib(1) w e(2,1)])
  show ?thesis
  proof (rule yields_weaken [OF aes128_tls13_encrypt_yields [OF lib(1) w e]], rule conjI)
    fix om assume om: "om = \<lparr>oo_typ = ApplicationData, oo_version = TLSv1_2,
        oo_payload = tls13_wire rl seal (tc_key e) (tc_iv e) m seq\<rparr>"
    show "length (oo_payload om) = aes128_tls13_encrypted_payload_len e (chunks_len (pm_payload m))"
      by (simp add: om wire len aes128_tls13_encrypted_payload_len_def gcm_consts)
    obtain ip where ip: "into_tls13_unpadded_message rl ((deliver om)\<lparr>io_payload :=
          chunks_bytes (pm_payload m) @ typ_to_array rl (pm_typ m)\<rparr>) = Inr ip" "same_content m ip"
      by (rule unpad_sent [OF lib(1) m])
    show "yields (aes128_tls13_decrypt rl w d (deliver om) seq) (same_content m)"
      by (rule yields_weaken [OF aes128_tls13_decrypt_yields [OF lib(1) w _ _ _ _ _ ip(1), where
              c = c and t = t]])
         (use ip(2) in \<open>simp_all add: om d e wire len seal\<close>)
  qed
qed

interpretation aes128_12: record_protection gcm_lib_ok
  "\<lambda>(rl, w). aes128_tls12_encrypt rl w" "\<lambda>(rl, w). aes128_tls12_decrypt rl w"
  aes128_tls12_encrypted_payload_len 24 gcm12_paired "\<lambda>_ _. True"
proof (unfold_locales, goal_cases)
  case (1 w e d m seq)
  then show ?case by (cases w) (simp add: gcm_lib_ok_def aes128_tls12_protects)
next
  case (2 w e d im seq)
  then show ?case
    by (cases w) (auto simp: gcm_lib_ok_def gcm_ok_def gcm12_paired_def intro!: aes128_tls12_decrypt_no_panic)
next
  case (3 im w d seq)
  then show ?case by (cases w) (simp add: aes128_tls12_decrypt_def gcm_consts)
qed

interpretation aes128_13: record_protection gcm_lib_ok
  "\<lambda>(rl, w). aes128_tls13_encrypt rl w" "\<lambda>(rl, w). aes128_tls13_decrypt rl w"
  aes128_tls13_encrypted_payload_len 16 gcm13_paired "\<lambda>_. sendable13"
proof (unfold_locales, goal_cases)
  case (1 w e d m seq)
  then show ?case by (cases w) (simp add: gcm_lib_ok_def aes128_tls13_protects)
next
  case (2 w e d im seq)
  then show ?case
    by (cases w) (auto simp: gcm_lib_ok_def gcm_ok_def gcm13_paired_def intro!: aes128_tls13_decrypt_no_panic)
next
  case (3 im w d seq)
  then show ?case by (cases w) (simp add: aes128_tls13_decrypt_def gcm_consts)
qed

text \<open>What the factories of the TLS 1.2 algorithm make is paired.\<close>

lemma aes128_tls12_encrypter_eq:
  "length iv = 4 \<Longrightarrow> length extra = 8 \<Longrightarrow>
   aes128_tls12_encrypter key iv extra = ok \<lparr>te_iv = iv @ extra, te_key = key\<rparr>"
  by (simp add: aes128_tls12_encrypter_def gcm_consts zeros_def Let_def)

lemma aes128_tls12_decrypter_eq:
  "length iv = 4 \<Longrightarrow> aes128_tls12_decrypter key iv = ok \<lparr>td_implicit_iv = iv, td_key = key\<rparr>"
  by (simp add: aes128_tls12_decrypter_def gcm_consts zeros_def Let_def)

lemma gcm12_paired_factories:
  "length iv = 4 \<Longrightarrow> length extra = 8 \<Longrightarrow> aes_key key \<Longrightarrow>
   gcm12_paired \<lparr>te_iv = iv @ extra, te_key = key\<rparr> \<lparr>td_implicit_iv = iv, td_key = key\<rparr>"
  by (simp add: gcm12_paired_def)

text \<open>The explicit nonce on the wire, for every behaviour of the foreign library.\<close>

lemma aes128_tls12_encrypt_explicit:
  assumes rl: "rustls_cipher_ok rl" and iv: "length (te_iv e) = 12"
  shows "ensures (aes128_tls12_encrypt rl w e m seq)
           (\<lambda>om. take 8 (oo_payload om) = drop 4 (xor_nonce (te_iv e) seq))"
  unfolding aes128_tls12_encrypt_def
  by (simp add: gcm_consts Let_def rustls_cipher_okD [OF rl] iv)
     (auto simp: iv intro!: ensures_and_then [OF ensures_True] ensures_ok
        ensures_and_then [OF ensures_copy_into_range])

section \<open>Properties\<close>

text \<open>C6. A TLS 1.2 AES-128-GCM connection delivers its records.  Take keys of the lengths that
  \<open>key_block_shape\<close> announces, make an encrypter and a decrypter from them with the provider's
  factories, and protect any list of messages under consecutive sequence numbers (which may
  wrap): the encrypter returns records for all of them, and the decrypter accepts these records
  and returns the same content types and payloads, in order.\<close>

theorem aes128_tls12_session:
  assumes "rustls_cipher_ok rl" and "gcm_ok w"
    and "length key = enc_key_len aes128_key_block_shape"
    and "length iv = fixed_iv_len aes128_key_block_shape"
    and "length extra = explicit_nonce_len aes128_key_block_shape"
  shows "yields (and_then (aes128_tls12_encrypter key iv extra)
                   (\<lambda>e. send_all (aes128_tls12_encrypt rl w e) ms seq))
           (\<lambda>oms. yields (and_then (aes128_tls12_decrypter key iv)
                             (\<lambda>d. recv_all (aes128_tls12_decrypt rl w d) (map deliver oms) seq))
                    (list_all2 same_content ms))"
proof -
  have len: "length iv = 4" "length extra = 8" "aes_key key"
    using assms(3-5) by (simp_all add: aes128_key_block_shape_def aes_key_def)
  have lib: "gcm_lib_ok (rl, w)" using assms(1,2) by (simp add: gcm_lib_ok_def)
  show ?thesis
    using aes128_12.session_ends_agree [OF lib gcm12_paired_factories [OF len], of ms seq]
    by (simp add: aes128_tls12_encrypter_eq aes128_tls12_decrypter_eq len)
qed

theorem aes128_tls12_session_witness:
  "yields (and_then (aes128_tls12_encrypter (zeros 16) (zeros 4) (zeros 8))
             (\<lambda>e. send_all (aes128_tls12_encrypt demo_rustls (demo_gcm :: unit wolf_gcm) e)
                [\<lparr>pm_typ = Handshake, pm_version = TLSv1_2, pm_payload = [[1, 2], [3]]\<rparr>] 5))
     (\<lambda>oms. yields (and_then (aes128_tls12_decrypter (zeros 16) (zeros 4))
                (\<lambda>d. recv_all (aes128_tls12_decrypt demo_rustls (demo_gcm :: unit wolf_gcm) d)
                       (map deliver oms) 5))
              (list_all2 same_content
                [\<lparr>pm_typ = Handshake, pm_version = TLSv1_2, pm_payload = [[1, 2], [3]]\<rparr>]))"
  by (rule aes128_tls12_session [OF demo_rustls_ok demo_gcm_ok])
     (simp_all add: aes128_key_block_shape_def)

text \<open>C9. A TLS 1.3 AES-128-GCM connection delivers its records: for a key of \<open>key_len\<close> bytes and
  a twelve-byte IV, all messages of record types within the maximum fragment length are
  protected, accepted and returned with the same content.\<close>

theorem aes128_tls13_session:
  assumes "rustls_cipher_ok rl" and "gcm_ok w"
    and "length key = aes128_key_len" and "length iv = 12"
    and "\<forall>m \<in> set ms. sendable13 m"
  shows "yields (send_all (aes128_tls13_encrypt rl w (aes128_tls13_encrypter key iv)) ms seq)
           (\<lambda>oms. yields (recv_all (aes128_tls13_decrypt rl w (aes128_tls13_decrypter key iv))
                             (map deliver oms) seq)
                    (list_all2 same_content ms))"
proof -
  have pair: "gcm13_paired (aes128_tls13_encrypter key iv) (aes128_tls13_decrypter key iv)"
    using assms(3,4)
    by (simp add: gcm13_paired_def aes128_tls13_encrypter_def aes128_tls13_decrypter_def
        aes128_key_len_def aes_key_def)
  have lib: "gcm_lib_ok (rl, w)" using assms(1,2) by (simp add: gcm_lib_ok_def)
  show ?thesis using aes128_13.session_ends_agree [OF lib pair assms(5), of seq] by simp
qed

theorem aes128_tls13_session_witness:
  "yields (send_all (aes128_tls13_encrypt demo_rustls (demo_gcm :: unit wolf_gcm) (aes128_tls13_encrypter (zeros 16) (zeros 12)))
             [\<lparr>pm_typ = Alert, pm_version = TLSv1_3, pm_payload = [[1], [0]]\<rparr>] (-1))
     (\<lambda>oms. yields (recv_all (aes128_tls13_decrypt demo_rustls (demo_gcm :: unit wolf_gcm)
                       (aes128_tls13_decrypter (zeros 16) (zeros 12))) (map deliver oms) (-1))
              (list_all2 same_content
                [\<lparr>pm_typ = Alert, pm_version = TLSv1_3, pm_payload = [[1], [0]]\<rparr>]))"
  by (rule aes128_tls13_session [OF demo_rustls_ok demo_gcm_ok])
     (simp_all add: aes128_key_len_def sendable13_def record_types_def max_fragment_len_def
        chunks_len_def)

text \<open>C33. Nonces are never reused on the wire: two TLS 1.2 records that one encrypter made under
  different sequence numbers carry different explicit nonces, whatever the foreign library
  does and whatever the messages are.\<close>

theorem aes128_tls12_explicit_nonces_differ:
  assumes "rustls_cipher_ok rl" and "length (te_iv e) = 12"
    and "aes128_tls12_encrypt rl w e m a s = (Ok om, s')"
    and "aes128_tls12_encrypt rl w e m' b t = (Ok om', t')"
    and "a \<noteq> b"
  shows "take 8 (oo_payload om) \<noteq> take 8 (oo_payload om')"
  using ensuresD [OF aes128_tls12_encrypt_explicit [OF assms(1,2)] assms(3)]
    ensuresD [OF aes128_tls12_encrypt_explicit [OF assms(1,2)] assms(4)] assms(2,5)
  by (simp add: drop_xor_nonce_inject)

theorem aes128_tls12_explicit_nonces_differ_witness:
  "\<exists>om om'. aes128_tls12_encrypt demo_rustls demo_gcm \<lparr>te_iv = zeros 12, te_key = zeros 16\<rparr>
        \<lparr>pm_typ = Alert, pm_version = TLSv1_2, pm_payload = [[9]]\<rparr> 1 () = (Ok om, ())
     \<and> aes128_tls12_encrypt demo_rustls demo_gcm \<lparr>te_iv = zeros 12, te_key = zeros 16\<rparr>
        \<lparr>pm_typ = Alert, pm_version = TLSv1_2, pm_payload = [[9]]\<rparr> 2 () = (Ok om', ())
     \<and> take 8 (oo_payload om) \<noteq> take 8 (oo_payload om')"
proof -
  let ?e = "\<lparr>te_iv = zeros 12, te_key = zeros 16\<rparr>"
  let ?m = "\<lparr>pm_typ = Alert, pm_version = TLSv1_2, pm_payload = [[9]]\<rparr>"
  have y: "yields (aes128_tls12_encrypt demo_rustls (demo_gcm :: unit wolf_gcm) ?e ?m q) (\<lambda>_. True)" for q
    by (rule yields_weaken [OF aes128_tls12_encrypt_yields [OF demo_rustls_ok demo_gcm_laws(2)]])
       (simp_all add: aes_key_def)
  obtain om om' where "aes128_tls12_encrypt demo_rustls demo_gcm ?e ?m 1 () = (Ok om, ())"
    and "aes128_tls12_encrypt demo_rustls demo_gcm ?e ?m 2 () = (Ok om', ())"
    using yields_unit [OF y [of 1]] yields_unit [OF y [of 2]] by blast
  with aes128_tls12_explicit_nonces_differ [OF demo_rustls_ok, of ?e demo_gcm ?m 1 "()" om "()" ?m 2 "()" om' "()"]
  show ?thesis by auto
qed

text \<open>C7. Whatever arrives, the TLS 1.2 decrypter stays in control: it never panics; a record too
  short for an explicit nonce and a tag is refused as \<open>DecryptError\<close> before the foreign library
  is called; and if a record is accepted, its ciphertext and tag are the AEAD's encryption of
  the returned payload under the key, the nonce made of the implicit and the received explicit
  part, and the associated data of this sequence number, type, version and length.\<close>

theorem aes128_tls12_decrypt_sound:
  assumes "rustls_cipher_ok rl" and "gcm_sound w keyed seal" and "length (td_implicit_iv d) = 4"
  shows "no_panic (aes128_tls12_decrypt rl w d im seq)
    \<and> (length (io_payload im) < 24 \<longrightarrow> aes128_tls12_decrypt rl w d im seq = err DecryptError)
    \<and> ensures (aes128_tls12_decrypt rl w d im seq)
        (gcm12_accepts rl seal (td_key d) (td_implicit_iv d) im seq)"
  using aes128_tls12_decrypt_no_panic [OF assms(2,3)] aes128_tls12_decrypt_ensures [OF assms]
  by (auto simp: aes128_tls12_decrypt_def gcm_consts)

theorem aes128_tls12_decrypt_sound_witness:
  "no_panic (aes128_tls12_decrypt demo_rustls (demo_gcm :: unit wolf_gcm)
       \<lparr>td_implicit_iv = zeros 4, td_key = zeros 16\<rparr>
       \<lparr>io_typ = Alert, io_version = TLSv1_2, io_payload = [1, 2, 3]\<rparr> 7)"
  by (rule aes128_tls12_decrypt_sound [OF demo_rustls_ok demo_gcm_laws(1), THEN conjunct1]) simp

text \<open>C10. The same for the TLS 1.3 decrypter: no panic, \<open>DecryptError\<close> for a record shorter than a
  tag, and acceptance only of the AEAD's encryption, under the nonce \<open>iv ^ seq\<close> and the
  record's length as associated data, of an inner plaintext that unpads to the result.\<close>

theorem aes128_tls13_decrypt_sound:
  assumes "rustls_cipher_ok rl" and "gcm_sound w keyed seal" and "length (tc_iv d) = 12"
  shows "no_panic (aes128_tls13_decrypt rl w d im seq)
    \<and> (length (io_payload im) < 16 \<longrightarrow> aes128_tls13_decrypt rl w d im seq = err DecryptError)
    \<and> ensures (aes128_tls13_decrypt rl w d im seq)
        (tls13_accepts rl seal (tc_key d) (tc_iv d) im seq)"
  using aes128_tls13_decrypt_no_panic [OF assms] aes128_tls13_decrypt_ensures [OF assms]
  by (auto simp: aes128_tls13_decrypt_def gcm_consts)

theorem aes128_tls13_decrypt_sound_witness:
  "no_panic (aes128_tls13_decrypt demo_rustls (demo_gcm :: unit wolf_gcm)
       \<lparr>tc_key = zeros 16, tc_iv = zeros 12\<rparr>
       \<lparr>io_typ = ApplicationData, io_version = TLSv1_2, io_payload = replicate 40 1\<rparr> 7)"
  by (rule aes128_tls13_decrypt_sound [OF demo_rustls_ok demo_gcm_laws(1), THEN conjunct1]) simp

end
