(* ===== verification/Aes256Gcm.thy ===== *)
theory Aes256Gcm
  imports Aes128Gcm
begin

text \<open>
  \<open>src/aead/aes256gcm.rs\<close>: AES-256-GCM record protection.  The file repeats the code of
  \<open>aes128gcm.rs\<close> for another key length, and so does this theory; the structs have the same
  fields, so the records (and the two constants) of \<open>Aes128Gcm\<close> are used for them.  That the
  record functions of the two files agree is a theorem, through which the lemmas of
  \<open>Aes128Gcm\<close> carry over.
\<close>

section \<open>The code\<close>

text \<open>\<open>impl Tls12AeadAlgorithm for Aes256Gcm\<close>.\<close>

definition aes256_tls12_encrypter ::
    "AeadKey \<Rightarrow> bytes \<Rightarrow> bytes \<Rightarrow> ('s, 'e, WCTls12Encrypter) rust" where
  "aes256_tls12_encrypter key iv extra =
     (let iv_as_array = zeros GCM_NONCE_LENGTH in
      and_then (copy_into_range iv_as_array 0 (GCM_NONCE_LENGTH - 8) iv) (\<lambda>iv_as_array.
      and_then (copy_into_range iv_as_array (GCM_NONCE_LENGTH - 8) (length iv_as_array) extra)
        (\<lambda>iv_as_array.
      ok \<lparr>te_iv = iv_as_array, te_key = key\<rparr>)))"

definition aes256_tls12_decrypter :: "AeadKey \<Rightarrow> bytes \<Rightarrow> ('s, 'e, WCTls12Decrypter) rust" where
  "aes256_tls12_decrypter key iv =
     (let iv_implicit_as_array = zeros (GCM_NONCE_LENGTH - 8) in
      and_then (copy_from_slice iv_implicit_as_array iv) (\<lambda>iv_implicit_as_array.
      ok \<lparr>td_implicit_iv = iv_implicit_as_array, td_key = key\<rparr>))"

definition aes256_key_block_shape :: KeyBlockShape where
  "aes256_key_block_shape = \<lparr>enc_key_len = 32, fixed_iv_len = 4, explicit_nonce_len = 8\<rparr>"

definition aes256_tls12_extract_keys ::
    "AeadKey \<Rightarrow> bytes \<Rightarrow> bytes \<Rightarrow>
     ('s, UnsupportedOperationError, ConnectionTrafficSecrets) rust" where
  "aes256_tls12_extract_keys key iv explicit =
     (let iv_arr = zeros GCM_NONCE_LENGTH in
      and_then (copy_into_range iv_arr 0 4 iv) (\<lambda>iv_arr.
      and_then (copy_into_range iv_arr 4 (length iv_arr) explicit) (\<lambda>iv_arr.
      ok (SecretsAes256Gcm key iv_arr))))"

text \<open>\<open>impl MessageEncrypter for WCTls12Encrypter\<close> and \<open>impl MessageDecrypter for
  WCTls12Decrypter\<close>.\<close>

definition aes256_tls12_encrypted_payload_len :: "WCTls12Encrypter \<Rightarrow> usize \<Rightarrow> usize" where
  "aes256_tls12_encrypted_payload_len self payload_len =
     payload_len + (GCM_NONCE_LENGTH - 4) + GCM_TAG_LENGTH"

definition aes256_tls12_encrypt ::
    "rustls_cipher \<Rightarrow> 's wolf_gcm \<Rightarrow> WCTls12Encrypter \<Rightarrow> OutboundPlainMessage \<Rightarrow> u64 \<Rightarrow>
     ('s, rustls_error, OutboundOpaqueMessage) rust" where
  "aes256_tls12_encrypt rl w self m seq =
     (let payload = [];
          nonce = nonce_new rl (te_iv self) seq in
      and_then (slice_from nonce (GCM_NONCE_LENGTH - 8)) (\<lambda>explicit.
      let payload = payload @ explicit;
          payload = payload @ chunks_bytes (pm_payload m);
          aad = make_tls12_aad rl seq (pm_typ m) (pm_version m) (chunks_len (pm_payload m));
          auth_tag = zeros GCM_TAG_LENGTH;
          payload_start = GCM_NONCE_LENGTH - 4;
          payload_end = chunks_len (pm_payload m) + (GCM_NONCE_LENGTH - 4) in
      and_then (slice_range payload payload_start payload_end) (\<lambda>plaintext.
      let ciphertext = zeros (length plaintext) in
      and_then (map_err (\<lambda>_. General ''wc_AesGcmInit failed'') (gcm_new w)) (\<lambda>gcm.
      and_then (map_err (\<lambda>_. General ''wc_AesGcmSetKey failed'') (gcm_init w gcm (te_key self))) (\<lambda>gcm.
      and_then (map_err (\<lambda>_. General ''wc_AesGcmEncrypt failed'')
          (gcm_encrypt w gcm plaintext ciphertext nonce aad auth_tag)) (\<lambda>(ciphertext, auth_tag).
      and_then (copy_into_range payload payload_start payload_end ciphertext) (\<lambda>payload.
      let payload = payload @ auth_tag in
      ok \<lparr>oo_typ = pm_typ m, oo_version = pm_version m, oo_payload = payload\<rparr>)))))))"

definition aes256_tls12_decrypt ::
    "rustls_cipher \<Rightarrow> 's wolf_gcm \<Rightarrow> WCTls12Decrypter \<Rightarrow> InboundOpaqueMessage \<Rightarrow> u64 \<Rightarrow>
     ('s, rustls_error, InboundPlainMessage) rust" where
  "aes256_tls12_decrypt rl w self m seq =
     (let payload = io_payload m;
          payload_len = length payload;
          explicit_nonce_len = GCM_NONCE_LENGTH - 4 in
      if payload_len < explicit_nonce_len + GCM_TAG_LENGTH then err DecryptError
      else
      let nonce = zeros GCM_NONCE_LENGTH in
      and_then (copy_into_range nonce 0 (GCM_NONCE_LENGTH - 8) (td_implicit_iv self)) (\<lambda>nonce.
      and_then (slice_to payload (GCM_NONCE_LENGTH - 4)) (\<lambda>explicit.
      and_then (copy_into_range nonce (GCM_NONCE_LENGTH - 8) (length nonce) explicit) (\<lambda>nonce.
      let auth_tag = zeros GCM_TAG_LENGTH in
      and_then (usize_sub payload_len GCM_TAG_LENGTH) (\<lambda>tag_start.
      and_then (slice_from payload tag_start) (\<lambda>tag.
      and_then (copy_from_slice auth_tag tag) (\<lambda>auth_tag.
      and_then (usize_sub payload_len GCM_TAG_LENGTH) (\<lambda>rest_len.
      and_then (usize_sub rest_len explicit_nonce_len) (\<lambda>message_len.
      let aad = make_tls12_aad rl seq (io_typ m) (io_version m) message_len;
          payload_start = GCM_NONCE_LENGTH - 4 in
      and_then (usize_sub payload_len GCM_TAG_LENGTH) (\<lambda>payload_end.
      and_then (slice_range payload payload_start payload_end) (\<lambda>ciphertext.
      let plaintext = zeros (length ciphertext) in
      and_then (map_err (\<lambda>_. General ''wc_AesGcmInit failed'') (gcm_new w)) (\<lambda>gcm.
      and_then (map_err (\<lambda>_. General ''wc_AesGcmSetKey failed'') (gcm_init w gcm (td_key self))) (\<lambda>gcm.
      and_then (map_err (\<lambda>_. General ''wc_AesGcmDecrypt failed'')
          (gcm_decrypt w gcm ciphertext plaintext nonce aad auth_tag)) (\<lambda>plaintext.
      and_then (copy_into_range payload 0 (length plaintext) plaintext) (\<lambda>payload.
      let payload = vec_truncate (length plaintext) payload in
      ok (into_plain_message rl (m\<lparr>io_payload := payload\<rparr>)))))))))))))))))"

text \<open>\<open>impl Tls13AeadAlgorithm for Aes256Gcm\<close>.\<close>

definition aes256_tls13_encrypter :: "AeadKey \<Rightarrow> Iv \<Rightarrow> WCTls13Cipher" where
  "aes256_tls13_encrypter key iv = \<lparr>tc_key = key, tc_iv = iv\<rparr>"

definition aes256_tls13_decrypter :: "AeadKey \<Rightarrow> Iv \<Rightarrow> WCTls13Cipher" where
  "aes256_tls13_decrypter key iv = \<lparr>tc_key = key, tc_iv = iv\<rparr>"

definition aes256_key_len :: usize where
  "aes256_key_len = 32"

definition aes256_tls13_extract_keys ::
    "AeadKey \<Rightarrow> Iv \<Rightarrow> UnsupportedOperationError + ConnectionTrafficSecrets" where
  "aes256_tls13_extract_keys key iv = Inr (SecretsAes256Gcm key iv)"

text \<open>\<open>impl MessageEncrypter for WCTls13Cipher\<close> and \<open>impl MessageDecrypter for WCTls13Cipher\<close>.\<close>

definition aes256_tls13_encrypted_payload_len :: "WCTls13Cipher \<Rightarrow> usize \<Rightarrow> usize" where
  "aes256_tls13_encrypted_payload_len self payload_len = payload_len + 1 + GCM_TAG_LENGTH"

definition aes256_tls13_encrypt ::
    "rustls_cipher \<Rightarrow> 's wolf_gcm \<Rightarrow> WCTls13Cipher \<Rightarrow> OutboundPlainMessage \<Rightarrow> u64 \<Rightarrow>
     ('s, rustls_error, OutboundOpaqueMessage) rust" where
  "aes256_tls13_encrypt rl w self m seq =
     (let payload_len = chunks_len (pm_payload m);
          total_len = aes256_tls13_encrypted_payload_len self payload_len;
          payload = [];
          payload = payload @ chunks_bytes (pm_payload m);
          payload = payload @ typ_to_array rl (pm_typ m);
          nonce = nonce_new rl (tc_iv self) seq;
          aad = make_tls13_aad rl total_len;
          auth_tag = zeros GCM_TAG_LENGTH in
      and_then (slice_to payload (payload_len + 1)) (\<lambda>plaintext.
      let ciphertext = zeros (length plaintext) in
      and_then (map_err (\<lambda>_. General ''wc_AesGcmInit failed'') (gcm_new w)) (\<lambda>gcm.
      and_then (map_err (\<lambda>_. General ''wc_AesGcmSetKey failed'') (gcm_init w gcm (tc_key self))) (\<lambda>gcm.
      and_then (map_err (\<lambda>_. General ''wc_AesGcmEncrypt failed'')
          (gcm_encrypt w gcm plaintext ciphertext nonce aad auth_tag)) (\<lambda>(ciphertext, auth_tag).
      and_then (copy_into_range payload 0 (payload_len + 1) ciphertext) (\<lambda>payload.
      let payload = payload @ auth_tag in
      ok \<lparr>oo_typ = ApplicationData, oo_version = TLSv1_2, oo_payload = payload\<rparr>))))))"

definition aes256_tls13_decrypt ::
    "rustls_cipher \<Rightarrow> 's wolf_gcm \<Rightarrow> WCTls13Cipher \<Rightarrow> InboundOpaqueMessage \<Rightarrow> u64 \<Rightarrow>
     ('s, rustls_error, InboundPlainMessage) rust" where
  "aes256_tls13_decrypt rl w self m seq =
     (let payload = io_payload m in
      if length payload < GCM_TAG_LENGTH then err DecryptError
      else
      let nonce = nonce_new rl (tc_iv self) seq;
          aad = make_tls13_aad rl (length payload);
          auth_tag = zeros GCM_TAG_LENGTH in
      and_then (usize_sub (length payload) GCM_TAG_LENGTH) (\<lambda>message_len.
      and_then (slice_from payload message_len) (\<lambda>tag.
      and_then (copy_from_slice auth_tag tag) (\<lambda>auth_tag.
      and_then (slice_to payload message_len) (\<lambda>ciphertext.
      let plaintext = zeros message_len in
      and_then (map_err (\<lambda>_. General ''wc_AesGcmInit failed'') (gcm_new w)) (\<lambda>gcm.
      and_then (map_err (\<lambda>_. General ''wc_AesGcmSetKey failed'') (gcm_init w gcm (tc_key self))) (\<lambda>gcm.
      and_then (map_err (\<lambda>_. General ''wc_AesGcmDecrypt failed'')
          (gcm_decrypt w gcm ciphertext plaintext nonce aad auth_tag)) (\<lambda>plaintext.
      and_then (copy_into_range payload 0 message_len plaintext) (\<lambda>payload.
      let payload = vec_truncate message_len payload in
      map_err (\<lambda>e. e) (of_result (into_tls13_unpadded_message rl (m\<lparr>io_payload := payload\<rparr>))))))))))))"

section \<open>The two files agree\<close>

lemma aes256_tls12_encrypt_eq: "aes256_tls12_encrypt = aes128_tls12_encrypt"
  by (intro ext) (simp add: aes256_tls12_encrypt_def aes128_tls12_encrypt_def)

lemma aes256_tls12_decrypt_eq: "aes256_tls12_decrypt = aes128_tls12_decrypt"
  by (intro ext) (simp add: aes256_tls12_decrypt_def aes128_tls12_decrypt_def)

lemma aes256_tls13_encrypt_eq: "aes256_tls13_encrypt = aes128_tls13_encrypt"
  by (intro ext) (simp add: aes256_tls13_encrypt_def aes128_tls13_encrypt_def
      aes256_tls13_encrypted_payload_len_def aes128_tls13_encrypted_payload_len_def)

lemma aes256_tls13_decrypt_eq: "aes256_tls13_decrypt = aes128_tls13_decrypt"
  by (intro ext) (simp add: aes256_tls13_decrypt_def aes128_tls13_decrypt_def)

lemma aes256_tls12_factories_eq:
  "aes256_tls12_encrypter = aes128_tls12_encrypter" "aes256_tls12_decrypter = aes128_tls12_decrypter"
  by (intro ext, simp add: aes256_tls12_encrypter_def aes128_tls12_encrypter_def
        aes256_tls12_decrypter_def aes128_tls12_decrypter_def)+

lemma aes256_tls13_factories_eq:
  "aes256_tls13_encrypter = aes128_tls13_encrypter" "aes256_tls13_decrypter = aes128_tls13_decrypter"
  by (intro ext, simp add: aes256_tls13_encrypter_def aes128_tls13_encrypter_def
        aes256_tls13_decrypter_def aes128_tls13_decrypter_def)+

lemma aes256_payload_len_eq:
  "aes256_tls12_encrypted_payload_len = aes128_tls12_encrypted_payload_len"
  "aes256_tls13_encrypted_payload_len = aes128_tls13_encrypted_payload_len"
  by (intro ext, simp add: aes256_tls12_encrypted_payload_len_def aes128_tls12_encrypted_payload_len_def
        aes256_tls13_encrypted_payload_len_def aes128_tls13_encrypted_payload_len_def)+

lemmas aes256_eqs = aes256_tls12_encrypt_eq aes256_tls12_decrypt_eq aes256_tls13_encrypt_eq
  aes256_tls13_decrypt_eq aes256_tls12_factories_eq aes256_tls13_factories_eq aes256_payload_len_eq

interpretation aes256_12: record_protection gcm_lib_ok
  "\<lambda>(rl, w). aes256_tls12_encrypt rl w" "\<lambda>(rl, w). aes256_tls12_decrypt rl w"
  aes256_tls12_encrypted_payload_len 24 gcm12_paired "\<lambda>_ _. True"
  unfolding aes256_eqs by (rule aes128_12.record_protection_axioms)

interpretation aes256_13: record_protection gcm_lib_ok
  "\<lambda>(rl, w). aes256_tls13_encrypt rl w" "\<lambda>(rl, w). aes256_tls13_decrypt rl w"
  aes256_tls13_encrypted_payload_len 16 gcm13_paired "\<lambda>_. sendable13"
  unfolding aes256_eqs by (rule aes128_13.record_protection_axioms)

section \<open>Properties\<close>

text \<open>C38. Whatever arrives, the AES-256-GCM decrypters stay in control: neither of them panics;
  records too short for their tag (and explicit nonce, in TLS 1.2) are refused as \<open>DecryptError\<close>
  before the foreign library is called; and an accepted record is the AEAD's encryption of what
  is returned, under the key, nonce and associated data of its position.\<close>

theorem aes256_decrypt_sound:
  assumes "rustls_cipher_ok rl" and "gcm_sound w keyed seal"
    and "length (td_implicit_iv d) = 4" and "length (tc_iv d') = 12"
  shows "no_panic (aes256_tls12_decrypt rl w d im seq)
    \<and> (length (io_payload im) < 24 \<longrightarrow> aes256_tls12_decrypt rl w d im seq = err DecryptError)
    \<and> ensures (aes256_tls12_decrypt rl w d im seq)
        (gcm12_accepts rl seal (td_key d) (td_implicit_iv d) im seq)
    \<and> no_panic (aes256_tls13_decrypt rl w d' im seq)
    \<and> (length (io_payload im) < 16 \<longrightarrow> aes256_tls13_decrypt rl w d' im seq = err DecryptError)
    \<and> ensures (aes256_tls13_decrypt rl w d' im seq)
        (tls13_accepts rl seal (tc_key d') (tc_iv d') im seq)"
  using aes128_tls12_decrypt_no_panic [OF assms(2,3)] aes128_tls12_decrypt_ensures [OF assms(1-3)]
    aes128_tls13_decrypt_no_panic [OF assms(1,2,4)] aes128_tls13_decrypt_ensures [OF assms(1,2,4)]
    aes256_12.decrypt_short [where w = "(rl, w)"] aes256_13.decrypt_short [where w = "(rl, w)"]
  by (simp add: aes256_eqs)

theorem aes256_decrypt_sound_witness:
  "no_panic (aes256_tls12_decrypt demo_rustls (demo_gcm :: unit wolf_gcm)
       \<lparr>td_implicit_iv = zeros 4, td_key = zeros 32\<rparr>
       \<lparr>io_typ = Alert, io_version = TLSv1_2, io_payload = replicate 30 3\<rparr> 7)"
  by (rule aes256_decrypt_sound [where d' = "\<lparr>tc_key = zeros 32, tc_iv = zeros 12\<rparr>",
        OF demo_rustls_ok demo_gcm_laws(1), THEN conjunct1]) simp_all

end
