(* ===== verification/Chacha20.thy ===== *)
theory Chacha20
  imports AeadDemo
begin

text \<open>
  \<open>src/aead/chacha20.rs\<close>: ChaCha20-Poly1305 record protection for TLS 1.2 and TLS 1.3.  Its two
  structs \<open>WCTls12Cipher\<close> and \<open>WCTls13Cipher\<close> are both encrypter and decrypter.
\<close>

section \<open>The code\<close>

definition CHACHAPOLY1305_OVERHEAD :: usize where "CHACHAPOLY1305_OVERHEAD = 16"

text \<open>\<open>rustls::crypto::cipher::NONCE_LEN\<close>, the length of a TLS nonce.\<close>

definition NONCE_LEN :: usize where "NONCE_LEN = 12"

record ChachaTls12Cipher =
  c12_key :: bytes
  c12_iv :: Iv

record ChachaTls13Cipher =
  c13_key :: bytes
  c13_iv :: Iv

text \<open>\<open>impl Tls12AeadAlgorithm for Chacha20Poly1305\<close>.\<close>

definition chacha_tls12_encrypter ::
    "rustls_cipher \<Rightarrow> AeadKey \<Rightarrow> bytes \<Rightarrow> bytes \<Rightarrow> ('s, 'e, ChachaTls12Cipher) rust" where
  "chacha_tls12_encrypter rl key iv extra =
     (let key_as_vec = zeros 32 in
      and_then (copy_from_slice key_as_vec key) (\<lambda>key_as_vec.
      and_then (some_or_panic (iv_copy rl iv) ''Iv::copy'') (\<lambda>iv.
      ok \<lparr>c12_key = key_as_vec, c12_iv = iv\<rparr>)))"

definition chacha_tls12_decrypter ::
    "rustls_cipher \<Rightarrow> AeadKey \<Rightarrow> bytes \<Rightarrow> ('s, 'e, ChachaTls12Cipher) rust" where
  "chacha_tls12_decrypter rl key iv =
     (let key_as_vec = zeros 32 in
      and_then (copy_from_slice key_as_vec key) (\<lambda>key_as_vec.
      and_then (some_or_panic (iv_copy rl iv) ''Iv::copy'') (\<lambda>iv.
      ok \<lparr>c12_key = key_as_vec, c12_iv = iv\<rparr>)))"

definition chacha_key_block_shape :: KeyBlockShape where
  "chacha_key_block_shape = \<lparr>enc_key_len = 32, fixed_iv_len = 12, explicit_nonce_len = 0\<rparr>"

definition chacha_tls12_extract_keys ::
    "AeadKey \<Rightarrow> bytes \<Rightarrow> bytes \<Rightarrow>
     ('s, UnsupportedOperationError, ConnectionTrafficSecrets) rust" where
  "chacha_tls12_extract_keys key iv explicit =
     and_then (map_err (\<lambda>_. UnsupportedOperationError) (of_result (try_into_array NONCE_LEN iv)))
       (\<lambda>iv_array. ok (SecretsChacha20Poly1305 key iv_array))"

text \<open>\<open>impl MessageEncrypter for WCTls12Cipher\<close> and \<open>impl MessageDecrypter for
  WCTls12Cipher\<close>.\<close>

definition chacha_tls12_encrypted_payload_len :: "ChachaTls12Cipher \<Rightarrow> usize \<Rightarrow> usize" where
  "chacha_tls12_encrypted_payload_len self payload_len = payload_len + CHACHAPOLY1305_OVERHEAD"

definition chacha_tls12_encrypt ::
    "rustls_cipher \<Rightarrow> 's wolf_chacha \<Rightarrow> ChachaTls12Cipher \<Rightarrow> OutboundPlainMessage \<Rightarrow> u64 \<Rightarrow>
     ('s, rustls_error, OutboundOpaqueMessage) rust" where
  "chacha_tls12_encrypt rl w self m seq =
     (let payload = [];
          payload = payload @ chunks_bytes (pm_payload m);
          nonce = nonce_new rl (c12_iv self) seq;
          aad = make_tls12_aad rl seq (pm_typ m) (pm_version m) (chunks_len (pm_payload m)) in
      and_then (slice_to payload (chunks_len (pm_payload m))) (\<lambda>plaintext.
      let encrypted = zeros (chunks_len (pm_payload m));
          auth_tag = zeros CHACHAPOLY1305_OVERHEAD in
      and_then (map_err (\<lambda>_. General ''wc_ChaCha20Poly1305_Encrypt failed'')
          (chacha_encrypt w (c12_key self) nonce aad plaintext encrypted auth_tag))
        (\<lambda>(encrypted, auth_tag).
      let output = [];
          output = output @ encrypted;
          output = output @ auth_tag in
      ok \<lparr>oo_typ = pm_typ m, oo_version = pm_version m, oo_payload = output\<rparr>)))"

definition chacha_tls12_decrypt ::
    "rustls_cipher \<Rightarrow> 's wolf_chacha \<Rightarrow> ChachaTls12Cipher \<Rightarrow> InboundOpaqueMessage \<Rightarrow> u64 \<Rightarrow>
     ('s, rustls_error, InboundPlainMessage) rust" where
  "chacha_tls12_decrypt rl w self m seq =
     (let payload = io_payload m in
      if length payload < CHACHAPOLY1305_OVERHEAD then err DecryptError
      else
      and_then (usize_sub (length payload) CHACHAPOLY1305_OVERHEAD) (\<lambda>message_len.
      let nonce = nonce_new rl (c12_iv self) seq;
          aad = make_tls12_aad rl seq (io_typ m) (io_version m) message_len;
          auth_tag = zeros CHACHAPOLY1305_OVERHEAD in
      and_then (slice_from payload message_len) (\<lambda>tag.
      and_then (copy_from_slice auth_tag tag) (\<lambda>auth_tag.
      and_then (slice_to payload message_len) (\<lambda>ciphertext.
      let plaintext = zeros message_len in
      and_then (map_err (\<lambda>_. General ''wc_ChaCha20Poly1305_Decrypt failed'')
          (chacha_decrypt w (c12_key self) nonce aad ciphertext auth_tag plaintext)) (\<lambda>plaintext.
      and_then (copy_into_range payload 0 message_len plaintext) (\<lambda>payload.
      let payload = vec_truncate message_len payload in
      ok (into_plain_message rl (m\<lparr>io_payload := payload\<rparr>)))))))))"

text \<open>\<open>impl Tls13AeadAlgorithm for Chacha20Poly1305\<close>.\<close>

definition chacha_tls13_encrypter :: "AeadKey \<Rightarrow> Iv \<Rightarrow> ('s, 'e, ChachaTls13Cipher) rust" where
  "chacha_tls13_encrypter key iv =
     (let key_as_array = zeros 32 in
      and_then (copy_into_range key_as_array 0 32 key) (\<lambda>key_as_array.
      ok \<lparr>c13_key = key_as_array, c13_iv = iv\<rparr>))"

definition chacha_tls13_decrypter :: "AeadKey \<Rightarrow> Iv \<Rightarrow> ('s, 'e, ChachaTls13Cipher) rust" where
  "chacha_tls13_decrypter key iv =
     (let key_as_array = zeros 32 in
      and_then (copy_into_range key_as_array 0 32 key) (\<lambda>key_as_array.
      ok \<lparr>c13_key = key_as_array, c13_iv = iv\<rparr>))"

definition chacha_key_len :: "'s wolf_chacha \<Rightarrow> usize" where
  "chacha_key_len w = chacha_keysize w"

definition chacha_tls13_extract_keys ::
    "AeadKey \<Rightarrow> Iv \<Rightarrow> UnsupportedOperationError + ConnectionTrafficSecrets" where
  "chacha_tls13_extract_keys key iv = Inr (SecretsChacha20Poly1305 key iv)"

text \<open>\<open>impl MessageEncrypter for WCTls13Cipher\<close> and \<open>impl MessageDecrypter for
  WCTls13Cipher\<close>.\<close>

definition chacha_tls13_encrypted_payload_len :: "ChachaTls13Cipher \<Rightarrow> usize \<Rightarrow> usize" where
  "chacha_tls13_encrypted_payload_len self payload_len = payload_len + 1 + CHACHAPOLY1305_OVERHEAD"

definition chacha_tls13_encrypt ::
    "rustls_cipher \<Rightarrow> 's wolf_chacha \<Rightarrow> ChachaTls13Cipher \<Rightarrow> OutboundPlainMessage \<Rightarrow> u64 \<Rightarrow>
     ('s, rustls_error, OutboundOpaqueMessage) rust" where
  "chacha_tls13_encrypt rl w self m seq =
     (let total_len = chacha_tls13_encrypted_payload_len self (chunks_len (pm_payload m));
          payload = [];
          payload = payload @ chunks_bytes (pm_payload m);
          payload = payload @ typ_to_array rl (pm_typ m);
          nonce = nonce_new rl (c13_iv self) seq;
          aad = make_tls13_aad rl total_len;
          auth_tag = zeros CHACHAPOLY1305_OVERHEAD;
          plaintext_len = chunks_len (pm_payload m) + 1 in
      and_then (slice_to payload plaintext_len) (\<lambda>plaintext.
      let encrypted = zeros plaintext_len in
      and_then (map_err (\<lambda>_. General ''wc_ChaCha20Poly1305_Encrypt failed'')
          (chacha_encrypt w (c13_key self) nonce aad plaintext encrypted auth_tag))
        (\<lambda>(encrypted, auth_tag).
      and_then (copy_into_range payload 0 plaintext_len encrypted) (\<lambda>payload.
      let payload = payload @ auth_tag in
      ok \<lparr>oo_typ = ApplicationData, oo_version = TLSv1_2, oo_payload = payload\<rparr>))))"

definition chacha_tls13_decrypt ::
    "rustls_cipher \<Rightarrow> 's wolf_chacha \<Rightarrow> ChachaTls13Cipher \<Rightarrow> InboundOpaqueMessage \<Rightarrow> u64 \<Rightarrow>
     ('s, rustls_error, InboundPlainMessage) rust" where
  "chacha_tls13_decrypt rl w self m seq =
     (let payload = io_payload m in
      if length payload < CHACHAPOLY1305_OVERHEAD then err DecryptError
      else
      let nonce = nonce_new rl (c13_iv self) seq;
          aad = make_tls13_aad rl (length payload);
          auth_tag = zeros CHACHAPOLY1305_OVERHEAD in
      and_then (usize_sub (length payload) CHACHAPOLY1305_OVERHEAD) (\<lambda>message_len.
      and_then (slice_from payload message_len) (\<lambda>tag.
      and_then (copy_from_slice auth_tag tag) (\<lambda>auth_tag.
      and_then (slice_to payload message_len) (\<lambda>ciphertext.
      let plaintext = zeros message_len in
      and_then (map_err (\<lambda>_. General ''wc_ChaCha20Poly1305_Decrypt failed'')
          (chacha_decrypt w (c13_key self) nonce aad ciphertext auth_tag plaintext)) (\<lambda>plaintext.
      and_then (copy_into_range payload 0 message_len plaintext) (\<lambda>payload.
      let payload = vec_truncate message_len payload in
      map_err (\<lambda>e. e) (of_result (into_tls13_unpadded_message rl (m\<lparr>io_payload := payload\<rparr>))))))))))"

section \<open>What each function does\<close>

lemmas chacha_consts = CHACHAPOLY1305_OVERHEAD_def NONCE_LEN_def

lemma chacha_seal_lengths:
  assumes w: "chacha_live w seal" and len: "length k = 32" "length n = 12"
    and eq: "seal k n a p = (c, t)"
  shows "length c = length p" "length t = 16"
proof -
  have "ffi_yields (chacha_encrypt w k n a p (zeros (length p)) (zeros 16))
          (\<lambda>(c', t'). length c' = length (zeros (length p)) \<and> length t' = length (zeros 16)
             \<and> seal k n a p = (c', t'))"
    by (rule chacha_liveD(2) [OF w len(1)]) (simp_all add: len)
  then show "length c = length p" "length t = 16" using eq by (auto simp: ffi_yields_def)
qed

definition chacha12_wire :: "rustls_cipher \<Rightarrow> aead_fun \<Rightarrow> bytes \<Rightarrow> Iv \<Rightarrow> OutboundPlainMessage \<Rightarrow> u64 \<Rightarrow> bytes" where
  "chacha12_wire rl seal key iv m seq =
     (let (c, t) = seal key (xor_nonce iv seq)
            (make_tls12_aad rl seq (pm_typ m) (pm_version m) (chunks_len (pm_payload m)))
            (chunks_bytes (pm_payload m))
      in c @ t)"

definition chacha12_accepts ::
    "rustls_cipher \<Rightarrow> aead_fun \<Rightarrow> bytes \<Rightarrow> Iv \<Rightarrow> InboundOpaqueMessage \<Rightarrow> u64 \<Rightarrow>
     InboundPlainMessage \<Rightarrow> bool" where
  "chacha12_accepts rl seal key iv im seq ip \<longleftrightarrow>
     16 \<le> length (io_payload im)
   \<and> ip_typ ip = io_typ im \<and> ip_version ip = io_version im
   \<and> length (ip_payload ip) = length (io_payload im) - 16
   \<and> seal key (xor_nonce iv seq)
       (make_tls12_aad rl seq (io_typ im) (io_version im) (length (io_payload im) - 16))
       (ip_payload ip)
     = (take (length (io_payload im) - 16) (io_payload im),
        drop (length (io_payload im) - 16) (io_payload im))"

lemma chacha_tls12_encrypt_yields:
  assumes rl: "rustls_cipher_ok rl" and w: "chacha_live w seal"
    and e: "length (c12_iv e) = 12" "length (c12_key e) = 32"
  shows "yields (chacha_tls12_encrypt rl w e m seq) (\<lambda>om.
           om = \<lparr>oo_typ = pm_typ m, oo_version = pm_version m,
                 oo_payload = chacha12_wire rl seal (c12_key e) (c12_iv e) m seq\<rparr>)"
  unfolding chacha_tls12_encrypt_def
  by (simp add: chacha_consts Let_def rustls_cipher_okD [OF rl] e)
     (rule yields_and_then [OF yields_map_err [OF chacha_liveD(2) [OF w e(2)]]],
      auto simp: e chacha12_wire_def intro!: yields_ok)

lemma chacha_tls12_decrypt_yields:
  assumes rl: "rustls_cipher_ok rl" and w: "chacha_live w seal"
    and d: "length (c12_iv d) = 12" "length (c12_key d) = 32"
    and pl: "io_payload im = c @ t" "length t = 16"
    and seal: "seal (c12_key d) (xor_nonce (c12_iv d) seq)
                 (make_tls12_aad rl seq (io_typ im) (io_version im) (length c)) p = (c, t)"
  shows "yields (chacha_tls12_decrypt rl w d im seq) (\<lambda>ip.
           ip = \<lparr>ip_typ = io_typ im, ip_version = io_version im, ip_payload = p\<rparr>)"
proof -
  have "length p = length c" using chacha_seal_lengths [OF w d(2) _ seal] d by simp
  then show ?thesis
    unfolding chacha_tls12_decrypt_def
    by (simp add: chacha_consts Let_def d pl rustls_cipher_okD [OF rl])
       (rule yields_and_then [OF yields_map_err [OF chacha_liveD(3) [OF w d(2) _ _ _ seal]]],
        auto simp: d pl vec_truncate_def intro!: yields_ok)
qed

lemma chacha_tls12_decrypt_ensures:
  assumes rl: "rustls_cipher_ok rl" and w: "chacha_sound w seal" and iv: "length (c12_iv d) = 12"
  shows "ensures (chacha_tls12_decrypt rl w d im seq)
           (chacha12_accepts rl seal (c12_key d) (c12_iv d) im seq)"
proof (cases "length (io_payload im) < 16")
  case True
  then show ?thesis by (simp add: chacha_tls12_decrypt_def chacha_consts ensures_err)
next
  case False
  then show ?thesis
    unfolding chacha_tls12_decrypt_def
    by (simp add: chacha_consts Let_def iv rustls_cipher_okD [OF rl])
       (rule ensures_and_then [OF ensures_map_err [OF chacha_soundD(2) [OF w]]],
        auto simp: iv vec_truncate_def chacha12_accepts_def intro!: ensures_ok)
qed

lemma chacha_tls12_decrypt_no_panic:
  assumes rl: "rustls_cipher_ok rl" and w: "chacha_sound w seal" and iv: "length (c12_iv d) = 12"
  shows "no_panic (chacha_tls12_decrypt rl w d im seq)"
proof (cases "length (io_payload im) < 16")
  case True
  then show ?thesis by (simp add: chacha_tls12_decrypt_def chacha_consts no_panic_err)
next
  case False
  then show ?thesis
    unfolding chacha_tls12_decrypt_def
    by (simp add: chacha_consts Let_def iv rustls_cipher_okD [OF rl])
       (rule no_panic_and_then [OF no_panic_map_err ensures_map_err [OF chacha_soundD(2) [OF w]]],
        auto simp: iv intro!: no_panic_ok)
qed

lemma chacha_tls13_encrypt_yields:
  assumes rl: "rustls_cipher_ok rl" and w: "chacha_live w seal"
    and e: "length (c13_iv e) = 12" "length (c13_key e) = 32"
  shows "yields (chacha_tls13_encrypt rl w e m seq) (\<lambda>om.
           om = \<lparr>oo_typ = ApplicationData, oo_version = TLSv1_2,
                 oo_payload = tls13_wire rl seal (c13_key e) (c13_iv e) m seq\<rparr>)"
  unfolding chacha_tls13_encrypt_def
  by (simp add: chacha_consts Let_def rustls_cipher_okD [OF rl] e chacha_tls13_encrypted_payload_len_def)
     (rule yields_and_then [OF yields_map_err [OF chacha_liveD(2) [OF w e(2)]]],
      auto simp: e tls13_wire_def rustls_cipher_okD [OF rl] intro!: yields_ok)

lemma chacha_tls13_decrypt_yields:
  assumes rl: "rustls_cipher_ok rl" and w: "chacha_live w seal"
    and d: "length (c13_iv d) = 12" "length (c13_key d) = 32"
    and pl: "io_payload im = c @ t" "length t = 16"
    and seal: "seal (c13_key d) (xor_nonce (c13_iv d) seq) (make_tls13_aad rl (length c + 16)) inner = (c, t)"
    and unpad: "into_tls13_unpadded_message rl (im\<lparr>io_payload := inner\<rparr>) = Inr ip"
  shows "yields (chacha_tls13_decrypt rl w d im seq) (\<lambda>ip'. ip' = ip)"
proof -
  have "length inner = length c" using chacha_seal_lengths [OF w d(2) _ seal] d by simp
  then show ?thesis
    unfolding chacha_tls13_decrypt_def
    by (simp add: chacha_consts Let_def d pl rustls_cipher_okD [OF rl])
       (rule yields_and_then [OF yields_map_err [OF chacha_liveD(3) [OF w d(2) _ _ _ seal]]],
        auto simp: d pl vec_truncate_def unpad intro!: yields_ok)
qed

lemma chacha_tls13_decrypt_ensures:
  assumes rl: "rustls_cipher_ok rl" and w: "chacha_sound w seal" and iv: "length (c13_iv d) = 12"
  shows "ensures (chacha_tls13_decrypt rl w d im seq)
           (tls13_accepts rl seal (c13_key d) (c13_iv d) im seq)"
proof (cases "length (io_payload im) < 16")
  case True
  then show ?thesis by (simp add: chacha_tls13_decrypt_def chacha_consts ensures_err)
next
  case False
  then show ?thesis
    unfolding chacha_tls13_decrypt_def
    by (simp add: chacha_consts Let_def iv rustls_cipher_okD [OF rl])
       (rule ensures_and_then [OF ensures_map_err [OF chacha_soundD(2) [OF w]]],
        auto simp: iv vec_truncate_def tls13_accepts_def intro!: ensures_map_err)
qed

lemma chacha_tls13_decrypt_no_panic:
  assumes rl: "rustls_cipher_ok rl" and w: "chacha_sound w seal" and iv: "length (c13_iv d) = 12"
  shows "no_panic (chacha_tls13_decrypt rl w d im seq)"
proof (cases "length (io_payload im) < 16")
  case True
  then show ?thesis by (simp add: chacha_tls13_decrypt_def chacha_consts no_panic_err)
next
  case False
  then show ?thesis
    unfolding chacha_tls13_decrypt_def
    by (simp add: chacha_consts Let_def iv rustls_cipher_okD [OF rl])
       (rule no_panic_and_then [OF no_panic_map_err ensures_map_err [OF chacha_soundD(2) [OF w]]],
        auto simp: iv intro!: no_panic_map_err)
qed

section \<open>The record layer's contract\<close>

definition chacha_lib_ok :: "rustls_cipher \<times> 's wolf_chacha \<Rightarrow> bool" where
  "chacha_lib_ok = (\<lambda>(rl, w). rustls_cipher_ok rl \<and> chacha_ok w)"

definition chacha12_paired :: "ChachaTls12Cipher \<Rightarrow> ChachaTls12Cipher \<Rightarrow> bool" where
  "chacha12_paired e d \<longleftrightarrow> d = e \<and> length (c12_iv e) = 12 \<and> length (c12_key e) = 32"

definition chacha13_paired :: "ChachaTls13Cipher \<Rightarrow> ChachaTls13Cipher \<Rightarrow> bool" where
  "chacha13_paired e d \<longleftrightarrow> d = e \<and> length (c13_iv e) = 12 \<and> length (c13_key e) = 32"

lemma chacha_tls12_protects:
  assumes lib: "rustls_cipher_ok rl" "chacha_ok w" and pair: "chacha12_paired e d"
  shows "yields (chacha_tls12_encrypt rl w e m seq) (\<lambda>om.
           length (oo_payload om) = chacha_tls12_encrypted_payload_len e (chunks_len (pm_payload m))
         \<and> yields (chacha_tls12_decrypt rl w d (deliver om) seq) (same_content m))"
proof -
  obtain seal where w: "chacha_live w seal" using lib(2) unfolding chacha_ok_def by blast
  have e: "length (c12_iv e) = 12" "length (c12_key e) = 32" and d: "d = e"
    using pair by (simp_all add: chacha12_paired_def)
  let ?r = "seal (c12_key e) (xor_nonce (c12_iv e) seq)
      (make_tls12_aad rl seq (pm_typ m) (pm_version m) (chunks_len (pm_payload m)))
      (chunks_bytes (pm_payload m))"
  obtain c t where seal: "?r = (c, t)" by fastforce
  have len: "length c = chunks_len (pm_payload m)" "length t = 16"
    using chacha_seal_lengths [OF w e(2) _ seal] e by simp_all
  have wire: "chacha12_wire rl seal (c12_key e) (c12_iv e) m seq = c @ t"
    by (simp add: chacha12_wire_def seal)
  show ?thesis
  proof (rule yields_weaken [OF chacha_tls12_encrypt_yields [OF lib(1) w e]], rule conjI)
    fix om assume om: "om = \<lparr>oo_typ = pm_typ m, oo_version = pm_version m,
        oo_payload = chacha12_wire rl seal (c12_key e) (c12_iv e) m seq\<rparr>"
    show "length (oo_payload om) = chacha_tls12_encrypted_payload_len e (chunks_len (pm_payload m))"
      by (simp add: om wire len chacha_tls12_encrypted_payload_len_def chacha_consts)
    show "yields (chacha_tls12_decrypt rl w d (deliver om) seq) (same_content m)"
      by (rule yields_weaken [OF chacha_tls12_decrypt_yields [OF lib(1) w, where c = c and t = t
              and p = "chunks_bytes (pm_payload m)"]])
         (simp_all add: om d e wire len seal same_content_def)
  qed
qed

lemma chacha_tls13_protects:
  assumes lib: "rustls_cipher_ok rl" "chacha_ok w" and pair: "chacha13_paired e d"
    and m: "sendable13 m"
  shows "yields (chacha_tls13_encrypt rl w e m seq) (\<lambda>om.
           length (oo_payload om) = chacha_tls13_encrypted_payload_len e (chunks_len (pm_payload m))
         \<and> yields (chacha_tls13_decrypt rl w d (deliver om) seq) (same_content m))"
proof -
  obtain seal where w: "chacha_live w seal" using lib(2) unfolding chacha_ok_def by blast
  have e: "length (c13_iv e) = 12" "length (c13_key e) = 32" and d: "d = e"
    using pair by (simp_all add: chacha13_paired_def)
  let ?inner = "chunks_bytes (pm_payload m) @ typ_to_array rl (pm_typ m)"
  obtain c t where seal: "seal (c13_key e) (xor_nonce (c13_iv e) seq)
      (make_tls13_aad rl (17 + chunks_len (pm_payload m))) ?inner = (c, t)" by fastforce
  have len: "length c = chunks_len (pm_payload m) + 1" "length t = 16"
    using chacha_seal_lengths [OF w e(2) _ seal] e by (simp_all add: rustls_cipher_okD(2) [OF lib(1)])
  have wire: "tls13_wire rl seal (c13_key e) (c13_iv e) m seq = c @ t"
    by (simp add: tls13_wire_def seal)
  show ?thesis
  proof (rule yields_weaken [OF chacha_tls13_encrypt_yields [OF lib(1) w e]], rule conjI)
    fix om assume om: "om = \<lparr>oo_typ = ApplicationData, oo_version = TLSv1_2,
        oo_payload = tls13_wire rl seal (c13_key e) (c13_iv e) m seq\<rparr>"
    show "length (oo_payload om) = chacha_tls13_encrypted_payload_len e (chunks_len (pm_payload m))"
      by (simp add: om wire len chacha_tls13_encrypted_payload_len_def chacha_consts)
    obtain ip where ip: "into_tls13_unpadded_message rl ((deliver om)\<lparr>io_payload := ?inner\<rparr>) = Inr ip"
      "same_content m ip" by (rule unpad_sent [OF lib(1) m])
    show "yields (chacha_tls13_decrypt rl w d (deliver om) seq) (same_content m)"
      by (rule yields_weaken [OF chacha_tls13_decrypt_yields [OF lib(1) w _ _ _ _ _ ip(1), where
              c = c and t = t]])
         (use ip(2) in \<open>simp_all add: om d e wire len seal\<close>)
  qed
qed

lemma chacha_tls12_exact:
  assumes lib: "rustls_cipher_ok rl" "chacha_ok w" and pair: "chacha12_paired e d"
    and dec: "chacha_tls12_decrypt rl w d im seq s = (Ok ip, s')"
  shows "yields (chacha_tls12_encrypt rl w e (resend ip) seq) (\<lambda>om. deliver om = im)"
proof -
  obtain seal where w: "chacha_sound w seal" "chacha_live w seal" using lib(2) unfolding chacha_ok_def by blast
  have e: "length (c12_iv e) = 12" "length (c12_key e) = 32" and d: "d = e"
    using pair by (simp_all add: chacha12_paired_def)
  have acc: "chacha12_accepts rl seal (c12_key e) (c12_iv e) im seq ip"
    using ensuresD [OF chacha_tls12_decrypt_ensures [OF lib(1) w(1)] dec] d e by simp
  show ?thesis
    by (rule yields_weaken [OF chacha_tls12_encrypt_yields [OF lib(1) w(2) e]])
       (use acc in \<open>auto simp: chacha12_accepts_def chacha12_wire_def deliver_def chunks_bytes_def
          chunks_len_def resend_def\<close>)
qed

interpretation chacha_12: exact_protection chacha_lib_ok
  "\<lambda>(rl, w). chacha_tls12_encrypt rl w" "\<lambda>(rl, w). chacha_tls12_decrypt rl w"
  chacha_tls12_encrypted_payload_len 16 chacha12_paired "\<lambda>_ _. True"
proof (unfold_locales, goal_cases)
  case (1 w e d m seq)
  then show ?case by (cases w) (simp add: chacha_lib_ok_def chacha_tls12_protects)
next
  case (2 w e d im seq)
  then show ?case
    by (cases w) (auto simp: chacha_lib_ok_def chacha_ok_def chacha12_paired_def
        intro!: chacha_tls12_decrypt_no_panic)
next
  case (3 im w d seq)
  then show ?case by (cases w) (simp add: chacha_tls12_decrypt_def chacha_consts)
next
  case (4 w e d im seq s ip s')
  then show ?case by (cases w) (simp add: chacha_lib_ok_def chacha_tls12_exact)
qed

interpretation chacha_13: record_protection chacha_lib_ok
  "\<lambda>(rl, w). chacha_tls13_encrypt rl w" "\<lambda>(rl, w). chacha_tls13_decrypt rl w"
  chacha_tls13_encrypted_payload_len 16 chacha13_paired "\<lambda>_. sendable13"
proof (unfold_locales, goal_cases)
  case (1 w e d m seq)
  then show ?case by (cases w) (simp add: chacha_lib_ok_def chacha_tls13_protects)
next
  case (2 w e d im seq)
  then show ?case
    by (cases w) (auto simp: chacha_lib_ok_def chacha_ok_def chacha13_paired_def
        intro!: chacha_tls13_decrypt_no_panic)
next
  case (3 im w d seq)
  then show ?case by (cases w) (simp add: chacha_tls13_decrypt_def chacha_consts)
qed

lemma chacha_tls12_factories_eq:
  assumes "rustls_cipher_ok rl" "length key = 32" "length iv = 12"
  shows "chacha_tls12_encrypter rl key iv extra = ok \<lparr>c12_key = key, c12_iv = iv\<rparr>"
    and "chacha_tls12_decrypter rl key iv = ok \<lparr>c12_key = key, c12_iv = iv\<rparr>"
  using assms
  by (simp_all add: chacha_tls12_encrypter_def chacha_tls12_decrypter_def Let_def
      rustls_cipher_okD(3) [OF assms(1)])

lemma chacha_tls13_factories_eq:
  assumes "length key = 32"
  shows "chacha_tls13_encrypter key iv = ok \<lparr>c13_key = key, c13_iv = iv\<rparr>"
    and "chacha_tls13_decrypter key iv = ok \<lparr>c13_key = key, c13_iv = iv\<rparr>"
  using assms by (simp_all add: chacha_tls13_encrypter_def chacha_tls13_decrypter_def Let_def zeros_def)

section \<open>Properties\<close>

text \<open>C19. A TLS 1.2 ChaCha20-Poly1305 receiver accepts nothing but what its peer's cipher sends.
  Whatever records arrive, in whatever order, if they are all accepted then sending the returned
  messages under the same sequence numbers, with the encrypter made from the same key material,
  gives exactly these records: type, version and bytes.\<close>

theorem chacha_tls12_accepts_only_sent:
  assumes "rustls_cipher_ok rl" and "chacha_ok w"
    and "length key = enc_key_len chacha_key_block_shape"
    and "length iv = fixed_iv_len chacha_key_block_shape"
    and "and_then (chacha_tls12_decrypter rl key iv) (\<lambda>d. recv_all (chacha_tls12_decrypt rl w d) ims seq) s
         = (Ok ips, s')"
  shows "yields (and_then (chacha_tls12_encrypter rl key iv extra)
             (\<lambda>e. send_all (chacha_tls12_encrypt rl w e) (map resend ips) seq))
           (\<lambda>oms. map deliver oms = ims)"
proof -
  have len: "length key = 32" "length iv = 12"
    using assms(3,4) by (simp_all add: chacha_key_block_shape_def)
  have lib: "chacha_lib_ok (rl, w)" using assms(1,2) by (simp add: chacha_lib_ok_def)
  have pair: "chacha12_paired \<lparr>c12_key = key, c12_iv = iv\<rparr> \<lparr>c12_key = key, c12_iv = iv\<rparr>"
    by (simp add: chacha12_paired_def len)
  show ?thesis
    using chacha_12.session_accepts_only_sent [OF lib pair, of ims seq s ips s'] assms(5)
    by (simp add: chacha_tls12_factories_eq [OF assms(1) len])
qed

theorem chacha_tls12_accepts_only_sent_witness:
  "\<exists>ims ips. ips \<noteq> [] \<and>
     and_then (chacha_tls12_decrypter demo_rustls (zeros 32) (zeros 12))
       (\<lambda>d. recv_all (chacha_tls12_decrypt demo_rustls (demo_chacha :: unit wolf_chacha) d) ims 4) ()
       = (Ok ips, ())
     \<and> yields (and_then (chacha_tls12_encrypter demo_rustls (zeros 32) (zeros 12) [])
          (\<lambda>e. send_all (chacha_tls12_encrypt demo_rustls (demo_chacha :: unit wolf_chacha) e) (map resend ips) 4))
        (\<lambda>oms. map deliver oms = ims)"
proof -
  let ?d = "\<lparr>c12_key = zeros 32, c12_iv = zeros 12\<rparr>"
  let ?ms = "[\<lparr>pm_typ = Alert, pm_version = TLSv1_2, pm_payload = [[1, 2]]\<rparr>]"
  have lib: "chacha_lib_ok (demo_rustls, demo_chacha :: unit wolf_chacha)"
    by (simp add: chacha_lib_ok_def demo_rustls_ok demo_chacha_ok)
  have pair: "chacha12_paired ?d ?d" by (simp add: chacha12_paired_def)
  obtain oms where "yields (recv_all (chacha_tls12_decrypt demo_rustls (demo_chacha :: unit wolf_chacha) ?d)
      (map deliver oms) 4) (list_all2 same_content ?ms)"
    using yields_unit [OF chacha_12.session_ends_agree [OF lib pair, of ?ms 4]] by auto
  then obtain ips where ips: "recv_all (chacha_tls12_decrypt demo_rustls (demo_chacha :: unit wolf_chacha) ?d)
      (map deliver oms) 4 () = (Ok ips, ())" "list_all2 same_content ?ms ips"
    using yields_unit by blast
  have dec: "and_then (chacha_tls12_decrypter demo_rustls (zeros 32) (zeros 12))
       (\<lambda>d. recv_all (chacha_tls12_decrypt demo_rustls (demo_chacha :: unit wolf_chacha) d) (map deliver oms) 4) ()
       = (Ok ips, ())"
    using ips(1) by (simp add: chacha_tls12_factories_eq [OF demo_rustls_ok])
  have "ips \<noteq> []" using ips(2) by auto
  moreover from chacha_tls12_accepts_only_sent [OF demo_rustls_ok demo_chacha_ok _ _ dec, of "[]"]
  have "yields (and_then (chacha_tls12_encrypter demo_rustls (zeros 32) (zeros 12) [])
          (\<lambda>e. send_all (chacha_tls12_encrypt demo_rustls (demo_chacha :: unit wolf_chacha) e) (map resend ips) 4))
        (\<lambda>oms'. map deliver oms' = map deliver oms)"
    by (simp add: chacha_key_block_shape_def)
  ultimately show ?thesis using dec by blast
qed

text \<open>C34. Whatever arrives, both ChaCha20-Poly1305 decrypters return: they never panic; a record
  shorter than a tag is refused as \<open>DecryptError\<close> before the foreign library is called; and an
  accepted record is the AEAD's encryption of what is returned, under the key, nonce and associated
  data of its position.\<close>

theorem chacha_decrypt_total:
  assumes "rustls_cipher_ok rl" and "chacha_sound w seal"
    and "length (c12_iv d) = 12" and "length (c13_iv d') = 12"
  shows "no_panic (chacha_tls12_decrypt rl w d im seq)
    \<and> no_panic (chacha_tls13_decrypt rl w d' im seq)
    \<and> (length (io_payload im) < 16 \<longrightarrow>
         chacha_tls12_decrypt rl w d im seq = err DecryptError
       \<and> chacha_tls13_decrypt rl w d' im seq = err DecryptError)
    \<and> ensures (chacha_tls12_decrypt rl w d im seq)
        (chacha12_accepts rl seal (c12_key d) (c12_iv d) im seq)
    \<and> ensures (chacha_tls13_decrypt rl w d' im seq)
        (tls13_accepts rl seal (c13_key d') (c13_iv d') im seq)"
  using chacha_tls12_decrypt_no_panic [OF assms(1-3)] chacha_tls13_decrypt_no_panic [OF assms(1,2,4)]
    chacha_tls12_decrypt_ensures [OF assms(1-3)] chacha_tls13_decrypt_ensures [OF assms(1,2,4)]
  by (auto simp: chacha_tls12_decrypt_def chacha_tls13_decrypt_def chacha_consts)

theorem chacha_decrypt_total_witness:
  "no_panic (chacha_tls12_decrypt demo_rustls (demo_chacha :: unit wolf_chacha)
       \<lparr>c12_key = zeros 32, c12_iv = zeros 12\<rparr>
       \<lparr>io_typ = Alert, io_version = TLSv1_2, io_payload = replicate 20 3\<rparr> 7)"
  by (rule chacha_decrypt_total [where d' = "\<lparr>c13_key = zeros 32, c13_iv = zeros 12\<rparr>",
        OF demo_rustls_ok demo_chacha_laws(1), THEN conjunct1]) simp_all

end
