(* ===== verification/WolfSha.thy ===== *)
theory WolfSha
  imports Prelude
begin

text \<open>
  The SHA-2 part of \<open>wolfssl-wolfcrypt\<close>: one parameter record per hash function, with the
  operations of its context type.  The law \<open>sha_ok\<close> says that a context has been fed some bytes,
  that \<open>copy\<close> makes an independent context fed the same bytes, and that \<open>finalize\<close> writes the
  digest of the bytes fed.
\<close>

datatype SHA = SHA_ctx bytes

record 's wolf_sha =
  sha_new :: "('s, i32, SHA) ffi"
  sha_update :: "SHA \<Rightarrow> bytes \<Rightarrow> ('s, i32, SHA) ffi"
  sha_copy :: "SHA \<Rightarrow> ('s, i32, SHA) ffi"
  sha_finalize :: "SHA \<Rightarrow> bytes \<Rightarrow> ('s, i32, bytes) ffi"
  sha_digest_size :: usize

definition sha_ok :: "'s wolf_sha \<Rightarrow> (SHA \<Rightarrow> bytes \<Rightarrow> bool) \<Rightarrow> (bytes \<Rightarrow> bytes) \<Rightarrow> bool" where
  "sha_ok w fed digest \<longleftrightarrow>
     ffi_yields (sha_new w) (\<lambda>c. fed c [])
   \<and> (\<forall>c d x. fed c d \<longrightarrow> ffi_yields (sha_update w c x) (\<lambda>c'. fed c' (d @ x)))
   \<and> (\<forall>c d. fed c d \<longrightarrow> ffi_yields (sha_copy w c) (\<lambda>c'. fed c' d))
   \<and> (\<forall>c d b. fed c d \<longrightarrow> length b = sha_digest_size w \<longrightarrow>
        ffi_yields (sha_finalize w c b) (\<lambda>h. h = digest d))
   \<and> (\<forall>d. length (digest d) = sha_digest_size w)"

lemma sha_okD:
  assumes "sha_ok w fed digest"
  shows "ffi_yields (sha_new w) (\<lambda>c. fed c [])"
    and "fed c d \<Longrightarrow> ffi_yields (sha_update w c x) (\<lambda>c'. fed c' (d @ x))"
    and "fed c d \<Longrightarrow> ffi_yields (sha_copy w c) (\<lambda>c'. fed c' d)"
    and "fed c d \<Longrightarrow> length b = sha_digest_size w \<Longrightarrow>
         ffi_yields (sha_finalize w c b) (\<lambda>h. h = digest d)"
    and "length (digest d) = sha_digest_size w"
  using assms unfolding sha_ok_def by blast+

text \<open>A small instance for witnesses: a context holds the bytes fed so far.\<close>

definition demo_digest :: "usize \<Rightarrow> bytes \<Rightarrow> bytes" where
  "demo_digest n d = take n ([sum_list d, of_nat (length d)] @ d @ zeros n)"

definition demo_sha :: "usize \<Rightarrow> 's wolf_sha" where
  "demo_sha n = \<lparr>
     sha_new = (\<lambda>s. (Inr (SHA_ctx []), s)),
     sha_update = (\<lambda>c x s. case c of SHA_ctx d \<Rightarrow> (Inr (SHA_ctx (d @ x)), s)),
     sha_copy = (\<lambda>c s. (Inr c, s)),
     sha_finalize = (\<lambda>c b s. case c of SHA_ctx d \<Rightarrow> (Inr (demo_digest n d), s)),
     sha_digest_size = n\<rparr>"

lemma demo_sha_ok: "sha_ok (demo_sha n) (\<lambda>c d. c = SHA_ctx d) (demo_digest n)"
  by (simp add: sha_ok_def demo_sha_def ffi_yields_def demo_digest_def)

end
