(* ===== verification/HashContext.thy ===== *)
theory HashContext
  imports Prelude
begin

text \<open>
  The interface \<open>rustls::crypto::hash::Context\<close>: a running hash that can be updated, forked and
  finished.  The locale states the contract of one context; its lemmas extend it to a family of
  contexts that a client updates and forks in any order.
\<close>

text \<open>A client's operations on its contexts: \<open>Fork i\<close> adds a copy of context \<open>i\<close> at the end.\<close>

datatype hash_op = Update nat bytes | Fork nat

fun run_hash_ops :: "('c \<Rightarrow> bytes \<Rightarrow> ('s, 'e, 'c) rust) \<Rightarrow> ('c \<Rightarrow> ('s, 'e, 'c) rust) \<Rightarrow>
    hash_op list \<Rightarrow> 'c list \<Rightarrow> ('s, 'e, 'c list) rust" where
  "run_hash_ops upd frk [] cs = ok cs"
| "run_hash_ops upd frk (Update i x # ops) cs =
     and_then (index cs i) (\<lambda>c. and_then (upd c x) (\<lambda>c'. run_hash_ops upd frk ops (cs[i := c'])))"
| "run_hash_ops upd frk (Fork i # ops) cs =
     and_then (index cs i) (\<lambda>c. and_then (frk c) (\<lambda>c'. run_hash_ops upd frk ops (cs @ [c'])))"

text \<open>The same operations on transcripts, the abstract contents of the contexts.\<close>

fun run_transcripts :: "hash_op list \<Rightarrow> bytes list \<Rightarrow> bytes list" where
  "run_transcripts [] ts = ts"
| "run_transcripts (Update i x # ops) ts = run_transcripts ops (ts[i := ts ! i @ x])"
| "run_transcripts (Fork i # ops) ts = run_transcripts ops (ts @ [ts ! i])"

fun valid_ops :: "hash_op list \<Rightarrow> nat \<Rightarrow> bool" where
  "valid_ops [] n = True"
| "valid_ops (Update i x # ops) n = (i < n \<and> valid_ops ops n)"
| "valid_ops (Fork i # ops) n = (i < n \<and> valid_ops ops (Suc n))"

locale hash_context =
  fixes lib_ok :: "'w \<Rightarrow> bool"
    and start :: "'w \<Rightarrow> ('s, 'e, 'c) rust"
    and update :: "'w \<Rightarrow> 'c \<Rightarrow> bytes \<Rightarrow> ('s, 'e, 'c) rust"
    and fork :: "'w \<Rightarrow> 'c \<Rightarrow> ('s, 'e, 'c) rust"
    and finish :: "'w \<Rightarrow> 'c \<Rightarrow> ('s, 'e, bytes) rust"
    and holds :: "'w \<Rightarrow> 'c \<Rightarrow> bytes \<Rightarrow> bool"
    and digest :: "'w \<Rightarrow> bytes \<Rightarrow> bytes"
  assumes start_holds: "lib_ok w \<Longrightarrow> yields (start w) (\<lambda>c. holds w c [])"
    and update_holds: "lib_ok w \<Longrightarrow> holds w c d \<Longrightarrow> yields (update w c x) (\<lambda>c'. holds w c' (d @ x))"
    and fork_holds: "lib_ok w \<Longrightarrow> holds w c d \<Longrightarrow> yields (fork w c) (\<lambda>c'. holds w c' d)"
    and finish_digest: "lib_ok w \<Longrightarrow> holds w c d \<Longrightarrow> yields (finish w c) (\<lambda>h. h = digest w d)"
begin

text \<open>A simulation: the contexts keep holding the transcripts.\<close>

lemma ops_simulate:
  assumes "lib_ok w" "list_all2 (holds w) cs ts" "valid_ops ops (length cs)"
  shows "yields (run_hash_ops (update w) (fork w) ops cs)
           (\<lambda>cs'. list_all2 (holds w) cs' (run_transcripts ops ts))"
  using assms(2,3)
proof (induction ops arbitrary: cs ts)
  case Nil
  then show ?case by (simp add: yields_ok)
next
  case (Cons op ops)
  show ?case
  proof (cases op)
    case (Update i x)
    with Cons.prems have i: "i < length cs" "valid_ops ops (length cs)" by simp_all
    have upd: "yields (update w (cs ! i) x) (\<lambda>c'. holds w c' (ts ! i @ x))"
      using i(1) by (intro update_holds assms(1) list_all2_nthD [OF Cons.prems(1)])
    show ?thesis
      by (simp add: Update i, rule yields_and_then [OF upd], rule Cons.IH)
         (simp_all add: i list_all2_update_cong [OF Cons.prems(1)])
  next
    case (Fork i)
    with Cons.prems have i: "i < length cs" "valid_ops ops (Suc (length cs))" by simp_all
    have frk: "yields (fork w (cs ! i)) (\<lambda>c'. holds w c' (ts ! i))"
      using i(1) by (intro fork_holds assms(1) list_all2_nthD [OF Cons.prems(1)])
    show ?thesis
      by (simp add: Fork i, rule yields_and_then [OF frk], rule Cons.IH)
         (simp_all add: i list_all2_appendI [OF Cons.prems(1)])
  qed
qed

text \<open>From one fresh context, any operations, then finishing any of the contexts.\<close>

lemma finish_after_ops:
  assumes w: "lib_ok w" and ops: "valid_ops ops 1" and i: "i < length (run_transcripts ops [[]])"
  shows "yields (and_then (start w) (\<lambda>c.
                 and_then (run_hash_ops (update w) (fork w) ops [c]) (\<lambda>cs.
                 and_then (index cs i) (finish w))))
           (\<lambda>h. h = digest w (run_transcripts ops [[]] ! i))"
proof (rule yields_and_then [OF start_holds [OF w]])
  fix c assume "holds w c []"
  then have "yields (run_hash_ops (update w) (fork w) ops [c])
      (\<lambda>cs. list_all2 (holds w) cs (run_transcripts ops [[]]))"
    using ops by (intro ops_simulate w) simp_all
  then show "yields (and_then (run_hash_ops (update w) (fork w) ops [c]) (\<lambda>cs.
               and_then (index cs i) (finish w)))
               (\<lambda>h. h = digest w (run_transcripts ops [[]] ! i))"
  proof (rule yields_and_then)
    fix cs assume cs: "list_all2 (holds w) cs (run_transcripts ops [[]])"
    then have "i < length cs" using i by (simp add: list_all2_lengthD)
    moreover from this have "holds w (cs ! i) (run_transcripts ops [[]] ! i)"
      by (rule list_all2_nthD [OF cs])
    ultimately show "yields (and_then (index cs i) (finish w))
        (\<lambda>h. h = digest w (run_transcripts ops [[]] ! i))"
      by (simp add: finish_digest [OF w])
  qed
qed

end

end
