(* ===== verification/Sha256.thy ===== *)
theory Sha256
  imports WolfSha HashContext RustlsTypes
begin

text \<open>\<open>src/hash/sha256.rs\<close>: the SHA-256 hash and its running context.\<close>

record WCSha256Context =
  sha256_ctx :: SHA

definition sha256_start :: "'s wolf_sha \<Rightarrow> ('s, 'e, WCSha256Context) rust" where
  "sha256_start w =
     and_then (expect (sha_new w) ''SHA256::new failed'') (\<lambda>sha. ok \<lparr>sha256_ctx = sha\<rparr>)"

definition sha256_update ::
    "'s wolf_sha \<Rightarrow> WCSha256Context \<Rightarrow> bytes \<Rightarrow> ('s, 'e, WCSha256Context) rust" where
  "sha256_update w self data =
     and_then (expect (sha_update w (sha256_ctx self) data) ''SHA256::update failed'')
       (\<lambda>sha. ok (self\<lparr>sha256_ctx := sha\<rparr>))"

definition sha256_fork :: "'s wolf_sha \<Rightarrow> WCSha256Context \<Rightarrow> ('s, 'e, WCSha256Context) rust" where
  "sha256_fork w self =
     and_then (expect (sha_copy w (sha256_ctx self)) ''SHA256::copy failed'')
       (\<lambda>sha. ok \<lparr>sha256_ctx = sha\<rparr>)"

definition sha256_finish :: "'s wolf_sha \<Rightarrow> WCSha256Context \<Rightarrow> ('s, 'e, bytes) rust" where
  "sha256_finish w self =
     (let hash = zeros (sha_digest_size w) in
      and_then (expect (sha_finalize w (sha256_ctx self) hash) ''SHA256::finalize failed'')
        (\<lambda>hash. ok hash))"

definition sha256_fork_finish :: "'s wolf_sha \<Rightarrow> WCSha256Context \<Rightarrow> ('s, 'e, bytes) rust" where
  "sha256_fork_finish w self = and_then (sha256_fork w self) (sha256_finish w)"

definition sha256_hash :: "'s wolf_sha \<Rightarrow> bytes \<Rightarrow> ('s, 'e, bytes) rust" where
  "sha256_hash w data =
     and_then (sha256_start w) (\<lambda>hasher.
     and_then (sha256_update w hasher data) (\<lambda>hasher.
     sha256_finish w hasher))"

definition sha256_algorithm :: HashAlgorithm where
  "sha256_algorithm = HashSHA256"

definition sha256_output_len :: "'s wolf_sha \<Rightarrow> usize" where
  "sha256_output_len w = sha_digest_size w"

lemmas sha256_defs = sha256_start_def sha256_update_def sha256_fork_def sha256_finish_def

lemma sha256_ops_yield:
  assumes "sha_ok w fed digest"
  shows "yields (sha256_start w) (\<lambda>c. fed (sha256_ctx c) [])"
    and "fed (sha256_ctx c) d \<Longrightarrow> yields (sha256_update w c x) (\<lambda>c'. fed (sha256_ctx c') (d @ x))"
    and "fed (sha256_ctx c) d \<Longrightarrow> yields (sha256_fork w c) (\<lambda>c'. fed (sha256_ctx c') d)"
    and "fed (sha256_ctx c) d \<Longrightarrow> yields (sha256_finish w c) (\<lambda>h. h = digest d)"
  unfolding sha256_defs Let_def
  by (auto intro!: yields_and_then [OF yields_expect] yields_ok sha_okD [OF assms] yields_expect)

lemma sha256_hash_yields:
  assumes "sha_ok w fed digest"
  shows "yields (sha256_hash w data) (\<lambda>h. h = digest data)"
  unfolding sha256_hash_def
  using sha256_ops_yield(2) [OF assms, where d = "[]" and x = data]
  by (auto intro!: yields_and_then [OF sha256_ops_yield(1) [OF assms]]
      yields_and_then sha256_ops_yield(4) [OF assms])

interpretation sha256: hash_context "\<lambda>(w, fed, digest). sha_ok w fed digest"
  "\<lambda>(w, fed, digest). sha256_start w" "\<lambda>(w, fed, digest). sha256_update w"
  "\<lambda>(w, fed, digest). sha256_fork w" "\<lambda>(w, fed, digest). sha256_finish w"
  "\<lambda>(w, fed, digest) c. fed (sha256_ctx c)" "\<lambda>(w, fed, digest). digest"
  by unfold_locales (auto intro: sha256_ops_yield)

text \<open>C23. SHA-256 contexts are transcripts.  Start a context, then update and fork in any order;
  finishing any of the contexts returns the digest of exactly the bytes that were fed along its
  own history (a fork shares the past of its origin and nothing of its future), and the
  one-shot \<open>hash\<close> returns the digest of its argument.  Nothing panics.\<close>

theorem sha256_contexts_are_transcripts:
  assumes "sha_ok w fed digest" and "valid_ops ops 1" and "i < length (run_transcripts ops [[]])"
  shows "yields (and_then (sha256_start w) (\<lambda>c.
                 and_then (run_hash_ops (sha256_update w) (sha256_fork w) ops [c]) (\<lambda>cs.
                 and_then (index cs i) (sha256_finish w))))
           (\<lambda>h. h = digest (run_transcripts ops [[]] ! i))
         \<and> yields (sha256_hash w data) (\<lambda>h. h = digest data)"
proof
  show "yields (and_then (sha256_start w) (\<lambda>c.
                 and_then (run_hash_ops (sha256_update w) (sha256_fork w) ops [c]) (\<lambda>cs.
                 and_then (index cs i) (sha256_finish w))))
           (\<lambda>h. h = digest (run_transcripts ops [[]] ! i))"
    using sha256.finish_after_ops [of "(w, fed, digest)" ops i] assms by simp
  show "yields (sha256_hash w data) (\<lambda>h. h = digest data)"
    by (rule sha256_hash_yields [OF assms(1)])
qed

theorem sha256_contexts_are_transcripts_witness:
  "yields (and_then (sha256_start (demo_sha 32 :: unit wolf_sha)) (\<lambda>c.
           and_then (run_hash_ops (sha256_update (demo_sha 32)) (sha256_fork (demo_sha 32))
                       [Update 0 [1], Fork 0, Update 1 [2], Update 0 [3]] [c]) (\<lambda>cs.
           and_then (index cs 1) (sha256_finish (demo_sha 32)))))
     (\<lambda>h. h = demo_digest 32 [1, 2])"
  using conjunct1 [OF sha256_contexts_are_transcripts [OF demo_sha_ok [of 32],
      of "[Update 0 [1], Fork 0, Update 1 [2], Update 0 [3]]" 1]]
  by simp

end
