(* ===== verification/Sha384.thy ===== *)
theory Sha384
  imports WolfSha HashContext RustlsTypes
begin

text \<open>\<open>src/hash/sha384.rs\<close>: the SHA-384 hash and its running context.\<close>

record WCSha384Context =
  sha384_ctx :: SHA

definition sha384_start :: "'s wolf_sha \<Rightarrow> ('s, 'e, WCSha384Context) rust" where
  "sha384_start w =
     and_then (expect (sha_new w) ''SHA384::new failed'') (\<lambda>sha. ok \<lparr>sha384_ctx = sha\<rparr>)"

definition sha384_update ::
    "'s wolf_sha \<Rightarrow> WCSha384Context \<Rightarrow> bytes \<Rightarrow> ('s, 'e, WCSha384Context) rust" where
  "sha384_update w self data =
     and_then (expect (sha_update w (sha384_ctx self) data) ''SHA384::update failed'')
       (\<lambda>sha. ok (self\<lparr>sha384_ctx := sha\<rparr>))"

definition sha384_fork :: "'s wolf_sha \<Rightarrow> WCSha384Context \<Rightarrow> ('s, 'e, WCSha384Context) rust" where
  "sha384_fork w self =
     and_then (expect (sha_copy w (sha384_ctx self)) ''SHA384::copy failed'')
       (\<lambda>sha. ok \<lparr>sha384_ctx = sha\<rparr>)"

definition sha384_finish :: "'s wolf_sha \<Rightarrow> WCSha384Context \<Rightarrow> ('s, 'e, bytes) rust" where
  "sha384_finish w self =
     (let hash = zeros (sha_digest_size w) in
      and_then (expect (sha_finalize w (sha384_ctx self) hash) ''SHA384::finalize failed'')
        (\<lambda>hash. ok hash))"

definition sha384_fork_finish :: "'s wolf_sha \<Rightarrow> WCSha384Context \<Rightarrow> ('s, 'e, bytes) rust" where
  "sha384_fork_finish w self = and_then (sha384_fork w self) (sha384_finish w)"

definition sha384_hash :: "'s wolf_sha \<Rightarrow> bytes \<Rightarrow> ('s, 'e, bytes) rust" where
  "sha384_hash w data =
     and_then (sha384_start w) (\<lambda>hasher.
     and_then (sha384_update w hasher data) (\<lambda>hasher.
     sha384_finish w hasher))"

definition sha384_algorithm :: HashAlgorithm where
  "sha384_algorithm = HashSHA384"

definition sha384_output_len :: "'s wolf_sha \<Rightarrow> usize" where
  "sha384_output_len w = sha_digest_size w"

lemmas sha384_defs = sha384_start_def sha384_update_def sha384_fork_def sha384_finish_def

lemma sha384_ops_yield:
  assumes "sha_ok w fed digest"
  shows "yields (sha384_start w) (\<lambda>c. fed (sha384_ctx c) [])"
    and "fed (sha384_ctx c) d \<Longrightarrow> yields (sha384_update w c x) (\<lambda>c'. fed (sha384_ctx c') (d @ x))"
    and "fed (sha384_ctx c) d \<Longrightarrow> yields (sha384_fork w c) (\<lambda>c'. fed (sha384_ctx c') d)"
    and "fed (sha384_ctx c) d \<Longrightarrow> yields (sha384_finish w c) (\<lambda>h. h = digest d)"
  unfolding sha384_defs Let_def
  by (auto intro!: yields_and_then [OF yields_expect] yields_ok sha_okD [OF assms] yields_expect)

lemma sha384_hash_yields:
  assumes "sha_ok w fed digest"
  shows "yields (sha384_hash w data) (\<lambda>h. h = digest data)"
  unfolding sha384_hash_def
  using sha384_ops_yield(2) [OF assms, where d = "[]" and x = data]
  by (auto intro!: yields_and_then [OF sha384_ops_yield(1) [OF assms]]
      yields_and_then sha384_ops_yield(4) [OF assms])

interpretation sha384: hash_context "\<lambda>(w, fed, digest). sha_ok w fed digest"
  "\<lambda>(w, fed, digest). sha384_start w" "\<lambda>(w, fed, digest). sha384_update w"
  "\<lambda>(w, fed, digest). sha384_fork w" "\<lambda>(w, fed, digest). sha384_finish w"
  "\<lambda>(w, fed, digest) c. fed (sha384_ctx c)" "\<lambda>(w, fed, digest). digest"
  by unfold_locales (auto intro: sha384_ops_yield)

text \<open>SHA-384 contexts are transcripts.  Start a context, then update and fork in any order;
  finishing any of the contexts returns the digest of exactly the bytes that were fed along its
  own history (a fork shares the past of its origin and nothing of its future), and the
  one-shot \<open>hash\<close> returns the digest of its argument.  Nothing panics.\<close>

theorem sha384_contexts_are_transcripts:
  assumes "sha_ok w fed digest" and "valid_ops ops 1" and "i < length (run_transcripts ops [[]])"
  shows "yields (and_then (sha384_start w) (\<lambda>c.
                 and_then (run_hash_ops (sha384_update w) (sha384_fork w) ops [c]) (\<lambda>cs.
                 and_then (index cs i) (sha384_finish w))))
           (\<lambda>h. h = digest (run_transcripts ops [[]] ! i))
         \<and> yields (sha384_hash w data) (\<lambda>h. h = digest data)"
proof
  show "yields (and_then (sha384_start w) (\<lambda>c.
                 and_then (run_hash_ops (sha384_update w) (sha384_fork w) ops [c]) (\<lambda>cs.
                 and_then (index cs i) (sha384_finish w))))
           (\<lambda>h. h = digest (run_transcripts ops [[]] ! i))"
    using sha384.finish_after_ops [of "(w, fed, digest)" ops i] assms by simp
  show "yields (sha384_hash w data) (\<lambda>h. h = digest data)"
    by (rule sha384_hash_yields [OF assms(1)])
qed

theorem sha384_contexts_are_transcripts_witness:
  "yields (and_then (sha384_start (demo_sha 48 :: unit wolf_sha)) (\<lambda>c.
           and_then (run_hash_ops (sha384_update (demo_sha 48)) (sha384_fork (demo_sha 48))
                       [Update 0 [1], Fork 0, Update 1 [2], Update 0 [3]] [c]) (\<lambda>cs.
           and_then (index cs 1) (sha384_finish (demo_sha 48)))))
     (\<lambda>h. h = demo_digest 48 [1, 2])"
  using conjunct1 [OF sha384_contexts_are_transcripts [OF demo_sha_ok [of 48],
      of "[Update 0 [1], Fork 0, Update 1 [2], Update 0 [3]]" 1]]
  by simp

end
