(* ===== verification/WolfKdf.thy ===== *)
theory WolfKdf
  imports Prelude
begin

text \<open>
  The key derivation part of \<open>wolfssl-wolfcrypt\<close>: HKDF, the HMAC size table and the TLS 1.2
  PRF, as a parameter record, with RFC 5869 as the specification of HKDF.
\<close>

record 's wolf_kdf =
  hmac_TYPE_SHA256 :: i32
  hmac_TYPE_SHA384 :: i32
  get_hmac_size_by_type :: "i32 \<Rightarrow> ('s, i32, usize) ffi"
  hkdf_extract :: "i32 \<Rightarrow> bytes option \<Rightarrow> bytes \<Rightarrow> bytes \<Rightarrow> ('s, i32, bytes) ffi"
    \<comment> \<open>hash type, salt, input key material, output buffer: output\<close>
  hkdf_expand :: "i32 \<Rightarrow> bytes \<Rightarrow> bytes option \<Rightarrow> bytes \<Rightarrow> ('s, i32, bytes) ffi"
    \<comment> \<open>hash type, pseudorandom key, info, output buffer: output\<close>
  PRF_HASH_SHA256 :: i32
  PRF_HASH_SHA384 :: i32
  wolf_prf :: "bytes \<Rightarrow> bytes \<Rightarrow> i32 \<Rightarrow> bytes \<Rightarrow> ('s, i32, bytes) ffi"
    \<comment> \<open>secret, seed, hash type, output buffer: output\<close>

section \<open>RFC 5869\<close>

text \<open>The blocks \<open>T(0)\<close>, \<open>T(1)\<close>, ... of HKDF-Expand for a MAC, and the output keying material of
  \<open>len\<close> bytes, made of as many blocks of \<open>h\<close> bytes as needed.\<close>

type_synonym mac_fun = "bytes \<Rightarrow> bytes \<Rightarrow> bytes"

fun hkdf_T :: "mac_fun \<Rightarrow> bytes \<Rightarrow> bytes \<Rightarrow> nat \<Rightarrow> bytes" where
  "hkdf_T mac prk info 0 = []"
| "hkdf_T mac prk info (Suc n) = mac prk (hkdf_T mac prk info n @ info @ [of_nat (Suc n)])"

definition hkdf_blocks :: "mac_fun \<Rightarrow> bytes \<Rightarrow> bytes \<Rightarrow> nat \<Rightarrow> bytes" where
  "hkdf_blocks mac prk info n = concat (map (\<lambda>i. hkdf_T mac prk info (Suc i)) [0..<n])"

definition hkdf_okm :: "usize \<Rightarrow> mac_fun \<Rightarrow> bytes \<Rightarrow> bytes \<Rightarrow> usize \<Rightarrow> bytes" where
  "hkdf_okm h mac prk info len = take len (hkdf_blocks mac prk info ((len + h - 1) div h))"

lemma length_hkdf_blocks:
  assumes "\<And>k d. length (mac k d) = h"
  shows "length (hkdf_blocks mac prk info n) = n * h"
proof -
  have 1: "length (hkdf_T mac prk info (Suc i)) = h" for i
    unfolding hkdf_T.simps(2) by (rule assms)
  have "length (hkdf_blocks mac prk info n) = sum_list (map (\<lambda>i. length (hkdf_T mac prk info (Suc i))) [0..<n])"
    unfolding hkdf_blocks_def length_concat map_map comp_def by (rule refl)
  also have "\<dots> = sum_list (map (\<lambda>i. h) [0..<n])" unfolding 1 by (rule refl)
  also have "\<dots> = n * h" by (simp add: sum_list_triv)
  finally show ?thesis .
qed

lemma hkdf_blocks_append: "\<exists>r. hkdf_blocks mac prk info (n + k) = hkdf_blocks mac prk info n @ r"
proof -
  have "[0..<n + k] = [0..<n] @ [n..<n + k]" by (rule upt_add_eq_append) simp
  then show ?thesis unfolding hkdf_blocks_def by (simp only: map_append concat_append) blast
qed

lemma ceil_blocks: "0 < h \<Longrightarrow> len \<le> (len + h - 1) div h * (h::nat)"
proof -
  assume h: "0 < h"
  define x where "x = len + h - 1"
  define y where "y = x div h * h"
  have "y + x mod h = x" unfolding y_def by (rule div_mult_mod_eq)
  moreover have "x mod h < h" using h by simp
  moreover have "x + 1 = len + h" using h by (simp add: x_def)
  ultimately have "len \<le> y" by linarith
  then show ?thesis by (simp add: y_def x_def)
qed

lemma length_hkdf_okm:
  assumes "\<And>k d. length (mac k d) = h" "0 < h"
  shows "length (hkdf_okm h mac prk info len) = len"
  using ceil_blocks [OF assms(2), of len]
  by (simp add: hkdf_okm_def length_hkdf_blocks [OF assms(1)])

text \<open>A shorter output is a prefix of a longer one.\<close>

lemma hkdf_okm_prefix:
  assumes "\<And>k d. length (mac k d) = h" "0 < h" "m \<le> n"
  shows "hkdf_okm h mac prk info m = take m (hkdf_okm h mac prk info n)"
proof -
  define a where "a = (m + h - 1) div h"
  define b where "b = (n + h - 1) div h"
  have "a \<le> b" unfolding a_def b_def using assms(3) by (intro div_le_mono) simp
  then obtain r where "hkdf_blocks mac prk info b = hkdf_blocks mac prk info a @ r"
    using hkdf_blocks_append [of mac prk info a "b - a"] by auto
  moreover have "m \<le> length (hkdf_blocks mac prk info a)"
    using ceil_blocks [OF assms(2), of m] by (simp add: length_hkdf_blocks [OF assms(1)] a_def)
  ultimately show ?thesis
    unfolding hkdf_okm_def a_def [symmetric] b_def [symmetric]
    using assms(3) by (simp add: min_def)
qed

lemma hkdf_okm_one_block:
  assumes "\<And>k d. length (mac k d) = h" "0 < h"
  shows "hkdf_okm h mac prk info h = mac prk (info @ [1])"
proof -
  have "(h + h - 1) div h = 1" using assms(2) by (intro div_nat_eqI) simp_all
  then show ?thesis by (simp add: hkdf_okm_def hkdf_blocks_def assms(1))
qed

section \<open>The documented behaviour\<close>

definition hmac_types :: "'s wolf_kdf \<Rightarrow> i32 set" where
  "hmac_types w = {hmac_TYPE_SHA256 w, hmac_TYPE_SHA384 w}"

definition hmac_size :: "'s wolf_kdf \<Rightarrow> i32 \<Rightarrow> usize" where
  "hmac_size w t = (if t = hmac_TYPE_SHA256 w then 32 else 48)"

definition bytes_of_option :: "bytes option \<Rightarrow> bytes" where
  "bytes_of_option x = (case x of None \<Rightarrow> [] | Some b \<Rightarrow> b)"

text \<open>
  \<open>mac t\<close> is HMAC with the hash of type \<open>t\<close>.  HKDF-Extract is HMAC of the input key material
  under the salt (RFC 5869 section 2.2); HKDF-Expand is \<open>hkdf_okm\<close> for outputs within the limit of
  255 blocks.
\<close>

definition hkdf_ok :: "'s wolf_kdf \<Rightarrow> (i32 \<Rightarrow> mac_fun) \<Rightarrow> bool" where
  "hkdf_ok w mac \<longleftrightarrow>
     hmac_TYPE_SHA256 w \<noteq> hmac_TYPE_SHA384 w
   \<and> (\<forall>t \<in> hmac_types w.
        ffi_yields (get_hmac_size_by_type w t) (\<lambda>n. n = hmac_size w t)
      \<and> (\<forall>k d. length (mac t k d) = hmac_size w t)
      \<and> (\<forall>k d out. length out = hmac_size w t \<longrightarrow>
           ffi_yields (hkdf_extract w t (Some k) d out) (\<lambda>r. r = mac t k d))
      \<and> (\<forall>prk info out. 0 < length out \<longrightarrow> length out \<le> 255 * hmac_size w t \<longrightarrow>
           ffi_yields (hkdf_expand w t prk info out)
             (\<lambda>r. r = hkdf_okm (hmac_size w t) (mac t) prk (bytes_of_option info) (length out))))"

lemma hkdf_okD:
  assumes "hkdf_ok w mac" "t \<in> hmac_types w"
  shows "ffi_yields (get_hmac_size_by_type w t) (\<lambda>n. n = hmac_size w t)"
    and "length (mac t k d) = hmac_size w t"
    and "length out = hmac_size w t \<Longrightarrow>
         ffi_yields (hkdf_extract w t (Some k) d out) (\<lambda>r. r = mac t k d)"
    and "0 < length out \<Longrightarrow> length out \<le> 255 * hmac_size w t \<Longrightarrow>
         ffi_yields (hkdf_expand w t prk info out)
           (\<lambda>r. r = hkdf_okm (hmac_size w t) (mac t) prk (bytes_of_option info) (length out))"
  using assms unfolding hkdf_ok_def by blast+

section \<open>The TLS 1.2 PRF\<close>

text \<open>
  RFC 5246 section 5: \<open>A(0)\<close> is the seed, \<open>A(i)\<close> the MAC of \<open>A(i-1)\<close>, \<open>P_hash\<close> the concatenation of
  the MACs of \<open>A(i)\<close> and the seed, cut to the length asked for, and the PRF is \<open>P_hash\<close> of label and
  seed.
\<close>

fun prf_A :: "mac_fun \<Rightarrow> bytes \<Rightarrow> bytes \<Rightarrow> nat \<Rightarrow> bytes" where
  "prf_A mac secret seed 0 = seed"
| "prf_A mac secret seed (Suc i) = mac secret (prf_A mac secret seed i)"

definition p_hash :: "usize \<Rightarrow> mac_fun \<Rightarrow> bytes \<Rightarrow> bytes \<Rightarrow> usize \<Rightarrow> bytes" where
  "p_hash h mac secret seed len =
     take len (concat (map (\<lambda>i. mac secret (prf_A mac secret seed (Suc i) @ seed))
       [0..<(len + h - 1) div h]))"

definition tls12_prf :: "usize \<Rightarrow> mac_fun \<Rightarrow> bytes \<Rightarrow> bytes \<Rightarrow> bytes \<Rightarrow> usize \<Rightarrow> bytes" where
  "tls12_prf h mac secret label seed len = p_hash h mac secret (label @ seed) len"

lemma length_p_hash:
  assumes "\<And>k d. length (mac k d) = h" "0 < h"
  shows "length (p_hash h mac secret seed len) = len"
  using ceil_blocks [OF assms(2), of len]
  by (simp add: p_hash_def length_concat comp_def assms(1) sum_list_triv)

definition prf_size :: "'s wolf_kdf \<Rightarrow> i32 \<Rightarrow> usize" where
  "prf_size w t = (if t = PRF_HASH_SHA256 w then 32 else 48)"

text \<open>\<open>wc_PRF\<close> refuses an empty output buffer, so the law is about the others.\<close>

definition prf_ok :: "'s wolf_kdf \<Rightarrow> (i32 \<Rightarrow> mac_fun) \<Rightarrow> bool" where
  "prf_ok w mac \<longleftrightarrow>
     PRF_HASH_SHA256 w \<noteq> PRF_HASH_SHA384 w
   \<and> (\<forall>t \<in> {PRF_HASH_SHA256 w, PRF_HASH_SHA384 w}.
        (\<forall>k d. length (mac t k d) = prf_size w t)
      \<and> (\<forall>secret seed out. 0 < length out \<longrightarrow>
           ffi_yields (wolf_prf w secret seed t out)
             (\<lambda>r. r = p_hash (prf_size w t) (mac t) secret seed (length out))))"

lemma prf_okD:
  assumes "prf_ok w mac" "t = PRF_HASH_SHA256 w \<or> t = PRF_HASH_SHA384 w"
  shows "0 < length out \<Longrightarrow> ffi_yields (wolf_prf w secret seed t out)
           (\<lambda>r. r = p_hash (prf_size w t) (mac t) secret seed (length out))"
    and "length (mac t k d) = prf_size w t"
  using assms unfolding prf_ok_def by blast+

section \<open>A small instance for witnesses\<close>

definition demo_hmac_size :: "i32 \<Rightarrow> usize" where
  "demo_hmac_size t = (if t = 6 then 32 else 48)"

definition demo_mac :: "i32 \<Rightarrow> mac_fun" where
  "demo_mac t k d = take (demo_hmac_size t) ([sum_list k, sum_list d, of_nat (length d)] @ d @ zeros 48)"

text \<open>The PRF numbers its hashes 4 and 5, the MAC 6 and 7.\<close>

definition demo_prf_mac :: "i32 \<Rightarrow> mac_fun" where
  "demo_prf_mac t = demo_mac (t + 2)"

definition demo_kdf :: "'s wolf_kdf" where
  "demo_kdf = \<lparr>
     hmac_TYPE_SHA256 = 6,
     hmac_TYPE_SHA384 = 7,
     get_hmac_size_by_type = (\<lambda>t s. (Inr (demo_hmac_size t), s)),
     hkdf_extract = (\<lambda>t salt ikm out s. (Inr (demo_mac t (bytes_of_option salt) ikm), s)),
     hkdf_expand = (\<lambda>t prk info out s.
        (if length out \<le> 255 * demo_hmac_size t
         then Inr (hkdf_okm (demo_hmac_size t) (demo_mac t) prk (bytes_of_option info) (length out))
         else Inl (-173), s)),
     PRF_HASH_SHA256 = 4,
     PRF_HASH_SHA384 = 5,
     wolf_prf = (\<lambda>secret seed t out s. 
        (if out = [] then Inl (-173)
         else Inr (p_hash (if t = 4 then 32 else 48) (demo_prf_mac t) secret seed (length out)), s))\<rparr>"

lemma demo_hkdf_ok: "hkdf_ok demo_kdf demo_mac"
  by (auto simp: hkdf_ok_def hmac_types_def hmac_size_def demo_kdf_def demo_mac_def
      demo_hmac_size_def ffi_yields_def bytes_of_option_def)

lemma demo_prf_ok: "prf_ok demo_kdf demo_prf_mac"
  by (auto simp: prf_ok_def prf_size_def demo_kdf_def demo_prf_mac_def demo_mac_def
      demo_hmac_size_def ffi_yields_def)

end
