(* ===== verification/Hmac.thy ===== *)
theory Hmac
  imports WolfKdf
begin

text \<open>
  \<open>src/hmac/mod.rs\<close>: the two HMAC variants and the keyed MAC behind rustls's \<open>hmac::Hmac\<close> and
  \<open>hmac::Key\<close>.  A \<open>Tag\<close> is the bytes it holds.
\<close>

datatype WCShaHmac = Sha256 | Sha384

definition hmac_type :: "'s wolf_kdf \<Rightarrow> WCShaHmac \<Rightarrow> i32" where
  "hmac_type w self = (case self of
       Sha256 \<Rightarrow> hmac_TYPE_SHA256 w
     | Sha384 \<Rightarrow> hmac_TYPE_SHA384 w)"

definition hash_len :: "'s wolf_kdf \<Rightarrow> WCShaHmac \<Rightarrow> ('s, 'e, usize) rust" where
  "hash_len w self =
     expect (get_hmac_size_by_type w (hmac_type w self)) ''get_hmac_size_by_type failed''"

record WCHmacKey =
  hk_key :: bytes
  hk_variant :: WCShaHmac

definition with_key :: "WCShaHmac \<Rightarrow> bytes \<Rightarrow> WCHmacKey" where
  "with_key self key = \<lparr>hk_key = key, hk_variant = self\<rparr>"

definition hash_output_len :: "'s wolf_kdf \<Rightarrow> WCShaHmac \<Rightarrow> ('s, 'e, usize) rust" where
  "hash_output_len w self = hash_len w self"

text \<open>The loop \<open>for chunk in middle { data.extend_from_slice(chunk); }\<close>.\<close>

fun extend_with_chunks :: "bytes \<Rightarrow> bytes list \<Rightarrow> bytes" where
  "extend_with_chunks data [] = data"
| "extend_with_chunks data (chunk # middle) = extend_with_chunks (data @ chunk) middle"

definition sign_concat ::
    "'s wolf_kdf \<Rightarrow> WCHmacKey \<Rightarrow> bytes \<Rightarrow> bytes list \<Rightarrow> bytes \<Rightarrow> ('s, 'e, bytes) rust" where
  "sign_concat w self first middle final =
     (let typ = hmac_type w (hk_variant self) in
      and_then (hash_len w (hk_variant self)) (\<lambda>digest_len.
      let data = [];
          data = data @ first;
          data = extend_with_chunks data middle;
          data = data @ final;
          digest = zeros digest_len in
      and_then (expect (hkdf_extract w typ (Some (hk_key self)) data digest)
                  ''hkdf_extract (HMAC sign_concat) failed'') (\<lambda>digest.
      ok digest)))"

definition tag_len :: "'s wolf_kdf \<Rightarrow> WCHmacKey \<Rightarrow> ('s, 'e, usize) rust" where
  "tag_len w self = hash_len w (hk_variant self)"

section \<open>What the functions compute\<close>

lemma extend_with_chunks_concat: "extend_with_chunks data middle = data @ concat middle"
  by (induction middle arbitrary: data) simp_all

lemma hmac_type_mem [simp]: "hmac_type w v \<in> hmac_types w"
  by (cases v) (simp_all add: hmac_type_def hmac_types_def)

text \<open>The output length of a variant, as rustls documents it for SHA-256 and SHA-384.\<close>

fun variant_len :: "WCShaHmac \<Rightarrow> usize" where
  "variant_len Sha256 = 32"
| "variant_len Sha384 = 48"

lemma variant_len_bounds: "0 < variant_len v" "variant_len v \<le> 64"
  by (cases v; simp)+

lemma hmac_size_variant:
  "hkdf_ok w mac \<Longrightarrow> hmac_size w (hmac_type w v) = variant_len v"
  by (cases v) (auto simp: hmac_size_def hmac_type_def hkdf_ok_def)

lemma hash_len_yields: "hkdf_ok w mac \<Longrightarrow> yields (hash_len w v) (\<lambda>n. n = variant_len v)"
  using hkdf_okD(1) [of w mac "hmac_type w v"]
  by (simp add: hash_len_def hmac_size_variant yields_expect)

lemma length_mac: "hkdf_ok w mac \<Longrightarrow> length (mac (hmac_type w v) k d) = variant_len v"
  using hkdf_okD(2) [of w mac "hmac_type w v"] by (simp add: hmac_size_variant)

lemma extract_yields:
  assumes "hkdf_ok w mac" "length out = variant_len v"
  shows "ffi_yields (hkdf_extract w (hmac_type w v) (Some k) d out) (\<lambda>r. r = mac (hmac_type w v) k d)"
  using hkdf_okD(3) [OF assms(1), of "hmac_type w v" out k d] assms(2)
  by (simp add: hmac_size_variant [OF assms(1)])

lemma sign_concat_yields:
  assumes "hkdf_ok w mac"
  shows "yields (sign_concat w (with_key v key) first middle final)
           (\<lambda>tag. tag = mac (hmac_type w v) key (first @ concat middle @ final))"
  unfolding sign_concat_def with_key_def
  by (simp add: extend_with_chunks_concat)
     (rule yields_and_then [OF hash_len_yields [OF assms]],
      simp add: yields_expect [OF extract_yields [OF assms]])

text \<open>C36. The MAC is HMAC of the concatenation: for every variant, key and way of cutting a message
  into a first part, middle chunks and a last part, \<open>sign_concat\<close> returns HMAC of the whole
  message with the variant's hash, and the tag has the length that \<open>tag_len\<close> and
  \<open>hash_output_len\<close> announce; none of the calls panics.\<close>

theorem hmac_signs_concatenation:
  assumes "hkdf_ok w mac"
  shows "yields (sign_concat w (with_key v key) first middle final)
           (\<lambda>tag. tag = mac (hmac_type w v) key (first @ concat middle @ final)
                  \<and> yields (tag_len w (with_key v key)) (\<lambda>n. n = length tag)
                  \<and> yields (hash_output_len w v) (\<lambda>n. n = length tag))"
  by (rule yields_weaken [OF sign_concat_yields [OF assms]])
     (simp add: tag_len_def hash_output_len_def with_key_def length_mac [OF assms] hash_len_yields [OF assms])

theorem hmac_signs_concatenation_witness:
  "yields (sign_concat (demo_kdf :: unit wolf_kdf) (with_key Sha384 [1, 2]) [3] [[4], [], [5]] [6])
     (\<lambda>tag. tag = demo_mac (hmac_type (demo_kdf :: unit wolf_kdf) Sha384) [1, 2] ([3] @ concat [[4], [], [5]] @ [6]))"
  by (rule yields_weaken [OF hmac_signs_concatenation [OF demo_hkdf_ok]]) simp

end
