(* ===== verification/Hkdf.thy ===== *)
theory Hkdf
  imports Hmac RustlsTypes
begin

text \<open>
  \<open>src/hkdf.rs\<close>: the HKDF of TLS 1.3 (\<open>WCHkdfUsingHmac\<close>) and its expander.  An \<open>OkmBlock\<close> is the
  bytes it holds.
\<close>

record WolfHkdfExpander =
  ex_extracted_key :: bytes
  ex_hash_type :: i32
  ex_hash_len :: usize

definition expander_new :: "bytes \<Rightarrow> i32 \<Rightarrow> usize \<Rightarrow> WolfHkdfExpander" where
  "expander_new extracted_key hash_type hash_length =
     \<lparr>ex_extracted_key = extracted_key, ex_hash_type = hash_type, ex_hash_len = hash_length\<rparr>"

definition extract_from_secret ::
    "'s wolf_kdf \<Rightarrow> WCShaHmac \<Rightarrow> bytes option \<Rightarrow> bytes \<Rightarrow> ('s, 'e, WolfHkdfExpander) rust" where
  "extract_from_secret w self salt ikm =
     (let typ = hmac_type w self in
      and_then (hash_len w self) (\<lambda>hash_length.
      let extracted_key = zeros hash_length;
          zero_salt = zeros hash_length;
          salt_bytes = (case salt of Some s \<Rightarrow> s | None \<Rightarrow> zero_salt) in
      and_then (expect (hkdf_extract w typ (Some salt_bytes) ikm extracted_key)
                  ''hkdf_extract failed'') (\<lambda>extracted_key.
      ok (expander_new extracted_key typ hash_length))))"

definition extract_from_zero_ikm ::
    "'s wolf_kdf \<Rightarrow> WCShaHmac \<Rightarrow> bytes option \<Rightarrow> ('s, 'e, WolfHkdfExpander) rust" where
  "extract_from_zero_ikm w self salt =
     and_then (hash_len w self) (\<lambda>hash_length.
     let ikm = zeros hash_length in
     extract_from_secret w self salt ikm)"

definition expander_for_okm ::
    "'s wolf_kdf \<Rightarrow> WCShaHmac \<Rightarrow> bytes \<Rightarrow> ('s, 'e, WolfHkdfExpander) rust" where
  "expander_for_okm w self okm =
     and_then (hash_len w self) (\<lambda>hash_length.
     ok \<lparr>ex_extracted_key = okm, ex_hash_type = hmac_type w self, ex_hash_len = hash_length\<rparr>)"

definition hmac_sign ::
    "'s wolf_kdf \<Rightarrow> WCShaHmac \<Rightarrow> bytes \<Rightarrow> bytes \<Rightarrow> ('s, 'e, bytes) rust" where
  "hmac_sign w self key message =
     (let typ = hmac_type w self in
      and_then (hash_len w self) (\<lambda>hash_length.
      let digest = zeros hash_length in
      and_then (expect (hkdf_extract w typ (Some key) message digest)
                  ''hkdf_extract (hmac_sign) failed'') (\<lambda>digest.
      ok digest)))"

definition expand_slice ::
    "'s wolf_kdf \<Rightarrow> WolfHkdfExpander \<Rightarrow> bytes list \<Rightarrow> bytes \<Rightarrow> ('s, OutputLengthError, bytes) rust" where
  "expand_slice w self info output =
     (let info_concat = concat info in
      if length output > 255 * ex_hash_len self then err OutputLengthError
      else
      let info_opt = (if info_concat = [] then None else Some info_concat) in
      map_err (\<lambda>_. OutputLengthError)
        (hkdf_expand w (ex_hash_type self) (ex_extracted_key self) info_opt output))"

definition expand_block ::
    "'s wolf_kdf \<Rightarrow> WolfHkdfExpander \<Rightarrow> bytes list \<Rightarrow> ('s, 'e, bytes) rust" where
  "expand_block w self info =
     (let output = zeros (ex_hash_len self) in
      and_then (expect_result (expand_slice w self info output) ''expand_block failed'')
        (\<lambda>output. ok output))"

definition expander_hash_len :: "WolfHkdfExpander \<Rightarrow> usize" where
  "expander_hash_len self = ex_hash_len self"

section \<open>What the functions compute\<close>

text \<open>An expander over a pseudorandom key, for a variant: what the three constructors make.\<close>

definition expander_of :: "'s wolf_kdf \<Rightarrow> WCShaHmac \<Rightarrow> bytes \<Rightarrow> WolfHkdfExpander" where
  "expander_of w v prk =
     \<lparr>ex_extracted_key = prk, ex_hash_type = hmac_type w v, ex_hash_len = variant_len v\<rparr>"

definition salt_or_zeros :: "WCShaHmac \<Rightarrow> bytes option \<Rightarrow> bytes" where
  "salt_or_zeros v salt = (case salt of Some s \<Rightarrow> s | None \<Rightarrow> zeros (variant_len v))"

lemma extract_from_secret_yields:
  assumes "hkdf_ok w mac"
  shows "yields (extract_from_secret w v salt ikm)
           (\<lambda>e. e = expander_of w v (mac (hmac_type w v) (salt_or_zeros v salt) ikm))"
  unfolding extract_from_secret_def Let_def
  by (rule yields_and_then [OF hash_len_yields [OF assms]],
      rule yields_and_then [OF yields_expect [OF extract_yields [OF assms]]])
     (auto simp: expander_new_def expander_of_def salt_or_zeros_def split: option.splits
        intro!: yields_ok)

lemma extract_from_zero_ikm_yields:
  assumes "hkdf_ok w mac"
  shows "yields (extract_from_zero_ikm w v salt)
           (\<lambda>e. e = expander_of w v (mac (hmac_type w v) (salt_or_zeros v salt) (zeros (variant_len v))))"
  unfolding extract_from_zero_ikm_def Let_def
  by (rule yields_and_then [OF hash_len_yields [OF assms]])
     (simp add: extract_from_secret_yields [OF assms])

lemma expander_for_okm_yields:
  assumes "hkdf_ok w mac"
  shows "yields (expander_for_okm w v okm) (\<lambda>e. e = expander_of w v okm)"
  unfolding expander_for_okm_def
  by (rule yields_and_then [OF hash_len_yields [OF assms]]) (simp add: expander_of_def yields_ok)

lemma hmac_sign_yields:
  assumes "hkdf_ok w mac"
  shows "yields (hmac_sign w v key message) (\<lambda>tag. tag = mac (hmac_type w v) key message)"
  unfolding hmac_sign_def Let_def
  by (rule yields_and_then [OF hash_len_yields [OF assms]])
     (simp add: yields_expect [OF extract_yields [OF assms]])

text \<open>The output keying material of RFC 5869 for a variant.\<close>

definition variant_okm :: "'s wolf_kdf \<Rightarrow> (i32 \<Rightarrow> mac_fun) \<Rightarrow> WCShaHmac \<Rightarrow> bytes \<Rightarrow> bytes \<Rightarrow> usize \<Rightarrow> bytes" where
  "variant_okm w mac v prk info n = hkdf_okm (variant_len v) (mac (hmac_type w v)) prk info n"

lemma expand_slice_yields:
  assumes w: "hkdf_ok w mac" and out: "0 < length out" "length out \<le> 255 * variant_len v"
  shows "yields (expand_slice w (expander_of w v prk) info out)
           (\<lambda>r. r = variant_okm w mac v prk (concat info) (length out))"
proof -
  let ?i = "if concat info = [] then None else Some (concat info)"
  have i: "bytes_of_option ?i = concat info" by (simp add: bytes_of_option_def)
  have "ffi_yields (hkdf_expand w (hmac_type w v) prk ?i out)
          (\<lambda>r. r = variant_okm w mac v prk (concat info) (length out))"
    using hkdf_okD(4) [OF w hmac_type_mem [of w v] out(1), of prk ?i] out(2)
    unfolding hmac_size_variant [OF w] i variant_okm_def by blast
  then show ?thesis
    unfolding expand_slice_def expander_of_def Let_def using out(2)
    by (simp del: concat_eq_Nil_conv add: yields_map_err)
qed

lemma expand_slice_too_long:
  "255 * ex_hash_len e < length out \<Longrightarrow> expand_slice w e info out = err OutputLengthError"
  by (simp add: expand_slice_def Let_def)

lemma expand_block_yields:
  assumes w: "hkdf_ok w mac"
  shows "yields (expand_block w (expander_of w v prk) info)
           (\<lambda>r. r = mac (hmac_type w v) prk (concat info @ [1]))"
proof -
  have "yields (expand_slice w (expander_of w v prk) info (zeros (variant_len v)))
      (\<lambda>r. r = mac (hmac_type w v) prk (concat info @ [1]))"
    using expand_slice_yields [OF w, of "zeros (variant_len v)" v prk info] variant_len_bounds [of v]
    by (simp add: variant_okm_def hkdf_okm_one_block [OF length_mac [OF w]])
  then show ?thesis
    unfolding expand_block_def by (simp add: expander_of_def yields_expect_result)
qed

section \<open>Properties\<close>

lemma expand_slice_no_panic: "no_panic (expand_slice w e info out)"
  by (auto simp: expand_slice_def Let_def intro!: no_panic_intro)

text \<open>C20. Extract-then-expand is HKDF.  For every variant, salt, input key material, list of info
  parts and output buffer there is no panic.  For a non-empty buffer within the limit of 255 blocks, extracting and
  expanding returns the RFC 5869 output of the buffer's length for the concatenated info, under the HMAC of the input
  key material with the salt, a missing salt standing for a block of zeros; beyond the limit it
  is an \<open>OutputLengthError\<close>, before any call of the library.  An empty buffer, of which nothing is
  documented, is handed to the library as well: what it answers is the answer, any error of it as an \<open>OutputLengthError\<close>.\<close>

theorem hkdf_extract_expand:
  assumes "hkdf_ok w mac"
  shows "no_panic (and_then (extract_from_secret w v salt ikm) (\<lambda>e. expand_slice w e info out))
    \<and> (if length out \<le> 255 * variant_len v then 0 < length out \<longrightarrow>
           yields (and_then (extract_from_secret w v salt ikm) (\<lambda>e. expand_slice w e info out))
             (\<lambda>r. r = variant_okm w mac v (mac (hmac_type w v) (salt_or_zeros v salt) ikm)
                        (concat info) (length out))
         else and_then (extract_from_secret w v salt ikm) (\<lambda>e. expand_slice w e info out) s
                = (Err OutputLengthError, snd (extract_from_secret w v salt ikm s :: (OutputLengthError, _) outcome \<times> _)))
    \<and> yields (extract_from_secret w v salt ikm) (\<lambda>e. \<forall>s. expand_slice w e info [] s =
           (case hkdf_expand w (hmac_type w v) (mac (hmac_type w v) (salt_or_zeros v salt) ikm)
                   (if concat info = [] then None else Some (concat info)) [] s of
              (Inr r, s') \<Rightarrow> (Ok r, s')
            | (Inl _, s') \<Rightarrow> (Err OutputLengthError, s')))"
proof (intro conjI)
  note ext = extract_from_secret_yields [OF assms]
  show "no_panic (and_then (extract_from_secret w v salt ikm) (\<lambda>e. expand_slice w e info out))"
    by (intro no_panic_and_then_any yields_no_panic [OF ext] expand_slice_no_panic)
  show "if length out \<le> 255 * variant_len v then 0 < length out \<longrightarrow>
           yields (and_then (extract_from_secret w v salt ikm) (\<lambda>e. expand_slice w e info out))
             (\<lambda>r. r = variant_okm w mac v (mac (hmac_type w v) (salt_or_zeros v salt) ikm)
                        (concat info) (length out))
         else and_then (extract_from_secret w v salt ikm) (\<lambda>e. expand_slice w e info out) s
                = (Err OutputLengthError, snd (extract_from_secret w v salt ikm s :: (OutputLengthError, _) outcome \<times> _))"
  proof (cases "length out \<le> 255 * variant_len v")
    case True
    then show ?thesis by (auto intro!: yields_and_then [OF ext] expand_slice_yields [OF assms])
  next
    case False
    obtain e s' where e: "extract_from_secret w v salt ikm s = (Ok e :: (OutputLengthError, _) outcome, s')"
      "e = expander_of w v (mac (hmac_type w v) (salt_or_zeros v salt) ikm)"
      using yieldsD [OF ext] by blast
    have "expand_slice w e info out = err OutputLengthError"
      using False by (intro expand_slice_too_long) (simp add: e(2) expander_of_def)
    with False e(1) show ?thesis by (simp add: and_then_def err_def)
  qed
  show "yields (extract_from_secret w v salt ikm) (\<lambda>e. \<forall>s. expand_slice w e info [] s =
           (case hkdf_expand w (hmac_type w v) (mac (hmac_type w v) (salt_or_zeros v salt) ikm)
                   (if concat info = [] then None else Some (concat info)) [] s of
              (Inr r, s') \<Rightarrow> (Ok r, s')
            | (Inl _, s') \<Rightarrow> (Err OutputLengthError, s')))"
    by (rule yields_weaken [OF ext])
       (auto simp: expander_of_def expand_slice_def map_err_def split: prod.split sum.split)
qed

theorem hkdf_extract_expand_witness:
  "yields (and_then (extract_from_secret (demo_kdf :: unit wolf_kdf) Sha256 None [7])
             (\<lambda>e. expand_slice demo_kdf e [[1], [2, 3]] (zeros 42)))
     (\<lambda>r. r = variant_okm (demo_kdf :: unit wolf_kdf) demo_mac Sha256
                (demo_mac (hmac_type (demo_kdf :: unit wolf_kdf) Sha256) (zeros 32) [7]) [1, 2, 3] 42)
   \<and> fst (and_then (extract_from_secret (demo_kdf :: unit wolf_kdf) Sha256 None [7])
             (\<lambda>e. expand_slice demo_kdf e [[1], [2, 3]] (zeros 8161)) ())
     = Err OutputLengthError"
proof
  show "yields (and_then (extract_from_secret (demo_kdf :: unit wolf_kdf) Sha256 None [7])
             (\<lambda>e. expand_slice demo_kdf e [[1], [2, 3]] (zeros 42)))
     (\<lambda>r. r = variant_okm (demo_kdf :: unit wolf_kdf) demo_mac Sha256
                (demo_mac (hmac_type (demo_kdf :: unit wolf_kdf) Sha256) (zeros 32) [7]) [1, 2, 3] 42)"
    using hkdf_extract_expand [OF demo_hkdf_ok, of Sha256 None "[7]" "[[1], [2, 3]]" "zeros 42" "()",
        THEN conjunct2, THEN conjunct1] by (simp add: salt_or_zeros_def)
  show "fst (and_then (extract_from_secret (demo_kdf :: unit wolf_kdf) Sha256 None [7])
             (\<lambda>e. expand_slice demo_kdf e [[1], [2, 3]] (zeros 8161)) ())
     = Err OutputLengthError"
    using hkdf_extract_expand [OF demo_hkdf_ok, of Sha256 None "[7]" "[[1], [2, 3]]" "zeros 8161" "()",
        THEN conjunct2, THEN conjunct1] by simp
qed

text \<open>The blocks of the key schedule: an expander made from an \<open>OkmBlock\<close> expands to one block
  \<open>HMAC(okm, info || 0x01)\<close>, which has the hash's length and is therefore again a key for
  \<open>expander_for_okm\<close>; extracting from zero input key material is \<open>HMAC(salt, 00...00)\<close>.  None of the
  calls panics.\<close>

theorem hkdf_key_schedule_blocks:
  assumes "hkdf_ok w mac"
  shows "yields (and_then (expander_for_okm w v okm) (\<lambda>e. expand_block w e info))
           (\<lambda>r. r = mac (hmac_type w v) okm (concat info @ [1]) \<and> length r = variant_len v)
       \<and> yields (and_then (extract_from_zero_ikm w v salt) (\<lambda>e. expand_block w e info))
           (\<lambda>r. r = mac (hmac_type w v)
                      (mac (hmac_type w v) (salt_or_zeros v salt) (zeros (variant_len v)))
                      (concat info @ [1]))"
proof
  have 1: "yields (and_then (expander_for_okm w v okm) (\<lambda>e. expand_block w e info))
           (\<lambda>r. r = mac (hmac_type w v) okm (concat info @ [1]))"
    by (rule yields_and_then [OF expander_for_okm_yields [OF assms]]) (simp add: expand_block_yields [OF assms])
  show "yields (and_then (expander_for_okm w v okm) (\<lambda>e. expand_block w e info))
           (\<lambda>r. r = mac (hmac_type w v) okm (concat info @ [1]) \<and> length r = variant_len v)"
    by (rule yields_weaken [OF 1]) (simp add: length_mac [OF assms])
  show "yields (and_then (extract_from_zero_ikm w v salt) (\<lambda>e. expand_block w e info))
           (\<lambda>r. r = mac (hmac_type w v)
                      (mac (hmac_type w v) (salt_or_zeros v salt) (zeros (variant_len v)))
                      (concat info @ [1]))"
    by (rule yields_and_then [OF extract_from_zero_ikm_yields [OF assms]])
       (simp add: expand_block_yields [OF assms])
qed

theorem hkdf_key_schedule_blocks_witness:
  "yields (and_then (expander_for_okm (demo_kdf :: unit wolf_kdf) Sha384 [5, 6]) (\<lambda>e. expand_block demo_kdf e [[1], [2]]))
     (\<lambda>r. r = demo_mac (hmac_type (demo_kdf :: unit wolf_kdf) Sha384) [5, 6] ([1, 2] @ [1]) \<and> length r = 48)"
  using conjunct1 [OF hkdf_key_schedule_blocks [OF demo_hkdf_ok, of Sha384 "[5, 6]" "[[1], [2]]"]]
  by simp

text \<open>The two MACs of the provider agree: \<open>hmac_sign\<close> of the HKDF (the TLS 1.3 Finished MAC)
  returns the tag that the keyed HMAC returns for the same variant, key and message, however the
  message is cut up.\<close>

theorem finished_mac_is_hmac:
  assumes "hkdf_ok w mac" and "message = first @ concat middle @ final"
  shows "yields (hmac_sign w v key message)
           (\<lambda>tag. yields (sign_concat w (with_key v key) first middle final) (\<lambda>tag'. tag' = tag))"
  using hmac_sign_yields [OF assms(1), of v key message]
    sign_concat_yields [OF assms(1), of v key first middle final]
  by (auto simp: assms(2) elim: yields_weaken)

theorem finished_mac_is_hmac_witness:
  "yields (hmac_sign (demo_kdf :: unit wolf_kdf) Sha256 [1] [2, 3, 4])
     (\<lambda>tag. yields (sign_concat (demo_kdf :: unit wolf_kdf) (with_key Sha256 [1]) [2] [[3]] [4])
              (\<lambda>tag'. tag' = tag))"
  by (rule finished_mac_is_hmac [OF demo_hkdf_ok]) simp

end
