(* ===== verification/WolfKx.thy ===== *)
theory WolfKx
  imports Prelude
begin

text \<open>
  The random generator and the elliptic curve part of \<open>wolfssl-wolfcrypt\<close> as parameter records.
  Key objects and the generator are opaque.  Arguments that the provider always leaves \<open>None\<close>
  (heap hint and device id) are left out.
\<close>

datatype RNG = RNG_ctx bytes
datatype Curve25519Key = Curve25519_ctx bytes
datatype ECC = ECC_ctx bytes

record 's wolf_rng =
  rng_new :: "('s, i32, RNG) ffi"
  rng_generate_block :: "RNG \<Rightarrow> bytes \<Rightarrow> ('s, i32, bytes) ffi"

record 's wolf_curve25519 =
  curve_KEYSIZE :: usize
  curve_generate :: "RNG \<Rightarrow> ('s, i32, Curve25519Key) ffi"
  curve_export_key_raw_ex :: "Curve25519Key \<Rightarrow> bytes \<Rightarrow> bytes \<Rightarrow> bool \<Rightarrow> ('s, i32, bytes \<times> bytes) ffi"
    \<comment> \<open>private buffer, public buffer, big-endian flag: the buffers afterwards\<close>
  curve_check_public :: "bytes \<Rightarrow> bool \<Rightarrow> ('s, i32, unit) ffi"
  curve_import_public_ex :: "bytes \<Rightarrow> bool \<Rightarrow> ('s, i32, Curve25519Key) ffi"
  curve_import_private_ex :: "bytes \<Rightarrow> bool \<Rightarrow> ('s, i32, Curve25519Key) ffi"
  curve_shared_secret_ex :: "Curve25519Key \<Rightarrow> Curve25519Key \<Rightarrow> bytes \<Rightarrow> bool \<Rightarrow> ('s, i32, bytes) ffi"
    \<comment> \<open>private key, public key, output buffer, big-endian flag: the buffer afterwards\<close>

record 's wolf_ecc =
  ecc_SECP256R1 :: i32
  ecc_SECP384R1 :: i32
  ecc_SECP521R1 :: i32
  ecc_get_curve_size_from_id :: "i32 \<Rightarrow> ('s, i32, i32) ffi"
  ecc_generate_ex :: "i32 \<Rightarrow> RNG \<Rightarrow> i32 \<Rightarrow> ('s, i32, ECC) ffi"
    \<comment> \<open>curve size, generator, curve id\<close>
  ecc_export_private :: "ECC \<Rightarrow> bytes \<Rightarrow> ('s, i32, bytes \<times> usize) ffi"
  ecc_export_public :: "ECC \<Rightarrow> bytes \<Rightarrow> u32 \<Rightarrow> bytes \<Rightarrow> u32 \<Rightarrow> ('s, i32, bytes \<times> u32 \<times> bytes \<times> u32) ffi"
    \<comment> \<open>x buffer and its length, y buffer and its length: all four afterwards\<close>
  ecc_import_private_key_ex :: "bytes \<Rightarrow> bytes \<Rightarrow> i32 \<Rightarrow> ('s, i32, ECC) ffi"
    \<comment> \<open>private scalar, public key, curve id\<close>
  ecc_import_x963 :: "bytes \<Rightarrow> ('s, i32, ECC) ffi"
  ecc_set_rng :: "ECC \<Rightarrow> RNG \<Rightarrow> ('s, i32, ECC) ffi"
  ecc_shared_secret :: "ECC \<Rightarrow> ECC \<Rightarrow> bytes \<Rightarrow> ('s, i32, bytes) ffi"
  ecc_import_der :: "bytes \<Rightarrow> ('s, i32, ECC) ffi"
  ecc_make_pub :: "ECC \<Rightarrow> ('s, i32, ECC) ffi"
  ecc_export_x963 :: "ECC \<Rightarrow> bytes \<Rightarrow> ('s, i32, bytes \<times> usize) ffi"
  ecc_sig_to_rs :: "bytes \<Rightarrow> bytes \<Rightarrow> u32 \<Rightarrow> bytes \<Rightarrow> u32 \<Rightarrow> ('s, i32, bytes \<times> u32 \<times> bytes \<times> u32) ffi"
    \<comment> \<open>DER signature, r buffer and its length, s buffer and its length: all four afterwards\<close>
  ecc_rs_bin_to_sig :: "bytes \<Rightarrow> bytes \<Rightarrow> bytes \<Rightarrow> ('s, i32, bytes \<times> usize) ffi"
    \<comment> \<open>r, s, DER buffer: the buffer afterwards and the length of the DER signature\<close>

section \<open>The documented behaviour of the generator\<close>

definition rng_ok :: "'s wolf_rng \<Rightarrow> bool" where
  "rng_ok w \<longleftrightarrow> ffi_yields (rng_new w) (\<lambda>_. True)
     \<and> (\<forall>r b. ffi_yields (rng_generate_block w r b) (\<lambda>b'. length b' = length b))"

lemma rng_okD:
  assumes "rng_ok w"
  shows "ffi_yields (rng_new w) (\<lambda>_. True)"
    and "ffi_yields (rng_generate_block w r b) (\<lambda>b'. length b' = length b)"
  using assms unfolding rng_ok_def by blast+

section \<open>X25519\<close>

text \<open>
  The function X25519 of RFC 7748: \<open>x_pub a\<close> is the public key of the private key \<open>a\<close>, and
  \<open>x_dh a p\<close> the shared secret of the private key \<open>a\<close> with the public key \<open>p\<close>.  Diffie-Hellman
  rests on the symmetry of the shared secret.
\<close>

record x25519_fun =
  x_pub :: "bytes \<Rightarrow> bytes"
  x_dh :: "bytes \<Rightarrow> bytes \<Rightarrow> bytes"

definition x25519_symmetric :: "x25519_fun \<Rightarrow> bool" where
  "x25519_symmetric X \<longleftrightarrow> (\<forall>a b. x_dh X a (x_pub X b) = x_dh X b (x_pub X a))"

text \<open>
  Every operation returns, in little-endian order (\<open>False\<close>): a generated key has a private key and
  the public key that belongs to it, and exports both; a key that belongs to a private key passes
  the check and imports; the shared secret is \<open>x_dh\<close>.  \<open>privk k a\<close> and \<open>pubk k p\<close> say which private
  and public key a key object holds.
\<close>

definition curve25519_ok ::
    "'s wolf_curve25519 \<Rightarrow> x25519_fun \<Rightarrow> (Curve25519Key \<Rightarrow> bytes \<Rightarrow> bool) \<Rightarrow>
     (Curve25519Key \<Rightarrow> bytes \<Rightarrow> bool) \<Rightarrow> bool" where
  "curve25519_ok w X privk pubk \<longleftrightarrow>
     curve_KEYSIZE w = 32 \<and> x25519_symmetric X
   \<and> (\<forall>rng. ffi_yields (curve_generate w rng) (\<lambda>k. \<exists>a. length a = 32 \<and> privk k a))
   \<and> (\<forall>k a b c. privk k a \<longrightarrow> length b = 32 \<longrightarrow> length c = 32 \<longrightarrow>
        ffi_yields (curve_export_key_raw_ex w k b c False) (\<lambda>r. r = (a, x_pub X a)))
   \<and> (\<forall>a p. length (x_pub X a) = 32 \<and> length (x_dh X a p) = 32)
   \<and> (\<forall>a. length a = 32 \<longrightarrow> ffi_yields (curve_check_public w (x_pub X a) False) (\<lambda>_. True))
   \<and> (\<forall>p. length p = 32 \<longrightarrow> ffi_yields (curve_import_public_ex w p False) (\<lambda>k. pubk k p))
   \<and> (\<forall>a. length a = 32 \<longrightarrow> ffi_yields (curve_import_private_ex w a False) (\<lambda>k. privk k a))
   \<and> (\<forall>k k' a p out. privk k a \<longrightarrow> pubk k' p \<longrightarrow> length out = 32 \<longrightarrow>
        ffi_yields (curve_shared_secret_ex w k k' out False) (\<lambda>z. z = x_dh X a p))"

lemma curve25519_okD:
  assumes "curve25519_ok w X privk pubk"
  shows "curve_KEYSIZE w = 32" and "x_dh X a (x_pub X b) = x_dh X b (x_pub X a)"
    and "ffi_yields (curve_generate w rng) (\<lambda>k. \<exists>a. length a = 32 \<and> privk k a)"
    and "privk k a \<Longrightarrow> length b' = 32 \<Longrightarrow> length c = 32 \<Longrightarrow>
         ffi_yields (curve_export_key_raw_ex w k b' c False) (\<lambda>r. r = (a, x_pub X a))"
    and "length (x_pub X a) = 32" and "length (x_dh X a p) = 32"
    and "length a = 32 \<Longrightarrow> ffi_yields (curve_check_public w (x_pub X a) False) (\<lambda>_. True)"
    and "length p = 32 \<Longrightarrow> ffi_yields (curve_import_public_ex w p False) (\<lambda>k. pubk k p)"
    and "length a = 32 \<Longrightarrow> ffi_yields (curve_import_private_ex w a False) (\<lambda>k. privk k a)"
    and "privk k a \<Longrightarrow> pubk k' p \<Longrightarrow> length out = 32 \<Longrightarrow>
         ffi_yields (curve_shared_secret_ex w k k' out False) (\<lambda>z. z = x_dh X a p)"
  using assms unfolding curve25519_ok_def x25519_symmetric_def by blast+

section \<open>Elliptic curve Diffie-Hellman over a prime curve\<close>

text \<open>
  A curve as its id, the size of a coordinate, the coordinates of the public point of a private
  scalar, and the shared secret of a scalar with a point given in uncompressed X9.63 form.
\<close>

record ecdh_curve =
  ec_id :: i32
  ec_coord :: usize
  ec_x :: "bytes \<Rightarrow> bytes"
  ec_y :: "bytes \<Rightarrow> bytes"
  ec_dh :: "bytes \<Rightarrow> bytes \<Rightarrow> bytes"

definition x963_point :: "bytes \<Rightarrow> bytes \<Rightarrow> bytes" where
  "x963_point x y = 4 # x @ y"

definition ec_pub :: "ecdh_curve \<Rightarrow> bytes \<Rightarrow> bytes" where
  "ec_pub C d = x963_point (ec_x C d) (ec_y C d)"

definition ecdh_curve_ok :: "ecdh_curve \<Rightarrow> bool" where
  "ecdh_curve_ok C \<longleftrightarrow>
     (\<forall>d. length (ec_x C d) = ec_coord C \<and> length (ec_y C d) = ec_coord C)
   \<and> (\<forall>a p. length (ec_dh C a p) = ec_coord C)
   \<and> (\<forall>a b. ec_dh C a (ec_pub C b) = ec_dh C b (ec_pub C a))"

text \<open>
  Every operation returns on the keys of the curve: generation gives a key pair, whose scalar and
  coordinates the exports write in full into buffers of the coordinate size; a scalar with its own
  public point, and the public point of any scalar, import; setting the generator keeps a key;
  the shared secret is \<open>ec_dh\<close>.
\<close>

definition ecc_ecdh_ok ::
    "'s wolf_ecc \<Rightarrow> ecdh_curve \<Rightarrow> (ECC \<Rightarrow> bytes \<Rightarrow> bool) \<Rightarrow> (ECC \<Rightarrow> bytes \<Rightarrow> bool) \<Rightarrow> bool" where
  "ecc_ecdh_ok w C privk pubk \<longleftrightarrow>
     ecdh_curve_ok C
   \<and> ffi_yields (ecc_get_curve_size_from_id w (ec_id C)) (\<lambda>n. n = of_nat (ec_coord C))
   \<and> (\<forall>rng. ffi_yields (ecc_generate_ex w (of_nat (ec_coord C)) rng (ec_id C))
        (\<lambda>k. \<exists>d. length d = ec_coord C \<and> privk k d))
   \<and> (\<forall>k d b. privk k d \<longrightarrow> length b = ec_coord C \<longrightarrow>
        ffi_yields (ecc_export_private w k b) (\<lambda>r. r = (d, ec_coord C)))
   \<and> (\<forall>k d b c. privk k d \<longrightarrow> length b = ec_coord C \<longrightarrow> length c = ec_coord C \<longrightarrow>
        ffi_yields (ecc_export_public w k b (of_nat (ec_coord C)) c (of_nat (ec_coord C)))
          (\<lambda>r. r = (ec_x C d, of_nat (ec_coord C), ec_y C d, of_nat (ec_coord C))))
   \<and> (\<forall>d. length d = ec_coord C \<longrightarrow>
        ffi_yields (ecc_import_private_key_ex w d (ec_pub C d) (ec_id C)) (\<lambda>k. privk k d))
   \<and> (\<forall>d. length d = ec_coord C \<longrightarrow> ffi_yields (ecc_import_x963 w (ec_pub C d)) (\<lambda>k. pubk k (ec_pub C d)))
   \<and> (\<forall>k rng d. privk k d \<longrightarrow> ffi_yields (ecc_set_rng w k rng) (\<lambda>k'. privk k' d))
   \<and> (\<forall>k rng p. pubk k p \<longrightarrow> ffi_yields (ecc_set_rng w k rng) (\<lambda>k'. pubk k' p))
   \<and> (\<forall>k k' d p out. privk k d \<longrightarrow> pubk k' p \<longrightarrow> length out = ec_coord C \<longrightarrow>
        ffi_yields (ecc_shared_secret w k k' out) (\<lambda>z. z = ec_dh C d p))"

lemma ecc_ecdh_okD:
  assumes "ecc_ecdh_ok w C privk pubk"
  shows "length (ec_x C d) = ec_coord C" and "length (ec_y C d) = ec_coord C"
    and "ec_dh C a (ec_pub C b) = ec_dh C b (ec_pub C a)"
    and "ffi_yields (ecc_get_curve_size_from_id w (ec_id C)) (\<lambda>n. n = of_nat (ec_coord C))"
    and "ffi_yields (ecc_generate_ex w (of_nat (ec_coord C)) rng (ec_id C))
          (\<lambda>k. \<exists>d. length d = ec_coord C \<and> privk k d)"
    and "privk k d \<Longrightarrow> length buf = ec_coord C \<Longrightarrow>
         ffi_yields (ecc_export_private w k buf) (\<lambda>r. r = (d, ec_coord C))"
    and "privk k d \<Longrightarrow> length buf = ec_coord C \<Longrightarrow> length buf' = ec_coord C \<Longrightarrow>
         ffi_yields (ecc_export_public w k buf (of_nat (ec_coord C)) buf' (of_nat (ec_coord C)))
          (\<lambda>r. r = (ec_x C d, of_nat (ec_coord C), ec_y C d, of_nat (ec_coord C)))"
    and "length d = ec_coord C \<Longrightarrow>
         ffi_yields (ecc_import_private_key_ex w d (ec_pub C d) (ec_id C)) (\<lambda>k. privk k d)"
    and "length d = ec_coord C \<Longrightarrow> ffi_yields (ecc_import_x963 w (ec_pub C d)) (\<lambda>k. pubk k (ec_pub C d))"
    and "privk k d \<Longrightarrow> ffi_yields (ecc_set_rng w k rng) (\<lambda>k'. privk k' d)"
    and "pubk k p \<Longrightarrow> ffi_yields (ecc_set_rng w k rng) (\<lambda>k'. pubk k' p)"
    and "privk k d \<Longrightarrow> pubk k' p \<Longrightarrow> length out = ec_coord C \<Longrightarrow>
         ffi_yields (ecc_shared_secret w k k' out) (\<lambda>z. z = ec_dh C d p)"
    and "length (ec_dh C a p) = ec_coord C"
  using assms unfolding ecc_ecdh_ok_def ecdh_curve_ok_def by simp_all

lemma length_ec_pub: "ecc_ecdh_ok w C privk pubk \<Longrightarrow> length (ec_pub C d) = 1 + ec_coord C + ec_coord C"
  by (simp add: ec_pub_def x963_point_def ecc_ecdh_okD)

section \<open>The call sequences of the elliptic curve key exchanges\<close>

lemma ecc_keygen_sequence:
  assumes r: "rng_ok r" and w: "ecc_ecdh_ok w C privk pubk" and C: "ec_id C = i" "ec_coord C = n"
    and f: "\<And>d. length d = n \<Longrightarrow> yields (f d (ec_x C d) (ec_y C d)) Q"
  shows "yields (and_then (map_err e1 (rng_new r)) (\<lambda>rng.
           and_then (map_err e2 (ecc_get_curve_size_from_id w i)) (\<lambda>curve_size.
           and_then (map_err e3 (ecc_generate_ex w curve_size rng i)) (\<lambda>key.
           and_then (map_err e4 (ecc_export_private w key (zeros n))) (\<lambda>(priv, _).
           and_then (map_err e5 (ecc_export_public w key (zeros n) (of_nat n) (zeros n) (of_nat n)))
             (\<lambda>(qx, _, qy, _). f priv qx qy)))))) Q"
proof -
  note D = ecc_ecdh_okD [OF w, unfolded C]
  have pub: "yields (and_then (map_err e5 (ecc_export_public w key (zeros n) (of_nat n) (zeros n) (of_nat n)))
               (\<lambda>(qx, _, qy, _). f d qx qy)) Q" if "privk key d" "length d = n" for key d
    by (rule yields_and_then [OF yields_map_err [OF D(7) [OF that(1)]]]) (simp_all add: that f)
  have priv: "yields (and_then (map_err e4 (ecc_export_private w key (zeros n))) (\<lambda>(priv, _).
               and_then (map_err e5 (ecc_export_public w key (zeros n) (of_nat n) (zeros n) (of_nat n)))
                 (\<lambda>(qx, _, qy, _). f priv qx qy))) Q" if "privk key d" "length d = n" for key d
    by (rule yields_and_then [OF yields_map_err [OF D(6) [OF that(1)]]]) (simp_all add: that pub)
  show ?thesis
    by (rule yields_and_then [OF yields_map_err [OF rng_okD(1) [OF r]]],
        rule yields_and_then [OF yields_map_err [OF D(4)]], hypsubst,
        rule yields_and_then [OF yields_map_err [OF D(5)]], elim exE conjE, rule priv)
qed

lemma ecc_secret_sequence:
  assumes r: "rng_ok r" and w: "ecc_ecdh_ok w C privk pubk" and C: "ec_id C = i" "ec_coord C = n"
    and a: "length a = n" and b: "length b = n"
    and f: "yields (f (ec_dh C a (ec_pub C b))) Q"
  shows "yields (and_then (map_err e1 (rng_new r)) (\<lambda>rng.
           and_then (map_err e2 (ecc_import_private_key_ex w a (ec_pub C a) i)) (\<lambda>priv_key.
           and_then (map_err e3 (ecc_import_x963 w (ec_pub C b))) (\<lambda>pub_key.
           and_then (map_err e4 (ecc_set_rng w priv_key rng)) (\<lambda>priv_key.
           and_then (map_err e5 (ecc_set_rng w pub_key rng)) (\<lambda>pub_key.
           and_then (map_err e6 (ecc_shared_secret w priv_key pub_key (zeros n))) f)))))) Q"
  using f a b
  by (intro yields_and_then [OF yields_map_err [OF rng_okD(1) [OF r]]]
        yields_and_then [OF yields_map_err [OF ecc_ecdh_okD(8) [OF w, unfolded C]]]
        yields_and_then [OF yields_map_err [OF ecc_ecdh_okD(9) [OF w, unfolded C]]]
        yields_and_then [OF yields_map_err [OF ecc_ecdh_okD(10) [OF w, unfolded C]]]
        yields_and_then [OF yields_map_err [OF ecc_ecdh_okD(11) [OF w, unfolded C]]]
        yields_and_then [OF yields_map_err [OF ecc_ecdh_okD(12) [OF w, unfolded C]]])
     (assumption | simp)+

end
