(* ===== verification/Der.thy ===== *)
theory Der
  imports Prelude
begin

text \<open>
  The DER form of an ECDSA signature, \<open>SEQUENCE { INTEGER r, INTEGER s }\<close>: the specification of
  the two foreign conversions that the provider calls, an encoder and a parser for it, and the
  length bound that sizes the provider's signature buffer.
\<close>

definition strip0 :: "bytes \<Rightarrow> bytes" where
  "strip0 b = dropWhile (\<lambda>x. x = 0) b"

definition nonzero :: "bytes \<Rightarrow> bool" where
  "nonzero b \<longleftrightarrow> (\<exists>x \<in> set b. x \<noteq> 0)"

text \<open>A definite length of at most 255 bytes, an INTEGER from an unsigned magnitude, a signature.\<close>

definition der_len :: "nat \<Rightarrow> bytes" where
  "der_len n = (if n < 128 then [of_nat n] else [0x81, of_nat n])"

definition der_content :: "bytes \<Rightarrow> bytes" where
  "der_content b = (let m = strip0 b in if m = [] \<or> 128 \<le> hd m then 0 # m else m)"

definition der_uint :: "bytes \<Rightarrow> bytes" where
  "der_uint b = (let c = der_content b in 2 # der_len (length c) @ c)"

definition ecdsa_der :: "bytes \<Rightarrow> bytes \<Rightarrow> bytes" where
  "ecdsa_der r s = (let body = der_uint r @ der_uint s in 0x30 # der_len (length body) @ body)"

text \<open>The parser: the length and what follows it; the content under a tag and what follows it.\<close>

fun parse_len :: "bytes \<Rightarrow> (nat \<times> bytes) option" where
  "parse_len [] = None"
| "parse_len (n # rest) =
     (if n < 128 then Some (unat n, rest)
      else if n = 0x81 then (case rest of [] \<Rightarrow> None | k # rest' \<Rightarrow> Some (unat k, rest'))
      else None)"

definition parse_tlv :: "u8 \<Rightarrow> bytes \<Rightarrow> (bytes \<times> bytes) option" where
  "parse_tlv tag b =
     (case b of [] \<Rightarrow> None
      | t # rest \<Rightarrow>
          if t \<noteq> tag then None
          else case parse_len rest of None \<Rightarrow> None
               | Some (n, rest') \<Rightarrow>
                   if length rest' < n then None else Some (take n rest', drop n rest'))"

definition parse_ecdsa_der :: "bytes \<Rightarrow> (bytes \<times> bytes) option" where
  "parse_ecdsa_der b =
     (case parse_tlv 0x30 b of Some (body, []) \<Rightarrow>
        (case parse_tlv 2 body of Some (r, rest) \<Rightarrow>
           (case parse_tlv 2 rest of Some (s, []) \<Rightarrow> Some (strip0 r, strip0 s) | _ \<Rightarrow> None)
         | None \<Rightarrow> None)
      | _ \<Rightarrow> None)"

section \<open>Leading zeros\<close>

lemma length_strip0: "length (strip0 b) \<le> length b"
  by (simp add: strip0_def length_dropWhile_le)

lemma strip0_idem [simp]: "strip0 (strip0 b) = strip0 b"
  by (simp add: strip0_def)

lemma strip0_zero [simp]: "strip0 (0 # b) = strip0 b"
  by (simp add: strip0_def)

lemma strip0_zeros [simp]: "strip0 (zeros n @ b) = strip0 b"
  by (induction n) (simp_all add: zeros_def)

text \<open>Padding with zeros on the left restores a stripped number.\<close>

lemma pad_strip0: "zeros (length b - length (strip0 b)) @ strip0 b = b"
proof (induction b)
  case (Cons x b)
  have "length b - length (strip0 b) = Suc (length b) - length (strip0 b) - 1" by simp
  with Cons length_strip0 [of b] show ?case
    by (cases "x = 0") (auto simp: strip0_def zeros_def Suc_diff_le)
qed (simp add: zeros_def strip0_def)

lemma strip0_der_content [simp]: "strip0 (der_content b) = strip0 b"
  by (simp add: der_content_def Let_def)

section \<open>Encoding and parsing\<close>

lemma length_der_content: "length (der_content b) \<le> length b + 1"
  using length_strip0 [of b] by (simp add: der_content_def Let_def)

lemma length_der_len: "length (der_len n) = (if n < 128 then 1 else 2)"
  by (simp add: der_len_def)

lemma parse_len_der_len: "n < 256 \<Longrightarrow> parse_len (der_len n @ rest) = Some (n, rest)"
  by (simp add: der_len_def word_less_nat_alt unat_of_nat take_bit_eq_mod)

lemma parse_tlv_encoded:
  "length c < 256 \<Longrightarrow> parse_tlv tag (tag # der_len (length c) @ c @ rest) = Some (c, rest)"
  by (simp add: parse_tlv_def parse_len_der_len)

lemma length_der_uint: "length b \<le> 66 \<Longrightarrow> length (der_uint b) \<le> length b + 3"
  using length_der_content [of b] by (simp add: der_uint_def Let_def length_der_len)

text \<open>A signature of two numbers of at most 66 bytes (the order of P-521) takes at most 141 bytes.\<close>

lemma length_ecdsa_der:
  assumes "length r \<le> 66" "length s \<le> 66"
  shows "length (ecdsa_der r s) \<le> 141"
  using length_der_uint [OF assms(1)] length_der_uint [OF assms(2)] assms
  by (simp add: ecdsa_der_def Let_def length_der_len)

lemma parse_ecdsa_der_encoded:
  assumes "length r \<le> 66" "length s \<le> 66"
  shows "parse_ecdsa_der (ecdsa_der r s) = Some (strip0 r, strip0 s)"
proof -
  have c: "length (der_content r) < 256" "length (der_content s) < 256"
    using length_der_content [of r] length_der_content [of s] assms by linarith+
  have "length (der_uint r @ der_uint s) < 256"
    using length_der_uint [OF assms(1)] length_der_uint [OF assms(2)] assms by simp
  from parse_tlv_encoded [OF this, of "0x30" "[]"]
  have "parse_tlv 0x30 (ecdsa_der r s) = Some (der_uint r @ der_uint s, [])"
    by (simp add: ecdsa_der_def Let_def)
  moreover have "parse_tlv 2 (der_uint r @ der_uint s) = Some (der_content r, der_uint s)"
    using parse_tlv_encoded [OF c(1), of 2 "der_uint s"] by (simp add: der_uint_def Let_def)
  moreover have "parse_tlv 2 (der_uint s) = Some (der_content s, [])"
    using parse_tlv_encoded [OF c(2), of 2 "[]"] by (simp add: der_uint_def Let_def)
  ultimately show ?thesis by (simp add: parse_ecdsa_der_def)
qed

end
