(* ===== verification/WolfKxDemo.thy ===== *)
theory WolfKxDemo
  imports WolfKx Der
begin

text \<open>
  A small foreign library that satisfies the documented behaviour of the generator, of X25519 and
  of the three prime curves, for the concrete instances of the theorems.  Its Diffie-Hellman
  function is the exclusive or of the two private keys, which is symmetric.
\<close>

definition norm :: "usize \<Rightarrow> bytes \<Rightarrow> bytes" where
  "norm n d = take n (d @ zeros n)"

lemma length_norm [simp]: "length (norm n d) = n"
  by (simp add: norm_def)

lemma norm_same [simp]: "length d = n \<Longrightarrow> norm n d = d"
  by (simp add: norm_def)

lemma norm_append [simp]: "length d = n \<Longrightarrow> norm n (d @ e) = d"
  by (simp add: norm_def)

lemma map2_xor_commute: "map2 (XOR) a b = map2 (XOR) b (a::bytes)"
proof (induction a arbitrary: b)
  case (Cons x a)
  then show ?case by (cases b) (simp_all add: xor.commute)
qed simp

definition demo_rng :: "'s wolf_rng" where
  "demo_rng = \<lparr>
     rng_new = (\<lambda>s. (Inr (RNG_ctx []), s)),
     rng_generate_block = (\<lambda>r b s. (Inr (map (\<lambda>i. of_nat (7 + i)) [0..<length b]), s))\<rparr>"

lemma demo_rng_ok: "rng_ok demo_rng"
  by (simp add: rng_ok_def demo_rng_def ffi_yields_def)

section \<open>X25519\<close>

definition demo_x25519 :: x25519_fun where
  "demo_x25519 = \<lparr>x_pub = norm 32, x_dh = (\<lambda>a p. map2 (XOR) (norm 32 a) (norm 32 p))\<rparr>"

fun demo_c_bytes :: "Curve25519Key \<Rightarrow> bytes" where
  "demo_c_bytes (Curve25519_ctx b) = b"

definition demo_curve25519 :: "'s wolf_curve25519" where
  "demo_curve25519 = \<lparr>
     curve_KEYSIZE = 32,
     curve_generate = (\<lambda>r s. (Inr (Curve25519_ctx (replicate 32 9)), s)),
     curve_export_key_raw_ex = (\<lambda>k b c e s. (Inr (demo_c_bytes k, norm 32 (demo_c_bytes k)), s)),
     curve_check_public = (\<lambda>p e s. (if length p = 32 then Inr () else Inl (-173), s)),
     curve_import_public_ex = (\<lambda>p e s. (Inr (Curve25519_ctx p), s)),
     curve_import_private_ex = (\<lambda>a e s. (Inr (Curve25519_ctx a), s)),
     curve_shared_secret_ex = (\<lambda>k k' out e s.
        (Inr (map2 (XOR) (norm 32 (demo_c_bytes k)) (norm 32 (demo_c_bytes k'))), s))\<rparr>"

definition demo_c_holds :: "Curve25519Key \<Rightarrow> bytes \<Rightarrow> bool" where
  "demo_c_holds k b \<longleftrightarrow> k = Curve25519_ctx b"

lemma demo_curve25519_ok: "curve25519_ok demo_curve25519 demo_x25519 demo_c_holds demo_c_holds"
  by (simp add: curve25519_ok_def x25519_symmetric_def demo_curve25519_def demo_x25519_def
      demo_c_holds_def ffi_yields_def map2_xor_commute)

section \<open>The prime curves\<close>

definition demo_curve :: "i32 \<Rightarrow> usize \<Rightarrow> ecdh_curve" where
  "demo_curve i n = \<lparr>ec_id = i, ec_coord = n, ec_x = norm n, ec_y = norm n,
     ec_dh = (\<lambda>d p. map2 (XOR) (norm n d) (norm n (drop 1 p)))\<rparr>"

text \<open>A key object starts with 0 for a private and with 1 for a public key.\<close>

fun demo_e_bytes :: "ECC \<Rightarrow> bytes" where
  "demo_e_bytes (ECC_ctx b) = tl b"

definition demo_coord :: "i32 \<Rightarrow> i32" where
  "demo_coord i = (if i = 7 then 32 else if i = 15 then 48 else 66)"

definition demo_ecc :: "'s wolf_ecc" where
  "demo_ecc = \<lparr>
     ecc_SECP256R1 = 7, ecc_SECP384R1 = 15, ecc_SECP521R1 = 16,
     ecc_get_curve_size_from_id = (\<lambda>i s. (Inr (demo_coord i), s)),
     ecc_generate_ex = (\<lambda>n r i s. (Inr (ECC_ctx (0 # replicate (unat n) 9)), s)),
     ecc_export_private = (\<lambda>k b s. (Inr (demo_e_bytes k, length (demo_e_bytes k)), s)),
     ecc_export_public = (\<lambda>k b n c m s.
        (Inr (norm (unat n) (demo_e_bytes k), n, norm (unat m) (demo_e_bytes k), m), s)),
     ecc_import_private_key_ex = (\<lambda>d p i s. (Inr (ECC_ctx (0 # d)), s)),
     ecc_import_x963 = (\<lambda>p s. (if p \<noteq> [] \<and> hd p = 4 then Inr (ECC_ctx (1 # p)) else Inl (-140), s)),
     ecc_set_rng = (\<lambda>k r s. (Inr k, s)),
     ecc_shared_secret = (\<lambda>k k' out s.
        (Inr (map2 (XOR) (norm (length out) (demo_e_bytes k))
                (norm (length out) (drop 1 (demo_e_bytes k')))), s)),
     ecc_import_der = (\<lambda>b s. (case b of
          [] \<Rightarrow> Inl (-140)
        | t # d \<Rightarrow> if t = 0x30 \<and> length d \<in> {32, 48, 66} then Inr (ECC_ctx (0 # d))
            else if t = 0x30 \<and> length d = 120 then Inr (ECC_ctx (0 # take 32 (drop 6 d))) else Inl (-140), s)),
     ecc_make_pub = (\<lambda>k s. (Inr k, s)),
     ecc_export_x963 = (\<lambda>k b s.
        (let p = 4 # demo_e_bytes k @ demo_e_bytes k in
        (if length p \<le> length b then Inr (p @ drop (length p) b, length p) else Inl (-132), s))),
     ecc_sig_to_rs = (\<lambda>der rb rl sb sl s. (case parse_ecdsa_der der of
          None \<Rightarrow> Inl (-140)
        | Some (r, t) \<Rightarrow>
            if length r \<le> unat rl \<and> length t \<le> unat sl
            then Inr (r @ drop (length r) rb, of_nat (length r), t @ drop (length t) sb, of_nat (length t))
            else Inl (-132), s)),
     ecc_rs_bin_to_sig = (\<lambda>r t buf s.
        (let der = ecdsa_der r t in
         if length der \<le> length buf then Inr (der @ drop (length der) buf, length der) else Inl (-132), s))\<rparr>"

definition demo_privk :: "usize \<Rightarrow> ECC \<Rightarrow> bytes \<Rightarrow> bool" where
  "demo_privk n k d \<longleftrightarrow> k = ECC_ctx (0 # d) \<and> length d = n"

definition demo_pubk :: "ECC \<Rightarrow> bytes \<Rightarrow> bool" where
  "demo_pubk k p \<longleftrightarrow> k = ECC_ctx (1 # p)"

lemma demo_curve_ok: "ecdh_curve_ok (demo_curve i n)"
  by (simp add: ecdh_curve_ok_def demo_curve_def ec_pub_def x963_point_def map2_xor_commute)

lemma demo_ecc_ecdh_ok:
  assumes "demo_coord i = of_nat n" "n < 2 ^ 32"
  shows "ecc_ecdh_ok demo_ecc (demo_curve i n) (demo_privk n) demo_pubk"
proof -
  have n: "unat (of_nat n :: 32 word) = n"
    using assms(2) by (simp add: unat_of_nat take_bit_eq_mod)
  show ?thesis
    unfolding ecc_ecdh_ok_def
    by (simp add: demo_curve_ok)
       (simp add: demo_curve_def demo_ecc_def demo_privk_def demo_pubk_def ffi_yields_def n assms(1)
          ec_pub_def x963_point_def)
qed

end
