(* ===== verification/KeyExchange.thy ===== *)
theory KeyExchange
  imports RustlsTypes
begin

text \<open>
  The interface between a key exchange group and the handshake: \<open>SupportedKxGroup::start\<close> and
  \<open>ActiveKeyExchange\<close> as a locale.  Its laws are what each group promises; its lemmas are what the
  handshake needs of any of them.
\<close>

text \<open>Two parties start an exchange and complete it with each other's public key.\<close>

definition exchange ::
    "('s, rustls_error, 'k) rust \<Rightarrow> ('k \<Rightarrow> bytes \<Rightarrow> ('s, rustls_error, bytes) rust) \<Rightarrow> ('k \<Rightarrow> bytes) \<Rightarrow>
     ('s, rustls_error, bytes \<times> bytes) rust" where
  "exchange start complete pub_key =
     and_then start (\<lambda>alice.
     and_then start (\<lambda>bob.
     and_then (complete alice (pub_key bob)) (\<lambda>za.
     and_then (complete bob (pub_key alice)) (\<lambda>zb. ok (za, zb)))))"

locale key_exchange =
  fixes lib_ok :: "'w \<Rightarrow> bool"
    and start :: "'w \<Rightarrow> ('s, rustls_error, 'k) rust"
    and complete :: "'w \<Rightarrow> 'k \<Rightarrow> bytes \<Rightarrow> ('s, rustls_error, bytes) rust"
    and pub_key :: "'k \<Rightarrow> bytes"
    and holds :: "'w \<Rightarrow> 'k \<Rightarrow> bytes \<Rightarrow> bool"
    and pub_of :: "'w \<Rightarrow> bytes \<Rightarrow> bytes"
    and secret :: "'w \<Rightarrow> bytes \<Rightarrow> bytes \<Rightarrow> bytes"
    and secret_len :: "'w \<Rightarrow> usize"
    and pub_len :: "'w \<Rightarrow> usize"
  assumes start_holds: "lib_ok w \<Longrightarrow> yields (start w) (\<lambda>k. \<exists>a. holds w k a)"
    and pub_key_of: "lib_ok w \<Longrightarrow> holds w k a \<Longrightarrow> pub_key k = pub_of w a \<and> length (pub_key k) = pub_len w"
    and complete_secret: "lib_ok w \<Longrightarrow> holds w k a \<Longrightarrow> holds w k' b \<Longrightarrow>
           yields (complete w k (pub_key k')) (\<lambda>z. z = secret w a (pub_of w b))"
    and secret_symmetric: "lib_ok w \<Longrightarrow> secret w a (pub_of w b) = secret w b (pub_of w a)"
    and length_secret: "lib_ok w \<Longrightarrow> length (secret w a (pub_of w b)) = secret_len w"
    and wrong_length: "holds w k a \<Longrightarrow> length p \<noteq> pub_len w \<Longrightarrow> \<exists>msg. complete w k p = err (General msg)"
    and complete_no_panic: "no_panic (complete w k p)"
begin

lemma both_started:
  assumes w: "lib_ok w"
    and f: "\<And>alice bob a b. holds w alice a \<Longrightarrow> holds w bob b \<Longrightarrow> yields (f alice bob) Q"
  shows "yields (and_then (start w) (\<lambda>alice. and_then (start w) (f alice))) Q"
  by (rule yields_and_then [OF start_holds [OF w]], rule yields_and_then [OF start_holds [OF w]])
     (blast intro: f)

lemma exchange_agrees:
  assumes w: "lib_ok w"
  shows "yields (exchange (start w) (complete w) pub_key) (\<lambda>(za, zb). za = zb \<and> length za = secret_len w)"
  unfolding exchange_def
proof (rule both_started [OF w])
  fix alice bob a b
  assume h: "holds w alice a" "holds w bob b"
  show "yields (and_then (complete w alice (pub_key bob)) (\<lambda>za.
           and_then (complete w bob (pub_key alice)) (\<lambda>zb. ok (za, zb))))
           (\<lambda>(za, zb). za = zb \<and> length za = secret_len w)"
    by (rule yields_and_then [OF complete_secret [OF w h]],
        rule yields_and_then [OF complete_secret [OF w h(2,1)]], rule yields_ok)
       (simp add: secret_symmetric [OF w, of b a] length_secret [OF w])
qed

text \<open>What the handshake derives from the secret is the same on both sides too.\<close>

lemma derived_agrees:
  assumes w: "lib_ok w" and g: "\<And>z. length z = secret_len w \<Longrightarrow> yields (g z) (\<lambda>m. m = G z)"
  shows "yields (and_then (start w) (\<lambda>alice.
           and_then (start w) (\<lambda>bob.
           and_then (and_then (complete w alice (pub_key bob)) g) (\<lambda>ma.
           and_then (and_then (complete w bob (pub_key alice)) g) (\<lambda>mb. ok (ma, mb))))))
           (\<lambda>(ma, mb). ma = mb \<and> ma \<in> range G)"
proof (rule both_started [OF w])
  have side: "yields (and_then (complete w k (pub_key k')) g) (\<lambda>m. m = G (secret w a (pub_of w b)))"
    if "holds w k a" "holds w k' b" for k k' a b
    using that by (auto intro!: yields_and_then [OF complete_secret [OF w]] g length_secret [OF w])
  fix alice bob a b
  assume h: "holds w alice a" "holds w bob b"
  show "yields (and_then (and_then (complete w alice (pub_key bob)) g) (\<lambda>ma.
           and_then (and_then (complete w bob (pub_key alice)) g) (\<lambda>mb. ok (ma, mb))))
           (\<lambda>(ma, mb). ma = mb \<and> ma \<in> range G)"
    by (rule yields_and_then [OF side [OF h]], rule yields_and_then [OF side [OF h(2,1)]], rule yields_ok)
       (simp add: secret_symmetric [OF w, of b a])
qed

end

end
