(* ===== verification/KxX25519.thy ===== *)
theory KxX25519
  imports WolfKx KeyExchange
begin

text \<open>
  \<open>src/kx/x25519.rs\<close>: the X25519 key exchange.  The \<open>SharedSecret\<close> that \<open>complete\<close> returns is the
  bytes it holds; zeroising is not modelled.
\<close>

definition x25519_BIG_ENDIAN :: bool where "x25519_BIG_ENDIAN = False"

record KeyExchangeX25519 =
  x25519_pub_key_bytes :: bytes
  x25519_priv_key_bytes :: bytes

definition use_curve25519 ::
    "'s wolf_rng \<Rightarrow> 's wolf_curve25519 \<Rightarrow> ('s, rustls_error, KeyExchangeX25519) rust" where
  "use_curve25519 r w =
     and_then (map_err (\<lambda>_. General ''RNG::new failed'') (rng_new r)) (\<lambda>rng.
     and_then (map_err (\<lambda>_. General ''Curve25519Key::generate failed'') (curve_generate w rng)) (\<lambda>key.
     let priv_key_raw = zeros (curve_KEYSIZE w);
         pub_key_raw = zeros (curve_KEYSIZE w) in
     and_then (map_err (\<lambda>_. General ''export_key_raw_ex failed'')
         (curve_export_key_raw_ex w key priv_key_raw pub_key_raw x25519_BIG_ENDIAN))
       (\<lambda>(priv_key_raw, pub_key_raw).
     ok \<lparr>x25519_pub_key_bytes = pub_key_raw, x25519_priv_key_bytes = priv_key_raw\<rparr>)))"

definition x25519_derive_shared_secret ::
    "'s wolf_curve25519 \<Rightarrow> KeyExchangeX25519 \<Rightarrow> bytes \<Rightarrow> ('s, rustls_error, bytes) rust" where
  "x25519_derive_shared_secret w self peer_pub_key =
     (if length peer_pub_key \<noteq> curve_KEYSIZE w
      then err (General ''Invalid Curve25519 peer public key length'')
      else
     and_then (map_err (\<lambda>_. General ''Invalid Curve25519 public key'')
         (curve_check_public w peer_pub_key x25519_BIG_ENDIAN)) (\<lambda>_.
     and_then (map_err (\<lambda>_. General ''Failed to import Curve25519 public key'')
         (curve_import_public_ex w peer_pub_key x25519_BIG_ENDIAN)) (\<lambda>pub_key.
     and_then (map_err (\<lambda>_. General ''Failed to import Curve25519 private key'')
         (curve_import_private_ex w (x25519_priv_key_bytes self) x25519_BIG_ENDIAN)) (\<lambda>priv_key.
     let out = zeros (curve_KEYSIZE w) in
     and_then (map_err (\<lambda>_. General ''Failed to compute Curve25519 shared secret'')
         (curve_shared_secret_ex w priv_key pub_key out x25519_BIG_ENDIAN)) (\<lambda>out.
     ok out)))))"

definition x25519_complete ::
    "'s wolf_curve25519 \<Rightarrow> KeyExchangeX25519 \<Rightarrow> bytes \<Rightarrow> ('s, rustls_error, bytes) rust" where
  "x25519_complete w self peer_pub_key =
     and_then (x25519_derive_shared_secret w self peer_pub_key) (\<lambda>secret. ok secret)"

definition x25519_pub_key :: "KeyExchangeX25519 \<Rightarrow> bytes" where
  "x25519_pub_key self = x25519_pub_key_bytes self"

definition x25519_group :: "KeyExchangeX25519 \<Rightarrow> NamedGroup" where
  "x25519_group self = GroupX25519"

text \<open>A key pair of the private key \<open>a\<close>.\<close>

definition x25519_pair :: "x25519_fun \<Rightarrow> KeyExchangeX25519 \<Rightarrow> bytes \<Rightarrow> bool" where
  "x25519_pair X k a \<longleftrightarrow> length a = 32 \<and> x25519_priv_key_bytes k = a \<and> x25519_pub_key_bytes k = x_pub X a"

lemma use_curve25519_yields:
  assumes r: "rng_ok r" and w: "curve25519_ok w X privk pubk"
  shows "yields (use_curve25519 r w) (\<lambda>k. \<exists>a. x25519_pair X k a)"
proof -
  note D = curve25519_okD [OF w]
  have pair: "yields (and_then (map_err e (curve_export_key_raw_ex w key (zeros 32) (zeros 32) False))
        (\<lambda>(priv, pub). ok \<lparr>x25519_pub_key_bytes = pub, x25519_priv_key_bytes = priv\<rparr>))
        (\<lambda>k. \<exists>a. x25519_pair X k a)" if "length a = 32" "privk key a" for e key a
    by (rule yields_and_then [OF yields_map_err [OF D(4) [OF that(2)]]])
       (auto simp: x25519_pair_def that intro!: yields_ok)
  show ?thesis
    unfolding use_curve25519_def x25519_BIG_ENDIAN_def Let_def D(1)
    by (rule yields_and_then [OF yields_map_err [OF rng_okD(1) [OF r]]],
        rule yields_and_then [OF yields_map_err [OF D(3)]], elim exE conjE, rule pair)
qed

lemma x25519_complete_yields:
  assumes w: "curve25519_ok w X privk pubk" and k: "x25519_pair X k a" and b: "length b = 32"
  shows "yields (x25519_complete w k (x_pub X b)) (\<lambda>z. z = x_dh X a (x_pub X b))"
proof -
  note D = curve25519_okD [OF w]
  have a: "length a = 32" "x25519_priv_key_bytes k = a" using k by (simp_all add: x25519_pair_def)
  show ?thesis
    unfolding x25519_complete_def x25519_derive_shared_secret_def x25519_BIG_ENDIAN_def Let_def D(1)
    by (simp add: D(5) a(2),
        rule yields_and_then [OF yields_map_err [OF D(7) [OF b]]],
        rule yields_and_then [OF yields_map_err [OF D(8) [OF D(5)]]],
        rule yields_and_then [OF yields_map_err [OF D(9) [OF a(1)]]],
        rule yields_map_err, rule D(10), assumption+, simp)
qed

lemma x25519_complete_rejects:
  "length p \<noteq> curve_KEYSIZE w \<Longrightarrow>
   x25519_complete w k p = err (General ''Invalid Curve25519 peer public key length'')"
  by (simp add: x25519_complete_def x25519_derive_shared_secret_def)

lemma x25519_complete_no_panic: "no_panic (x25519_complete w k p)"
  unfolding x25519_complete_def x25519_derive_shared_secret_def Let_def
  by (auto intro!: no_panic_intro)

text \<open>The group as an implementation of the interface.  What the interface calls the library is
  the generator, the curve and the specification of both.\<close>

definition x25519_lib_ok ::
    "'s wolf_rng \<times> 's wolf_curve25519 \<times> x25519_fun \<Rightarrow> bool" where
  "x25519_lib_ok L = (case L of (r, w, X) \<Rightarrow> rng_ok r \<and> (\<exists>privk pubk. curve25519_ok w X privk pubk))"

interpretation kx25519: key_exchange x25519_lib_ok
  "\<lambda>(r, w, X). use_curve25519 r w" "\<lambda>(r, w, X). x25519_complete w" x25519_pub_key
  "\<lambda>(r, w, X). x25519_pair X" "\<lambda>(r, w, X). x_pub X" "\<lambda>(r, w, X). x_dh X" "\<lambda>_. 32"
  "\<lambda>(r, w, X). curve_KEYSIZE w"
proof (unfold_locales, goal_cases)
  case (1 L) then show ?case by (auto simp: x25519_lib_ok_def intro: use_curve25519_yields)
next
  case (2 L k a) then show ?case
    by (auto simp: x25519_lib_ok_def x25519_pair_def x25519_pub_key_def curve25519_okD(1,5))
next
  case (3 L k a k' b) then show ?case
    by (auto simp: x25519_lib_ok_def x25519_pub_key_def x25519_pair_def [of _ k' b]
        intro: x25519_complete_yields)
next
  case (4 L a b) then show ?case by (auto simp: x25519_lib_ok_def dest: curve25519_okD(2))
next
  case (5 L a b) then show ?case by (auto simp: x25519_lib_ok_def dest: curve25519_okD(6))
next
  case (6 L k a p) then show ?case by (auto simp: x25519_complete_rejects split: prod.splits)
next
  case (7 L k p) then show ?case by (auto simp: x25519_complete_no_panic split: prod.split)
qed

end
