(* ===== verification/KxSec521r1.thy ===== *)
theory KxSec521r1
  imports WolfKx KeyExchange
begin

text \<open>\<open>src/kx/sec521r1.rs\<close>: elliptic curve Diffie-Hellman on P-521.\<close>

definition p521_COORD_SIZE :: usize where "p521_COORD_SIZE = 66"
definition p521_PUB_KEY_SIZE :: usize where
  "p521_PUB_KEY_SIZE = 1 + p521_COORD_SIZE + p521_COORD_SIZE"

lemmas p521_consts = p521_COORD_SIZE_def p521_PUB_KEY_SIZE_def

record KeyExchangeSecP521r1 =
  p521_priv_key_bytes :: bytes
  p521_pub_key_bytes :: bytes

definition use_secp521r1 ::
    "'s wolf_rng \<Rightarrow> 's wolf_ecc \<Rightarrow> ('s, rustls_error, KeyExchangeSecP521r1) rust" where
  "use_secp521r1 r w =
     and_then (map_err (\<lambda>_. General ''RNG::new failed'') (rng_new r)) (\<lambda>rng.
     and_then (map_err (\<lambda>_. General ''get_curve_size_from_id failed'')
         (ecc_get_curve_size_from_id w (ecc_SECP521R1 w))) (\<lambda>curve_size.
     and_then (map_err (\<lambda>_. General ''ECC::generate_ex failed'')
         (ecc_generate_ex w curve_size rng (ecc_SECP521R1 w))) (\<lambda>key.
     let priv_key_raw = zeros p521_COORD_SIZE in
     and_then (map_err (\<lambda>_. General ''export_private failed'')
         (ecc_export_private w key priv_key_raw)) (\<lambda>(priv_key_raw, _).
     let qx = zeros p521_COORD_SIZE;
         qx_len = of_nat p521_COORD_SIZE;
         qy = zeros p521_COORD_SIZE;
         qy_len = of_nat p521_COORD_SIZE in
     and_then (map_err (\<lambda>_. General ''export_public failed'')
         (ecc_export_public w key qx qx_len qy qy_len)) (\<lambda>(qx, _, qy, _).
     let pub_key_bytes = replicate p521_PUB_KEY_SIZE 4 in
     and_then (copy_into_range pub_key_bytes 1 (1 + p521_COORD_SIZE) qx) (\<lambda>pub_key_bytes.
     and_then (copy_into_range pub_key_bytes (1 + p521_COORD_SIZE) p521_PUB_KEY_SIZE qy)
       (\<lambda>pub_key_bytes.
     ok \<lparr>p521_priv_key_bytes = priv_key_raw, p521_pub_key_bytes = pub_key_bytes\<rparr>)))))))"

definition p521_derive_shared_secret ::
    "'s wolf_rng \<Rightarrow> 's wolf_ecc \<Rightarrow> KeyExchangeSecP521r1 \<Rightarrow> bytes \<Rightarrow> ('s, rustls_error, bytes) rust" where
  "p521_derive_shared_secret r w self peer_pub_key =
     (if length peer_pub_key \<noteq> p521_PUB_KEY_SIZE
      then err (General ''Invalid peer public key length'')
      else
     and_then (map_err (\<lambda>_. General ''RNG::new failed'') (rng_new r)) (\<lambda>rng.
     and_then (map_err (\<lambda>_. General ''Failed to import ECC private key'')
         (ecc_import_private_key_ex w (p521_priv_key_bytes self) (p521_pub_key_bytes self)
            (ecc_SECP521R1 w))) (\<lambda>priv_key.
     and_then (map_err (\<lambda>_. General ''Failed to import peer ECC public key'')
         (ecc_import_x963 w peer_pub_key)) (\<lambda>pub_key.
     and_then (map_err (\<lambda>_. General ''Failed to set RNG on private key'')
         (ecc_set_rng w priv_key rng)) (\<lambda>priv_key.
     and_then (map_err (\<lambda>_. General ''Failed to set RNG on public key'')
         (ecc_set_rng w pub_key rng)) (\<lambda>pub_key.
     let out = zeros p521_COORD_SIZE in
     and_then (map_err (\<lambda>_. General ''Failed to compute ECC shared secret'')
         (ecc_shared_secret w priv_key pub_key out)) (\<lambda>out.
     ok out)))))))"

definition p521_complete ::
    "'s wolf_rng \<Rightarrow> 's wolf_ecc \<Rightarrow> KeyExchangeSecP521r1 \<Rightarrow> bytes \<Rightarrow> ('s, rustls_error, bytes) rust" where
  "p521_complete r w self peer_pub_key =
     and_then (p521_derive_shared_secret r w self peer_pub_key) (\<lambda>secret. ok secret)"

definition p521_pub_key :: "KeyExchangeSecP521r1 \<Rightarrow> bytes" where
  "p521_pub_key self = p521_pub_key_bytes self"

definition p521_group :: "KeyExchangeSecP521r1 \<Rightarrow> NamedGroup" where
  "p521_group self = Group_secp521r1"

text \<open>A key pair of the scalar \<open>d\<close> on the curve.\<close>

definition p521_pair :: "ecdh_curve \<Rightarrow> KeyExchangeSecP521r1 \<Rightarrow> bytes \<Rightarrow> bool" where
  "p521_pair C k d \<longleftrightarrow> length d = p521_COORD_SIZE \<and> p521_priv_key_bytes k = d
     \<and> p521_pub_key_bytes k = ec_pub C d"

definition p521_lib_ok :: "'s wolf_rng \<times> 's wolf_ecc \<times> ecdh_curve \<Rightarrow> bool" where
  "p521_lib_ok L = (case L of (r, w, C) \<Rightarrow>
     rng_ok r \<and> (\<exists>privk pubk. ecc_ecdh_ok w C privk pubk)
     \<and> ec_id C = ecc_SECP521R1 w \<and> ec_coord C = p521_COORD_SIZE)"

lemma use_secp521r1_yields:
  assumes "p521_lib_ok (r, w, C)"
  shows "yields (use_secp521r1 r w) (\<lambda>k. \<exists>d. p521_pair C k d)"
proof -
  obtain privk pubk where r: "rng_ok r" and w: "ecc_ecdh_ok w C privk pubk"
    and C: "ec_id C = ecc_SECP521R1 w" "ec_coord C = p521_COORD_SIZE"
    using assms by (auto simp: p521_lib_ok_def)
  show ?thesis
    unfolding use_secp521r1_def Let_def
    by (rule ecc_keygen_sequence [OF r w C])
       (auto simp: p521_consts p521_pair_def ecc_ecdh_okD(1,2) [OF w] C ec_pub_def x963_point_def
          intro!: yields_ok)
qed

lemma p521_complete_yields:
  assumes "p521_lib_ok (r, w, C)" and k: "p521_pair C k a" and b: "length b = p521_COORD_SIZE"
  shows "yields (p521_complete r w k (ec_pub C b)) (\<lambda>z. z = ec_dh C a (ec_pub C b))"
proof -
  obtain privk pubk where r: "rng_ok r" and w: "ecc_ecdh_ok w C privk pubk"
    and C: "ec_id C = ecc_SECP521R1 w" "ec_coord C = p521_COORD_SIZE"
    using assms by (auto simp: p521_lib_ok_def)
  have k': "length a = p521_COORD_SIZE" "p521_priv_key_bytes k = a" "p521_pub_key_bytes k = ec_pub C a"
    using k by (simp_all add: p521_pair_def)
  have "length (ec_pub C b) = p521_PUB_KEY_SIZE"
    by (simp add: length_ec_pub [OF w] C p521_PUB_KEY_SIZE_def)
  then show ?thesis
    unfolding p521_complete_def p521_derive_shared_secret_def Let_def
    by (simp add: k'(2,3)) (rule ecc_secret_sequence [OF r w C k'(1) b, where f = ok, simplified],
        rule yields_ok, rule refl)
qed

lemma p521_complete_rejects:
  "length p \<noteq> p521_PUB_KEY_SIZE \<Longrightarrow>
   p521_complete r w k p = err (General ''Invalid peer public key length'')"
  by (simp add: p521_complete_def p521_derive_shared_secret_def)

lemma p521_complete_no_panic: "no_panic (p521_complete r w k p)"
  unfolding p521_complete_def p521_derive_shared_secret_def Let_def
  by (auto intro!: no_panic_intro)

interpretation kxp521: key_exchange p521_lib_ok
  "\<lambda>(r, w, C). use_secp521r1 r w" "\<lambda>(r, w, C). p521_complete r w" p521_pub_key
  "\<lambda>(r, w, C). p521_pair C" "\<lambda>(r, w, C). ec_pub C" "\<lambda>(r, w, C). ec_dh C" "\<lambda>_. p521_COORD_SIZE"
  "\<lambda>_. p521_PUB_KEY_SIZE"
proof (unfold_locales, goal_cases)
  case (1 L) then show ?case by (cases L) (auto intro: use_secp521r1_yields)
next
  case (2 L k a) then show ?case
    by (auto simp: p521_lib_ok_def p521_pair_def p521_pub_key_def length_ec_pub p521_PUB_KEY_SIZE_def)
next
  case (3 L k a k' b) then show ?case
    by (cases L) (auto simp: p521_pub_key_def p521_pair_def [of _ k' b] intro: p521_complete_yields)
next
  case (4 L a b) then show ?case by (auto simp: p521_lib_ok_def dest: ecc_ecdh_okD(3))
next
  case (5 L a b) then show ?case by (auto simp: p521_lib_ok_def dest: ecc_ecdh_okD(13))
next
  case (6 L k a p) then show ?case by (auto simp: p521_complete_rejects split: prod.splits)
next
  case (7 L k p) then show ?case by (auto simp: p521_complete_no_panic split: prod.split)
qed

end
