(* ===== verification/Kx.thy ===== *)
theory Kx
  imports WolfKxDemo KxX25519 KxSec256r1 KxSec384r1 KxSec521r1
begin

text \<open>
  \<open>src/kx.rs\<close>: the table of key exchange groups.  The unit structs of the macro \<open>define_kx_group\<close>
  are the constructors of \<open>SupportedKxGroup\<close>; a boxed \<open>ActiveKeyExchange\<close> is one of the four
  exchanges, and its methods dispatch on it.
\<close>

datatype SupportedKxGroup = X25519 | SecP256R1 | SecP384R1 | SecP521R1

definition ALL_KX_GROUPS :: "SupportedKxGroup list" where
  "ALL_KX_GROUPS = [X25519, SecP256R1, SecP384R1, SecP521R1]"

datatype ActiveKeyExchange =
    ActiveX25519 KeyExchangeX25519
  | ActiveSecP256r1 KeyExchangeSecP256r1
  | ActiveSecP384r1 KeyExchangeSecP384r1
  | ActiveSecP521r1 KeyExchangeSecP521r1

fun kx_start :: "'s wolf_rng \<Rightarrow> 's wolf_curve25519 \<Rightarrow> 's wolf_ecc \<Rightarrow> SupportedKxGroup \<Rightarrow>
    ('s, rustls_error, ActiveKeyExchange) rust" where
  "kx_start r c w X25519 = and_then (use_curve25519 r c) (\<lambda>k. ok (ActiveX25519 k))"
| "kx_start r c w SecP256R1 = and_then (use_secp256r1 r w) (\<lambda>k. ok (ActiveSecP256r1 k))"
| "kx_start r c w SecP384R1 = and_then (use_secp384r1 r w) (\<lambda>k. ok (ActiveSecP384r1 k))"
| "kx_start r c w SecP521R1 = and_then (use_secp521r1 r w) (\<lambda>k. ok (ActiveSecP521r1 k))"

fun kx_name :: "SupportedKxGroup \<Rightarrow> NamedGroup" where
  "kx_name X25519 = GroupX25519"
| "kx_name SecP256R1 = Group_secp256r1"
| "kx_name SecP384R1 = Group_secp384r1"
| "kx_name SecP521R1 = Group_secp521r1"

text \<open>\<open>dyn ActiveKeyExchange\<close>.\<close>

fun kx_complete :: "'s wolf_rng \<Rightarrow> 's wolf_curve25519 \<Rightarrow> 's wolf_ecc \<Rightarrow> ActiveKeyExchange \<Rightarrow> bytes \<Rightarrow>
    ('s, rustls_error, bytes) rust" where
  "kx_complete r c w (ActiveX25519 k) p = x25519_complete c k p"
| "kx_complete r c w (ActiveSecP256r1 k) p = p256_complete r w k p"
| "kx_complete r c w (ActiveSecP384r1 k) p = p384_complete r w k p"
| "kx_complete r c w (ActiveSecP521r1 k) p = p521_complete r w k p"

fun kx_pub_key :: "ActiveKeyExchange \<Rightarrow> bytes" where
  "kx_pub_key (ActiveX25519 k) = x25519_pub_key k"
| "kx_pub_key (ActiveSecP256r1 k) = p256_pub_key k"
| "kx_pub_key (ActiveSecP384r1 k) = p384_pub_key k"
| "kx_pub_key (ActiveSecP521r1 k) = p521_pub_key k"

fun kx_group :: "ActiveKeyExchange \<Rightarrow> NamedGroup" where
  "kx_group (ActiveX25519 k) = x25519_group k"
| "kx_group (ActiveSecP256r1 k) = p256_group k"
| "kx_group (ActiveSecP384r1 k) = p384_group k"
| "kx_group (ActiveSecP521r1 k) = p521_group k"

text \<open>The laws of a finite enumeration say that the table lists every group, each once.\<close>

instantiation SupportedKxGroup :: enum
begin

definition enum_SupportedKxGroup :: "SupportedKxGroup list" where
  "enum_SupportedKxGroup = ALL_KX_GROUPS"

definition enum_all_SupportedKxGroup :: "(SupportedKxGroup \<Rightarrow> bool) \<Rightarrow> bool" where
  "enum_all_SupportedKxGroup P = list_all P ALL_KX_GROUPS"

definition enum_ex_SupportedKxGroup :: "(SupportedKxGroup \<Rightarrow> bool) \<Rightarrow> bool" where
  "enum_ex_SupportedKxGroup P = list_ex P ALL_KX_GROUPS"

instance
proof
  have all: "g \<in> set ALL_KX_GROUPS" for g by (cases g) (simp_all add: ALL_KX_GROUPS_def)
  then show "(UNIV :: SupportedKxGroup set) = set enum_class.enum"
    by (auto simp: enum_SupportedKxGroup_def)
  show "distinct (enum_class.enum :: SupportedKxGroup list)"
    by (simp add: enum_SupportedKxGroup_def ALL_KX_GROUPS_def)
  show "enum_class.enum_all P = Ball UNIV P" for P :: "SupportedKxGroup \<Rightarrow> bool"
    using all by (auto simp: enum_all_SupportedKxGroup_def list_all_iff)
  show "enum_class.enum_ex P = Bex UNIV P" for P :: "SupportedKxGroup \<Rightarrow> bool"
    using all by (auto simp: enum_ex_SupportedKxGroup_def list_ex_iff)
qed

end

section \<open>The groups together\<close>

text \<open>The functions of the four groups, and what the library promises of them.\<close>

record kx_spec =
  ks_x25519 :: x25519_fun
  ks_p256 :: ecdh_curve
  ks_p384 :: ecdh_curve
  ks_p521 :: ecdh_curve

definition kx_ok :: "'s wolf_rng \<Rightarrow> 's wolf_curve25519 \<Rightarrow> 's wolf_ecc \<Rightarrow> kx_spec \<Rightarrow> bool" where
  "kx_ok r c w S \<longleftrightarrow> x25519_lib_ok (r, c, ks_x25519 S) \<and> p256_lib_ok (r, w, ks_p256 S)
     \<and> p384_lib_ok (r, w, ks_p384 S) \<and> p521_lib_ok (r, w, ks_p521 S)"

lemma kx_okD:
  assumes "kx_ok r c w S"
  shows "x25519_lib_ok (r, c, ks_x25519 S)" and "p256_lib_ok (r, w, ks_p256 S)"
    and "p384_lib_ok (r, w, ks_p384 S)" and "p521_lib_ok (r, w, ks_p521 S)"
  using assms unfolding kx_ok_def by blast+

text \<open>An active exchange of the group \<open>g\<close> holds the private key \<open>a\<close>; the public key and the secret
  of the group; the lengths of a secret and of a public key.\<close>

fun kx_holds :: "kx_spec \<Rightarrow> SupportedKxGroup \<Rightarrow> ActiveKeyExchange \<Rightarrow> bytes \<Rightarrow> bool" where
  "kx_holds S X25519 (ActiveX25519 k) a = x25519_pair (ks_x25519 S) k a"
| "kx_holds S SecP256R1 (ActiveSecP256r1 k) a = p256_pair (ks_p256 S) k a"
| "kx_holds S SecP384R1 (ActiveSecP384r1 k) a = p384_pair (ks_p384 S) k a"
| "kx_holds S SecP521R1 (ActiveSecP521r1 k) a = p521_pair (ks_p521 S) k a"
| "kx_holds S _ _ a = False"

fun kx_pub_of :: "kx_spec \<Rightarrow> SupportedKxGroup \<Rightarrow> bytes \<Rightarrow> bytes" where
  "kx_pub_of S X25519 = x_pub (ks_x25519 S)"
| "kx_pub_of S SecP256R1 = ec_pub (ks_p256 S)"
| "kx_pub_of S SecP384R1 = ec_pub (ks_p384 S)"
| "kx_pub_of S SecP521R1 = ec_pub (ks_p521 S)"

fun kx_secret :: "kx_spec \<Rightarrow> SupportedKxGroup \<Rightarrow> bytes \<Rightarrow> bytes \<Rightarrow> bytes" where
  "kx_secret S X25519 = x_dh (ks_x25519 S)"
| "kx_secret S SecP256R1 = ec_dh (ks_p256 S)"
| "kx_secret S SecP384R1 = ec_dh (ks_p384 S)"
| "kx_secret S SecP521R1 = ec_dh (ks_p521 S)"

fun kx_secret_len :: "SupportedKxGroup \<Rightarrow> usize" where
  "kx_secret_len X25519 = 32"
| "kx_secret_len SecP256R1 = 32"
| "kx_secret_len SecP384R1 = 48"
| "kx_secret_len SecP521R1 = 66"

fun kx_pub_len :: "'s wolf_curve25519 \<Rightarrow> SupportedKxGroup \<Rightarrow> usize" where
  "kx_pub_len c X25519 = curve_KEYSIZE c"
| "kx_pub_len c SecP256R1 = 65"
| "kx_pub_len c SecP384R1 = 97"
| "kx_pub_len c SecP521R1 = 133"

fun_cases kx_holds_cases: "kx_holds S g k a"

lemmas kx_size_consts = p256_consts p384_consts p521_consts

lemma kx_start_holds:
  assumes "kx_ok r c w S"
  shows "yields (kx_start r c w g) (\<lambda>k. \<exists>a. kx_holds S g k a)"
proof (cases g)
  case X25519
  from kx25519.start_holds [OF kx_okD(1) [OF assms]] show ?thesis
    by (auto simp: X25519 elim!: yields_and_then intro!: yields_ok)
next
  case SecP256R1
  from kxp256.start_holds [OF kx_okD(2) [OF assms]] show ?thesis
    by (auto simp: SecP256R1 elim!: yields_and_then intro!: yields_ok)
next
  case SecP384R1
  from kxp384.start_holds [OF kx_okD(3) [OF assms]] show ?thesis
    by (auto simp: SecP384R1 elim!: yields_and_then intro!: yields_ok)
next
  case SecP521R1
  from kxp521.start_holds [OF kx_okD(4) [OF assms]] show ?thesis
    by (auto simp: SecP521R1 elim!: yields_and_then intro!: yields_ok)
qed

lemma kx_pub_key_of:
  assumes "kx_ok r c w S" "kx_holds S g k a"
  shows "kx_pub_key k = kx_pub_of S g a \<and> length (kx_pub_key k) = kx_pub_len c g"
  using assms(2) kx25519.pub_key_of [OF kx_okD(1) [OF assms(1)]]
    kxp256.pub_key_of [OF kx_okD(2) [OF assms(1)]] kxp384.pub_key_of [OF kx_okD(3) [OF assms(1)]]
    kxp521.pub_key_of [OF kx_okD(4) [OF assms(1)]]
  by (elim kx_holds_cases) (fastforce simp: kx_size_consts)+

lemma kx_complete_secret:
  assumes "kx_ok r c w S" "kx_holds S g k a" "kx_holds S g k' b"
  shows "yields (kx_complete r c w k (kx_pub_key k')) (\<lambda>z. z = kx_secret S g a (kx_pub_of S g b))"
  using assms(2,3) kx25519.complete_secret [OF kx_okD(1) [OF assms(1)]]
    kxp256.complete_secret [OF kx_okD(2) [OF assms(1)]]
    kxp384.complete_secret [OF kx_okD(3) [OF assms(1)]]
    kxp521.complete_secret [OF kx_okD(4) [OF assms(1)]]
  by (elim kx_holds_cases) simp_all

lemma kx_secret_symmetric:
  assumes "kx_ok r c w S"
  shows "kx_secret S g a (kx_pub_of S g b) = kx_secret S g b (kx_pub_of S g a)"
  using kx25519.secret_symmetric [OF kx_okD(1) [OF assms]] kxp256.secret_symmetric [OF kx_okD(2) [OF assms]]
    kxp384.secret_symmetric [OF kx_okD(3) [OF assms]] kxp521.secret_symmetric [OF kx_okD(4) [OF assms]]
  by (cases g) simp_all

lemma kx_length_secret:
  assumes "kx_ok r c w S"
  shows "length (kx_secret S g a (kx_pub_of S g b)) = kx_secret_len g"
  using kx25519.length_secret [OF kx_okD(1) [OF assms]] kxp256.length_secret [OF kx_okD(2) [OF assms]]
    kxp384.length_secret [OF kx_okD(3) [OF assms]] kxp521.length_secret [OF kx_okD(4) [OF assms]]
  by (cases g) (simp_all add: kx_size_consts)

lemma kx_complete_rejects:
  assumes "kx_holds S g k a" "length p \<noteq> kx_pub_len c g"
  shows "\<exists>msg. kx_complete r c w k p = err (General msg)"
  using assms by (elim kx_holds_cases)
    (auto simp: x25519_complete_rejects p256_complete_rejects p384_complete_rejects
       p521_complete_rejects kx_size_consts)

lemma kx_complete_no_panic: "no_panic (kx_complete r c w k p)"
  by (cases k) (simp_all add: x25519_complete_no_panic p256_complete_no_panic
      p384_complete_no_panic p521_complete_no_panic)

text \<open>The table as one implementation of the interface, for every group.\<close>

interpretation kx: key_exchange "\<lambda>(g, r, c, w, S). kx_ok r c w S"
  "\<lambda>(g, r, c, w, S). kx_start r c w g" "\<lambda>(g, r, c, w, S). kx_complete r c w" kx_pub_key
  "\<lambda>(g, r, c, w, S). kx_holds S g" "\<lambda>(g, r, c, w, S). kx_pub_of S g" "\<lambda>(g, r, c, w, S). kx_secret S g"
  "\<lambda>(g, _). kx_secret_len g" "\<lambda>(g, r, c, _). kx_pub_len c g"
  by unfold_locales
     (auto simp: kx_length_secret kx_complete_no_panic intro: kx_start_holds kx_complete_secret
        kx_secret_symmetric kx_complete_rejects dest: kx_pub_key_of)

section \<open>Properties\<close>

text \<open>C15. Key agreement.  For each of the four groups, two parties that start an exchange and
  complete it with each other's public key both succeed and obtain the same secret, of the
  length of the group; nothing panics.\<close>

theorem kx_parties_agree:
  assumes "kx_ok r c w S"
  shows "yields (exchange (kx_start r c w g) (kx_complete r c w) kx_pub_key)
           (\<lambda>(za, zb). za = zb \<and> length za = kx_secret_len g)"
  using kx.exchange_agrees [of "(g, r, c, w, S)"] assms by simp

definition demo_kx :: kx_spec where
  "demo_kx = \<lparr>ks_x25519 = demo_x25519, ks_p256 = demo_curve 7 32, ks_p384 = demo_curve 15 48,
     ks_p521 = demo_curve 16 66\<rparr>"

lemma demo_x25519_lib_ok: "x25519_lib_ok (demo_rng, demo_curve25519, demo_x25519)"
  using demo_rng_ok demo_curve25519_ok by (auto simp: x25519_lib_ok_def)

lemma demo_p256_lib_ok: "p256_lib_ok (demo_rng, demo_ecc, demo_curve 7 32)"
proof -
  have "ecc_ecdh_ok demo_ecc (demo_curve 7 32) (demo_privk 32) demo_pubk"
    by (rule demo_ecc_ecdh_ok) (simp_all add: demo_coord_def)
  moreover have "ec_id (demo_curve 7 32) = ecc_SECP256R1 demo_ecc" "ec_coord (demo_curve 7 32) = p256_COORD_SIZE"
    by (simp_all add: demo_curve_def demo_ecc_def p256_consts)
  ultimately show ?thesis using demo_rng_ok unfolding p256_lib_ok_def by blast
qed

lemma demo_p384_lib_ok: "p384_lib_ok (demo_rng, demo_ecc, demo_curve 15 48)"
proof -
  have "ecc_ecdh_ok demo_ecc (demo_curve 15 48) (demo_privk 48) demo_pubk"
    by (rule demo_ecc_ecdh_ok) (simp_all add: demo_coord_def)
  moreover have "ec_id (demo_curve 15 48) = ecc_SECP384R1 demo_ecc" "ec_coord (demo_curve 15 48) = p384_COORD_SIZE"
    by (simp_all add: demo_curve_def demo_ecc_def p384_consts)
  ultimately show ?thesis using demo_rng_ok unfolding p384_lib_ok_def by blast
qed

lemma demo_p521_lib_ok: "p521_lib_ok (demo_rng, demo_ecc, demo_curve 16 66)"
proof -
  have "ecc_ecdh_ok demo_ecc (demo_curve 16 66) (demo_privk 66) demo_pubk"
    by (rule demo_ecc_ecdh_ok) (simp_all add: demo_coord_def)
  moreover have "ec_id (demo_curve 16 66) = ecc_SECP521R1 demo_ecc" "ec_coord (demo_curve 16 66) = p521_COORD_SIZE"
    by (simp_all add: demo_curve_def demo_ecc_def p521_consts)
  ultimately show ?thesis using demo_rng_ok unfolding p521_lib_ok_def by blast
qed

lemma demo_kx_ok: "kx_ok demo_rng demo_curve25519 demo_ecc demo_kx"
  by (simp add: kx_ok_def demo_kx_def demo_x25519_lib_ok demo_p256_lib_ok demo_p384_lib_ok
      demo_p521_lib_ok)

theorem kx_parties_agree_witness:
  "\<exists>z. exchange (kx_start demo_rng demo_curve25519 demo_ecc SecP384R1)
          (kx_complete demo_rng demo_curve25519 demo_ecc) kx_pub_key () = (Ok (z, z), ())
        \<and> length z = 48"
  using yields_unit [OF kx_parties_agree [OF demo_kx_ok, where g = SecP384R1]] by fastforce

text \<open>C37. What \<open>start\<close> returns.  Every group of the table is listed once; an exchange it starts
  reports the group it was started for, offers a public key of the size of the group, and
  answers a peer key of any other size with an error before any foreign call; whatever the
  peer sends, completing does not panic.\<close>

theorem kx_started_exchange:
  assumes "kx_ok r c w S"
  shows "yields (kx_start r c w g) (\<lambda>k.
           kx_group k = kx_name g \<and> length (kx_pub_key k) = kx_pub_len c g
           \<and> (\<forall>p. length p \<noteq> kx_pub_len c g \<longrightarrow> (\<exists>msg. kx_complete r c w k p = err (General msg)))
           \<and> (\<forall>p. no_panic (kx_complete r c w k p)))
         \<and> g \<in> set ALL_KX_GROUPS \<and> distinct (map kx_name ALL_KX_GROUPS)"
proof (intro conjI)
  have group: "kx_holds S g k a \<Longrightarrow> kx_group k = kx_name g" for k a
    by (erule kx_holds_cases) (simp_all add: x25519_group_def p256_group_def p384_group_def p521_group_def)
  show "yields (kx_start r c w g) (\<lambda>k.
           kx_group k = kx_name g \<and> length (kx_pub_key k) = kx_pub_len c g
           \<and> (\<forall>p. length p \<noteq> kx_pub_len c g \<longrightarrow> (\<exists>msg. kx_complete r c w k p = err (General msg)))
           \<and> (\<forall>p. no_panic (kx_complete r c w k p)))"
    by (rule yields_weaken [OF kx_start_holds [OF assms]])
       (use group kx_pub_key_of [OF assms] kx_complete_rejects kx_complete_no_panic in blast)
  show "g \<in> set ALL_KX_GROUPS"
    using UNIV_I [of g] unfolding UNIV_enum enum_SupportedKxGroup_def .
  show "distinct (map kx_name ALL_KX_GROUPS)" by (simp add: ALL_KX_GROUPS_def)
qed

theorem kx_started_exchange_witness:
  "\<exists>k. kx_start demo_rng demo_curve25519 demo_ecc SecP521R1 () = (Ok k, ())
        \<and> kx_group k = Group_secp521r1 \<and> length (kx_pub_key k) = 133"
  using yields_unit [OF kx_started_exchange [OF demo_kx_ok, where g = SecP521R1, THEN conjunct1]]
  by auto

end
