(* ===== verification/Prf.thy ===== *)
theory Prf
  imports Hmac Kx
begin

text \<open>
  \<open>src/prf.rs\<close>: the TLS 1.2 PRF over wolfCrypt's \<open>wc_PRF\<close>.  An output buffer is passed in and the
  buffer afterwards is the value.
\<close>

datatype WCPrfUsingHmac = WCPrfUsingHmac (prf_variant: WCShaHmac)

definition wc_prf ::
    "'s wolf_kdf \<Rightarrow> bytes \<Rightarrow> bytes \<Rightarrow> bytes \<Rightarrow> bytes \<Rightarrow> WCShaHmac \<Rightarrow> ('s, rustls_error, bytes) rust" where
  "wc_prf k output secret label seed hmac_variant =
     (let hash_type = (case hmac_variant of Sha256 \<Rightarrow> PRF_HASH_SHA256 k | Sha384 \<Rightarrow> PRF_HASH_SHA384 k);
          combined_seed = [];
          combined_seed = combined_seed @ label;
          combined_seed = combined_seed @ seed in
      map_err (\<lambda>_. General ''wc_PRF failed'') (wolf_prf k secret combined_seed hash_type output))"

definition prf_for_key_exchange ::
    "'s wolf_rng \<Rightarrow> 's wolf_curve25519 \<Rightarrow> 's wolf_ecc \<Rightarrow> 's wolf_kdf \<Rightarrow> WCPrfUsingHmac \<Rightarrow> bytes \<Rightarrow>
     ActiveKeyExchange \<Rightarrow> bytes \<Rightarrow> bytes \<Rightarrow> bytes \<Rightarrow> ('s, rustls_error, bytes) rust" where
  "prf_for_key_exchange r c w k self output kx peer_pub_key label seed =
     and_then (kx_complete r c w kx peer_pub_key) (\<lambda>secret.
     wc_prf k output secret label seed (prf_variant self))"

definition prf_for_secret ::
    "'s wolf_kdf \<Rightarrow> WCPrfUsingHmac \<Rightarrow> bytes \<Rightarrow> bytes \<Rightarrow> bytes \<Rightarrow> bytes \<Rightarrow> ('s, 'e, bytes) rust" where
  "prf_for_secret k self output secret label seed =
     expect_result (wc_prf k output secret label seed (prf_variant self)) ''wc_PRF failed''"

text \<open>The PRF of a variant: the hash type that wolfCrypt numbers it with and its size.\<close>

definition prf_type :: "'s wolf_kdf \<Rightarrow> WCShaHmac \<Rightarrow> i32" where
  "prf_type k v = (case v of Sha256 \<Rightarrow> PRF_HASH_SHA256 k | Sha384 \<Rightarrow> PRF_HASH_SHA384 k)"

definition variant_prf :: "'s wolf_kdf \<Rightarrow> (i32 \<Rightarrow> mac_fun) \<Rightarrow> WCShaHmac \<Rightarrow> bytes \<Rightarrow> bytes \<Rightarrow> bytes \<Rightarrow> usize \<Rightarrow> bytes" where
  "variant_prf k mac v secret label seed len =
     tls12_prf (case v of Sha256 \<Rightarrow> 32 | Sha384 \<Rightarrow> 48) (mac (prf_type k v)) secret label seed len"

lemma wc_prf_yields:
  assumes "prf_ok k mac" and out: "0 < length output"
  shows "yields (wc_prf k output secret label seed v)
           (\<lambda>r. r = variant_prf k mac v secret label seed (length output))"
proof -
  have t: "prf_type k v = PRF_HASH_SHA256 k \<or> prf_type k v = PRF_HASH_SHA384 k"
    by (cases v) (simp_all add: prf_type_def)
  have "prf_size k (prf_type k v) = (case v of Sha256 \<Rightarrow> 32 | Sha384 \<Rightarrow> 48)"
    using assms(1) by (cases v) (auto simp: prf_type_def prf_size_def prf_ok_def)
  then show ?thesis
    using yields_map_err [OF prf_okD(1) [OF assms(1) t out, of secret "label @ seed"]]
    by (simp add: wc_prf_def variant_prf_def tls12_prf_def prf_type_def)
qed

lemma length_variant_prf:
  assumes "prf_ok k mac"
  shows "length (variant_prf k mac v secret label seed n) = n"
  using prf_okD(2) [OF assms, of "prf_type k v"] assms
  unfolding variant_prf_def tls12_prf_def
  by (intro length_p_hash; cases v) (auto simp: prf_type_def prf_size_def prf_ok_def)

text \<open>C30. The TLS 1.2 PRF.  Both entry points compute the PRF of RFC 5246 with the hash of the
  variant, over label and seed in this order, and fill an output of any length but zero: \<open>for_secret\<close> of the secret it
  is given, and \<open>for_key_exchange\<close> of the secret that completing the exchange
  returns; an error of the exchange is passed on unchanged.  Where the library refuses, as it does an empty output,
  \<open>for_key_exchange\<close> returns an error and \<open>for_secret\<close>, which cannot, panics.\<close>

theorem prf_computes_tls12_prf:
  assumes "prf_ok k mac"
  shows "(0 < length output \<longrightarrow>
           yields (prf_for_secret k p output secret label seed)
             (\<lambda>r. r = variant_prf k mac (prf_variant p) secret label seed (length output)
                  \<and> length r = length output)
         \<and> (kx_complete r c w a peer s = (Ok z, s') \<longrightarrow>
              (\<exists>s''. prf_for_key_exchange r c w k p output a peer label seed s
                 = (Ok (variant_prf k mac (prf_variant p) z label seed (length output)), s''))))
         \<and> (kx_complete r c w a peer s = (Err e, s') \<longrightarrow>
              prf_for_key_exchange r c w k p output a peer label seed s = (Err e, s'))
         \<and> (wolf_prf k secret (label @ seed) (prf_type k (prf_variant p)) output s = (Inl code, s') \<longrightarrow>
              prf_for_secret k p output secret label seed s = (Panic ''wc_PRF failed'', s'))
         \<and> (kx_complete r c w a peer s = (Ok z, s')
              \<and> wolf_prf k z (label @ seed) (prf_type k (prf_variant p)) output s' = (Inl code, s'') \<longrightarrow>
              prf_for_key_exchange r c w k p output a peer label seed s = (Err (General ''wc_PRF failed''), s''))"
proof (intro conjI impI)
  assume out: "0 < length output"
  note yields = wc_prf_yields [OF assms out]
  show "yields (prf_for_secret k p output secret label seed)
           (\<lambda>r. r = variant_prf k mac (prf_variant p) secret label seed (length output)
                \<and> length r = length output)"
    unfolding prf_for_secret_def
    by (rule yields_weaken [OF yields_expect_result [OF yields]]) (simp add: length_variant_prf [OF assms])
  show "\<exists>s''. prf_for_key_exchange r c w k p output a peer label seed s
                 = (Ok (variant_prf k mac (prf_variant p) z label seed (length output)), s'')"
    if "kx_complete r c w a peer s = (Ok z, s')"
    using that yieldsD [OF yields, of z label seed "prf_variant p" s']
    by (auto simp: prf_for_key_exchange_def and_then_def)
qed (auto simp: prf_for_key_exchange_def prf_for_secret_def and_then_def wc_prf_def prf_type_def map_err_def
       expect_result_def)

theorem prf_computes_tls12_prf_witness:
  "(\<exists>x. prf_for_secret (demo_kdf :: unit wolf_kdf) (WCPrfUsingHmac Sha256) (zeros 40) [1] [2] [3] ()
      = (Ok x, ()) \<and> x = variant_prf (demo_kdf :: unit wolf_kdf) demo_prf_mac Sha256 [1] [2] [3] 40 \<and> length x = 40)
   \<and> prf_for_secret (demo_kdf :: unit wolf_kdf) (WCPrfUsingHmac Sha256) [] [1] [2] [3] ()
      = (Panic ''wc_PRF failed'', ())"
proof
  have "yields (prf_for_secret (demo_kdf :: unit wolf_kdf) (WCPrfUsingHmac Sha256) (zeros 40) [1] [2] [3])
      (\<lambda>x. x = variant_prf (demo_kdf :: unit wolf_kdf) demo_prf_mac Sha256 [1] [2] [3] 40 \<and> length x = 40)"
    using prf_computes_tls12_prf [OF demo_prf_ok, of "zeros 40" "WCPrfUsingHmac Sha256" "[1]" "[2]" "[3]",
        THEN conjunct1, THEN mp, THEN conjunct1] by simp
  then show "\<exists>x. prf_for_secret (demo_kdf :: unit wolf_kdf) (WCPrfUsingHmac Sha256) (zeros 40) [1] [2] [3] ()
      = (Ok x, ()) \<and> x = variant_prf (demo_kdf :: unit wolf_kdf) demo_prf_mac Sha256 [1] [2] [3] 40 \<and> length x = 40"
    by (rule yields_unit)
  have "wolf_prf (demo_kdf :: unit wolf_kdf) [1] ([2] @ [3]) (prf_type (demo_kdf :: unit wolf_kdf) Sha256) [] ()
      = (Inl (-173), ())"
    by (simp add: demo_kdf_def)
  then show "prf_for_secret (demo_kdf :: unit wolf_kdf) (WCPrfUsingHmac Sha256) [] [1] [2] [3] () = (Panic ''wc_PRF failed'', ())"
    using prf_computes_tls12_prf [OF demo_prf_ok, of "[]" "WCPrfUsingHmac Sha256" "[1]" "[2]" "[3]",
        THEN conjunct2, THEN conjunct2, THEN conjunct1, THEN mp] by simp
qed

text \<open>C29. Both ends derive the same master secret.  After a key exchange in any group, with the
  same label and seed, the master secrets that \<open>for_key_exchange\<close> writes on the two sides are
  equal and fill the 48 bytes of the output.\<close>

theorem master_secrets_agree:
  assumes "kx_ok r c w S" and "prf_ok k mac"
  shows "yields (and_then (kx_start r c w g) (\<lambda>alice.
                 and_then (kx_start r c w g) (\<lambda>bob.
                 and_then (prf_for_key_exchange r c w k p (zeros 48) alice (kx_pub_key bob) label seed) (\<lambda>ma.
                 and_then (prf_for_key_exchange r c w k p (zeros 48) bob (kx_pub_key alice) label seed) (\<lambda>mb.
                 ok (ma, mb))))))
           (\<lambda>(ma, mb). ma = mb \<and> length ma = 48)"
  using assms(1) unfolding prf_for_key_exchange_def
  by (intro yields_weaken [OF kx.derived_agrees [of "(g, r, c, w, S)", OF _ wc_prf_yields [OF assms(2), of "zeros 48"],
        simplified]]) (auto simp: length_variant_prf [OF assms(2)])

theorem master_secrets_agree_witness:
  "\<exists>m. and_then (kx_start demo_rng demo_curve25519 demo_ecc X25519) (\<lambda>alice.
       and_then (kx_start demo_rng demo_curve25519 demo_ecc X25519) (\<lambda>bob.
       and_then (prf_for_key_exchange demo_rng demo_curve25519 demo_ecc demo_kdf (WCPrfUsingHmac Sha384)
           (zeros 48) alice (kx_pub_key bob) [1] [2]) (\<lambda>ma.
       and_then (prf_for_key_exchange demo_rng demo_curve25519 demo_ecc demo_kdf (WCPrfUsingHmac Sha384)
           (zeros 48) bob (kx_pub_key alice) [1] [2]) (\<lambda>mb.
       ok (ma, mb))))) () = (Ok (m, m), ()) \<and> length m = 48"
  using yields_unit [OF master_secrets_agree [OF demo_kx_ok demo_prf_ok, where g = X25519
      and p = "WCPrfUsingHmac Sha384" and label = "[1]" and seed = "[2]"]]
  by auto

end
