(* ===== verification/Suites.thy ===== *)
theory Suites
  imports Aes128Gcm Aes256Gcm Chacha20 Sha256 Sha384 Hkdf Prf
begin

text \<open>
  The cipher suites of \<open>src/lib.rs\<close>.  A reference to one of the provider's unit structs
  (\<open>&sha256::WCSha256\<close>, \<open>&aes128gcm::Aes128Gcm\<close>, ...) is a constructor, and calls through a
  \<open>dyn Tls13AeadAlgorithm\<close> or \<open>dyn Tls12AeadAlgorithm\<close> dispatch on it.
\<close>

section \<open>The suites\<close>

datatype HashProvider = WCSha256 | WCSha384
datatype AeadAlgorithm = Aes128GcmAlg | Aes256GcmAlg | Chacha20Poly1305Alg
datatype KeyExchangeAlgorithm = DHE | ECDHE

record CipherSuiteCommon =
  cs_suite :: CipherSuite
  cs_hash_provider :: HashProvider
  cs_confidentiality_limit :: u64

record Tls13CipherSuite =
  t13_common :: CipherSuiteCommon
  t13_hkdf_provider :: WCShaHmac
  t13_aead_alg :: AeadAlgorithm
  t13_quic :: "unit option"

record Tls12CipherSuite =
  t12_common :: CipherSuiteCommon
  t12_aead_alg :: AeadAlgorithm
  t12_prf_provider :: WCPrfUsingHmac
  t12_kx :: KeyExchangeAlgorithm
  t12_sign :: "SignatureScheme list"

datatype SupportedCipherSuite = SuiteTls12 Tls12CipherSuite | SuiteTls13 Tls13CipherSuite

definition ALL_RSA_SCHEMES :: "SignatureScheme list" where
  "ALL_RSA_SCHEMES = [RSA_PSS_SHA256, RSA_PSS_SHA384, RSA_PSS_SHA512,
     RSA_PKCS1_SHA256, RSA_PKCS1_SHA384, RSA_PKCS1_SHA512]"

definition ALL_ECDSA_SCHEMES :: "SignatureScheme list" where
  "ALL_ECDSA_SCHEMES = [ECDSA_NISTP256_SHA256, ECDSA_NISTP384_SHA384, ECDSA_NISTP521_SHA512, ED25519]"

text \<open>\<open>u64::MAX\<close>.\<close>

definition u64_MAX :: u64 where "u64_MAX = - 1"

definition TLS13_CHACHA20_POLY1305_SHA256 :: SupportedCipherSuite where
  "TLS13_CHACHA20_POLY1305_SHA256 = SuiteTls13 \<lparr>
     t13_common = \<lparr>cs_suite = Suite_TLS13_CHACHA20_POLY1305_SHA256, cs_hash_provider = WCSha256,
       cs_confidentiality_limit = u64_MAX\<rparr>,
     t13_hkdf_provider = Sha256, t13_aead_alg = Chacha20Poly1305Alg, t13_quic = None\<rparr>"

definition TLS13_AES_128_GCM_SHA256 :: SupportedCipherSuite where
  "TLS13_AES_128_GCM_SHA256 = SuiteTls13 \<lparr>
     t13_common = \<lparr>cs_suite = Suite_TLS13_AES_128_GCM_SHA256, cs_hash_provider = WCSha256,
       cs_confidentiality_limit = push_bit 23 1\<rparr>,
     t13_hkdf_provider = Sha256, t13_aead_alg = Aes128GcmAlg, t13_quic = None\<rparr>"

definition TLS13_AES_256_GCM_SHA384 :: SupportedCipherSuite where
  "TLS13_AES_256_GCM_SHA384 = SuiteTls13 \<lparr>
     t13_common = \<lparr>cs_suite = Suite_TLS13_AES_256_GCM_SHA384, cs_hash_provider = WCSha384,
       cs_confidentiality_limit = push_bit 23 1\<rparr>,
     t13_hkdf_provider = Sha384, t13_aead_alg = Aes256GcmAlg, t13_quic = None\<rparr>"

definition TLS12_ECDHE_RSA_WITH_CHACHA20_POLY1305_SHA256 :: SupportedCipherSuite where
  "TLS12_ECDHE_RSA_WITH_CHACHA20_POLY1305_SHA256 = SuiteTls12 \<lparr>
     t12_common = \<lparr>cs_suite = Suite_TLS_ECDHE_RSA_WITH_CHACHA20_POLY1305_SHA256,
       cs_hash_provider = WCSha256, cs_confidentiality_limit = u64_MAX\<rparr>,
     t12_aead_alg = Chacha20Poly1305Alg, t12_prf_provider = WCPrfUsingHmac Sha256,
     t12_kx = ECDHE, t12_sign = ALL_RSA_SCHEMES\<rparr>"

definition TLS12_ECDHE_RSA_WITH_AES_128_GCM_SHA256 :: SupportedCipherSuite where
  "TLS12_ECDHE_RSA_WITH_AES_128_GCM_SHA256 = SuiteTls12 \<lparr>
     t12_common = \<lparr>cs_suite = Suite_TLS_ECDHE_RSA_WITH_AES_128_GCM_SHA256,
       cs_hash_provider = WCSha256, cs_confidentiality_limit = push_bit 23 1\<rparr>,
     t12_aead_alg = Aes128GcmAlg, t12_prf_provider = WCPrfUsingHmac Sha256,
     t12_kx = ECDHE, t12_sign = ALL_RSA_SCHEMES\<rparr>"

definition TLS12_ECDHE_RSA_WITH_AES_256_GCM_SHA384 :: SupportedCipherSuite where
  "TLS12_ECDHE_RSA_WITH_AES_256_GCM_SHA384 = SuiteTls12 \<lparr>
     t12_common = \<lparr>cs_suite = Suite_TLS_ECDHE_RSA_WITH_AES_256_GCM_SHA384,
       cs_hash_provider = WCSha384, cs_confidentiality_limit = push_bit 23 1\<rparr>,
     t12_aead_alg = Aes256GcmAlg, t12_prf_provider = WCPrfUsingHmac Sha384,
     t12_kx = ECDHE, t12_sign = ALL_RSA_SCHEMES\<rparr>"

definition TLS12_ECDHE_ECDSA_WITH_CHACHA20_POLY1305_SHA256 :: SupportedCipherSuite where
  "TLS12_ECDHE_ECDSA_WITH_CHACHA20_POLY1305_SHA256 = SuiteTls12 \<lparr>
     t12_common = \<lparr>cs_suite = Suite_TLS_ECDHE_ECDSA_WITH_CHACHA20_POLY1305_SHA256,
       cs_hash_provider = WCSha256, cs_confidentiality_limit = u64_MAX\<rparr>,
     t12_aead_alg = Chacha20Poly1305Alg, t12_prf_provider = WCPrfUsingHmac Sha256,
     t12_kx = ECDHE, t12_sign = ALL_ECDSA_SCHEMES\<rparr>"

definition TLS12_ECDHE_ECDSA_WITH_AES_128_GCM_SHA256 :: SupportedCipherSuite where
  "TLS12_ECDHE_ECDSA_WITH_AES_128_GCM_SHA256 = SuiteTls12 \<lparr>
     t12_common = \<lparr>cs_suite = Suite_TLS_ECDHE_ECDSA_WITH_AES_128_GCM_SHA256,
       cs_hash_provider = WCSha256, cs_confidentiality_limit = push_bit 23 1\<rparr>,
     t12_aead_alg = Aes128GcmAlg, t12_prf_provider = WCPrfUsingHmac Sha256,
     t12_kx = ECDHE, t12_sign = ALL_ECDSA_SCHEMES\<rparr>"

definition TLS12_ECDHE_ECDSA_WITH_AES_256_GCM_SHA384 :: SupportedCipherSuite where
  "TLS12_ECDHE_ECDSA_WITH_AES_256_GCM_SHA384 = SuiteTls12 \<lparr>
     t12_common = \<lparr>cs_suite = Suite_TLS_ECDHE_ECDSA_WITH_AES_256_GCM_SHA384,
       cs_hash_provider = WCSha384, cs_confidentiality_limit = push_bit 23 1\<rparr>,
     t12_aead_alg = Aes256GcmAlg, t12_prf_provider = WCPrfUsingHmac Sha384,
     t12_kx = ECDHE, t12_sign = ALL_ECDSA_SCHEMES\<rparr>"

definition ALL_CIPHER_SUITES :: "SupportedCipherSuite list" where
  "ALL_CIPHER_SUITES = [
     TLS13_CHACHA20_POLY1305_SHA256,
     TLS13_AES_128_GCM_SHA256,
     TLS13_AES_256_GCM_SHA384,
     TLS12_ECDHE_RSA_WITH_CHACHA20_POLY1305_SHA256,
     TLS12_ECDHE_RSA_WITH_AES_128_GCM_SHA256,
     TLS12_ECDHE_RSA_WITH_AES_256_GCM_SHA384,
     TLS12_ECDHE_ECDSA_WITH_CHACHA20_POLY1305_SHA256,
     TLS12_ECDHE_ECDSA_WITH_AES_128_GCM_SHA256,
     TLS12_ECDHE_ECDSA_WITH_AES_256_GCM_SHA384]"

lemmas suite_defs = TLS13_CHACHA20_POLY1305_SHA256_def TLS13_AES_128_GCM_SHA256_def
  TLS13_AES_256_GCM_SHA384_def TLS12_ECDHE_RSA_WITH_CHACHA20_POLY1305_SHA256_def
  TLS12_ECDHE_RSA_WITH_AES_128_GCM_SHA256_def TLS12_ECDHE_RSA_WITH_AES_256_GCM_SHA384_def
  TLS12_ECDHE_ECDSA_WITH_CHACHA20_POLY1305_SHA256_def TLS12_ECDHE_ECDSA_WITH_AES_128_GCM_SHA256_def
  TLS12_ECDHE_ECDSA_WITH_AES_256_GCM_SHA384_def

section \<open>What the suites have in common\<close>

fun suite_common :: "SupportedCipherSuite \<Rightarrow> CipherSuiteCommon" where
  "suite_common (SuiteTls12 s) = t12_common s"
| "suite_common (SuiteTls13 s) = t13_common s"

fun suite_aead :: "SupportedCipherSuite \<Rightarrow> AeadAlgorithm" where
  "suite_aead (SuiteTls12 s) = t12_aead_alg s"
| "suite_aead (SuiteTls13 s) = t13_aead_alg s"

fun suite_version :: "SupportedCipherSuite \<Rightarrow> ProtocolVersion" where
  "suite_version (SuiteTls12 s) = TLSv1_2"
| "suite_version (SuiteTls13 s) = TLSv1_3"

end
