(* ===== verification/Channel.thy ===== *)
theory Channel
  imports RecordLayer
begin

text \<open>
  One direction of a connection as a transition system: a writer that protects messages, a wire
  that carries records in order, and a reader that unprotects them, each with its own sequence
  number as rustls keeps it.  Sending and receiving interleave freely, and other users of the
  foreign library change its state between any two steps.  An abstract channel, a queue of
  contents, is what the locale \<open>record_protection\<close> promises of it.
\<close>

section \<open>The channel\<close>

datatype channel_status = Open | Failed rustls_error | Aborted string

record 's channel =
  ch_lib :: 's
  ch_write_seq :: u64
  ch_read_seq :: u64
  ch_wire :: "OutboundOpaqueMessage list"
  ch_sent :: "OutboundPlainMessage list"
  ch_received :: "InboundPlainMessage list"
  ch_status :: channel_status

definition channel_start :: "'s \<Rightarrow> u64 \<Rightarrow> 's channel" where
  "channel_start s seq = \<lparr>ch_lib = s, ch_write_seq = seq, ch_read_seq = seq, ch_wire = [],
     ch_sent = [], ch_received = [], ch_status = Open\<rparr>"

type_synonym 's encrypt_fun = "OutboundPlainMessage \<Rightarrow> u64 \<Rightarrow> ('s, rustls_error, OutboundOpaqueMessage) rust"
type_synonym 's decrypt_fun = "InboundOpaqueMessage \<Rightarrow> u64 \<Rightarrow> ('s, rustls_error, InboundPlainMessage) rust"

definition channel_write :: "'s encrypt_fun \<Rightarrow> OutboundPlainMessage \<Rightarrow> 's channel \<Rightarrow> 's channel" where
  "channel_write enc m c = (case enc m (ch_write_seq c) (ch_lib c) of
       (Ok om, s) \<Rightarrow> c\<lparr>ch_lib := s, ch_write_seq := ch_write_seq c + 1,
                       ch_wire := ch_wire c @ [om], ch_sent := ch_sent c @ [m]\<rparr>
     | (Err e, s) \<Rightarrow> c\<lparr>ch_lib := s, ch_status := Failed e\<rparr>
     | (Panic p, s) \<Rightarrow> c\<lparr>ch_lib := s, ch_status := Aborted p\<rparr>)"

definition channel_read :: "'s decrypt_fun \<Rightarrow> OutboundOpaqueMessage \<Rightarrow> 's channel \<Rightarrow> 's channel" where
  "channel_read dec om c = (case dec (deliver om) (ch_read_seq c) (ch_lib c) of
       (Ok ip, s) \<Rightarrow> c\<lparr>ch_lib := s, ch_read_seq := ch_read_seq c + 1, ch_received := ch_received c @ [ip]\<rparr>
     | (Err e, s) \<Rightarrow> c\<lparr>ch_lib := s, ch_status := Failed e\<rparr>
     | (Panic p, s) \<Rightarrow> c\<lparr>ch_lib := s, ch_status := Aborted p\<rparr>)"

inductive channel_step ::
    "(OutboundPlainMessage \<Rightarrow> bool) \<Rightarrow> 's encrypt_fun \<Rightarrow> 's decrypt_fun \<Rightarrow> 's channel \<Rightarrow> 's channel \<Rightarrow> bool"
  for allowed enc dec where
  step_write: "ch_status c = Open \<Longrightarrow> allowed m \<Longrightarrow> channel_step allowed enc dec c (channel_write enc m c)"
| step_read: "ch_status c = Open \<Longrightarrow> ch_wire c = om # oms \<Longrightarrow>
     channel_step allowed enc dec c (channel_read dec om (c\<lparr>ch_wire := oms\<rparr>))"
| step_other: "channel_step allowed enc dec c (c\<lparr>ch_lib := s\<rparr>)"

definition reachable ::
    "(OutboundPlainMessage \<Rightarrow> bool) \<Rightarrow> 's encrypt_fun \<Rightarrow> 's decrypt_fun \<Rightarrow> 's channel \<Rightarrow> 's channel \<Rightarrow> bool" where
  "reachable allowed enc dec = (channel_step allowed enc dec)\<^sup>*\<^sup>*"

lemma reachable_refl [simp, intro]: "reachable allowed enc dec c c"
  by (simp add: reachable_def)

lemma reachable_step:
  "reachable allowed enc dec c c' \<Longrightarrow> channel_step allowed enc dec c' c'' \<Longrightarrow> reachable allowed enc dec c c''"
  unfolding reachable_def by (rule rtranclp.rtrancl_into_rtrancl)

lemma reachable_trans:
  "reachable allowed enc dec c c' \<Longrightarrow> reachable allowed enc dec c' c'' \<Longrightarrow> reachable allowed enc dec c c''"
  unfolding reachable_def by (rule rtranclp_trans)

lemma reachable_induct [consumes 1, case_names start step]:
  assumes "reachable allowed enc dec c0 c" and "P c0"
    and "\<And>c c'. P c \<Longrightarrow> channel_step allowed enc dec c c' \<Longrightarrow> P c'"
  shows "P c"
  using assms(1) unfolding reachable_def by (induction rule: rtranclp_induct) (auto intro: assms(2,3))

section \<open>The abstract channel\<close>

type_synonym content = "ContentType \<times> bytes"

definition sent_content :: "OutboundPlainMessage \<Rightarrow> content" where
  "sent_content m = (pm_typ m, chunks_bytes (pm_payload m))"

definition received_content :: "InboundPlainMessage \<Rightarrow> content" where
  "received_content ip = (ip_typ ip, ip_payload ip)"

lemma same_content_iff: "same_content m ip \<longleftrightarrow> received_content ip = sent_content m"
  by (auto simp: same_content_def sent_content_def received_content_def)

lemma same_contents_iff:
  "list_all2 same_content ms ips \<longleftrightarrow> map received_content ips = map sent_content ms"
  by (auto simp: list_eq_iff_nth_eq list_all2_conv_all_nth same_content_iff)

record fifo =
  fi_queue :: "content list"
  fi_delivered :: "content list"

text \<open>What happens at a queue and at a channel, by name: a content is put in, the next one is taken out,
  or neither.\<close>

datatype channel_event = EvPut content | EvTake | EvIdle

inductive fifo_event :: "channel_event \<Rightarrow> fifo \<Rightarrow> fifo \<Rightarrow> bool" where
  fifo_put: "fifo_event (EvPut x) q (q\<lparr>fi_queue := fi_queue q @ [x]\<rparr>)"
| fifo_take: "fi_queue q = x # xs \<Longrightarrow> fifo_event EvTake q \<lparr>fi_queue = xs, fi_delivered = fi_delivered q @ [x]\<rparr>"
| fifo_idle: "fifo_event EvIdle q q"

inductive_cases fifo_putE: "fifo_event (EvPut x) q q'"
inductive_cases fifo_takeE: "fifo_event EvTake q q'"
inductive_cases fifo_idleE: "fifo_event EvIdle q q'"

text \<open>The steps of a channel with their names: every write is a put, every read a take, whatever comes of it.\<close>

inductive channel_does ::
    "(OutboundPlainMessage \<Rightarrow> bool) \<Rightarrow> 's encrypt_fun \<Rightarrow> 's decrypt_fun \<Rightarrow> channel_event \<Rightarrow> 's channel \<Rightarrow> 's channel \<Rightarrow> bool"
  for allowed enc dec where
  does_put: "ch_status c = Open \<Longrightarrow> allowed m \<Longrightarrow>
     channel_does allowed enc dec (EvPut (sent_content m)) c (channel_write enc m c)"
| does_take: "ch_status c = Open \<Longrightarrow> ch_wire c = om # oms \<Longrightarrow>
     channel_does allowed enc dec EvTake c (channel_read dec om (c\<lparr>ch_wire := oms\<rparr>))"
| does_idle: "channel_does allowed enc dec EvIdle c (c\<lparr>ch_lib := s\<rparr>)"

lemma channel_step_does: "channel_step allowed enc dec c c' \<longleftrightarrow> (\<exists>l. channel_does allowed enc dec l c c')"
  by (auto elim!: channel_step.cases channel_does.cases intro: channel_step.intros channel_does.intros)

definition abs_channel :: "'s channel \<Rightarrow> fifo" where
  "abs_channel c = \<lparr>
     fi_queue = map sent_content (drop (length (ch_received c)) (ch_sent c)),
     fi_delivered = map received_content (ch_received c)\<rparr>"

section \<open>The invariant\<close>

text \<open>The records on the wire, read from the reader's sequence number on, are the messages that were
  sent and not yet received.\<close>

fun in_flight :: "'s decrypt_fun \<Rightarrow> OutboundPlainMessage list \<Rightarrow> OutboundOpaqueMessage list \<Rightarrow> u64 \<Rightarrow> bool" where
  "in_flight dec [] [] seq = True"
| "in_flight dec (m # ms) (om # oms) seq =
     (yields (dec (deliver om) seq) (same_content m) \<and> in_flight dec ms oms (seq + 1))"
| "in_flight dec _ _ seq = False"

fun_cases in_flight_ConsE: "in_flight dec ms (om # oms) seq"

lemma in_flight_length: "in_flight dec ms oms seq \<Longrightarrow> length ms = length oms"
  by (induction dec ms oms seq rule: in_flight.induct) auto

lemma in_flight_snoc:
  "in_flight dec ms oms seq \<Longrightarrow>
   yields (dec (deliver om) (seq + of_nat (length oms))) (same_content m) \<Longrightarrow>
   in_flight dec (ms @ [m]) (oms @ [om]) seq"
  by (induction dec ms oms seq rule: in_flight.induct) (auto simp: ac_simps)

definition channel_inv :: "'s decrypt_fun \<Rightarrow> 's channel \<Rightarrow> bool" where
  "channel_inv dec c \<longleftrightarrow>
     ch_status c = Open
   \<and> ch_write_seq c = ch_read_seq c + of_nat (length (ch_wire c))
   \<and> (\<exists>old rest. ch_sent c = old @ rest \<and> list_all2 same_content old (ch_received c)
        \<and> in_flight dec rest (ch_wire c) (ch_read_seq c))"

lemma channel_invI:
  "ch_status c = Open \<Longrightarrow> ch_write_seq c = ch_read_seq c + of_nat (length (ch_wire c)) \<Longrightarrow>
   ch_sent c = old @ rest \<Longrightarrow> list_all2 same_content old (ch_received c) \<Longrightarrow>
   in_flight dec rest (ch_wire c) (ch_read_seq c) \<Longrightarrow> channel_inv dec c"
  unfolding channel_inv_def by blast

lemma channel_invE:
  assumes "channel_inv dec c"
  obtains old rest where "ch_status c = Open" "ch_sent c = old @ rest"
    "ch_write_seq c = ch_read_seq c + of_nat (length (ch_wire c))"
    "list_all2 same_content old (ch_received c)" "length old = length (ch_received c)"
    "in_flight dec rest (ch_wire c) (ch_read_seq c)"
  using assms unfolding channel_inv_def by (auto dest: list_all2_lengthD)

lemma channel_inv_start: "channel_inv dec (channel_start s seq)"
  by (rule channel_invI [where old = "[]" and rest = "[]"]) (simp_all add: channel_start_def)

text \<open>What one step of a channel in the invariant looks like: a message goes onto the wire, the first
  record comes off it as the oldest message in flight, or the foreign library moves.\<close>

lemma channel_write_yields:
  assumes "channel_inv dec c"
    and "yields (enc m (ch_write_seq c)) (\<lambda>om. yields (dec (deliver om) (ch_write_seq c)) (same_content m))"
  obtains om s where "channel_write enc m c = c\<lparr>ch_lib := s, ch_write_seq := ch_write_seq c + 1,
      ch_wire := ch_wire c @ [om], ch_sent := ch_sent c @ [m]\<rparr>"
    "channel_inv dec (channel_write enc m c)"
proof -
  obtain om s where om: "enc m (ch_write_seq c) (ch_lib c) = (Ok om, s)"
    "yields (dec (deliver om) (ch_write_seq c)) (same_content m)"
    using yieldsD [OF assms(2)] by blast
  let ?c = "c\<lparr>ch_lib := s, ch_write_seq := ch_write_seq c + 1,
      ch_wire := ch_wire c @ [om], ch_sent := ch_sent c @ [m]\<rparr>"
  have eq: "channel_write enc m c = ?c" by (simp add: channel_write_def om)
  obtain old rest where c: "ch_status c = Open" "ch_sent c = old @ rest"
    "ch_write_seq c = ch_read_seq c + of_nat (length (ch_wire c))"
    "list_all2 same_content old (ch_received c)"
    "in_flight dec rest (ch_wire c) (ch_read_seq c)"
    using assms(1) by (elim channel_invE)
  have "in_flight dec (rest @ [m]) (ch_wire c @ [om]) (ch_read_seq c)"
    using om(2) by (intro in_flight_snoc c(5)) (simp add: c(3))
  then have "channel_inv dec ?c"
    by (intro channel_invI [where old = "old" and rest = "rest @ [m]"]) (use c in simp_all)
  then show ?thesis using that eq by simp
qed

lemma channel_read_yields:
  assumes "channel_inv dec c" and wire: "ch_wire c = om # oms"
  obtains m ip s where "channel_read dec om (c\<lparr>ch_wire := oms\<rparr>) = c\<lparr>ch_lib := s,
      ch_read_seq := ch_read_seq c + 1, ch_wire := oms, ch_received := ch_received c @ [ip]\<rparr>"
    "same_content m ip" "drop (length (ch_received c)) (ch_sent c) = m # drop (Suc (length (ch_received c))) (ch_sent c)"
    "channel_inv dec (channel_read dec om (c\<lparr>ch_wire := oms\<rparr>))"
proof -
  obtain old rest where c: "ch_status c = Open" "ch_sent c = old @ rest"
    "ch_write_seq c = ch_read_seq c + of_nat (length (ch_wire c))"
    "list_all2 same_content old (ch_received c)" "length old = length (ch_received c)"
    "in_flight dec rest (om # oms) (ch_read_seq c)"
    using assms(1) wire by (elim channel_invE) simp
  then obtain m ms where m: "rest = m # ms" "yields (dec (deliver om) (ch_read_seq c)) (same_content m)"
    "in_flight dec ms oms (ch_read_seq c + 1)" by (elim in_flight_ConsE) simp
  obtain ip s where ip: "dec (deliver om) (ch_read_seq c) (ch_lib c) = (Ok ip, s)" "same_content m ip"
    using yieldsD [OF m(2)] by blast
  let ?c = "c\<lparr>ch_lib := s, ch_read_seq := ch_read_seq c + 1, ch_wire := oms,
      ch_received := ch_received c @ [ip]\<rparr>"
  have eq: "channel_read dec om (c\<lparr>ch_wire := oms\<rparr>) = ?c" by (simp add: channel_read_def ip)
  have "channel_inv dec ?c"
    by (rule channel_invI [where old = "old @ [m]" and rest = ms])
       (use c m ip wire in \<open>simp_all add: list_all2_appendI\<close>)
  moreover have "drop (length (ch_received c)) (ch_sent c) = m # drop (Suc (length (ch_received c))) (ch_sent c)"
    by (simp add: c(2) m(1) flip: c(5))
  ultimately show ?thesis using that eq ip(2) by simp
qed

section \<open>A record protection makes a channel\<close>

context record_protection
begin

lemma channel_step_inv:
  assumes "lib_ok w" "paired e d" and inv: "channel_inv (decrypt w d) c"
    and step: "channel_step (sendable e) (encrypt w e) (decrypt w d) c c'"
  shows "channel_inv (decrypt w d) c'"
  using step
proof cases
  case (step_write m)
  have "yields (encrypt w e m (ch_write_seq c))
      (\<lambda>om. yields (decrypt w d (deliver om) (ch_write_seq c)) (same_content m))"
    by (rule yields_weaken [OF protects [OF assms(1,2) step_write(3)]]) simp
  from channel_write_yields [where enc = "encrypt w e" and m = m, OF inv this]
  show ?thesis unfolding step_write(1) .
next
  case (step_read om oms)
  from channel_read_yields [OF inv step_read(3)] show ?thesis unfolding step_read(1) .
next
  case (step_other s)
  then show ?thesis using inv by (simp add: channel_inv_def)
qed

lemma channel_reachable_inv:
  assumes "lib_ok w" "paired e d"
    and "reachable (sendable e) (encrypt w e) (decrypt w d) (channel_start s seq) c"
  shows "channel_inv (decrypt w d) c"
  using assms(3) by (rule reachable_induct) (rule channel_inv_start, rule channel_step_inv [OF assms(1,2)])

text \<open>Every step does to the queue what its name says: a read that failed would take nothing.\<close>

lemma channel_does_simulates:
  assumes "lib_ok w" "paired e d" and inv: "channel_inv (decrypt w d) c"
    and step: "channel_does (sendable e) (encrypt w e) (decrypt w d) l c c'"
  shows "fifo_event l (abs_channel c) (abs_channel c')"
  using step
proof cases
  case (does_put m)
  have y: "yields (encrypt w e m (ch_write_seq c))
      (\<lambda>om. yields (decrypt w d (deliver om) (ch_write_seq c)) (same_content m))"
    by (rule yields_weaken [OF protects [OF assms(1,2) does_put(4)]]) simp
  have "length (ch_received c) \<le> length (ch_sent c)" using inv by (elim channel_invE) simp
  moreover obtain om s where "c' = c\<lparr>ch_lib := s, ch_write_seq := ch_write_seq c + 1,
      ch_wire := ch_wire c @ [om], ch_sent := ch_sent c @ [m]\<rparr>"
    using channel_write_yields [where enc = "encrypt w e" and m = m, OF inv y] unfolding does_put(2) .
  ultimately have "abs_channel c' = (abs_channel c)\<lparr>fi_queue := fi_queue (abs_channel c) @ [sent_content m]\<rparr>"
    by (simp add: abs_channel_def)
  then show ?thesis by (simp add: does_put(1) fifo_put)
next
  case (does_take om oms)
  obtain m ip s where c': "c' = c\<lparr>ch_lib := s, ch_read_seq := ch_read_seq c + 1, ch_wire := oms,
      ch_received := ch_received c @ [ip]\<rparr>" and ip: "same_content m ip"
    and m: "drop (length (ch_received c)) (ch_sent c) = m # drop (Suc (length (ch_received c))) (ch_sent c)"
    using channel_read_yields [OF inv does_take(4)] unfolding does_take(2) .
  have "fifo_event EvTake (abs_channel c) (abs_channel c')"
    using fifo_take [of "abs_channel c" "sent_content m"
        "map sent_content (drop (Suc (length (ch_received c))) (ch_sent c))"] m ip
    by (simp add: c' abs_channel_def same_content_iff)
  then show ?thesis by (simp add: does_take(1))
next
  case (does_idle s)
  then show ?thesis by (simp add: abs_channel_def fifo_idle)
qed

text \<open>And whatever the queue can do next, the channel can do: anything sendable can be put in, and a
  content that is in the queue can be taken out.\<close>

lemma channel_can_do:
  assumes "lib_ok w" "paired e d" and inv: "channel_inv (decrypt w d) c"
    and ev: "fifo_event l (abs_channel c) q" and put: "\<And>x. l = EvPut x \<Longrightarrow> \<exists>m. sendable e m \<and> sent_content m = x"
  shows "\<exists>c'. channel_does (sendable e) (encrypt w e) (decrypt w d) l c c' \<and> abs_channel c' = q"
proof -
  have opened: "ch_status c = Open" using inv by (elim channel_invE)
  have "\<exists>c'. channel_does (sendable e) (encrypt w e) (decrypt w d) l c c'"
  proof (cases l)
    case (EvPut x)
    with put obtain m where "sendable e m" "sent_content m = x" by blast
    then show ?thesis using does_put [OF opened] EvPut by blast
  next
    case EvTake
    have "length (ch_sent c) = length (ch_received c) + length (ch_wire c)"
      using inv by (elim channel_invE) (simp add: in_flight_length)
    moreover have "drop (length (ch_received c)) (ch_sent c) \<noteq> []"
      using ev unfolding EvTake by (elim fifo_takeE) (auto simp: abs_channel_def)
    ultimately obtain om oms where "ch_wire c = om # oms" by (cases "ch_wire c") auto
    then show ?thesis using does_take [OF opened] EvTake by blast
  next
    case EvIdle
    show ?thesis unfolding EvIdle by (rule exI, rule does_idle)
  qed
  then obtain c' where c': "channel_does (sendable e) (encrypt w e) (decrypt w d) l c c'" ..
  have "fifo_event l (abs_channel c) (abs_channel c')" by (rule channel_does_simulates [OF assms(1,2) inv c'])
  with ev have "abs_channel c' = q" by (cases l) (auto elim!: fifo_putE fifo_takeE fifo_idleE)
  with c' show ?thesis by blast
qed

text \<open>What was received is what was sent, in order and from the beginning; the rest is on its way.\<close>

lemma channel_delivers_prefix:
  assumes "channel_inv (decrypt w d) c"
  shows "list_all2 same_content (take (length (ch_received c)) (ch_sent c)) (ch_received c)"
    and "length (ch_sent c) = length (ch_received c) + length (ch_wire c)"
  using assms by (elim channel_invE; simp add: in_flight_length)+

text \<open>Reading empties the wire and delivers everything that was sent.\<close>

lemma channel_drains:
  assumes "lib_ok w" "paired e d" and "channel_inv (decrypt w d) c"
  shows "\<exists>c'. reachable (sendable e) (encrypt w e) (decrypt w d) c c' \<and> ch_wire c' = []
     \<and> ch_sent c' = ch_sent c \<and> list_all2 same_content (ch_sent c') (ch_received c')"
  using assms(3)
proof (induction "ch_wire c" arbitrary: c)
  case Nil
  note inv = \<open>channel_inv (decrypt w d) c\<close>
  have "list_all2 same_content (ch_sent c) (ch_received c)"
    using channel_delivers_prefix [OF inv] Nil(1) by (simp flip: Nil(1))
  then show ?case using Nil(1) by (intro exI [of _ c]) simp
next
  case (Cons om oms)
  note inv = \<open>channel_inv (decrypt w d) c\<close> and wire = Cons.hyps(2) [symmetric]
  have "ch_status c = Open" using inv by (elim channel_invE)
  then have step: "channel_step (sendable e) (encrypt w e) (decrypt w d) c (channel_read (decrypt w d) om (c\<lparr>ch_wire := oms\<rparr>))"
    using wire by (rule step_read)
  obtain ip s where eq: "channel_read (decrypt w d) om (c\<lparr>ch_wire := oms\<rparr>) = c\<lparr>ch_lib := s,
      ch_read_seq := ch_read_seq c + 1, ch_wire := oms, ch_received := ch_received c @ [ip]\<rparr>"
    using channel_read_yields [OF inv wire] .
  obtain c' where "reachable (sendable e) (encrypt w e) (decrypt w d)
      (channel_read (decrypt w d) om (c\<lparr>ch_wire := oms\<rparr>)) c'"
    "ch_wire c' = []" "ch_sent c' = ch_sent c" "list_all2 same_content (ch_sent c') (ch_received c')"
    using Cons.hyps(1) [OF _ channel_step_inv [OF assms(1,2) inv step]] eq by auto
  then show ?case
    using reachable_trans [OF reachable_step [OF reachable_refl step]] by blast
qed

end

end
