(* ===== verification/SuiteCiphers.thy ===== *)
theory SuiteCiphers
  imports Suites Channel
begin

text \<open>
  The ciphers behind the suites.  A \<open>Box<dyn MessageEncrypter>\<close>, a \<open>Box<dyn MessageDecrypter>\<close> and a
  \<open>&dyn Tls12AeadAlgorithm\<close> or \<open>&dyn Tls13AeadAlgorithm\<close> of a suite are values of the types below, and
  their methods dispatch to the code of \<open>src/aead\<close>.  All six kinds of cipher together satisfy the
  interface \<open>record_protection\<close>, so that every suite of the provider makes a reliable channel.
\<close>

section \<open>Dispatch\<close>

record 's aead_libs =
  al_rustls :: rustls_cipher
  al_gcm :: "'s wolf_gcm"
  al_chacha :: "'s wolf_chacha"

datatype MessageEncrypter =
    EncAes128Tls12 WCTls12Encrypter
  | EncAes256Tls12 WCTls12Encrypter
  | EncChachaTls12 ChachaTls12Cipher
  | EncAes128Tls13 WCTls13Cipher
  | EncAes256Tls13 WCTls13Cipher
  | EncChachaTls13 ChachaTls13Cipher

datatype MessageDecrypter =
    DecAes128Tls12 WCTls12Decrypter
  | DecAes256Tls12 WCTls12Decrypter
  | DecChachaTls12 ChachaTls12Cipher
  | DecAes128Tls13 WCTls13Cipher
  | DecAes256Tls13 WCTls13Cipher
  | DecChachaTls13 ChachaTls13Cipher

fun message_encrypt :: "'s aead_libs \<Rightarrow> MessageEncrypter \<Rightarrow> 's encrypt_fun" where
  "message_encrypt L (EncAes128Tls12 e) m seq = aes128_tls12_encrypt (al_rustls L) (al_gcm L) e m seq"
| "message_encrypt L (EncAes256Tls12 e) m seq = aes256_tls12_encrypt (al_rustls L) (al_gcm L) e m seq"
| "message_encrypt L (EncChachaTls12 e) m seq = chacha_tls12_encrypt (al_rustls L) (al_chacha L) e m seq"
| "message_encrypt L (EncAes128Tls13 e) m seq = aes128_tls13_encrypt (al_rustls L) (al_gcm L) e m seq"
| "message_encrypt L (EncAes256Tls13 e) m seq = aes256_tls13_encrypt (al_rustls L) (al_gcm L) e m seq"
| "message_encrypt L (EncChachaTls13 e) m seq = chacha_tls13_encrypt (al_rustls L) (al_chacha L) e m seq"

fun message_decrypt :: "'s aead_libs \<Rightarrow> MessageDecrypter \<Rightarrow> 's decrypt_fun" where
  "message_decrypt L (DecAes128Tls12 d) m seq = aes128_tls12_decrypt (al_rustls L) (al_gcm L) d m seq"
| "message_decrypt L (DecAes256Tls12 d) m seq = aes256_tls12_decrypt (al_rustls L) (al_gcm L) d m seq"
| "message_decrypt L (DecChachaTls12 d) m seq = chacha_tls12_decrypt (al_rustls L) (al_chacha L) d m seq"
| "message_decrypt L (DecAes128Tls13 d) m seq = aes128_tls13_decrypt (al_rustls L) (al_gcm L) d m seq"
| "message_decrypt L (DecAes256Tls13 d) m seq = aes256_tls13_decrypt (al_rustls L) (al_gcm L) d m seq"
| "message_decrypt L (DecChachaTls13 d) m seq = chacha_tls13_decrypt (al_rustls L) (al_chacha L) d m seq"

fun message_payload_len :: "MessageEncrypter \<Rightarrow> usize \<Rightarrow> usize" where
  "message_payload_len (EncAes128Tls12 e) n = aes128_tls12_encrypted_payload_len e n"
| "message_payload_len (EncAes256Tls12 e) n = aes256_tls12_encrypted_payload_len e n"
| "message_payload_len (EncChachaTls12 e) n = chacha_tls12_encrypted_payload_len e n"
| "message_payload_len (EncAes128Tls13 e) n = aes128_tls13_encrypted_payload_len e n"
| "message_payload_len (EncAes256Tls13 e) n = aes256_tls13_encrypted_payload_len e n"
| "message_payload_len (EncChachaTls13 e) n = chacha_tls13_encrypted_payload_len e n"

text \<open>The methods of \<open>dyn Tls12AeadAlgorithm\<close>.\<close>

fun tls12_encrypter :: "'s aead_libs \<Rightarrow> AeadAlgorithm \<Rightarrow> AeadKey \<Rightarrow> bytes \<Rightarrow> bytes \<Rightarrow> ('s, 'e, MessageEncrypter) rust" where
  "tls12_encrypter L Aes128GcmAlg key iv extra = and_then (aes128_tls12_encrypter key iv extra) (\<lambda>e. ok (EncAes128Tls12 e))"
| "tls12_encrypter L Aes256GcmAlg key iv extra = and_then (aes256_tls12_encrypter key iv extra) (\<lambda>e. ok (EncAes256Tls12 e))"
| "tls12_encrypter L Chacha20Poly1305Alg key iv extra =
     and_then (chacha_tls12_encrypter (al_rustls L) key iv extra) (\<lambda>e. ok (EncChachaTls12 e))"

fun tls12_decrypter :: "'s aead_libs \<Rightarrow> AeadAlgorithm \<Rightarrow> AeadKey \<Rightarrow> bytes \<Rightarrow> ('s, 'e, MessageDecrypter) rust" where
  "tls12_decrypter L Aes128GcmAlg key iv = and_then (aes128_tls12_decrypter key iv) (\<lambda>d. ok (DecAes128Tls12 d))"
| "tls12_decrypter L Aes256GcmAlg key iv = and_then (aes256_tls12_decrypter key iv) (\<lambda>d. ok (DecAes256Tls12 d))"
| "tls12_decrypter L Chacha20Poly1305Alg key iv =
     and_then (chacha_tls12_decrypter (al_rustls L) key iv) (\<lambda>d. ok (DecChachaTls12 d))"

fun tls12_key_block_shape :: "AeadAlgorithm \<Rightarrow> KeyBlockShape" where
  "tls12_key_block_shape Aes128GcmAlg = aes128_key_block_shape"
| "tls12_key_block_shape Aes256GcmAlg = aes256_key_block_shape"
| "tls12_key_block_shape Chacha20Poly1305Alg = chacha_key_block_shape"

fun tls12_extract_keys :: "AeadAlgorithm \<Rightarrow> AeadKey \<Rightarrow> bytes \<Rightarrow> bytes \<Rightarrow>
    ('s, UnsupportedOperationError, ConnectionTrafficSecrets) rust" where
  "tls12_extract_keys Aes128GcmAlg key iv explicit = aes128_tls12_extract_keys key iv explicit"
| "tls12_extract_keys Aes256GcmAlg key iv explicit = aes256_tls12_extract_keys key iv explicit"
| "tls12_extract_keys Chacha20Poly1305Alg key iv explicit = chacha_tls12_extract_keys key iv explicit"

text \<open>The methods of \<open>dyn Tls13AeadAlgorithm\<close>.\<close>

fun tls13_encrypter :: "AeadAlgorithm \<Rightarrow> AeadKey \<Rightarrow> Iv \<Rightarrow> ('s, 'e, MessageEncrypter) rust" where
  "tls13_encrypter Aes128GcmAlg key iv = ok (EncAes128Tls13 (aes128_tls13_encrypter key iv))"
| "tls13_encrypter Aes256GcmAlg key iv = ok (EncAes256Tls13 (aes256_tls13_encrypter key iv))"
| "tls13_encrypter Chacha20Poly1305Alg key iv = and_then (chacha_tls13_encrypter key iv) (\<lambda>e. ok (EncChachaTls13 e))"

fun tls13_decrypter :: "AeadAlgorithm \<Rightarrow> AeadKey \<Rightarrow> Iv \<Rightarrow> ('s, 'e, MessageDecrypter) rust" where
  "tls13_decrypter Aes128GcmAlg key iv = ok (DecAes128Tls13 (aes128_tls13_decrypter key iv))"
| "tls13_decrypter Aes256GcmAlg key iv = ok (DecAes256Tls13 (aes256_tls13_decrypter key iv))"
| "tls13_decrypter Chacha20Poly1305Alg key iv = and_then (chacha_tls13_decrypter key iv) (\<lambda>d. ok (DecChachaTls13 d))"

fun tls13_key_len :: "'s aead_libs \<Rightarrow> AeadAlgorithm \<Rightarrow> usize" where
  "tls13_key_len L Aes128GcmAlg = aes128_key_len"
| "tls13_key_len L Aes256GcmAlg = aes256_key_len"
| "tls13_key_len L Chacha20Poly1305Alg = chacha_key_len (al_chacha L)"

fun tls13_extract_keys :: "AeadAlgorithm \<Rightarrow> AeadKey \<Rightarrow> Iv \<Rightarrow> UnsupportedOperationError + ConnectionTrafficSecrets" where
  "tls13_extract_keys Aes128GcmAlg key iv = aes128_tls13_extract_keys key iv"
| "tls13_extract_keys Aes256GcmAlg key iv = aes256_tls13_extract_keys key iv"
| "tls13_extract_keys Chacha20Poly1305Alg key iv = chacha_tls13_extract_keys key iv"

section \<open>The ends of a connection, as rustls makes them from a suite\<close>

fun suite_writer :: "'s aead_libs \<Rightarrow> SupportedCipherSuite \<Rightarrow> AeadKey \<Rightarrow> bytes \<Rightarrow> bytes \<Rightarrow> ('s, 'e, MessageEncrypter) rust" where
  "suite_writer L (SuiteTls12 s) key iv extra = tls12_encrypter L (t12_aead_alg s) key iv extra"
| "suite_writer L (SuiteTls13 s) key iv extra = tls13_encrypter (t13_aead_alg s) key iv"

fun suite_reader :: "'s aead_libs \<Rightarrow> SupportedCipherSuite \<Rightarrow> AeadKey \<Rightarrow> bytes \<Rightarrow> ('s, 'e, MessageDecrypter) rust" where
  "suite_reader L (SuiteTls12 s) key iv = tls12_decrypter L (t12_aead_alg s) key iv"
| "suite_reader L (SuiteTls13 s) key iv = tls13_decrypter (t13_aead_alg s) key iv"

definition suite_ends ::
    "'s aead_libs \<Rightarrow> SupportedCipherSuite \<Rightarrow> AeadKey \<Rightarrow> bytes \<Rightarrow> bytes \<Rightarrow>
     ('s, 'e, MessageEncrypter \<times> MessageDecrypter) rust" where
  "suite_ends L suite key iv extra =
     and_then (suite_writer L suite key iv extra) (\<lambda>e.
     and_then (suite_reader L suite key iv) (\<lambda>d. ok (e, d)))"

text \<open>Key material of the lengths that the suite's algorithm announces.\<close>

fun key_material :: "'s aead_libs \<Rightarrow> SupportedCipherSuite \<Rightarrow> AeadKey \<Rightarrow> bytes \<Rightarrow> bytes \<Rightarrow> bool" where
  "key_material L (SuiteTls12 s) key iv extra \<longleftrightarrow>
     (let shape = tls12_key_block_shape (t12_aead_alg s) in
      length key = enc_key_len shape \<and> length iv = fixed_iv_len shape \<and> length extra = explicit_nonce_len shape)"
| "key_material L (SuiteTls13 s) key iv extra \<longleftrightarrow>
     length key = tls13_key_len L (t13_aead_alg s) \<and> length iv = NONCE_LEN"

definition aead_libs_ok :: "'s aead_libs \<Rightarrow> bool" where
  "aead_libs_ok L \<longleftrightarrow> rustls_cipher_ok (al_rustls L) \<and> gcm_ok (al_gcm L) \<and> chacha_ok (al_chacha L)"

lemma aead_libs_okD:
  assumes "aead_libs_ok L"
  shows "rustls_cipher_ok (al_rustls L)" and "gcm_ok (al_gcm L)" and "chacha_ok (al_chacha L)"
    and "gcm_lib_ok (al_rustls L, al_gcm L)" and "chacha_lib_ok (al_rustls L, al_chacha L)"
    and "chacha_keysize (al_chacha L) = 32"
  using assms chacha_liveD(1) by (auto simp: aead_libs_ok_def gcm_lib_ok_def chacha_lib_ok_def chacha_ok_def)

text \<open>The two ends of one direction; the messages an encrypter takes.\<close>

fun cipher_paired :: "MessageEncrypter \<Rightarrow> MessageDecrypter \<Rightarrow> bool" where
  "cipher_paired (EncAes128Tls12 e) (DecAes128Tls12 d) = gcm12_paired e d"
| "cipher_paired (EncAes256Tls12 e) (DecAes256Tls12 d) = gcm12_paired e d"
| "cipher_paired (EncChachaTls12 e) (DecChachaTls12 d) = chacha12_paired e d"
| "cipher_paired (EncAes128Tls13 e) (DecAes128Tls13 d) = gcm13_paired e d"
| "cipher_paired (EncAes256Tls13 e) (DecAes256Tls13 d) = gcm13_paired e d"
| "cipher_paired (EncChachaTls13 e) (DecChachaTls13 d) = chacha13_paired e d"
| "cipher_paired _ _ = False"

fun_cases cipher_pairedE: "cipher_paired e d"

fun cipher_sendable :: "MessageEncrypter \<Rightarrow> OutboundPlainMessage \<Rightarrow> bool" where
  "cipher_sendable (EncAes128Tls13 e) m = sendable13 m"
| "cipher_sendable (EncAes256Tls13 e) m = sendable13 m"
| "cipher_sendable (EncChachaTls13 e) m = sendable13 m"
| "cipher_sendable _ m = True"

interpretation cipher: record_protection aead_libs_ok message_encrypt message_decrypt
  message_payload_len 16 cipher_paired cipher_sendable
proof (unfold_locales, goal_cases)
  case (1 w e d m seq)
  note gcm = aead_libs_okD(4) [OF 1(1)] and chacha = aead_libs_okD(5) [OF 1(1)]
  note facts = aes128_12.protects [OF gcm, simplified] aes256_12.protects [OF gcm, simplified]
    aes128_13.protects [OF gcm, simplified] aes256_13.protects [OF gcm, simplified]
    chacha_12.protects [OF chacha, simplified] chacha_13.protects [OF chacha, simplified]
  from 1(2,3) show ?case by (elim cipher_pairedE) (simp_all add: facts)
next
  case (2 w e d im seq)
  note gcm = aead_libs_okD(4) [OF 2(1)] and chacha = aead_libs_okD(5) [OF 2(1)]
  note facts = aes128_12.decrypt_panic_free [OF gcm, simplified] aes256_12.decrypt_panic_free [OF gcm, simplified]
    aes128_13.decrypt_panic_free [OF gcm, simplified] aes256_13.decrypt_panic_free [OF gcm, simplified]
    chacha_12.decrypt_panic_free [OF chacha, simplified] chacha_13.decrypt_panic_free [OF chacha, simplified]
  from 2(2) show ?case by (elim cipher_pairedE) (auto intro: facts)
next
  case (3 im w d seq)
  note gcm = aes128_12.decrypt_short [where w = "(al_rustls w, al_gcm w)", simplified]
    aes256_12.decrypt_short [where w = "(al_rustls w, al_gcm w)", simplified]
    aes128_13.decrypt_short [where w = "(al_rustls w, al_gcm w)", simplified]
    aes256_13.decrypt_short [where w = "(al_rustls w, al_gcm w)", simplified]
  note chacha = chacha_12.decrypt_short [where w = "(al_rustls w, al_chacha w)", simplified]
    chacha_13.decrypt_short [where w = "(al_rustls w, al_chacha w)", simplified]
  from 3 show ?case by (cases d) (simp_all add: gcm chacha)
qed

lemma tls12_factories:
  assumes "aead_libs_ok L" and "key_material L (SuiteTls12 s) key iv extra"
  shows "yields (suite_ends L (SuiteTls12 s) key iv extra) (\<lambda>(e, d). cipher_paired e d)"
proof -
  note rl = aead_libs_okD(1) [OF assms(1)]
  show ?thesis
    using assms(2)
    by (cases "t12_aead_alg s")
      (auto simp: suite_ends_def Let_def aes128_key_block_shape_def aes256_key_block_shape_def
        chacha_key_block_shape_def aes256_tls12_factories_eq aes128_tls12_encrypter_eq
        aes128_tls12_decrypter_eq chacha_tls12_factories_eq [OF rl] gcm12_paired_def chacha12_paired_def
        aes_key_def intro!: yields_ok)
qed

lemma tls13_factories:
  assumes "aead_libs_ok L" and "key_material L (SuiteTls13 s) key iv extra"
  shows "yields (suite_ends L (SuiteTls13 s) key iv extra) (\<lambda>(e, d). cipher_paired e d)"
proof -
  have "chacha_key_len (al_chacha L) = 32" by (simp add: chacha_key_len_def aead_libs_okD(6) [OF assms(1)])
  then show ?thesis
    using assms(2)
    by (cases "t13_aead_alg s")
      (auto simp: suite_ends_def aes128_key_len_def aes256_key_len_def NONCE_LEN_def
        aes256_tls13_factories_eq aes128_tls13_encrypter_def aes128_tls13_decrypter_def
        chacha_tls13_factories_eq gcm13_paired_def chacha13_paired_def aes_key_def intro!: yields_ok)
qed

lemma suite_ends_paired:
  assumes "aead_libs_ok L" and "key_material L suite key iv extra"
  shows "yields (suite_ends L suite key iv extra) (\<lambda>(e, d). cipher_paired e d)"
  using assms by (cases suite) (simp_all add: tls12_factories tls13_factories del: key_material.simps)

end
