(* ===== verification/Connection.thy ===== *)
theory Connection
  imports SuiteCiphers AeadDemo
begin

text \<open>
  What a cipher suite of the provider promises to a connection: a reliable channel, as an invariant,
  as a refinement of a queue and as progress; and traffic secrets, exported for a kernel or
  hardware that takes the connection over, which describe the very records the ciphers make.
\<close>

section \<open>Channels of the suites\<close>

definition suite_reachable ::
    "'s aead_libs \<Rightarrow> MessageEncrypter \<times> MessageDecrypter \<Rightarrow> 's \<Rightarrow> u64 \<Rightarrow> 's channel \<Rightarrow> bool" where
  "suite_reachable L = (\<lambda>(e, d) s seq c.
     reachable (cipher_sendable e) (message_encrypt L e) (message_decrypt L d) (channel_start s seq) c)"

definition suite_does ::
    "'s aead_libs \<Rightarrow> MessageEncrypter \<times> MessageDecrypter \<Rightarrow> channel_event \<Rightarrow> 's channel \<Rightarrow> 's channel \<Rightarrow> bool" where
  "suite_does L = (\<lambda>(e, d). channel_does (cipher_sendable e) (message_encrypt L e) (message_decrypt L d))"

lemma suite_reachable_inv:
  assumes "aead_libs_ok L" "cipher_paired e d" "suite_reachable L (e, d) s seq c"
  shows "channel_inv (message_decrypt L d) c"
  using cipher.channel_reachable_inv [OF assms(1,2)] assms(3) by (simp add: suite_reachable_def)

definition demo_aead :: "'s aead_libs" where
  "demo_aead = \<lparr>al_rustls = demo_rustls, al_gcm = demo_gcm, al_chacha = demo_chacha\<rparr>"

lemma demo_aead_ok: "aead_libs_ok demo_aead"
  by (simp add: aead_libs_ok_def demo_aead_def demo_rustls_ok demo_gcm_ok demo_chacha_ok)

lemma demo_chacha_material:
  "key_material demo_aead TLS13_CHACHA20_POLY1305_SHA256 (zeros 32) (zeros 12) []"
  by (simp add: TLS13_CHACHA20_POLY1305_SHA256_def demo_aead_def demo_chacha_def chacha_key_len_def NONCE_LEN_def)

text \<open>C5. The channel invariant.  Make the two ends of a direction from any suite and key material of
  the announced lengths.  However sending, receiving and other uses of the library interleave: no
  call fails or panics, what was received is what was sent first, in order and with the same
  content, the records on the wire are the rest, and the sequence numbers of the two ends differ
  by their number.\<close>

theorem suite_channel_invariant:
  assumes "aead_libs_ok L" and "key_material L suite key iv extra"
  shows "yields (suite_ends L suite key iv extra) (\<lambda>ends.
           \<forall>s seq c. suite_reachable L ends s seq c \<longrightarrow>
               ch_status c = Open
             \<and> list_all2 same_content (take (length (ch_received c)) (ch_sent c)) (ch_received c)
             \<and> length (ch_sent c) = length (ch_received c) + length (ch_wire c)
             \<and> ch_write_seq c = ch_read_seq c + of_nat (length (ch_wire c)))"
proof (rule yields_weaken [OF suite_ends_paired [OF assms]], clarify)
  fix e d s seq c
  assume "cipher_paired e d" and "suite_reachable L (e, d) s seq c"
  note inv = suite_reachable_inv [OF assms(1) this]
  have "ch_status c = Open \<and> ch_write_seq c = ch_read_seq c + of_nat (length (ch_wire c))"
    using inv by (simp add: channel_inv_def)
  then show "ch_status c = Open
       \<and> list_all2 same_content (take (length (ch_received c)) (ch_sent c)) (ch_received c)
       \<and> length (ch_sent c) = length (ch_received c) + length (ch_wire c)
       \<and> ch_write_seq c = ch_read_seq c + of_nat (length (ch_wire c))"
    using cipher.channel_delivers_prefix [OF inv] by blast
qed

theorem suite_channel_invariant_witness:
  "yields (suite_ends (demo_aead :: unit aead_libs) TLS13_CHACHA20_POLY1305_SHA256 (zeros 32) (zeros 12) [])
     (\<lambda>ends. \<forall>seq c. suite_reachable demo_aead ends () seq c \<longrightarrow> ch_status c = Open)"
  by (rule yields_weaken [OF suite_channel_invariant [OF demo_aead_ok demo_chacha_material]]) simp

text \<open>C8. The channel is a queue.  A channel of the provider and a FIFO queue of contents simulate each other,
  event by event: in every reachable state a write puts its content in at the back, a read delivers the front of
  the queue, which is never empty when there is a record to read, and other uses of the library
  change nothing; and whatever the queue can do next, the channel can do.  So no record is lost,
  refused, duplicated, reordered or altered.\<close>

theorem suite_channel_refines_fifo:
  assumes "aead_libs_ok L" and "key_material L suite key iv extra"
  shows "yields (suite_ends L suite key iv extra) (\<lambda>ends.
           \<forall>s seq c l. suite_reachable L ends s seq c \<longrightarrow>
             abs_channel (channel_start s seq) = \<lparr>fi_queue = [], fi_delivered = []\<rparr>
             \<and> (\<forall>c'. suite_does L ends l c c' \<longrightarrow>
                  suite_reachable L ends s seq c' \<and> fifo_event l (abs_channel c) (abs_channel c'))
             \<and> (\<forall>q. fifo_event l (abs_channel c) q \<longrightarrow>
                  (\<forall>x. l = EvPut x \<longrightarrow> (\<exists>m. cipher_sendable (fst ends) m \<and> sent_content m = x)) \<longrightarrow>
                  (\<exists>c'. suite_does L ends l c c' \<and> abs_channel c' = q)))"
proof (rule yields_weaken [OF suite_ends_paired [OF assms]], clarify)
  fix e d s seq c l
  assume pair: "cipher_paired e d" and reach: "suite_reachable L (e, d) s seq c"
  note inv = suite_reachable_inv [OF assms(1) pair reach]
  have "suite_reachable L (e, d) s seq c' \<and> fifo_event l (abs_channel c) (abs_channel c')"
    if "suite_does L (e, d) l c c'" for c'
  proof
    have "channel_does (cipher_sendable e) (message_encrypt L e) (message_decrypt L d) l c c'"
      using that by (simp add: suite_does_def)
    then show "fifo_event l (abs_channel c) (abs_channel c')" "suite_reachable L (e, d) s seq c'"
      using reach cipher.channel_does_simulates [OF assms(1) pair inv]
      by (auto simp: suite_reachable_def channel_step_does intro!: reachable_step [where c' = c])
  qed
  moreover have "\<exists>c'. suite_does L (e, d) l c c' \<and> abs_channel c' = q"
    if "fifo_event l (abs_channel c) q" "\<forall>x. l = EvPut x \<longrightarrow> (\<exists>m. cipher_sendable e m \<and> sent_content m = x)" for q
    using cipher.channel_can_do [OF assms(1) pair inv that(1)] that(2) by (simp add: suite_does_def)
  ultimately show "abs_channel (channel_start s seq) = \<lparr>fi_queue = [], fi_delivered = []\<rparr>
      \<and> (\<forall>c'. suite_does L (e, d) l c c' \<longrightarrow>
           suite_reachable L (e, d) s seq c' \<and> fifo_event l (abs_channel c) (abs_channel c'))
      \<and> (\<forall>q. fifo_event l (abs_channel c) q \<longrightarrow>
           (\<forall>x. l = EvPut x \<longrightarrow> (\<exists>m. cipher_sendable (fst (e, d)) m \<and> sent_content m = x)) \<longrightarrow>
           (\<exists>c'. suite_does L (e, d) l c c' \<and> abs_channel c' = q))"
    by (simp add: abs_channel_def channel_start_def)
qed

theorem suite_channel_refines_fifo_witness:
  "yields (suite_ends (demo_aead :: unit aead_libs) TLS13_CHACHA20_POLY1305_SHA256 (zeros 32) (zeros 12) [])
     (\<lambda>ends. \<forall>seq. \<exists>c c'. suite_does demo_aead ends (EvPut (ApplicationData, [7])) (channel_start () seq) c
        \<and> suite_does demo_aead ends EvTake c c'
        \<and> abs_channel c' = \<lparr>fi_queue = [], fi_delivered = [(ApplicationData, [7])]\<rparr>)"
proof (rule yields_weaken [OF suite_channel_refines_fifo [OF demo_aead_ok demo_chacha_material]], intro allI)
  fix ends seq
  assume all: "\<forall>s seq c l. suite_reachable (demo_aead :: unit aead_libs) ends s seq c \<longrightarrow>
      abs_channel (channel_start s seq) = \<lparr>fi_queue = [], fi_delivered = []\<rparr>
      \<and> (\<forall>c'. suite_does demo_aead ends l c c' \<longrightarrow>
           suite_reachable demo_aead ends s seq c' \<and> fifo_event l (abs_channel c) (abs_channel c'))
      \<and> (\<forall>q. fifo_event l (abs_channel c) q \<longrightarrow>
           (\<forall>x. l = EvPut x \<longrightarrow> (\<exists>m. cipher_sendable (fst ends) m \<and> sent_content m = x)) \<longrightarrow>
           (\<exists>c'. suite_does demo_aead ends l c c' \<and> abs_channel c' = q))"
  let ?x = "(ApplicationData, [7])"
  have start: "suite_reachable demo_aead ends () seq (channel_start () seq)"
    by (cases ends) (simp add: suite_reachable_def)
  let ?m = "\<lparr>pm_typ = ApplicationData, pm_version = TLSv1_2, pm_payload = [[7]]\<rparr>"
  have "cipher_sendable (fst ends) ?m"
    by (cases "fst ends") (simp_all add: sendable13_def record_types_def max_fragment_len_def chunks_len_def chunks_bytes_def)
  then have "\<exists>m. cipher_sendable (fst ends) m \<and> sent_content m = ?x"
    by (intro exI [of _ ?m]) (simp add: sent_content_def chunks_bytes_def)
  moreover from all start have empty: "abs_channel (channel_start () seq) = \<lparr>fi_queue = [], fi_delivered = []\<rparr>" by blast
  then have "fifo_event (EvPut ?x) (abs_channel (channel_start () seq)) \<lparr>fi_queue = [?x], fi_delivered = []\<rparr>"
    using fifo_put [of ?x "abs_channel (channel_start () seq)"] by simp
  ultimately obtain c where c: "suite_does demo_aead ends (EvPut ?x) (channel_start () seq) c"
      "abs_channel c = \<lparr>fi_queue = [?x], fi_delivered = []\<rparr>"
    using all start by (metis channel_event.inject)
  then have "suite_reachable demo_aead ends () seq c" using all start by blast
  moreover have "fifo_event EvTake (abs_channel c) \<lparr>fi_queue = [], fi_delivered = [?x]\<rparr>"
    using fifo_take [of "abs_channel c" ?x "[]"] by (simp add: c(2))
  ultimately obtain c' where "suite_does demo_aead ends EvTake c c'" "abs_channel c' = \<lparr>fi_queue = [], fi_delivered = [?x]\<rparr>"
    using all by (metis channel_event.distinct(1))
  with c(1) show "\<exists>c c'. suite_does demo_aead ends (EvPut ?x) (channel_start () seq) c
      \<and> suite_does demo_aead ends EvTake c c' \<and> abs_channel c' = \<lparr>fi_queue = [], fi_delivered = [?x]\<rparr>" by blast
qed

text \<open>C13. Progress.  From every reachable state the reader can go on until the wire is empty, and
  then everything that was sent has been received, in order and with the same content.\<close>

theorem suite_channel_drains:
  assumes "aead_libs_ok L" and "key_material L suite key iv extra"
  shows "yields (suite_ends L suite key iv extra) (\<lambda>ends.
           \<forall>s seq c. suite_reachable L ends s seq c \<longrightarrow>
             (\<exists>c'. suite_reachable L ends s seq c' \<and> ch_wire c' = [] \<and> ch_sent c' = ch_sent c
                \<and> list_all2 same_content (ch_sent c') (ch_received c')))"
proof (rule yields_weaken [OF suite_ends_paired [OF assms]], clarify)
  fix e d s seq c
  assume pair: "cipher_paired e d" and c: "suite_reachable L (e, d) s seq c"
  from cipher.channel_drains [OF assms(1) pair suite_reachable_inv [OF assms(1) pair c]]
  show "\<exists>c'. suite_reachable L (e, d) s seq c' \<and> ch_wire c' = [] \<and> ch_sent c' = ch_sent c
      \<and> list_all2 same_content (ch_sent c') (ch_received c')"
    using c by (auto simp: suite_reachable_def intro: reachable_trans)
qed

theorem suite_channel_drains_witness:
  "yields (suite_ends (demo_aead :: unit aead_libs) TLS13_CHACHA20_POLY1305_SHA256 (zeros 32) (zeros 12) [])
     (\<lambda>ends. \<forall>s seq c. suite_reachable (demo_aead :: unit aead_libs) ends s seq c \<longrightarrow>
        (\<exists>c'. suite_reachable demo_aead ends s seq c' \<and> ch_wire c' = [] \<and> ch_sent c' = ch_sent c
           \<and> list_all2 same_content (ch_sent c') (ch_received c')))"
  by (rule suite_channel_drains [OF demo_aead_ok demo_chacha_material])

section \<open>Exported traffic secrets\<close>

fun suite_secrets :: "SupportedCipherSuite \<Rightarrow> AeadKey \<Rightarrow> bytes \<Rightarrow> bytes \<Rightarrow>
    ('s, UnsupportedOperationError, ConnectionTrafficSecrets) rust" where
  "suite_secrets (SuiteTls12 s) key iv extra = tls12_extract_keys (t12_aead_alg s) key iv extra"
| "suite_secrets (SuiteTls13 s) key iv extra =
     map_err id (of_result (tls13_extract_keys (t13_aead_alg s) key iv))"

text \<open>The record that an implementation of the AEADs makes from the exported secrets alone.\<close>

fun secrets_algorithm :: "ConnectionTrafficSecrets \<Rightarrow> AeadAlgorithm" where
  "secrets_algorithm (SecretsAes128Gcm _ _) = Aes128GcmAlg"
| "secrets_algorithm (SecretsAes256Gcm _ _) = Aes256GcmAlg"
| "secrets_algorithm (SecretsChacha20Poly1305 _ _) = Chacha20Poly1305Alg"

fun secrets_wire ::
    "rustls_cipher \<Rightarrow> aead_fun \<Rightarrow> aead_fun \<Rightarrow> SupportedCipherSuite \<Rightarrow> ConnectionTrafficSecrets \<Rightarrow>
     OutboundPlainMessage \<Rightarrow> u64 \<Rightarrow> bytes" where
  "secrets_wire rl gcm chacha (SuiteTls12 _) (SecretsAes128Gcm key iv) m seq = gcm12_wire rl gcm key iv m seq"
| "secrets_wire rl gcm chacha (SuiteTls12 _) (SecretsAes256Gcm key iv) m seq = gcm12_wire rl gcm key iv m seq"
| "secrets_wire rl gcm chacha (SuiteTls12 _) (SecretsChacha20Poly1305 key iv) m seq = chacha12_wire rl chacha key iv m seq"
| "secrets_wire rl gcm chacha (SuiteTls13 _) (SecretsAes128Gcm key iv) m seq = tls13_wire rl gcm key iv m seq"
| "secrets_wire rl gcm chacha (SuiteTls13 _) (SecretsAes256Gcm key iv) m seq = tls13_wire rl gcm key iv m seq"
| "secrets_wire rl gcm chacha (SuiteTls13 _) (SecretsChacha20Poly1305 key iv) m seq = tls13_wire rl chacha key iv m seq"

lemma tls12_secrets:
  assumes "aead_libs_ok L" and "key_material L (SuiteTls12 s) key iv extra"
    and "gcm_live (al_gcm L) keyed gcm" and "chacha_live (al_chacha L) chacha"
  shows "yields (and_then (suite_secrets (SuiteTls12 s) key iv extra) (\<lambda>secrets.
                 and_then (suite_writer L (SuiteTls12 s) key iv extra) (\<lambda>e. ok (secrets, e))))
           (\<lambda>(secrets, e). secrets_algorithm secrets = t12_aead_alg s
             \<and> (\<forall>m seq. yields (message_encrypt L e m seq) (\<lambda>om.
                   oo_payload om = secrets_wire (al_rustls L) gcm chacha (SuiteTls12 s) secrets m seq)))"
proof -
  note rl = aead_libs_okD(1) [OF assms(1)]
  have gcm: "yields (aes128_tls12_encrypt (al_rustls L) (al_gcm L) \<lparr>te_iv = iv @ extra, te_key = key\<rparr> m seq)
      (\<lambda>om. oo_payload om = gcm12_wire (al_rustls L) gcm key (iv @ extra) m seq)"
    if "length iv = 4" "length extra = 8" "aes_key key" for m seq
    by (rule yields_weaken [OF aes128_tls12_encrypt_yields [OF rl assms(3)]]) (simp_all add: that)
  have chacha: "yields (chacha_tls12_encrypt (al_rustls L) (al_chacha L) \<lparr>c12_key = key, c12_iv = iv\<rparr> m seq)
      (\<lambda>om. oo_payload om = chacha12_wire (al_rustls L) chacha key iv m seq)"
    if "length iv = 12" "length key = 32" for m seq
    by (rule yields_weaken [OF chacha_tls12_encrypt_yields [OF rl assms(4)]]) (simp_all add: that)
  show ?thesis
  proof (cases "t12_aead_alg s")
    case Aes128GcmAlg
    then have len: "length key = 16" "length iv = 4" "length extra = 8"
      using assms(2) by (simp_all add: aes128_key_block_shape_def)
    then show ?thesis
      by (simp add: Aes128GcmAlg aes128_tls12_encrypter_eq aes128_tls12_extract_keys_def Let_def
          gcm_consts, intro yields_ok) (simp add: zeros_def gcm aes_key_def)
  next
    case Aes256GcmAlg
    then have len: "length key = 32" "length iv = 4" "length extra = 8"
      using assms(2) by (simp_all add: aes256_key_block_shape_def)
    then show ?thesis
      by (simp add: Aes256GcmAlg aes256_tls12_factories_eq aes128_tls12_encrypter_eq Let_def
          aes256_tls12_extract_keys_def gcm_consts, intro yields_ok)
         (simp add: zeros_def gcm aes_key_def aes256_tls12_encrypt_eq)
  next
    case Chacha20Poly1305Alg
    then have len: "length key = 32" "length iv = 12"
      using assms(2) by (simp_all add: chacha_key_block_shape_def)
    then show ?thesis
      by (simp add: Chacha20Poly1305Alg chacha_tls12_factories_eq [OF rl] chacha_tls12_extract_keys_def
          NONCE_LEN_def, intro yields_ok) (simp add: chacha)
  qed
qed

lemma tls13_secrets:
  assumes "aead_libs_ok L" and "key_material L (SuiteTls13 s) key iv extra"
    and "gcm_live (al_gcm L) keyed gcm" and "chacha_live (al_chacha L) chacha"
  shows "yields (and_then (suite_secrets (SuiteTls13 s) key iv extra) (\<lambda>secrets.
                 and_then (suite_writer L (SuiteTls13 s) key iv extra) (\<lambda>e. ok (secrets, e))))
           (\<lambda>(secrets, e). secrets_algorithm secrets = t13_aead_alg s
             \<and> (\<forall>m seq. yields (message_encrypt L e m seq) (\<lambda>om.
                   oo_payload om = secrets_wire (al_rustls L) gcm chacha (SuiteTls13 s) secrets m seq)))"
proof -
  note rl = aead_libs_okD(1) [OF assms(1)]
  have gcm: "yields (aes128_tls13_encrypt (al_rustls L) (al_gcm L) \<lparr>tc_key = key, tc_iv = iv\<rparr> m seq)
      (\<lambda>om. oo_payload om = tls13_wire (al_rustls L) gcm key iv m seq)"
    if "length iv = 12" "aes_key key" for m seq
    by (rule yields_weaken [OF aes128_tls13_encrypt_yields [OF rl assms(3)]]) (simp_all add: that)
  have chacha: "yields (chacha_tls13_encrypt (al_rustls L) (al_chacha L) \<lparr>c13_key = key, c13_iv = iv\<rparr> m seq)
      (\<lambda>om. oo_payload om = tls13_wire (al_rustls L) chacha key iv m seq)"
    if "length iv = 12" "length key = 32" for m seq
    by (rule yields_weaken [OF chacha_tls13_encrypt_yields [OF rl assms(4)]]) (simp_all add: that)
  have "chacha_key_len (al_chacha L) = 32" by (simp add: chacha_key_len_def aead_libs_okD(6) [OF assms(1)])
  then show ?thesis
    using assms(2)
    by (cases "t13_aead_alg s")
      (auto simp: aes128_key_len_def aes256_key_len_def NONCE_LEN_def aes128_tls13_extract_keys_def
        aes256_tls13_extract_keys_def chacha_tls13_extract_keys_def aes256_tls13_factories_eq
        aes256_tls13_encrypt_eq aes128_tls13_encrypter_def chacha_tls13_factories_eq aes_key_def
        intro!: yields_ok gcm chacha)
qed

text \<open>C14. Exported secrets describe the records.  For every suite, \<open>extract_keys\<close> returns, from the
  same key material as the encrypter is made from, secrets of the suite's own AEAD; and the record
  of any message under any sequence number is what an implementation of that AEAD makes from the
  exported key and IV alone.  ChaCha20-Poly1305 answers an IV that is no nonce with
  \<open>UnsupportedOperationError\<close>.\<close>

theorem exported_secrets_reproduce_records:
  assumes "aead_libs_ok L" and "key_material L suite key iv extra"
    and "gcm_live (al_gcm L) keyed gcm" and "chacha_live (al_chacha L) chacha"
  shows "yields (and_then (suite_secrets suite key iv extra) (\<lambda>secrets.
                 and_then (suite_writer L suite key iv extra) (\<lambda>e. ok (secrets, e))))
           (\<lambda>(secrets, e). secrets_algorithm secrets = suite_aead suite
             \<and> (\<forall>m seq. yields (message_encrypt L e m seq) (\<lambda>om.
                   oo_payload om = secrets_wire (al_rustls L) gcm chacha suite secrets m seq)))
       \<and> (length nonce \<noteq> 12 \<longrightarrow>
            tls12_extract_keys Chacha20Poly1305Alg key nonce extra = err UnsupportedOperationError)"
proof
  show "yields (and_then (suite_secrets suite key iv extra) (\<lambda>secrets.
                 and_then (suite_writer L suite key iv extra) (\<lambda>e. ok (secrets, e))))
           (\<lambda>(secrets, e). secrets_algorithm secrets = suite_aead suite
             \<and> (\<forall>m seq. yields (message_encrypt L e m seq) (\<lambda>om.
                   oo_payload om = secrets_wire (al_rustls L) gcm chacha suite secrets m seq)))"
  proof (cases suite)
    case (SuiteTls12 s)
    with tls12_secrets [OF assms(1) _ assms(3,4)] assms(2) show ?thesis by (simp only: suite_aead.simps)
  next
    case (SuiteTls13 s)
    with tls13_secrets [OF assms(1) _ assms(3,4)] assms(2) show ?thesis by (simp only: suite_aead.simps)
  qed
  show "length nonce \<noteq> 12 \<longrightarrow>
      tls12_extract_keys Chacha20Poly1305Alg key nonce extra = err UnsupportedOperationError"
    by (simp add: chacha_tls12_extract_keys_def try_into_array_def NONCE_LEN_def of_result_def map_err_def
        and_then_def err_def fun_eq_iff)
qed

theorem exported_secrets_reproduce_records_witness:
  "yields (and_then (suite_secrets TLS13_CHACHA20_POLY1305_SHA256 (zeros 32) (zeros 12) []) (\<lambda>secrets.
           and_then (suite_writer (demo_aead :: unit aead_libs) TLS13_CHACHA20_POLY1305_SHA256 (zeros 32) (zeros 12) []) (\<lambda>e.
           ok (secrets, e))))
     (\<lambda>(secrets, e). secrets_algorithm secrets = suite_aead TLS13_CHACHA20_POLY1305_SHA256
       \<and> (\<forall>m seq. yields (message_encrypt (demo_aead :: unit aead_libs) e m seq) (\<lambda>om.
             oo_payload om = secrets_wire (al_rustls (demo_aead :: unit aead_libs)) demo_seal demo_seal
               TLS13_CHACHA20_POLY1305_SHA256 secrets m seq)))"
  by (rule exported_secrets_reproduce_records [OF demo_aead_ok demo_chacha_material,
        where keyed = "\<lambda>g k. g = GCM_ctx k", THEN conjunct1])
     (simp_all add: demo_aead_def demo_gcm_laws demo_chacha_laws)

end
