(* ===== verification/WolfSig.thy ===== *)
theory WolfSig
  imports WolfKx Der
begin

text \<open>
  The signature parts of \<open>wolfssl-wolfcrypt\<close> (and the PKCS#8 parser) as parameter records, with
  their documented behaviour.  A foreign method on a mutable key returns the key afterwards;
  where the provider drops the key right after the call, that result is left out.
\<close>

section \<open>PKCS#8\<close>

text \<open>\<open>PrivateKeyInfo::try_from\<close>: the bytes of the algorithm's object identifier and the private
  key inside.\<close>

record PrivateKeyInfo =
  pki_oid :: bytes
  pki_private_key :: bytes

type_synonym pkcs8_parser = "bytes \<Rightarrow> unit + PrivateKeyInfo"

section \<open>ECDSA\<close>

datatype EcdsaSk = EcdsaSk_ctx bytes
datatype EcdsaVk = EcdsaVk_ctx bytes
datatype EcdsaSig = EcdsaSig_ctx bytes

text \<open>\<open>P256SigningKey\<close>, \<open>P256Signature\<close>, \<open>P256VerifyingKey\<close> and their P-384 and P-521
  counterparts: one record per curve.\<close>

record 's wolf_ecdsa =
  sk_import_x963 :: "bytes \<Rightarrow> bytes \<Rightarrow> RNG \<Rightarrow> ('s, i32, EcdsaSk) ffi"
  sk_try_sign :: "EcdsaSk \<Rightarrow> bytes \<Rightarrow> ('s, i32, EcdsaSig) ffi"
  sig_to_bytes :: "EcdsaSig \<Rightarrow> bytes"
  sig_try_from :: "bytes \<Rightarrow> unit + EcdsaSig"
  vk_from_bytes :: "bytes \<Rightarrow> EcdsaVk"
  vk_verify :: "EcdsaVk \<Rightarrow> bytes \<Rightarrow> EcdsaSig \<Rightarrow> ('s, i32, unit) ffi"

record 's wolf_ecdsas =
  wolf_p256 :: "'s wolf_ecdsa"
  wolf_p384 :: "'s wolf_ecdsa"
  wolf_p521 :: "'s wolf_ecdsa"

text \<open>
  The scheme of one curve: the size of a scalar, the X9.63 public key of a scalar, and which
  fixed-width signatures \<open>r || s\<close> are genuine.  \<open>sec1 der d\<close> says that \<open>der\<close> is a SEC1 private
  key with the scalar \<open>d\<close> on the curve.
\<close>

record ecdsa_scheme =
  es_field :: usize
  es_pub :: "bytes \<Rightarrow> bytes"
  es_genuine :: "bytes \<Rightarrow> bytes \<Rightarrow> bytes \<Rightarrow> bool"
  es_sec1 :: "bytes \<Rightarrow> bytes \<Rightarrow> bool"

text \<open>A genuine signature consists of two numbers in the range of the curve's order, so neither
  is zero.\<close>

definition ecdsa_scheme_ok :: "ecdsa_scheme \<Rightarrow> bool" where
  "ecdsa_scheme_ok E \<longleftrightarrow>
     (\<forall>d. length (es_pub E d) = 1 + 2 * es_field E)
   \<and> (\<forall>p m rs. es_genuine E p m rs \<longrightarrow> length rs = 2 * es_field E
        \<and> nonzero (take (es_field E) rs) \<and> nonzero (drop (es_field E) rs))"

text \<open>
  A key pair imports and signs with genuine signatures; a byte string of the right size, and no
  other, is a signature; the verifying key accepts the genuine signatures and no others.
\<close>

definition ecdsa_ok :: "'s wolf_ecdsa \<Rightarrow> ecdsa_scheme \<Rightarrow> (EcdsaSk \<Rightarrow> bytes \<Rightarrow> bool) \<Rightarrow> bool" where
  "ecdsa_ok w E skof \<longleftrightarrow>
     ecdsa_scheme_ok E
   \<and> (\<forall>d rng. length d = es_field E \<longrightarrow> ffi_yields (sk_import_x963 w (es_pub E d) d rng) (\<lambda>k. skof k d))
   \<and> (\<forall>k d m. skof k d \<longrightarrow> ffi_yields (sk_try_sign w k m) (\<lambda>sig. es_genuine E (es_pub E d) m (sig_to_bytes w sig)))
   \<and> (\<forall>b. length b = 2 * es_field E \<longrightarrow> (\<exists>sig. sig_try_from w b = Inr sig \<and> sig_to_bytes w sig = b))
   \<and> (\<forall>b. length b \<noteq> 2 * es_field E \<longrightarrow> sig_try_from w b = Inl ())
   \<and> (\<forall>p m sig. length p = 1 + 2 * es_field E \<longrightarrow> es_genuine E p m (sig_to_bytes w sig) \<longrightarrow>
        ffi_yields (vk_verify w (vk_from_bytes w p) m sig) (\<lambda>_. True))
   \<and> (\<forall>p m sig. length p = 1 + 2 * es_field E \<longrightarrow> \<not> es_genuine E p m (sig_to_bytes w sig) \<longrightarrow>
        ffi_fails (vk_verify w (vk_from_bytes w p) m sig))"

lemma ecdsa_schemeD:
  assumes "ecdsa_scheme_ok E"
  shows "length (es_pub E d) = 1 + 2 * es_field E"
    and "es_genuine E p m rs \<Longrightarrow> length rs = 2 * es_field E"
    and "es_genuine E p m rs \<Longrightarrow> nonzero (take (es_field E) rs)"
    and "es_genuine E p m rs \<Longrightarrow> nonzero (drop (es_field E) rs)"
  using assms unfolding ecdsa_scheme_ok_def by blast+

lemma ecdsa_okD:
  assumes "ecdsa_ok w E skof"
  shows "ecdsa_scheme_ok E"
    and "length d = es_field E \<Longrightarrow> ffi_yields (sk_import_x963 w (es_pub E d) d rng) (\<lambda>k. skof k d)"
    and "skof k d \<Longrightarrow> ffi_yields (sk_try_sign w k m) (\<lambda>sig. es_genuine E (es_pub E d) m (sig_to_bytes w sig))"
    and "length b = 2 * es_field E \<Longrightarrow> \<exists>sig. sig_try_from w b = Inr sig \<and> sig_to_bytes w sig = b"
    and "length b \<noteq> 2 * es_field E \<Longrightarrow> sig_try_from w b = Inl ()"
    and "length p = 1 + 2 * es_field E \<Longrightarrow> es_genuine E p m (sig_to_bytes w sig) \<Longrightarrow>
         ffi_yields (vk_verify w (vk_from_bytes w p) m sig) (\<lambda>_. True)"
    and "length p = 1 + 2 * es_field E \<Longrightarrow> \<not> es_genuine E p m (sig_to_bytes w sig) \<Longrightarrow>
         ffi_fails (vk_verify w (vk_from_bytes w p) m sig)"
  using assms unfolding ecdsa_ok_def by simp_all

text \<open>
  The conversions between the fixed-width and the DER form.  \<open>dec\<close> is the decoder's reading of a
  byte string; on the DER form of two numbers it gives them without leading zeros, and what
  it does on other encodings is left open.  \<open>rs_bin_to_sig\<close> writes the DER form of numbers of
  at most 66 bytes where it fits; \<open>sig_to_rs\<close> gives what \<open>dec\<close> reads, and fails where that is
  nothing or does not fit.
\<close>

type_synonym der_decoder = "bytes \<Rightarrow> (bytes \<times> bytes) option"

definition ecc_der_ok :: "'s wolf_ecc \<Rightarrow> der_decoder \<Rightarrow> bool" where
  "ecc_der_ok w dec \<longleftrightarrow>
     (\<forall>r s. length r \<le> 66 \<longrightarrow> length s \<le> 66 \<longrightarrow> nonzero r \<longrightarrow> nonzero s \<longrightarrow>
        dec (ecdsa_der r s) = Some (strip0 r, strip0 s))
   \<and> (\<forall>r s buf. length r \<le> 66 \<longrightarrow> length s \<le> 66 \<longrightarrow> nonzero r \<longrightarrow> nonzero s \<longrightarrow>
        length (ecdsa_der r s) \<le> length buf \<longrightarrow>
        ffi_yields (ecc_rs_bin_to_sig w r s buf) (\<lambda>(b, n). n = length (ecdsa_der r s)
          \<and> length b = length buf \<and> take n b = ecdsa_der r s))
   \<and> (\<forall>der rb sb rl sl. dec der = None \<longrightarrow> ffi_fails (ecc_sig_to_rs w der rb rl sb sl))
   \<and> (\<forall>der rb sb rl sl r s. dec der = Some (r, s) \<longrightarrow> length rb = unat rl \<longrightarrow> length sb = unat sl \<longrightarrow>
        \<not> (length r \<le> unat rl \<and> length s \<le> unat sl) \<longrightarrow> ffi_fails (ecc_sig_to_rs w der rb rl sb sl))
   \<and> (\<forall>der rb sb rl sl r s. dec der = Some (r, s) \<longrightarrow> length rb = unat rl \<longrightarrow> length sb = unat sl \<longrightarrow>
        length r \<le> unat rl \<longrightarrow> length s \<le> unat sl \<longrightarrow>
        ffi_yields (ecc_sig_to_rs w der rb rl sb sl)
          (\<lambda>(rb', rl', sb', sl'). unat rl' = length r \<and> take (length r) rb' = r
             \<and> length rb' = length rb \<and> unat sl' = length s \<and> take (length s) sb' = s
             \<and> length sb' = length sb))"

lemma ecc_der_okD:
  assumes "ecc_der_ok w dec"
  shows "length r \<le> 66 \<Longrightarrow> length t \<le> 66 \<Longrightarrow> nonzero r \<Longrightarrow> nonzero t \<Longrightarrow>
         dec (ecdsa_der r t) = Some (strip0 r, strip0 t)"
    and "length r \<le> 66 \<Longrightarrow> length t \<le> 66 \<Longrightarrow> nonzero r \<Longrightarrow> nonzero t \<Longrightarrow>
         length (ecdsa_der r t) \<le> length buf \<Longrightarrow>
         ffi_yields (ecc_rs_bin_to_sig w r t buf) (\<lambda>(b, n). n = length (ecdsa_der r t)
          \<and> length b = length buf \<and> take n b = ecdsa_der r t)"
    and "dec der = None \<Longrightarrow> ffi_fails (ecc_sig_to_rs w der rb rl sb sl)"
    and "dec der = Some (r, t) \<Longrightarrow> length rb = unat rl \<Longrightarrow> length sb = unat sl \<Longrightarrow>
         \<not> (length r \<le> unat rl \<and> length t \<le> unat sl) \<Longrightarrow> ffi_fails (ecc_sig_to_rs w der rb rl sb sl)"
    and "dec der = Some (r, t) \<Longrightarrow> length rb = unat rl \<Longrightarrow> length sb = unat sl \<Longrightarrow>
         length r \<le> unat rl \<Longrightarrow> length t \<le> unat sl \<Longrightarrow>
         ffi_yields (ecc_sig_to_rs w der rb rl sb sl)
          (\<lambda>(rb', rl', sb', sl'). unat rl' = length r \<and> take (length r) rb' = r
             \<and> length rb' = length rb \<and> unat sl' = length t \<and> take (length t) sb' = t
             \<and> length sb' = length sb)"
  using assms unfolding ecc_der_ok_def by simp_all

text \<open>
  Loading a private key of the curve from SEC1: the scalar imports, its public key can be made and
  exported into a buffer that is large enough, and the scalar is exported at its full width.
\<close>

definition ecc_load_ok :: "'s wolf_ecc \<Rightarrow> ecdsa_scheme \<Rightarrow> (ECC \<Rightarrow> bytes \<Rightarrow> bool) \<Rightarrow> bool" where
  "ecc_load_ok w E eccof \<longleftrightarrow>
     (\<forall>der d. es_sec1 E der d \<longrightarrow> length d = es_field E \<and> ffi_yields (ecc_import_der w der) (\<lambda>k. eccof k d))
   \<and> (\<forall>k d. eccof k d \<longrightarrow> ffi_yields (ecc_make_pub w k) (\<lambda>k'. eccof k' d))
   \<and> (\<forall>k d buf. eccof k d \<longrightarrow> 1 + 2 * es_field E \<le> length buf \<longrightarrow>
        ffi_yields (ecc_export_x963 w k buf) (\<lambda>(b, n). n = 1 + 2 * es_field E
          \<and> length b = length buf \<and> take n b = es_pub E d))
   \<and> (\<forall>k d buf. eccof k d \<longrightarrow> length buf = es_field E \<longrightarrow>
        ffi_yields (ecc_export_private w k buf) (\<lambda>r. r = (d, es_field E)))"

lemma ecc_load_okD:
  assumes "ecc_load_ok w E eccof"
  shows "es_sec1 E der d \<Longrightarrow> length d = es_field E"
    and "es_sec1 E der d \<Longrightarrow> ffi_yields (ecc_import_der w der) (\<lambda>k. eccof k d)"
    and "eccof k d \<Longrightarrow> ffi_yields (ecc_make_pub w k) (\<lambda>k'. eccof k' d)"
    and "eccof k d \<Longrightarrow> 1 + 2 * es_field E \<le> length buf \<Longrightarrow>
         ffi_yields (ecc_export_x963 w k buf) (\<lambda>(b, n). n = 1 + 2 * es_field E
           \<and> length b = length buf \<and> take n b = es_pub E d)"
    and "eccof k d \<Longrightarrow> length buf = es_field E \<Longrightarrow>
         ffi_yields (ecc_export_private w k buf) (\<lambda>r. r = (d, es_field E))"
  using assms unfolding ecc_load_ok_def by blast+

section \<open>Ed25519\<close>

datatype WcEd25519 = WcEd25519_ctx bytes

record 's wolf_ed25519 =
  ed_KEY_SIZE :: usize
  ed_PUB_KEY_SIZE :: usize
  ed_SIG_SIZE :: usize
  ed_new :: "('s, i32, WcEd25519) ffi"
  ed_import_private_only :: "WcEd25519 \<Rightarrow> bytes \<Rightarrow> ('s, i32, WcEd25519) ffi"
  ed_make_public :: "WcEd25519 \<Rightarrow> bytes \<Rightarrow> ('s, i32, bytes) ffi"
  ed_import_private_key_ex :: "WcEd25519 \<Rightarrow> bytes \<Rightarrow> bytes option \<Rightarrow> bool \<Rightarrow> ('s, i32, WcEd25519) ffi"
  ed_sign_msg :: "WcEd25519 \<Rightarrow> bytes \<Rightarrow> bytes \<Rightarrow> ('s, i32, bytes \<times> usize) ffi"
    \<comment> \<open>message, signature buffer: the buffer afterwards and the length written\<close>
  ed_import_public :: "WcEd25519 \<Rightarrow> bytes \<Rightarrow> ('s, i32, WcEd25519) ffi"
  ed_verify_msg :: "WcEd25519 \<Rightarrow> bytes \<Rightarrow> bytes \<Rightarrow> ('s, i32, bool) ffi"
    \<comment> \<open>signature, message\<close>

text \<open>RFC 8032: the public key of a seed and the genuine signatures.\<close>

record ed_scheme =
  eds_pub :: "bytes \<Rightarrow> bytes"
  eds_genuine :: "bytes \<Rightarrow> bytes \<Rightarrow> bytes \<Rightarrow> bool"

definition ed_scheme_ok :: "ed_scheme \<Rightarrow> bool" where
  "ed_scheme_ok E \<longleftrightarrow> (\<forall>a. length (eds_pub E a) = 32)
   \<and> (\<forall>p m sig. eds_genuine E p m sig \<longrightarrow> length p = 32)"

lemma ed_schemeD:
  assumes "ed_scheme_ok E"
  shows "length (eds_pub E a) = 32" and "eds_genuine E p m sig \<Longrightarrow> length p = 32"
  using assms unfolding ed_scheme_ok_def by blast+

definition ed25519_ok ::
    "'s wolf_ed25519 \<Rightarrow> ed_scheme \<Rightarrow> (WcEd25519 \<Rightarrow> bytes \<Rightarrow> bool) \<Rightarrow> (WcEd25519 \<Rightarrow> bytes \<Rightarrow> bool) \<Rightarrow>
     (WcEd25519 \<Rightarrow> bytes \<Rightarrow> bool) \<Rightarrow> bool" where
  "ed25519_ok w E seedof keyof pubof \<longleftrightarrow>
     ed_KEY_SIZE w = 32 \<and> ed_PUB_KEY_SIZE w = 32 \<and> ed_SIG_SIZE w = 64
   \<and> ed_scheme_ok E
   \<and> ffi_yields (ed_new w) (\<lambda>_. True)
   \<and> (\<forall>k a. length a = 32 \<longrightarrow> ffi_yields (ed_import_private_only w k a) (\<lambda>k'. seedof k' a))
   \<and> (\<forall>k a b. seedof k a \<longrightarrow> length b = 32 \<longrightarrow> ffi_yields (ed_make_public w k b) (\<lambda>p. p = eds_pub E a))
   \<and> (\<forall>k a. length a = 32 \<longrightarrow>
        ffi_yields (ed_import_private_key_ex w k a (Some (eds_pub E a)) True) (\<lambda>k'. keyof k' a))
   \<and> (\<forall>k a m b. keyof k a \<longrightarrow> length b = 64 \<longrightarrow>
        ffi_yields (ed_sign_msg w k m b) (\<lambda>(sig, n). n = 64 \<and> length sig = 64 \<and> eds_genuine E (eds_pub E a) m sig))
   \<and> (\<forall>k p. length p = 32 \<longrightarrow> ffi_yields (ed_import_public w k p) (\<lambda>k'. pubof k' p))
   \<and> (\<forall>k p. length p \<noteq> 32 \<longrightarrow> ffi_fails (ed_import_public w k p))
   \<and> (\<forall>k p m sig. pubof k p \<longrightarrow> eds_genuine E p m sig \<longrightarrow>
        ffi_yields (ed_verify_msg w k sig m) (\<lambda>r. r = True))
   \<and> (\<forall>k p m sig. pubof k p \<longrightarrow> \<not> eds_genuine E p m sig \<longrightarrow>
        ffi_ensures (ed_verify_msg w k sig m) (\<lambda>r. r = False))"

lemma ed25519_okD:
  assumes "ed25519_ok w E seedof keyof pubof"
  shows "ed_KEY_SIZE w = 32" and "ed_PUB_KEY_SIZE w = 32" and "ed_SIG_SIZE w = 64"
    and "ed_scheme_ok E"
    and "ffi_yields (ed_new w) (\<lambda>_. True)"
    and "length a = 32 \<Longrightarrow> ffi_yields (ed_import_private_only w k a) (\<lambda>k'. seedof k' a)"
    and "seedof k a \<Longrightarrow> length b = 32 \<Longrightarrow> ffi_yields (ed_make_public w k b) (\<lambda>p. p = eds_pub E a)"
    and "length a = 32 \<Longrightarrow>
         ffi_yields (ed_import_private_key_ex w k a (Some (eds_pub E a)) True) (\<lambda>k'. keyof k' a)"
    and "keyof k a \<Longrightarrow> length b = 64 \<Longrightarrow>
         ffi_yields (ed_sign_msg w k m b) (\<lambda>(sig, n). n = 64 \<and> length sig = 64 \<and> eds_genuine E (eds_pub E a) m sig)"
    and "length p = 32 \<Longrightarrow> ffi_yields (ed_import_public w k p) (\<lambda>k'. pubof k' p)"
    and "length p \<noteq> 32 \<Longrightarrow> ffi_fails (ed_import_public w k p)"
    and "pubof k p \<Longrightarrow> eds_genuine E p m sig \<Longrightarrow> ffi_yields (ed_verify_msg w k sig m) (\<lambda>r. r = True)"
    and "pubof k p \<Longrightarrow> \<not> eds_genuine E p m sig \<Longrightarrow> ffi_ensures (ed_verify_msg w k sig m) (\<lambda>r. r = False)"
  using assms unfolding ed25519_ok_def by simp_all

section \<open>RSA\<close>

datatype RSA = RSA_ctx bytes
datatype Pkcs1SigningKey = Pkcs1SigningKey_ctx bytes
datatype Pkcs1VerifyingKey = Pkcs1VerifyingKey_ctx bytes
datatype Pkcs1Signature = Pkcs1Signature_ctx bytes

text \<open>The hash types of \<open>rsa_pkcs1v15\<close>, by which \<open>SigningKey\<close> and \<open>VerifyingKey\<close> are indexed together
  with the size \<open>N\<close> of the modulus.\<close>

datatype RsaHash = RsaSha256 | RsaSha384 | RsaSha512

record 's wolf_rsa =
  rsa_HASH_TYPE_SHA256 :: u32
  rsa_HASH_TYPE_SHA384 :: u32
  rsa_HASH_TYPE_SHA512 :: u32
  rsa_MGF1SHA256 :: i32
  rsa_MGF1SHA384 :: i32
  rsa_MGF1SHA512 :: i32
  rsa_new_from_der :: "bytes \<Rightarrow> ('s, i32, RSA) ffi"
  rsa_new_public_from_der :: "bytes \<Rightarrow> ('s, i32, RSA) ffi"
  rsa_set_rng :: "RSA \<Rightarrow> RNG \<Rightarrow> ('s, i32, RSA) ffi"
  rsa_pss_sign :: "RSA \<Rightarrow> bytes \<Rightarrow> bytes \<Rightarrow> u32 \<Rightarrow> i32 \<Rightarrow> RNG \<Rightarrow> ('s, i32, bytes \<times> usize) ffi"
    \<comment> \<open>digest, signature buffer, hash, mask generation: the buffer afterwards and the length\<close>
  rsa_pss_verify_check :: "RSA \<Rightarrow> bytes \<Rightarrow> bytes \<Rightarrow> bytes \<Rightarrow> u32 \<Rightarrow> i32 \<Rightarrow> ('s, i32, bytes) ffi"
    \<comment> \<open>signature, output buffer, digest, hash, mask generation: the buffer afterwards\<close>
  pk1_sk_from_rsa :: "RsaHash \<Rightarrow> usize \<Rightarrow> RSA \<Rightarrow> RNG \<Rightarrow> ('s, i32, Pkcs1SigningKey) ffi"
  pk1_try_sign :: "RsaHash \<Rightarrow> usize \<Rightarrow> Pkcs1SigningKey \<Rightarrow> bytes \<Rightarrow> ('s, i32, Pkcs1Signature) ffi"
  pk1_sig_as_ref :: "Pkcs1Signature \<Rightarrow> bytes"
  pk1_vk_from_public_der :: "RsaHash \<Rightarrow> usize \<Rightarrow> bytes \<Rightarrow> ('s, i32, Pkcs1VerifyingKey) ffi"
  pk1_sig_try_from :: "usize \<Rightarrow> bytes \<Rightarrow> unit + Pkcs1Signature"
  pk1_verify :: "RsaHash \<Rightarrow> usize \<Rightarrow> Pkcs1VerifyingKey \<Rightarrow> bytes \<Rightarrow> Pkcs1Signature \<Rightarrow> ('s, i32, unit) ffi"

fun pss_hash :: "'s wolf_rsa \<Rightarrow> RsaHash \<Rightarrow> u32" where
  "pss_hash w RsaSha256 = rsa_HASH_TYPE_SHA256 w"
| "pss_hash w RsaSha384 = rsa_HASH_TYPE_SHA384 w"
| "pss_hash w RsaSha512 = rsa_HASH_TYPE_SHA512 w"

fun pss_mgf :: "'s wolf_rsa \<Rightarrow> RsaHash \<Rightarrow> i32" where
  "pss_mgf w RsaSha256 = rsa_MGF1SHA256 w"
| "pss_mgf w RsaSha384 = rsa_MGF1SHA384 w"
| "pss_mgf w RsaSha512 = rsa_MGF1SHA512 w"

text \<open>
  RSA signatures: the public key of a private key in DER form and the size of the modulus of a
  public key (\<open>None\<close> where the bytes are not such a key), and the genuine signatures of both paddings,
  PSS of a digest and PKCS#1 v1.5 of a message.
\<close>

record rsa_scheme =
  rs_pub :: "bytes \<Rightarrow> bytes option"
  rs_size :: "bytes \<Rightarrow> usize option"
  rs_pss :: "RsaHash \<Rightarrow> bytes \<Rightarrow> bytes \<Rightarrow> bytes \<Rightarrow> bool"
  rs_pkcs1 :: "RsaHash \<Rightarrow> bytes \<Rightarrow> bytes \<Rightarrow> bytes \<Rightarrow> bool"

definition rsa_scheme_ok :: "rsa_scheme \<Rightarrow> bool" where
  "rsa_scheme_ok R \<longleftrightarrow>
     (\<forall>der p. rs_pub R der = Some p \<longrightarrow> rs_size R p \<noteq> None)
   \<and> (\<forall>t p m sig. rs_pkcs1 R t p m sig \<longrightarrow> rs_size R p = Some (length sig))
   \<and> (\<forall>t p m sig. rs_pss R t p m sig \<longrightarrow> rs_size R p = Some (length sig))"

lemma rsa_schemeD:
  assumes "rsa_scheme_ok R"
  shows "rs_pub R der = Some p \<Longrightarrow> \<exists>n. rs_size R p = Some n"
    and "rs_pkcs1 R t p m sig \<Longrightarrow> rs_size R p = Some (length sig)"
    and "rs_pss R t p m sig \<Longrightarrow> rs_size R p = Some (length sig)"
  using assms unfolding rsa_scheme_ok_def by blast+

text \<open>
  Decoding accepts exactly the keys.  PSS signing writes a genuine signature of the size of the
  modulus where it fits into the buffer, and the check accepts exactly the genuine signatures where
  the modulus fits into the output buffer.
\<close>

definition rsa_pss_ok ::
    "'s wolf_rsa \<Rightarrow> rsa_scheme \<Rightarrow> (RSA \<Rightarrow> bytes \<Rightarrow> bool) \<Rightarrow> (RSA \<Rightarrow> bytes \<Rightarrow> bool) \<Rightarrow> bool" where
  "rsa_pss_ok w R privof pubof \<longleftrightarrow>
     rsa_scheme_ok R
   \<and> (\<forall>der. rs_pub R der = None \<longrightarrow> ffi_fails (rsa_new_from_der w der))
   \<and> (\<forall>der p. rs_pub R der = Some p \<longrightarrow> ffi_yields (rsa_new_from_der w der) (\<lambda>k. privof k der))
   \<and> (\<forall>p. rs_size R p = None \<longrightarrow> ffi_fails (rsa_new_public_from_der w p))
   \<and> (\<forall>p n. rs_size R p = Some n \<longrightarrow> ffi_yields (rsa_new_public_from_der w p) (\<lambda>k. pubof k p))
   \<and> (\<forall>k der rng. privof k der \<longrightarrow> ffi_yields (rsa_set_rng w k rng) (\<lambda>k'. privof k' der))
   \<and> (\<forall>k der p n t h buf rng. privof k der \<longrightarrow> rs_pub R der = Some p \<longrightarrow> rs_size R p = Some n \<longrightarrow>
        n \<le> length buf \<longrightarrow>
        ffi_yields (rsa_pss_sign w k h buf (pss_hash w t) (pss_mgf w t) rng)
          (\<lambda>(b, l). l = n \<and> length b = length buf \<and> rs_pss R t p h (take n b)))
   \<and> (\<forall>k p n t h sig out. pubof k p \<longrightarrow> rs_size R p = Some n \<longrightarrow> n \<le> length out \<longrightarrow> rs_pss R t p h sig \<longrightarrow>
        ffi_yields (rsa_pss_verify_check w k sig out h (pss_hash w t) (pss_mgf w t)) (\<lambda>_. True))
   \<and> (\<forall>k p n t h sig out. pubof k p \<longrightarrow> rs_size R p = Some n \<longrightarrow> \<not> (n \<le> length out \<and> rs_pss R t p h sig) \<longrightarrow>
        ffi_fails (rsa_pss_verify_check w k sig out h (pss_hash w t) (pss_mgf w t)))"

lemma rsa_pss_okD:
  assumes "rsa_pss_ok w R privof pubof"
  shows "rsa_scheme_ok R"
    and "rs_pub R der = None \<Longrightarrow> ffi_fails (rsa_new_from_der w der)"
    and "rs_pub R der = Some p \<Longrightarrow> ffi_yields (rsa_new_from_der w der) (\<lambda>k. privof k der)"
    and "rs_size R p = None \<Longrightarrow> ffi_fails (rsa_new_public_from_der w p)"
    and "rs_size R p = Some n \<Longrightarrow> ffi_yields (rsa_new_public_from_der w p) (\<lambda>k. pubof k p)"
    and "privof k der \<Longrightarrow> ffi_yields (rsa_set_rng w k rng) (\<lambda>k'. privof k' der)"
    and "privof k der \<Longrightarrow> rs_pub R der = Some p \<Longrightarrow> rs_size R p = Some n \<Longrightarrow> n \<le> length buf \<Longrightarrow>
         ffi_yields (rsa_pss_sign w k h buf (pss_hash w t) (pss_mgf w t) rng)
          (\<lambda>(b, l). l = n \<and> length b = length buf \<and> rs_pss R t p h (take n b))"
    and "pubof k p \<Longrightarrow> rs_size R p = Some n \<Longrightarrow> n \<le> length out \<Longrightarrow> rs_pss R t p h sig \<Longrightarrow>
         ffi_yields (rsa_pss_verify_check w k sig out h (pss_hash w t) (pss_mgf w t)) (\<lambda>_. True)"
    and "pubof k p \<Longrightarrow> rs_size R p = Some n \<Longrightarrow> \<not> (n \<le> length out \<and> rs_pss R t p h sig) \<Longrightarrow>
         ffi_fails (rsa_pss_verify_check w k sig out h (pss_hash w t) (pss_mgf w t))"
  using assms unfolding rsa_pss_ok_def by simp_all

text \<open>
  PKCS#1 v1.5: the typed keys exist for the size of the modulus only; a signature is a byte string
  of the size; signing and verifying hash the message.
\<close>

definition rsa_pkcs1_ok ::
    "'s wolf_rsa \<Rightarrow> rsa_scheme \<Rightarrow> (RSA \<Rightarrow> bytes \<Rightarrow> bool) \<Rightarrow> (Pkcs1SigningKey \<Rightarrow> bytes \<Rightarrow> bool) \<Rightarrow>
     (Pkcs1VerifyingKey \<Rightarrow> bytes \<Rightarrow> bool) \<Rightarrow> bool" where
  "rsa_pkcs1_ok w R privof skof vkof \<longleftrightarrow>
     (\<forall>k der p t N rng. privof k der \<longrightarrow> rs_pub R der = Some p \<longrightarrow> rs_size R p = Some N \<longrightarrow>
        ffi_yields (pk1_sk_from_rsa w t N k rng) (\<lambda>sk. skof sk der))
   \<and> (\<forall>k der p t N rng. privof k der \<longrightarrow> rs_pub R der = Some p \<longrightarrow> rs_size R p \<noteq> Some N \<longrightarrow>
        ffi_fails (pk1_sk_from_rsa w t N k rng))
   \<and> (\<forall>k der p t N m. skof k der \<longrightarrow> rs_pub R der = Some p \<longrightarrow> rs_size R p = Some N \<longrightarrow>
        ffi_yields (pk1_try_sign w t N k m) (\<lambda>sig. rs_pkcs1 R t p m (pk1_sig_as_ref w sig)))
   \<and> (\<forall>p t N. rs_size R p = Some N \<longrightarrow> ffi_yields (pk1_vk_from_public_der w t N p) (\<lambda>vk. vkof vk p))
   \<and> (\<forall>p t N. rs_size R p \<noteq> Some N \<longrightarrow> ffi_fails (pk1_vk_from_public_der w t N p))
   \<and> (\<forall>b. \<exists>sig. pk1_sig_try_from w (length b) b = Inr sig \<and> pk1_sig_as_ref w sig = b)
   \<and> (\<forall>N b. length b \<noteq> N \<longrightarrow> pk1_sig_try_from w N b = Inl ())
   \<and> (\<forall>vk p t N m sig. vkof vk p \<longrightarrow> rs_size R p = Some N \<longrightarrow> rs_pkcs1 R t p m (pk1_sig_as_ref w sig) \<longrightarrow>
        ffi_yields (pk1_verify w t N vk m sig) (\<lambda>_. True))
   \<and> (\<forall>vk p t N m sig. vkof vk p \<longrightarrow> rs_size R p = Some N \<longrightarrow> \<not> rs_pkcs1 R t p m (pk1_sig_as_ref w sig) \<longrightarrow>
        ffi_fails (pk1_verify w t N vk m sig))"

lemma rsa_pkcs1_okD:
  assumes "rsa_pkcs1_ok w R privof skof vkof"
  shows "privof k der \<Longrightarrow> rs_pub R der = Some p \<Longrightarrow> rs_size R p = Some N \<Longrightarrow>
         ffi_yields (pk1_sk_from_rsa w t N k rng) (\<lambda>sk. skof sk der)"
    and "privof k der \<Longrightarrow> rs_pub R der = Some p \<Longrightarrow> rs_size R p \<noteq> Some N \<Longrightarrow>
         ffi_fails (pk1_sk_from_rsa w t N k rng)"
    and "skof sk der \<Longrightarrow> rs_pub R der = Some p \<Longrightarrow> rs_size R p = Some N \<Longrightarrow>
         ffi_yields (pk1_try_sign w t N sk m) (\<lambda>sig. rs_pkcs1 R t p m (pk1_sig_as_ref w sig))"
    and "rs_size R p = Some N \<Longrightarrow> ffi_yields (pk1_vk_from_public_der w t N p) (\<lambda>vk. vkof vk p)"
    and "rs_size R p \<noteq> Some N \<Longrightarrow> ffi_fails (pk1_vk_from_public_der w t N p)"
    and "\<exists>sig. pk1_sig_try_from w (length b) b = Inr sig \<and> pk1_sig_as_ref w sig = b"
    and "length b \<noteq> N \<Longrightarrow> pk1_sig_try_from w N b = Inl ()"
    and "vkof vk p \<Longrightarrow> rs_size R p = Some N \<Longrightarrow> rs_pkcs1 R t p m (pk1_sig_as_ref w sig) \<Longrightarrow>
         ffi_yields (pk1_verify w t N vk m sig) (\<lambda>_. True)"
    and "vkof vk p \<Longrightarrow> rs_size R p = Some N \<Longrightarrow> \<not> rs_pkcs1 R t p m (pk1_sig_as_ref w sig) \<Longrightarrow>
         ffi_fails (pk1_verify w t N vk m sig)"
  using assms unfolding rsa_pkcs1_ok_def by simp_all

end
