(* ===== verification/SignatureFlow.thy ===== *)
theory SignatureFlow
  imports RustlsTypes
begin

text \<open>
  The interface between a signing key and a verification algorithm, \<open>Signer::sign\<close> and
  \<open>SignatureVerificationAlgorithm::verify_signature\<close>, as a locale.  What makes a signature
  genuine is the relation \<open>valid\<close> between public key, message and signature: a signer produces
  genuine signatures, a verifier accepts exactly those.
\<close>

text \<open>The constants of \<open>rustls_pki_types::alg_id\<close> that the provider refers to, by name.\<close>

datatype AlgorithmIdentifier =
    ALG_ECDSA_P256 | ALG_ECDSA_P384 | ALG_ECDSA_P521
  | ALG_ECDSA_SHA256 | ALG_ECDSA_SHA384 | ALG_ECDSA_SHA512
  | ALG_ED25519 | ALG_RSA_ENCRYPTION
  | ALG_RSA_PKCS1_SHA256 | ALG_RSA_PKCS1_SHA384 | ALG_RSA_PKCS1_SHA512
  | ALG_RSA_PSS_SHA256 | ALG_RSA_PSS_SHA384 | ALG_RSA_PSS_SHA512

text \<open>A computation that returns an error, from every state.\<close>

definition rejects :: "('s, 'e, 'a) rust \<Rightarrow> bool" where
  "rejects m \<longleftrightarrow> (\<forall>s. \<exists>e s'. m s = (Err e, s'))"

lemma rejects_err [simp]: "rejects (err e)"
  by (simp add: rejects_def err_def)

lemma rejects_map_err: "ffi_fails c \<Longrightarrow> rejects (map_err f c)"
  unfolding rejects_def ffi_fails_def map_err_def
  by (rule allI, drule_tac x = s in spec) auto

lemma rejects_map_err_result: "rejects m \<Longrightarrow> rejects (map_err_result f m)"
  unfolding rejects_def map_err_result_def
  by (rule allI, drule_tac x = s in spec) auto

lemma rejects_first: "rejects m \<Longrightarrow> rejects (and_then m f)"
  unfolding rejects_def and_then_def
  by (rule allI, drule_tac x = s in spec) auto

lemma rejectsI: "(\<And>s. \<exists>e s'. m s = (Err e, s')) \<Longrightarrow> rejects m"
  by (simp add: rejects_def)

lemma rejectsD: "rejects m \<Longrightarrow> \<exists>e s'. m s = (Err e, s')"
  by (simp add: rejects_def)

lemma rejects_later:
  assumes "yields m P" and "\<And>x. P x \<Longrightarrow> rejects (f x)"
  shows "rejects (and_then m f)"
proof (rule rejectsI)
  fix s
  obtain x s' where x: "m s = (Ok x, s')" "P x" using yieldsD [OF assms(1)] by blast
  then show "\<exists>e s''. and_then m f s = (Err e, s'')"
    using rejectsD [OF assms(2) [OF x(2)], of s'] by (simp add: and_then_def)
qed

lemma or_else_rejects:
  assumes "rejects m" and "\<And>e. yields (f e) P"
  shows "yields (or_else m f) P"
proof (rule yieldsI)
  fix s
  obtain e s' where "m s = (Err e, s')" using rejectsD [OF assms(1)] by blast
  then show "\<exists>x s''. or_else m f s = (Ok x, s'') \<and> P x"
    using yieldsD [OF assms(2) [of e], of s'] by (simp add: or_else_def)
qed

lemma or_else_rejects_both:
  assumes "rejects m" and "\<And>e. rejects (f e)"
  shows "rejects (or_else m f)"
proof (rule rejectsI)
  fix s
  obtain e s' where "m s = (Err e, s')" using rejectsD [OF assms(1)] by blast
  then show "\<exists>x s''. or_else m f s = (Err x, s'')"
    using rejectsD [OF assms(2) [of e], of s'] by (simp add: or_else_def)
qed

lemma or_else_yields: "yields m P \<Longrightarrow> yields (or_else m f) P"
  unfolding yields_def or_else_def by (rule allI, drule_tac x = s in spec) auto

lemma rejects_not_Ok: "rejects m \<Longrightarrow> m s \<noteq> (Ok x, s')"
  unfolding rejects_def by (metis Pair_inject outcome.distinct(1))

lemma rejects_no_panic: "rejects m \<Longrightarrow> no_panic m"
  unfolding rejects_def no_panic_def by (metis Pair_inject outcome.distinct(5))

locale signature_verifier =
  fixes lib_ok :: "'w \<Rightarrow> bool"
    and verify :: "'w \<Rightarrow> bytes \<Rightarrow> bytes \<Rightarrow> bytes \<Rightarrow> ('s, InvalidSignature, unit) rust"
    and valid :: "'w \<Rightarrow> bytes \<Rightarrow> bytes \<Rightarrow> bytes \<Rightarrow> bool"
  assumes verify_accepts: "lib_ok w \<Longrightarrow> valid w p m sig \<Longrightarrow> yields (verify w p m sig) (\<lambda>_. True)"
    and verify_rejects: "lib_ok w \<Longrightarrow> \<not> valid w p m sig \<Longrightarrow> rejects (verify w p m sig)"
begin

lemma verify_exact:
  assumes "lib_ok w"
  shows "((\<exists>s'. verify w p m sig s = (Ok (), s')) \<longleftrightarrow> valid w p m sig) \<and> no_panic (verify w p m sig)"
proof (cases "valid w p m sig")
  case True
  note y = verify_accepts [OF assms True]
  then show ?thesis using yieldsD [OF y, of s] yields_no_panic [OF y] True by simp
next
  case False
  note r = verify_rejects [OF assms False]
  then show ?thesis
    using rejects_not_Ok [OF r, of s] rejects_no_panic [OF r] False by simp
qed

end

locale signature_scheme = signature_verifier lib_ok verify valid
  for lib_ok :: "'w \<Rightarrow> bool"
    and verify :: "'w \<Rightarrow> bytes \<Rightarrow> bytes \<Rightarrow> bytes \<Rightarrow> ('s, InvalidSignature, unit) rust"
    and valid :: "'w \<Rightarrow> bytes \<Rightarrow> bytes \<Rightarrow> bytes \<Rightarrow> bool" +
  fixes sign :: "'w \<Rightarrow> 'k \<Rightarrow> bytes \<Rightarrow> ('s, rustls_error, bytes) rust"
    and pair :: "'w \<Rightarrow> 'k \<Rightarrow> bytes \<Rightarrow> bool"
  assumes sign_valid: "lib_ok w \<Longrightarrow> pair w k p \<Longrightarrow> yields (sign w k m) (valid w p m)"
begin

lemma signatures_verify:
  assumes "lib_ok w" "pair w k p"
  shows "yields (sign w k m) (\<lambda>sig. yields (verify w p m sig) (\<lambda>_. True))"
  by (rule yields_weaken [OF sign_valid [OF assms]]) (rule verify_accepts [OF assms(1)])

text \<open>A signature for one message is accepted for another only if it is genuine for that one too.\<close>

lemma signature_binds:
  assumes "lib_ok w" "pair w k p"
  shows "yields (sign w k m) (\<lambda>sig. \<forall>m' s s'. verify w p m' sig s = (Ok (), s') \<longrightarrow> valid w p m' sig)"
  using verify_exact [OF assms(1)]
  by (blast intro: yields_weaken [OF sign_valid [OF assms]])

end

end
