(* ===== verification/VerifyEcdsa.thy ===== *)
theory VerifyEcdsa
  imports WolfSig SignatureFlow
begin

text \<open>\<open>src/verify/ecdsa.rs\<close>: ECDSA verification on P-256, P-384 and P-521.\<close>

record EcdsaVerifier =
  ev_scheme :: SignatureScheme

definition P256_SHA256 :: EcdsaVerifier where
  "P256_SHA256 = \<lparr>ev_scheme = ECDSA_NISTP256_SHA256\<rparr>"

definition P384_SHA384 :: EcdsaVerifier where
  "P384_SHA384 = \<lparr>ev_scheme = ECDSA_NISTP384_SHA384\<rparr>"

definition P521_SHA512 :: EcdsaVerifier where
  "P521_SHA512 = \<lparr>ev_scheme = ECDSA_NISTP521_SHA512\<rparr>"

definition der_sig_to_fixed_rs ::
    "'s wolf_ecc \<Rightarrow> bytes \<Rightarrow> usize \<Rightarrow> ('s, InvalidSignature, bytes) rust" where
  "der_sig_to_fixed_rs w der field_size =
     (let r_buf = zeros field_size;
          r_len = of_nat field_size;
          s_buf = zeros field_size;
          s_len = of_nat field_size in
      and_then (map_err (\<lambda>_. InvalidSignature) (ecc_sig_to_rs w der r_buf r_len s_buf s_len))
        (\<lambda>(r_buf, r_len, s_buf, s_len).
      let r_len = unat r_len;
          s_len = unat s_len in
      if r_len > field_size \<or> s_len > field_size then err InvalidSignature
      else
      let out = zeros (2 * field_size) in
      and_then (usize_sub field_size r_len) (\<lambda>r_start.
      and_then (slice_to r_buf r_len) (\<lambda>r.
      and_then (copy_into_range out r_start field_size r) (\<lambda>out.
      and_then (usize_sub (2 * field_size) s_len) (\<lambda>s_start.
      and_then (slice_to s_buf s_len) (\<lambda>s.
      and_then (copy_into_range out s_start (length out) s) (\<lambda>out.
      ok out))))))))"

definition ecdsa_public_key_alg_id :: "EcdsaVerifier \<Rightarrow> ('s, 'e, AlgorithmIdentifier) rust" where
  "ecdsa_public_key_alg_id self = (case ev_scheme self of
       ECDSA_NISTP256_SHA256 \<Rightarrow> ok ALG_ECDSA_P256
     | ECDSA_NISTP384_SHA384 \<Rightarrow> ok ALG_ECDSA_P384
     | ECDSA_NISTP521_SHA512 \<Rightarrow> ok ALG_ECDSA_P521
     | _ \<Rightarrow> panic ''Unsupported scheme for ECDSA public_key_alg_id'')"

definition ecdsa_signature_alg_id :: "EcdsaVerifier \<Rightarrow> ('s, 'e, AlgorithmIdentifier) rust" where
  "ecdsa_signature_alg_id self = (case ev_scheme self of
       ECDSA_NISTP256_SHA256 \<Rightarrow> ok ALG_ECDSA_SHA256
     | ECDSA_NISTP384_SHA384 \<Rightarrow> ok ALG_ECDSA_SHA384
     | ECDSA_NISTP521_SHA512 \<Rightarrow> ok ALG_ECDSA_SHA512
     | _ \<Rightarrow> panic ''Unsupported scheme for ECDSA signature_alg_id'')"

definition ecdsa_verify_signature ::
    "'s wolf_ecc \<Rightarrow> 's wolf_ecdsas \<Rightarrow> EcdsaVerifier \<Rightarrow> bytes \<Rightarrow> bytes \<Rightarrow> bytes \<Rightarrow>
     ('s, InvalidSignature, unit) rust" where
  "ecdsa_verify_signature w v self public_key message signature = (case ev_scheme self of
       ECDSA_NISTP256_SHA256 \<Rightarrow>
         and_then (map_err (\<lambda>_. InvalidSignature) (of_result (try_into_array 65 public_key))) (\<lambda>pub_arr.
         let vk = vk_from_bytes (wolf_p256 v) pub_arr in
         and_then (der_sig_to_fixed_rs w signature 32) (\<lambda>rs.
         and_then (map_err (\<lambda>_. InvalidSignature) (of_result (sig_try_from (wolf_p256 v) rs))) (\<lambda>sig.
         map_err (\<lambda>_. InvalidSignature) (vk_verify (wolf_p256 v) vk message sig))))
     | ECDSA_NISTP384_SHA384 \<Rightarrow>
         and_then (map_err (\<lambda>_. InvalidSignature) (of_result (try_into_array 97 public_key))) (\<lambda>pub_arr.
         let vk = vk_from_bytes (wolf_p384 v) pub_arr in
         and_then (der_sig_to_fixed_rs w signature 48) (\<lambda>rs.
         and_then (map_err (\<lambda>_. InvalidSignature) (of_result (sig_try_from (wolf_p384 v) rs))) (\<lambda>sig.
         map_err (\<lambda>_. InvalidSignature) (vk_verify (wolf_p384 v) vk message sig))))
     | ECDSA_NISTP521_SHA512 \<Rightarrow>
         and_then (map_err (\<lambda>_. InvalidSignature) (of_result (try_into_array 133 public_key))) (\<lambda>pub_arr.
         let vk = vk_from_bytes (wolf_p521 v) pub_arr in
         and_then (der_sig_to_fixed_rs w signature 66) (\<lambda>rs.
         and_then (map_err (\<lambda>_. InvalidSignature) (of_result (sig_try_from (wolf_p521 v) rs))) (\<lambda>sig.
         map_err (\<lambda>_. InvalidSignature) (vk_verify (wolf_p521 v) vk message sig))))
     | _ \<Rightarrow> err InvalidSignature)"

section \<open>The fixed-width form\<close>

text \<open>Two numbers, each padded to \<open>n\<close> bytes.\<close>

definition fixed_rs :: "usize \<Rightarrow> bytes \<Rightarrow> bytes \<Rightarrow> bytes" where
  "fixed_rs n r t = zeros (n - length r) @ r @ zeros (n - length t) @ t"

lemma length_fixed_rs: "length r \<le> n \<Longrightarrow> length t \<le> n \<Longrightarrow> length (fixed_rs n r t) = 2 * n"
  by (simp add: fixed_rs_def)

lemma fixed_rs_strip0:
  assumes "length r = n" "length t = n"
  shows "fixed_rs n (strip0 r) (strip0 t) = r @ t"
  using pad_strip0 [of r] pad_strip0 [of t] assms by (simp add: fixed_rs_def)

lemma der_sig_to_fixed_rs_yields:
  assumes w: "ecc_der_ok w dec" and n: "n < 2 ^ 32" and d: "dec der = Some (r, t)"
    and r: "length r \<le> n" and t: "length t \<le> n"
  shows "yields (der_sig_to_fixed_rs w der n) (\<lambda>rs. rs = fixed_rs n r t)"
proof -
  have un: "unat (of_nat n :: u32) = n" using n by (simp add: unat_of_nat take_bit_eq_mod)
  have "ffi_yields (ecc_sig_to_rs w der (zeros n) (of_nat n) (zeros n) (of_nat n))
          (\<lambda>(rb', rl', sb', sl'). unat rl' = length r \<and> take (length r) rb' = r
             \<and> length rb' = length (zeros n) \<and> unat sl' = length t \<and> take (length t) sb' = t
             \<and> length sb' = length (zeros n))"
    by (rule ecc_der_okD(5) [OF w d]) (simp_all add: un r t)
  note y = yields_map_err [OF this, where f = "\<lambda>_. InvalidSignature"]
  show ?thesis
    unfolding der_sig_to_fixed_rs_def Let_def
    by (rule yields_and_then [OF y])
       (use r t in \<open>auto simp: fixed_rs_def intro!: yields_ok\<close>)
qed

lemma der_sig_to_fixed_rs_rejects:
  assumes w: "ecc_der_ok w dec" and n: "n < 2 ^ 32"
    and d: "\<And>r t. dec der = Some (r, t) \<Longrightarrow> \<not> (length r \<le> n \<and> length t \<le> n)"
  shows "rejects (der_sig_to_fixed_rs w der n)"
proof -
  have un: "unat (of_nat n :: u32) = n" using n by (simp add: unat_of_nat take_bit_eq_mod)
  have "ffi_fails (ecc_sig_to_rs w der (zeros n) (of_nat n) (zeros n) (of_nat n))"
  proof (cases "dec der")
    case None
    then show ?thesis by (rule ecc_der_okD(3) [OF w])
  next
    case (Some x)
    obtain r t where x: "x = (r, t)" by (cases x)
    show ?thesis
      by (rule ecc_der_okD(4) [OF w Some [unfolded x]]) (use d [OF Some [unfolded x]] in \<open>simp_all add: un\<close>)
  qed
  then show ?thesis
    unfolding der_sig_to_fixed_rs_def Let_def by (intro rejects_first rejects_map_err)
qed

section \<open>Verification\<close>

text \<open>The genuine DER signatures of a scheme, for public keys in uncompressed X9.63 form.\<close>

definition ecdsa_valid :: "der_decoder \<Rightarrow> ecdsa_scheme \<Rightarrow> bytes \<Rightarrow> bytes \<Rightarrow> bytes \<Rightarrow> bool" where
  "ecdsa_valid dec E p m sig \<longleftrightarrow> length p = 1 + 2 * es_field E \<and>
     (case dec sig of None \<Rightarrow> False
      | Some (r, t) \<Rightarrow> length r \<le> es_field E \<and> length t \<le> es_field E
          \<and> es_genuine E p m (fixed_rs (es_field E) r t))"

text \<open>One arm of the match, for a curve with \<open>n\<close> byte coordinates.\<close>

lemma ecdsa_parsed:
  assumes "ecdsa_ok v E skof" and "es_field E = n" and "length r \<le> n" and "length t \<le> n"
  obtains sig' where "sig_try_from v (fixed_rs n r t) = Inr sig'" and "sig_to_bytes v sig' = fixed_rs n r t"
  using ecdsa_okD(4) [OF assms(1), unfolded assms(2), of "fixed_rs n r t"] assms(3,4) that
  by (auto simp: length_fixed_rs)

lemma ecdsa_verify_arm:
  fixes v :: "'s wolf_ecdsa" and p m sig :: bytes
  assumes w: "ecc_der_ok w dec" and v: "ecdsa_ok v E skof" and n: "es_field E = n" "n < 2 ^ 32"
    and N: "N = 1 + 2 * n"
  defines "arm \<equiv> and_then (map_err (\<lambda>_. InvalidSignature) (of_result (try_into_array N p))) (\<lambda>pub_arr.
         and_then (der_sig_to_fixed_rs w sig n) (\<lambda>rs.
         and_then (map_err (\<lambda>_. InvalidSignature) (of_result (sig_try_from v rs))) (\<lambda>sig.
         map_err (\<lambda>_. InvalidSignature) (vk_verify v (vk_from_bytes v pub_arr) m sig))))"
  shows "ecdsa_valid dec E p m sig \<Longrightarrow> yields arm (\<lambda>_. True)"
    and "\<not> ecdsa_valid dec E p m sig \<Longrightarrow> rejects arm"
proof -
  note V = ecdsa_okD [OF v, unfolded n]
  have parts: "(es_genuine E p m (fixed_rs n r t) \<longrightarrow> yields arm (\<lambda>_. True))
      \<and> (\<not> es_genuine E p m (fixed_rs n r t) \<longrightarrow> rejects arm)"
    if p: "length p = 1 + 2 * n" and d: "dec sig = Some (r, t)" and rt: "length r \<le> n" "length t \<le> n" for r t
  proof -
    note split = der_sig_to_fixed_rs_yields [OF w n(2) d rt]
    obtain sig' where s: "sig_try_from v (fixed_rs n r t) = Inr sig'" "sig_to_bytes v sig' = fixed_rs n r t"
      by (rule ecdsa_parsed [OF v n(1) rt])
    note verify = yields_map_err [OF V(6) [OF p]] rejects_map_err [OF V(7) [OF p]]
    show ?thesis
      unfolding arm_def N
      by (auto simp: p s intro!: yields_and_then [OF split] rejects_later [OF split] verify)
  qed
  show "ecdsa_valid dec E p m sig \<Longrightarrow> yields arm (\<lambda>_. True)"
    using parts by (auto simp: ecdsa_valid_def n split: option.splits)
  assume bad: "\<not> ecdsa_valid dec E p m sig"
  show "rejects arm"
  proof (cases "length p = 1 + 2 * n \<and> (\<exists>r t. dec sig = Some (r, t) \<and> length r \<le> n \<and> length t \<le> n)")
    case True
    then show ?thesis using bad parts by (auto simp: ecdsa_valid_def n)
  next
    case False
    then show ?thesis
      unfolding arm_def N
      by (cases "length p = 1 + 2 * n")
         (auto simp: try_into_array_def intro!: rejects_first der_sig_to_fixed_rs_rejects [OF w n(2)])
  qed
qed

text \<open>The three schemes together.\<close>

record ecdsa_schemes =
  es_p256 :: ecdsa_scheme
  es_p384 :: ecdsa_scheme
  es_p521 :: ecdsa_scheme

fun ecdsa_scheme_for :: "ecdsa_schemes \<Rightarrow> SignatureScheme \<Rightarrow> ecdsa_scheme option" where
  "ecdsa_scheme_for S ECDSA_NISTP256_SHA256 = Some (es_p256 S)"
| "ecdsa_scheme_for S ECDSA_NISTP384_SHA384 = Some (es_p384 S)"
| "ecdsa_scheme_for S ECDSA_NISTP521_SHA512 = Some (es_p521 S)"
| "ecdsa_scheme_for S _ = None"

fun_cases ecdsa_scheme_for_Some: "ecdsa_scheme_for S sch = Some E"

definition ecdsas_ok :: "'s wolf_ecc \<Rightarrow> 's wolf_ecdsas \<Rightarrow> der_decoder \<Rightarrow> ecdsa_schemes \<Rightarrow> bool" where
  "ecdsas_ok w v dec S \<longleftrightarrow> ecc_der_ok w dec
     \<and> (\<exists>skof. ecdsa_ok (wolf_p256 v) (es_p256 S) skof) \<and> es_field (es_p256 S) = 32
     \<and> (\<exists>skof. ecdsa_ok (wolf_p384 v) (es_p384 S) skof) \<and> es_field (es_p384 S) = 48
     \<and> (\<exists>skof. ecdsa_ok (wolf_p521 v) (es_p521 S) skof) \<and> es_field (es_p521 S) = 66"

lemma ecdsas_okD:
  assumes "ecdsas_ok w v dec S"
  shows "ecc_der_ok w dec"
    and "\<exists>skof. ecdsa_ok (wolf_p256 v) (es_p256 S) skof" and "es_field (es_p256 S) = 32"
    and "\<exists>skof. ecdsa_ok (wolf_p384 v) (es_p384 S) skof" and "es_field (es_p384 S) = 48"
    and "\<exists>skof. ecdsa_ok (wolf_p521 v) (es_p521 S) skof" and "es_field (es_p521 S) = 66"
  using assms unfolding ecdsas_ok_def by blast+

lemma ecdsa_verify_accepts:
  assumes w: "ecdsas_ok w v dec S" and E: "ecdsa_scheme_for S (ev_scheme self) = Some E"
    and valid: "ecdsa_valid dec E p m sig"
  shows "yields (ecdsa_verify_signature w v self p m sig) (\<lambda>_. True)"
proof -
  note D = ecdsas_okD [OF w]
  from E show ?thesis
    using D(2,4,6) valid
      ecdsa_verify_arm(1) [OF D(1) _ D(3), of _ _ 65] ecdsa_verify_arm(1) [OF D(1) _ D(5), of _ _ 97]
      ecdsa_verify_arm(1) [OF D(1) _ D(7), of _ _ 133]
    by (elim ecdsa_scheme_for_Some exE)
       (simp_all add: ecdsa_verify_signature_def Let_def del: map_err_of_result)
qed

lemma ecdsa_verify_rejects:
  assumes w: "ecdsas_ok w v dec S" and E: "ecdsa_scheme_for S (ev_scheme self) = Some E"
    and bad: "\<not> ecdsa_valid dec E p m sig"
  shows "rejects (ecdsa_verify_signature w v self p m sig)"
proof -
  note D = ecdsas_okD [OF w]
  from E show ?thesis
    using D(2,4,6) bad
      ecdsa_verify_arm(2) [OF D(1) _ D(3), of _ _ 65] ecdsa_verify_arm(2) [OF D(1) _ D(5), of _ _ 97]
      ecdsa_verify_arm(2) [OF D(1) _ D(7), of _ _ 133]
    by (elim ecdsa_scheme_for_Some exE)
       (simp_all add: ecdsa_verify_signature_def Let_def del: map_err_of_result)
qed

text \<open>A verifier of any other scheme accepts nothing.\<close>

lemma ecdsa_verify_other:
  "ecdsa_scheme_for S (ev_scheme self) = None \<Longrightarrow>
   ecdsa_verify_signature w v self p m sig = err InvalidSignature"
  by (cases "ev_scheme self") (simp_all add: ecdsa_verify_signature_def)

lemma ecdsa_verifiers:
  "ev_scheme P256_SHA256 = ECDSA_NISTP256_SHA256" "ev_scheme P384_SHA384 = ECDSA_NISTP384_SHA384"
  "ev_scheme P521_SHA512 = ECDSA_NISTP521_SHA512"
  by (simp_all add: P256_SHA256_def P384_SHA384_def P521_SHA512_def)

end
