(* ===== verification/WolfSigDemo.thy ===== *)
theory WolfSigDemo
  imports WolfSig WolfKxDemo
begin

text \<open>A small library with the documented behaviour of the signature functions.\<close>

section \<open>PKCS#8\<close>

text \<open>The toy encoding: \<open>0x31\<close>, the length of the object identifier, the identifier, the key.  The 48
  bytes of an Ed25519 key in DER are read as well.\<close>

definition demo_pkcs8 :: pkcs8_parser where
  "demo_pkcs8 b = (case b of
       t # n # rest \<Rightarrow> if t = 0x31 then Inr \<lparr>pki_oid = take (unat n) rest, pki_private_key = drop (unat n) rest\<rparr>
                       else if t = 0x30 \<and> n = 0x2e \<and> length b = 48
                       then Inr \<lparr>pki_oid = take 3 (drop 9 b), pki_private_key = drop 14 b\<rparr>
                       else Inl ()
     | _ \<Rightarrow> Inl ())"

section \<open>ECDSA\<close>

text \<open>A private key is \<open>0x30\<close> and the scalar; on P-256 the 121 bytes of a SEC1 key in DER are read as
  well.  The genuine signature of a message: a 1 and the sums of the bytes of key and message.\<close>

definition demo_rs :: "usize \<Rightarrow> bytes \<Rightarrow> bytes \<Rightarrow> bytes" where
  "demo_rs n p m = norm n [1, sum_list p] @ norm n [1, sum_list m]"

definition demo_scheme :: "usize \<Rightarrow> ecdsa_scheme" where
  "demo_scheme n = \<lparr>es_field = n, es_pub = (\<lambda>d. 4 # norm n d @ norm n d),
     es_genuine = (\<lambda>p m rs. rs = demo_rs n p m),
     es_sec1 = (\<lambda>der d. length d = n \<and> (der = 0x30 # d
       \<or> n = 32 \<and> length der = 121 \<and> hd der = 0x30 \<and> d = take 32 (drop 7 der)))\<rparr>"

fun demo_sk_bytes :: "EcdsaSk \<Rightarrow> bytes" where "demo_sk_bytes (EcdsaSk_ctx b) = b"
fun demo_vk_bytes :: "EcdsaVk \<Rightarrow> bytes" where "demo_vk_bytes (EcdsaVk_ctx b) = b"
fun demo_sig_bytes :: "EcdsaSig \<Rightarrow> bytes" where "demo_sig_bytes (EcdsaSig_ctx b) = b"

definition demo_ecdsa :: "usize \<Rightarrow> 's wolf_ecdsa" where
  "demo_ecdsa n = \<lparr>
     sk_import_x963 = (\<lambda>p d r s. (Inr (EcdsaSk_ctx p), s)),
     sk_try_sign = (\<lambda>k m s. (Inr (EcdsaSig_ctx (demo_rs n (demo_sk_bytes k) m)), s)),
     sig_to_bytes = demo_sig_bytes,
     sig_try_from = (\<lambda>b. if length b = 2 * n then Inr (EcdsaSig_ctx b) else Inl ()),
     vk_from_bytes = EcdsaVk_ctx,
     vk_verify = (\<lambda>k m sig s. (if demo_sig_bytes sig = demo_rs n (demo_vk_bytes k) m then Inr () else Inl (-1), s))\<rparr>"

definition demo_ecdsas :: "'s wolf_ecdsas" where
  "demo_ecdsas = \<lparr>wolf_p256 = demo_ecdsa 32, wolf_p384 = demo_ecdsa 48, wolf_p521 = demo_ecdsa 66\<rparr>"

definition demo_skof :: "usize \<Rightarrow> EcdsaSk \<Rightarrow> bytes \<Rightarrow> bool" where
  "demo_skof n k d \<longleftrightarrow> k = EcdsaSk_ctx (4 # norm n d @ norm n d)"

lemma nonzero_norm: "0 < n \<Longrightarrow> nonzero (norm n (1 # b))"
  by (cases n) (simp_all add: nonzero_def norm_def)

lemma demo_ecdsa_ok: "0 < n \<Longrightarrow> ecdsa_ok (demo_ecdsa n) (demo_scheme n) (demo_skof n)"
  unfolding ecdsa_ok_def ecdsa_scheme_ok_def
  by (simp add: demo_ecdsa_def demo_scheme_def demo_skof_def demo_rs_def ffi_yields_def ffi_fails_def
      nonzero_norm)

lemma unat_of_nat_le:
  assumes "n \<le> unat (x :: u32)"
  shows "unat (of_nat n :: u32) = n"
proof -
  have "unat x < 2 ^ LENGTH(32)" by (rule unsigned_less)
  then show ?thesis using assms by (simp add: unat_of_nat take_bit_eq_mod)
qed

lemma demo_ecc_der_ok: "ecc_der_ok demo_ecc parse_ecdsa_der"
  unfolding ecc_der_ok_def
  by (auto simp: parse_ecdsa_der_encoded demo_ecc_def ffi_yields_def ffi_fails_def Let_def unat_of_nat_le)

definition demo_eccof :: "usize \<Rightarrow> ECC \<Rightarrow> bytes \<Rightarrow> bool" where
  "demo_eccof n k d \<longleftrightarrow> k = ECC_ctx (0 # d) \<and> length d = n"

lemma demo_ecc_load_ok: "n \<in> {32, 48, 66} \<Longrightarrow> ecc_load_ok demo_ecc (demo_scheme n) (demo_eccof n)"
  unfolding ecc_load_ok_def
  by (auto simp: demo_ecc_def demo_scheme_def demo_eccof_def ffi_yields_def Let_def split: list.split)

section \<open>Ed25519\<close>

definition demo_ed_sig :: "bytes \<Rightarrow> bytes \<Rightarrow> bytes" where
  "demo_ed_sig p m = norm 64 ([sum_list p, sum_list m] @ m)"

definition demo_ed :: ed_scheme where
  "demo_ed = \<lparr>eds_pub = norm 32, eds_genuine = (\<lambda>p m sig. length p = 32 \<and> sig = demo_ed_sig p m)\<rparr>"

fun demo_ed_bytes :: "WcEd25519 \<Rightarrow> bytes" where "demo_ed_bytes (WcEd25519_ctx b) = b"

definition demo_ed25519 :: "'s wolf_ed25519" where
  "demo_ed25519 = \<lparr>
     ed_KEY_SIZE = 32, ed_PUB_KEY_SIZE = 32, ed_SIG_SIZE = 64,
     ed_new = (\<lambda>s. (Inr (WcEd25519_ctx []), s)),
     ed_import_private_only = (\<lambda>k a s. (Inr (WcEd25519_ctx a), s)),
     ed_make_public = (\<lambda>k b s. (Inr (norm 32 (demo_ed_bytes k)), s)),
     ed_import_private_key_ex = (\<lambda>k a p t s. (Inr (WcEd25519_ctx a), s)),
     ed_sign_msg = (\<lambda>k m b s. (Inr (demo_ed_sig (norm 32 (demo_ed_bytes k)) m, 64), s)),
     ed_import_public = (\<lambda>k p s. (if length p = 32 then Inr (WcEd25519_ctx p) else Inl (-173), s)),
     ed_verify_msg = (\<lambda>k sig m s. (Inr (sig = demo_ed_sig (demo_ed_bytes k) m), s))\<rparr>"

definition demo_edof :: "WcEd25519 \<Rightarrow> bytes \<Rightarrow> bool" where
  "demo_edof k b \<longleftrightarrow> k = WcEd25519_ctx b \<and> length b = 32"

lemma demo_ed25519_ok: "ed25519_ok demo_ed25519 demo_ed demo_edof demo_edof demo_edof"
  unfolding ed25519_ok_def ed_scheme_ok_def
  by (auto simp: demo_ed25519_def demo_ed_def demo_edof_def demo_ed_sig_def ffi_yields_def
      ffi_ensures_def ffi_fails_def)

section \<open>RSA\<close>

text \<open>A private key is \<open>[9, k]\<close> and its public key \<open>[10, k]\<close>, with a modulus of \<open>128 * k\<close> bytes.\<close>

fun demo_rsa_pub :: "bytes \<Rightarrow> bytes option" where
  "demo_rsa_pub [t, k] = (if t = 9 then Some [10, k] else None)"
| "demo_rsa_pub _ = None"

fun demo_rsa_size :: "bytes \<Rightarrow> usize option" where
  "demo_rsa_size [t, k] = (if t = 10 then Some (128 * unat k) else None)"
| "demo_rsa_size _ = None"

fun demo_hash_no :: "RsaHash \<Rightarrow> u8" where
  "demo_hash_no RsaSha256 = 6" | "demo_hash_no RsaSha384 = 7" | "demo_hash_no RsaSha512 = 8"

definition demo_rsa_sig :: "u8 \<Rightarrow> bytes \<Rightarrow> bytes \<Rightarrow> bytes" where
  "demo_rsa_sig t p m = (case demo_rsa_size p of None \<Rightarrow> [] | Some n \<Rightarrow> norm n ([t, sum_list m] @ m))"

definition demo_rsa_scheme :: rsa_scheme where
  "demo_rsa_scheme = \<lparr>
     rs_pub = demo_rsa_pub, rs_size = demo_rsa_size,
     rs_pss = (\<lambda>t p h sig. demo_rsa_size p \<noteq> None \<and> sig = demo_rsa_sig (demo_hash_no t) p h),
     rs_pkcs1 = (\<lambda>t p m sig. demo_rsa_size p \<noteq> None \<and> sig = demo_rsa_sig (demo_hash_no t + 16) p m)\<rparr>"

fun demo_rsa_bytes :: "RSA \<Rightarrow> bytes" where "demo_rsa_bytes (RSA_ctx b) = b"
fun demo_pk1_sk :: "Pkcs1SigningKey \<Rightarrow> bytes" where "demo_pk1_sk (Pkcs1SigningKey_ctx b) = b"
fun demo_pk1_vk :: "Pkcs1VerifyingKey \<Rightarrow> bytes" where "demo_pk1_vk (Pkcs1VerifyingKey_ctx b) = b"
fun demo_pk1_sig :: "Pkcs1Signature \<Rightarrow> bytes" where "demo_pk1_sig (Pkcs1Signature_ctx b) = b"

text \<open>The public key that belongs to the private key bytes of a key object.\<close>

definition demo_pub_of :: "bytes \<Rightarrow> bytes" where
  "demo_pub_of b = 10 # tl b"

definition demo_rsa :: "'s wolf_rsa" where
  "demo_rsa = \<lparr>
     rsa_HASH_TYPE_SHA256 = 6, rsa_HASH_TYPE_SHA384 = 7, rsa_HASH_TYPE_SHA512 = 8,
     rsa_MGF1SHA256 = 1, rsa_MGF1SHA384 = 2, rsa_MGF1SHA512 = 3,
     rsa_new_from_der = (\<lambda>b s. (if demo_rsa_pub b = None then Inl (-140) else Inr (RSA_ctx b), s)),
     rsa_new_public_from_der = (\<lambda>p s. (if demo_rsa_size p = None then Inl (-140) else Inr (RSA_ctx p), s)),
     rsa_set_rng = (\<lambda>k r s. (Inr k, s)),
     rsa_pss_sign = (\<lambda>k h buf t g r s.
        (let sig = demo_rsa_sig (ucast t) (demo_pub_of (demo_rsa_bytes k)) h in
         (if length sig \<le> length buf then Inr (sig @ drop (length sig) buf, length sig) else Inl (-132), s))),
     rsa_pss_verify_check = (\<lambda>k sig out h t g s.
        (if length sig \<le> length out \<and> sig = demo_rsa_sig (ucast t) (demo_rsa_bytes k) h
         then Inr out else Inl (-132), s)),
     pk1_sk_from_rsa = (\<lambda>t n k r s.
        (if demo_rsa_size (demo_pub_of (demo_rsa_bytes k)) = Some n
         then Inr (Pkcs1SigningKey_ctx (demo_rsa_bytes k)) else Inl (-173), s)),
     pk1_try_sign = (\<lambda>t n k m s.
        (Inr (Pkcs1Signature_ctx (demo_rsa_sig (demo_hash_no t + 16) (demo_pub_of (demo_pk1_sk k)) m)), s)),
     pk1_sig_as_ref = demo_pk1_sig,
     pk1_vk_from_public_der = (\<lambda>t n p s.
        (if demo_rsa_size p = Some n then Inr (Pkcs1VerifyingKey_ctx p) else Inl (-173), s)),
     pk1_sig_try_from = (\<lambda>n b. if length b = n then Inr (Pkcs1Signature_ctx b) else Inl ()),
     pk1_verify = (\<lambda>t n k m sig s.
        (if demo_pk1_sig sig = demo_rsa_sig (demo_hash_no t + 16) (demo_pk1_vk k) m then Inr () else Inl (-1), s))\<rparr>"

definition demo_rsa_privof :: "RSA \<Rightarrow> bytes \<Rightarrow> bool" where
  "demo_rsa_privof k b \<longleftrightarrow> k = RSA_ctx b"

definition demo_pk1_skof :: "Pkcs1SigningKey \<Rightarrow> bytes \<Rightarrow> bool" where
  "demo_pk1_skof k b \<longleftrightarrow> k = Pkcs1SigningKey_ctx b"

definition demo_pk1_vkof :: "Pkcs1VerifyingKey \<Rightarrow> bytes \<Rightarrow> bool" where
  "demo_pk1_vkof k b \<longleftrightarrow> k = Pkcs1VerifyingKey_ctx b"

lemma demo_rsa_pub_Some: "demo_rsa_pub b = Some p \<Longrightarrow> p = demo_pub_of b \<and> demo_rsa_size p \<noteq> None"
  by (cases b rule: demo_rsa_pub.cases) (auto simp: demo_pub_of_def split: if_splits)

lemma length_demo_rsa_sig: "demo_rsa_size p = Some n \<Longrightarrow> length (demo_rsa_sig t p m) = n"
  by (simp add: demo_rsa_sig_def)

lemma demo_pss_hash: "ucast (pss_hash demo_rsa t) = demo_hash_no t"
  by (cases t) (simp_all add: demo_rsa_def)

lemma demo_rsa_scheme_ok: "rsa_scheme_ok demo_rsa_scheme"
  by (auto simp: rsa_scheme_ok_def demo_rsa_scheme_def length_demo_rsa_sig dest: demo_rsa_pub_Some)

lemma demo_rsa_simps:
  "rsa_new_from_der (demo_rsa :: 's wolf_rsa) = (\<lambda>b s. (if demo_rsa_pub b = None then Inl (-140) else Inr (RSA_ctx b), s))"
  "rsa_new_public_from_der (demo_rsa :: 's wolf_rsa) = (\<lambda>p s. (if demo_rsa_size p = None then Inl (-140) else Inr (RSA_ctx p), s))"
  "rsa_set_rng (demo_rsa :: 's wolf_rsa) = (\<lambda>k r s. (Inr k, s))"
  by (simp_all add: demo_rsa_def)

lemma demo_rsa_scheme_simps:
  "rs_pub demo_rsa_scheme = demo_rsa_pub" "rs_size demo_rsa_scheme = demo_rsa_size"
  "rs_pss demo_rsa_scheme t p h sig \<longleftrightarrow> demo_rsa_size p \<noteq> None \<and> sig = demo_rsa_sig (demo_hash_no t) p h"
  by (simp_all add: demo_rsa_scheme_def)

lemma demo_rsa_pss_check:
  assumes "demo_rsa_privof k p"
  shows "rsa_pss_verify_check (demo_rsa :: 's wolf_rsa) k sig out h (pss_hash (demo_rsa :: 's wolf_rsa) t) g s =
    (if length sig \<le> length out \<and> sig = demo_rsa_sig (demo_hash_no t) p h then Inr out else Inl (-132), s)"
  using assms by (simp add: demo_rsa_def demo_rsa_privof_def demo_pss_hash [unfolded demo_rsa_def])

lemma demo_rsa_pss_sign:
  assumes "demo_rsa_privof k der" "demo_rsa_pub der = Some p" "demo_rsa_size p = Some n" "n \<le> length buf"
  shows "ffi_yields (rsa_pss_sign (demo_rsa :: 's wolf_rsa) k h buf (pss_hash (demo_rsa :: 's wolf_rsa) t)
      (pss_mgf (demo_rsa :: 's wolf_rsa) t) rng)
      (\<lambda>(b, l). l = n \<and> length b = length buf \<and> rs_pss demo_rsa_scheme t p h (take n b))"
proof -
  have "rsa_pss_sign (demo_rsa :: 's wolf_rsa) k h buf (pss_hash (demo_rsa :: 's wolf_rsa) t) g rng s =
    (let sig = demo_rsa_sig (demo_hash_no t) p h in
       (if length sig \<le> length buf then Inr (sig @ drop (length sig) buf, length sig) else Inl (-132), s))" for g s
    using demo_rsa_pub_Some [OF assms(2)] assms(1)
    by (simp add: demo_rsa_def demo_rsa_privof_def demo_pss_hash [unfolded demo_rsa_def])
  then show ?thesis
    using assms(3,4) by (simp add: ffi_yields_def Let_def length_demo_rsa_sig demo_rsa_scheme_def)
qed

lemma demo_rsa_pss_ok: "rsa_pss_ok (demo_rsa :: 's wolf_rsa) demo_rsa_scheme demo_rsa_privof demo_rsa_privof"
  unfolding rsa_pss_ok_def demo_rsa_scheme_simps
proof (intro conjI allI impI)
  fix k p n t h sig out
  assume a: "demo_rsa_privof k p" "demo_rsa_size p = Some n"
  show "\<not> (n \<le> length out \<and> demo_rsa_size p \<noteq> None \<and> sig = demo_rsa_sig (demo_hash_no t) p h) \<Longrightarrow>
      ffi_fails (rsa_pss_verify_check (demo_rsa :: 's wolf_rsa) k sig out h (pss_hash (demo_rsa :: 's wolf_rsa) t) (pss_mgf (demo_rsa :: 's wolf_rsa) t))"
    using a by (auto simp: demo_rsa_pss_check [OF a(1)] ffi_fails_def length_demo_rsa_sig)
next
  fix k der p n t h rng and buf :: bytes
  assume "demo_rsa_privof k der" "demo_rsa_pub der = Some p" "demo_rsa_size p = Some n" "n \<le> length buf"
  then show "ffi_yields (rsa_pss_sign (demo_rsa :: 's wolf_rsa) k h buf (pss_hash (demo_rsa :: 's wolf_rsa) t)
        (pss_mgf (demo_rsa :: 's wolf_rsa) t) rng)
        (\<lambda>(b, l). l = n \<and> length b = length buf \<and> demo_rsa_size p \<noteq> None
           \<and> take n b = demo_rsa_sig (demo_hash_no t) p h)"
    by (rule demo_rsa_pss_sign [unfolded demo_rsa_scheme_simps])
qed (auto simp: demo_rsa_simps ffi_fails_def ffi_yields_def demo_rsa_privof_def demo_rsa_scheme_ok
       demo_rsa_pss_check length_demo_rsa_sig)

lemma demo_rsa_pkcs1_ok:
  "rsa_pkcs1_ok demo_rsa demo_rsa_scheme demo_rsa_privof demo_pk1_skof demo_pk1_vkof"
  unfolding rsa_pkcs1_ok_def
  by (auto simp: demo_rsa_def demo_rsa_scheme_def demo_rsa_privof_def demo_pk1_skof_def
      demo_pk1_vkof_def ffi_yields_def ffi_fails_def dest: demo_rsa_pub_Some)

end
