(* ===== verification/SignEcdsa.thy ===== *)
theory SignEcdsa
  imports VerifyEcdsa WolfSigDemo
begin

text \<open>\<open>src/sign/ecdsa.rs\<close>: loading ECDSA keys and signing.  \<open>Arc\<close> and \<open>Zeroizing\<close> are transparent.\<close>

record EcdsaSigningKey =
  esk_priv_key :: bytes
  esk_pub_x963 :: bytes
  esk_scheme :: SignatureScheme

definition OID_EC_PUBLIC_KEY :: bytes where
  "OID_EC_PUBLIC_KEY = [0x2a, 0x86, 0x48, 0xce, 0x3d, 0x02, 0x01]"

definition OID_ED25519 :: bytes where "OID_ED25519 = [0x2b, 0x65, 0x70]"

definition OID_ED448 :: bytes where "OID_ED448 = [0x2b, 0x65, 0x71]"

fun x963_len_to_scheme :: "usize \<Rightarrow> string + SignatureScheme" where
  "x963_len_to_scheme x963_len =
     (if x963_len = 65 then Inr ECDSA_NISTP256_SHA256
      else if x963_len = 97 then Inr ECDSA_NISTP384_SHA384
      else if x963_len = 133 then Inr ECDSA_NISTP521_SHA512
      else Inl ''Unsupported ECDSA curve (unrecognised x963 key length)'')"

definition ecdsa_try_from ::
    "pkcs8_parser \<Rightarrow> 's wolf_ecc \<Rightarrow> PrivateKeyDer \<Rightarrow> ('s, rustls_error, EcdsaSigningKey) rust" where
  "ecdsa_try_from pkcs8 w value =
     and_then (case value of
         Pkcs8 der \<Rightarrow>
           (let raw = der in
            case pkcs8 raw of
              Inr pki \<Rightarrow>
                (let oid_bytes = pki_oid pki in
                 if oid_bytes = OID_ED25519 \<or> oid_bytes = OID_ED448
                 then err (General ''Unsupported ECDSA key format (EdDSA key)'')
                 else if oid_bytes = OID_EC_PUBLIC_KEY then ok (pki_private_key pki)
                 else ok raw)
            | Inl _ \<Rightarrow> ok raw)
       | Sec1 der \<Rightarrow> ok der
       | Pkcs1 _ \<Rightarrow> err (General ''Unsupported ECDSA key format (PKCS#1)'')
       | _ \<Rightarrow> err (General ''Unsupported ECDSA key format'')) (\<lambda>sec1_bytes.
     and_then (map_err (\<lambda>e. General (''ECC::import_der failed: '' @ show_i32 e))
         (ecc_import_der w sec1_bytes)) (\<lambda>ecc.
     and_then (map_err (\<lambda>e. General (''ECC::make_pub failed: '' @ show_i32 e))
         (ecc_make_pub w ecc)) (\<lambda>ecc.
     let x963_buf = zeros 133 in
     and_then (map_err (\<lambda>_. General ''export_x963 failed'')
         (ecc_export_x963 w ecc x963_buf)) (\<lambda>(x963_buf, x963_len).
     and_then (slice_to x963_buf x963_len) (\<lambda>pub_x963.
     and_then (map_err (\<lambda>e. General e) (of_result (x963_len_to_scheme x963_len))) (\<lambda>scheme.
     and_then (usize_sub x963_len 1) (\<lambda>xy_len.
     let field_size = xy_len div 2;
         priv_buf = zeros field_size in
     and_then (map_err (\<lambda>_. General ''export_private failed'')
         (ecc_export_private w ecc priv_buf)) (\<lambda>(priv_buf, priv_len).
     let priv_buf = vec_truncate priv_len priv_buf in
     ok \<lparr>esk_priv_key = priv_buf, esk_pub_x963 = pub_x963, esk_scheme = scheme\<rparr>))))))))"

definition ecdsa_choose_scheme :: "EcdsaSigningKey \<Rightarrow> SignatureScheme list \<Rightarrow> EcdsaSigningKey option" where
  "ecdsa_choose_scheme self offered =
     (if esk_scheme self \<in> set offered then Some self else None)"

definition ecdsa_algorithm :: "EcdsaSigningKey \<Rightarrow> SignatureAlgorithm" where
  "ecdsa_algorithm self = AlgECDSA"

definition ecdsa_sign ::
    "'s wolf_rng \<Rightarrow> 's wolf_ecc \<Rightarrow> 's wolf_ecdsas \<Rightarrow> EcdsaSigningKey \<Rightarrow> bytes \<Rightarrow>
     ('s, rustls_error, bytes) rust" where
  "ecdsa_sign r w v self message =
     and_then (map_err (\<lambda>_. General ''RNG::new failed'') (rng_new r)) (\<lambda>rng.
     and_then (case esk_scheme self of
         ECDSA_NISTP256_SHA256 \<Rightarrow>
           and_then (map_err (\<lambda>_. General ''pub_x963 length mismatch'')
               (of_result (try_into_array 65 (esk_pub_x963 self)))) (\<lambda>pub_arr.
           and_then (map_err (\<lambda>_. General ''priv_key length mismatch'')
               (of_result (try_into_array 32 (esk_priv_key self)))) (\<lambda>d_arr.
           and_then (map_err (\<lambda>_. General ''P256SigningKey::import_x963 failed'')
               (sk_import_x963 (wolf_p256 v) pub_arr d_arr rng)) (\<lambda>sk.
           and_then (map_err (\<lambda>_. General ''P256 sign failed'')
               (sk_try_sign (wolf_p256 v) sk message)) (\<lambda>sig.
           ok (sig_to_bytes (wolf_p256 v) sig)))))
       | ECDSA_NISTP384_SHA384 \<Rightarrow>
           and_then (map_err (\<lambda>_. General ''pub_x963 length mismatch'')
               (of_result (try_into_array 97 (esk_pub_x963 self)))) (\<lambda>pub_arr.
           and_then (map_err (\<lambda>_. General ''priv_key length mismatch'')
               (of_result (try_into_array 48 (esk_priv_key self)))) (\<lambda>d_arr.
           and_then (map_err (\<lambda>_. General ''P384SigningKey::import_x963 failed'')
               (sk_import_x963 (wolf_p384 v) pub_arr d_arr rng)) (\<lambda>sk.
           and_then (map_err (\<lambda>_. General ''P384 sign failed'')
               (sk_try_sign (wolf_p384 v) sk message)) (\<lambda>sig.
           ok (sig_to_bytes (wolf_p384 v) sig)))))
       | ECDSA_NISTP521_SHA512 \<Rightarrow>
           and_then (map_err (\<lambda>_. General ''pub_x963 length mismatch'')
               (of_result (try_into_array 133 (esk_pub_x963 self)))) (\<lambda>pub_arr.
           and_then (map_err (\<lambda>_. General ''priv_key length mismatch'')
               (of_result (try_into_array 66 (esk_priv_key self)))) (\<lambda>d_arr.
           and_then (map_err (\<lambda>_. General ''P521SigningKey::import_x963 failed'')
               (sk_import_x963 (wolf_p521 v) pub_arr d_arr rng)) (\<lambda>sk.
           and_then (map_err (\<lambda>_. General ''P521 sign failed'')
               (sk_try_sign (wolf_p521 v) sk message)) (\<lambda>sig.
           ok (sig_to_bytes (wolf_p521 v) sig)))))
       | _ \<Rightarrow> err (General ''Unsupported ECDSA scheme'')) (\<lambda>rs_bytes.
     let field_size = length rs_bytes div 2 in
     and_then (slice_to rs_bytes field_size) (\<lambda>r.
     and_then (slice_from rs_bytes field_size) (\<lambda>s.
     let der_buf = zeros 141 in
     and_then (map_err (\<lambda>_. General ''rs_bin_to_sig failed'')
         (ecc_rs_bin_to_sig w r s der_buf)) (\<lambda>(der_buf, der_len).
     let der_buf = vec_truncate der_len der_buf in
     ok der_buf)))))"

definition ecdsa_signer_scheme :: "EcdsaSigningKey \<Rightarrow> SignatureScheme" where
  "ecdsa_signer_scheme self = esk_scheme self"

section \<open>Signing\<close>

text \<open>A signing key that holds the scalar of the public key \<open>p\<close>.\<close>

definition ecdsa_pair :: "ecdsa_schemes \<Rightarrow> EcdsaSigningKey \<Rightarrow> bytes \<Rightarrow> bool" where
  "ecdsa_pair S k p \<longleftrightarrow> (\<exists>E. ecdsa_scheme_for S (esk_scheme k) = Some E
     \<and> length (esk_priv_key k) = es_field E \<and> p = es_pub E (esk_priv_key k) \<and> esk_pub_x963 k = p)"

lemma ecdsa_sign_arm:
  fixes v :: "'s wolf_ecdsa" and pub d m :: bytes
  assumes v: "ecdsa_ok v E skof" and n: "es_field E = n" "N = 1 + 2 * n"
    and d: "length d = n" and pub: "pub = es_pub E d"
  shows "yields (and_then (map_err e1 (of_result (try_into_array N pub))) (\<lambda>pub_arr.
           and_then (map_err e2 (of_result (try_into_array n d))) (\<lambda>d_arr.
           and_then (map_err e3 (sk_import_x963 v pub_arr d_arr rng)) (\<lambda>sk.
           and_then (map_err e4 (sk_try_sign v sk m)) (\<lambda>sig. ok (sig_to_bytes v sig))))))
           (\<lambda>rs. es_genuine E (es_pub E d) m rs)"
proof -
  note V = ecdsa_okD [OF v, unfolded n(1)]
  have "yields (and_then (map_err e3 (sk_import_x963 v (es_pub E d) d rng)) (\<lambda>sk.
           and_then (map_err e4 (sk_try_sign v sk m)) (\<lambda>sig. ok (sig_to_bytes v sig))))
           (\<lambda>rs. es_genuine E (es_pub E d) m rs)"
    by (rule yields_and_then [OF yields_map_err [OF V(2) [OF d]]],
        rule yields_and_then [OF yields_map_err [OF V(3)]], assumption, rule yields_ok)
  moreover have "try_into_array N pub = Inr (es_pub E d)"
    using ecdsa_schemeD(1) [OF V(1), of d] by (simp add: pub n)
  ultimately show ?thesis by (simp add: d)
qed

text \<open>The conversion to DER: the numbers of a genuine signature fit, and decode to themselves.\<close>

lemma ecdsa_der_tail:
  assumes w: "ecc_der_ok w dec" and E: "ecdsa_scheme_ok E" "es_field E \<le> 66"
    and rs: "es_genuine E p m rs" and p: "length p = 1 + 2 * es_field E"
  shows "yields (let field_size = length rs div 2 in
           and_then (slice_to rs field_size) (\<lambda>r.
           and_then (slice_from rs field_size) (\<lambda>s.
           let der_buf = zeros 141 in
           and_then (map_err e (ecc_rs_bin_to_sig w r s der_buf)) (\<lambda>(der_buf, der_len).
           let der_buf = vec_truncate der_len der_buf in ok der_buf))))
         (\<lambda>sig. ecdsa_valid dec E p m sig \<and> length sig \<le> 141)"
proof -
  define n where "n = es_field E"
  define r where "r = take n rs"
  define t where "t = drop n rs"
  have len: "length rs = 2 * n" and nz: "nonzero r" "nonzero t"
    using ecdsa_schemeD [OF E(1)] rs by (auto simp: n_def r_def t_def)
  have l: "length r = n" "length t = n" "n \<le> 66" using len E(2) by (simp_all add: r_def t_def n_def)
  have fit: "length (ecdsa_der r t) \<le> length (zeros 141)"
    using length_ecdsa_der [of r t] l by simp
  have dec: "dec (ecdsa_der r t) = Some (strip0 r, strip0 t)"
    using ecc_der_okD(1) [OF w] l nz by simp
  have "r @ t = rs" by (simp add: r_def t_def)
  then have valid: "ecdsa_valid dec E p m (ecdsa_der r t)"
    using length_strip0 [of r] length_strip0 [of t] rs p l fixed_rs_strip0 [OF l(1,2)]
    by (simp add: ecdsa_valid_def dec flip: n_def)
  have "yields (and_then (map_err e (ecc_rs_bin_to_sig w r t (zeros 141)))
          (\<lambda>(der_buf, der_len). ok (vec_truncate der_len der_buf)))
          (\<lambda>sig. ecdsa_valid dec E p m sig \<and> length sig \<le> 141)"
    by (rule yields_and_then [OF yields_map_err [OF ecc_der_okD(2) [OF w _ _ nz fit]]])
       (use l valid fit in \<open>auto simp: vec_truncate_def intro!: yields_ok\<close>)
  then show ?thesis by (simp add: Let_def len r_def t_def)
qed

lemma ecdsa_sign_valid:
  assumes r: "rng_ok r" and w: "ecdsas_ok w v dec S" and k: "ecdsa_pair S k p"
    and E: "ecdsa_scheme_for S (esk_scheme k) = Some E"
  shows "yields (ecdsa_sign r w v k m) (\<lambda>sig. ecdsa_valid dec E p m sig \<and> length sig \<le> 141)"
proof -
  note D = ecdsas_okD [OF w]
  have k': "length (esk_priv_key k) = es_field E" "p = es_pub E (esk_priv_key k)" "esk_pub_x963 k = p"
    using k E by (auto simp: ecdsa_pair_def)
  have E': "ecdsa_scheme_ok E" "es_field E \<le> 66"
    using E D(2-7) ecdsa_okD(1) by (fastforce elim!: ecdsa_scheme_for_Some)+
  have p: "length p = 1 + 2 * es_field E" using ecdsa_schemeD(1) [OF E'(1)] k'(2) by simp
  note tail = ecdsa_der_tail [OF D(1) E' _ p]
  have pub: "esk_pub_x963 k = es_pub E (esk_priv_key k)" using k'(2,3) by simp
  note start = yields_and_then [OF yields_map_err [OF rng_okD(1) [OF r]]]
  note tail' = tail [unfolded k'(2)]
  obtain k256 k384 k521 where V: "ecdsa_ok (wolf_p256 v) (es_p256 S) k256"
      "ecdsa_ok (wolf_p384 v) (es_p384 S) k384" "ecdsa_ok (wolf_p521 v) (es_p521 S) k521"
    using D(2,4,6) by blast
  from E show ?thesis
  proof (rule ecdsa_scheme_for_Some)
    assume c: "esk_scheme k = ECDSA_NISTP256_SHA256" "E = es_p256 S"
    show ?thesis
      unfolding ecdsa_sign_def c(1) SignatureScheme.case k'(2)
      by (rule start, rule yields_and_then, rule ecdsa_sign_arm [OF V(1) D(3)], simp)
         (use k'(1) pub D(3) c(2) in \<open>simp_all only:\<close>, rule tail' [unfolded c(2)])
  next
    assume c: "esk_scheme k = ECDSA_NISTP384_SHA384" "E = es_p384 S"
    show ?thesis
      unfolding ecdsa_sign_def c(1) SignatureScheme.case k'(2)
      by (rule start, rule yields_and_then, rule ecdsa_sign_arm [OF V(2) D(5)], simp)
         (use k'(1) pub D(5) c(2) in \<open>simp_all only:\<close>, rule tail' [unfolded c(2)])
  next
    assume c: "esk_scheme k = ECDSA_NISTP521_SHA512" "E = es_p521 S"
    show ?thesis
      unfolding ecdsa_sign_def c(1) SignatureScheme.case k'(2)
      by (rule start, rule yields_and_then, rule ecdsa_sign_arm [OF V(3) D(7)], simp)
         (use k'(1) pub D(7) c(2) in \<open>simp_all only:\<close>, rule tail' [unfolded c(2)])
  qed
qed

section \<open>Loading\<close>

text \<open>The bytes that are imported as a SEC1 key, where the format allows one.\<close>

fun ec_key_bytes :: "pkcs8_parser \<Rightarrow> PrivateKeyDer \<Rightarrow> bytes option" where
  "ec_key_bytes pkcs8 (Pkcs8 der) = (case pkcs8 der of
       Inl _ \<Rightarrow> Some der
     | Inr pki \<Rightarrow> if pki_oid pki \<in> {OID_ED25519, OID_ED448} then None
                  else if pki_oid pki = OID_EC_PUBLIC_KEY then Some (pki_private_key pki) else Some der)"
| "ec_key_bytes pkcs8 (Sec1 der) = Some der"
| "ec_key_bytes pkcs8 (Pkcs1 der) = None"
| "ec_key_bytes pkcs8 (OtherKeyDer der) = None"

lemma ecdsa_try_from_yields:
  assumes w: "ecc_load_ok w E eccof" and E: "ecdsa_scheme_for S sch = Some E"
    and n: "es_field (es_p256 S) = 32" "es_field (es_p384 S) = 48" "es_field (es_p521 S) = 66"
    and b: "ec_key_bytes pkcs8 value = Some b" and d: "es_sec1 E b d"
  shows "yields (ecdsa_try_from pkcs8 w value)
           (\<lambda>k. k = \<lparr>esk_priv_key = d, esk_pub_x963 = es_pub E d, esk_scheme = sch\<rparr>)"
proof -
  note L = ecc_load_okD [OF w]
  have sch: "x963_len_to_scheme (1 + 2 * es_field E) = Inr sch" and small: "es_field E \<le> 66"
    using E n by (auto elim!: ecdsa_scheme_for_Some)
  have scalar: "yields (and_then (map_err e (ecc_export_private w k (zeros (es_field E))))
        (\<lambda>(priv_buf, priv_len). ok \<lparr>esk_priv_key = vec_truncate priv_len priv_buf,
           esk_pub_x963 = q, esk_scheme = sch\<rparr>))
        (\<lambda>k. k = \<lparr>esk_priv_key = d, esk_pub_x963 = q, esk_scheme = sch\<rparr>)" if "eccof k d" for e k q
    by (rule yields_and_then [OF yields_map_err [OF L(5) [OF that]]])
       (auto simp: vec_truncate_def L(1) [OF d] intro!: yields_ok)
  have key: "(case value of
         Pkcs8 der \<Rightarrow>
           (let raw = der in
            case pkcs8 raw of
              Inr pki \<Rightarrow>
                (let oid_bytes = pki_oid pki in
                 if oid_bytes = OID_ED25519 \<or> oid_bytes = OID_ED448
                 then err (General ''Unsupported ECDSA key format (EdDSA key)'')
                 else if oid_bytes = OID_EC_PUBLIC_KEY then ok (pki_private_key pki)
                 else ok raw)
            | Inl _ \<Rightarrow> ok raw)
       | Sec1 der \<Rightarrow> ok der
       | Pkcs1 _ \<Rightarrow> err (General ''Unsupported ECDSA key format (PKCS#1)'')
       | _ \<Rightarrow> err (General ''Unsupported ECDSA key format'')) = ok b"
    using b by (cases "value") (auto split: sum.splits if_splits)
  show ?thesis
    unfolding ecdsa_try_from_def key and_then_ok
    by (rule yields_and_then [OF yields_map_err [OF L(2) [OF d]]],
        rule yields_and_then [OF yields_map_err [OF L(3)]], assumption, simp only: Let_def,
        rule yields_and_then [OF yields_map_err [OF L(4)]], assumption)
       (use sch small in \<open>auto simp: scalar simp del: x963_len_to_scheme.simps\<close>)
qed

text \<open>Formats that cannot hold an ECDSA key are refused without a call into the library.\<close>

lemma ecdsa_try_from_refuses:
  assumes "ec_key_bytes pkcs8 value = None"
  shows "\<exists>msg. ecdsa_try_from pkcs8 w value = err (General msg)"
  using assms by (cases "value") (auto simp: ecdsa_try_from_def split: sum.splits if_splits)

text \<open>Loading does not panic on any input, provided the library does not claim to have exported more
  bytes than the buffer holds.\<close>

definition ecc_export_sound :: "'s wolf_ecc \<Rightarrow> bool" where
  "ecc_export_sound w \<longleftrightarrow>
     (\<forall>k buf. ffi_ensures (ecc_export_x963 w k buf) (\<lambda>(b, n). length b = length buf \<and> n \<le> length b))"

lemma ecdsa_try_from_no_panic:
  assumes "ecc_export_sound w"
  shows "no_panic (ecdsa_try_from pkcs8 w key)"
proof -
  have start: "no_panic (case key of
         Pkcs8 der \<Rightarrow>
           (let raw = der in
            case pkcs8 raw of
              Inr pki \<Rightarrow>
                (let oid_bytes = pki_oid pki in
                 if oid_bytes = OID_ED25519 \<or> oid_bytes = OID_ED448
                 then err (General ''Unsupported ECDSA key format (EdDSA key)'')
                 else if oid_bytes = OID_EC_PUBLIC_KEY then ok (pki_private_key pki)
                 else ok raw)
            | Inl _ \<Rightarrow> ok raw)
       | Sec1 der \<Rightarrow> ok der
       | Pkcs1 _ \<Rightarrow> err (General ''Unsupported ECDSA key format (PKCS#1)'')
       | _ \<Rightarrow> err (General ''Unsupported ECDSA key format''))"
    by (auto simp: Let_def intro: no_panic_ok no_panic_err split: PrivateKeyDer.split sum.split)
  note sound = assms [unfolded ecc_export_sound_def, rule_format]
  show ?thesis
    unfolding ecdsa_try_from_def Let_def
    by (rule no_panic_and_then_any [OF start [unfolded Let_def]],
        rule no_panic_and_then_any [OF no_panic_map_err], rule no_panic_and_then_any [OF no_panic_map_err],
        rule no_panic_and_then [OF no_panic_map_err ensures_map_err [OF sound]])
       (auto intro!: no_panic_intro split: prod.split)
qed

section \<open>The scheme as an implementation of the interface\<close>

interpretation ecdsa_ver: signature_verifier
  "\<lambda>(E, sch, w, v, dec, S). ecdsas_ok w v dec S \<and> ecdsa_scheme_for S sch = Some E"
  "\<lambda>(E, sch, w, v, dec, S). ecdsa_verify_signature w v \<lparr>ev_scheme = sch\<rparr>"
  "\<lambda>(E, sch, w, v, dec, S). ecdsa_valid dec E"
  by unfold_locales (auto intro: ecdsa_verify_accepts ecdsa_verify_rejects)

interpretation ecdsa_sig: signature_scheme
  "\<lambda>(E, sch, r, w, v, dec, S). rng_ok r \<and> ecdsas_ok w v dec S \<and> ecdsa_scheme_for S sch = Some E"
  "\<lambda>(E, sch, r, w, v, dec, S). ecdsa_verify_signature w v \<lparr>ev_scheme = sch\<rparr>"
  "\<lambda>(E, sch, r, w, v, dec, S). ecdsa_valid dec E"
  "\<lambda>(E, sch, r, w, v, dec, S). ecdsa_sign r w v"
  "\<lambda>(E, sch, r, w, v, dec, S) k p. ecdsa_pair S k p \<and> esk_scheme k = sch"
  by unfold_locales
     (auto intro: yields_weaken [OF ecdsa_sign_valid] ecdsa_verify_accepts ecdsa_verify_rejects)

section \<open>A concrete instance\<close>

definition demo_ecdsa_schemes :: ecdsa_schemes where
  "demo_ecdsa_schemes = \<lparr>es_p256 = demo_scheme 32, es_p384 = demo_scheme 48, es_p521 = demo_scheme 66\<rparr>"

lemma demo_ecdsas_ok: "ecdsas_ok demo_ecc demo_ecdsas parse_ecdsa_der demo_ecdsa_schemes"
proof -
  have "es_field (demo_scheme n) = n" for n by (simp add: demo_scheme_def)
  moreover note demo_ecdsa_ok [of 32, simplified] demo_ecdsa_ok [of 48, simplified]
    demo_ecdsa_ok [of 66, simplified]
  ultimately show ?thesis
    by (auto simp: ecdsas_ok_def demo_ecdsas_def demo_ecdsa_schemes_def demo_ecc_der_ok)
qed

lemma demo_ecc_export: "ecc_export_sound demo_ecc"
  by (auto simp: ecc_export_sound_def demo_ecc_def ffi_ensures_def Let_def split: if_splits)

lemma demo_ecdsa_scheme_for [simp]:
  "ecdsa_scheme_for demo_ecdsa_schemes ECDSA_NISTP256_SHA256 = Some (demo_scheme 32)"
  "ecdsa_scheme_for demo_ecdsa_schemes ECDSA_NISTP384_SHA384 = Some (demo_scheme 48)"
  "ecdsa_scheme_for demo_ecdsa_schemes ECDSA_NISTP521_SHA512 = Some (demo_scheme 66)"
  by (simp_all add: demo_ecdsa_schemes_def)

definition demo_ec_public :: bytes where
  "demo_ec_public = 4 # norm 32 [5] @ norm 32 [5]"

definition demo_ec_key :: EcdsaSigningKey where
  "demo_ec_key = \<lparr>esk_priv_key = norm 32 [5], esk_pub_x963 = demo_ec_public, esk_scheme = ECDSA_NISTP256_SHA256\<rparr>"

definition demo_ec_signature :: "bytes \<Rightarrow> bytes" where
  "demo_ec_signature m = ecdsa_der (norm 32 [1, sum_list demo_ec_public]) (norm 32 [1, sum_list m])"

lemma demo_ecdsa_pair: "ecdsa_pair demo_ecdsa_schemes demo_ec_key demo_ec_public"
  by (simp add: ecdsa_pair_def demo_ec_key_def demo_ecdsa_schemes_def demo_scheme_def demo_ec_public_def)

lemma demo_ec_valid: "ecdsa_valid parse_ecdsa_der (demo_scheme 32) demo_ec_public m (demo_ec_signature m)"
proof -
  have "fixed_rs 32 (strip0 (norm 32 [1, sum_list demo_ec_public])) (strip0 (norm 32 [1, sum_list m]))
      = demo_rs 32 demo_ec_public m"
    by (simp add: fixed_rs_strip0 demo_rs_def)
  then show ?thesis
    using length_strip0 [of "norm 32 [1, sum_list demo_ec_public]"] length_strip0 [of "norm 32 [1, sum_list m]"]
    by (simp add: ecdsa_valid_def demo_ec_signature_def parse_ecdsa_der_encoded demo_scheme_def)
       (simp add: demo_ec_public_def)
qed

section \<open>Properties\<close>

text \<open>The fixed-width form of a signature is exact.  For every field size, whatever the decoder
  reads from a signature as two numbers that fit is written right-aligned into two halves of the
  field size; everything else is refused; and for two full-size numbers the conversion undoes the
  DER encoding that signing produces, leading zero bytes included.\<close>

theorem fixed_width_conversion_exact:
  assumes "ecc_der_ok w dec" and "n < 2 ^ 32"
  shows "(case dec der of
            Some (r, t) \<Rightarrow> if length r \<le> n \<and> length t \<le> n
              then yields (der_sig_to_fixed_rs w der n)
                (\<lambda>rs. rs = zeros (n - length r) @ r @ zeros (n - length t) @ t \<and> length rs = 2 * n)
              else rejects (der_sig_to_fixed_rs w der n)
          | None \<Rightarrow> rejects (der_sig_to_fixed_rs w der n))
       \<and> (length x = n \<and> length y = n \<and> n \<le> 66 \<and> nonzero x \<and> nonzero y \<longrightarrow>
            yields (der_sig_to_fixed_rs w (ecdsa_der x y) n) (\<lambda>rs. rs = x @ y))"
proof
  have "yields (der_sig_to_fixed_rs w der n)
      (\<lambda>rs. rs = zeros (n - length r) @ r @ zeros (n - length t) @ t \<and> length rs = 2 * n)"
    if "dec der = Some (r, t)" "length r \<le> n" "length t \<le> n" for r t
    by (rule yields_weaken [OF der_sig_to_fixed_rs_yields [OF assms that]])
      (simp add: that length_fixed_rs, simp add: fixed_rs_def)
  moreover have "rejects (der_sig_to_fixed_rs w der n)"
    if "\<And>r t. dec der = Some (r, t) \<Longrightarrow> \<not> (length r \<le> n \<and> length t \<le> n)"
    using that by (rule der_sig_to_fixed_rs_rejects [OF assms])
  ultimately show "case dec der of
      Some (r, t) \<Rightarrow> if length r \<le> n \<and> length t \<le> n
        then yields (der_sig_to_fixed_rs w der n)
          (\<lambda>rs. rs = zeros (n - length r) @ r @ zeros (n - length t) @ t \<and> length rs = 2 * n)
        else rejects (der_sig_to_fixed_rs w der n)
    | None \<Rightarrow> rejects (der_sig_to_fixed_rs w der n)"
    by (cases "dec der") auto
  show "length x = n \<and> length y = n \<and> n \<le> 66 \<and> nonzero x \<and> nonzero y \<longrightarrow>
      yields (der_sig_to_fixed_rs w (ecdsa_der x y) n) (\<lambda>rs. rs = x @ y)"
  proof
    assume xy: "length x = n \<and> length y = n \<and> n \<le> 66 \<and> nonzero x \<and> nonzero y"
    then have "dec (ecdsa_der x y) = Some (strip0 x, strip0 y)"
      using ecc_der_okD(1) [OF assms(1)] by simp
    from der_sig_to_fixed_rs_yields [OF assms this] xy length_strip0 [of x] length_strip0 [of y]
    show "yields (der_sig_to_fixed_rs w (ecdsa_der x y) n) (\<lambda>rs. rs = x @ y)"
      by (simp add: fixed_rs_strip0)
  qed
qed

theorem fixed_width_conversion_exact_witness:
  "yields (der_sig_to_fixed_rs (demo_ecc :: unit wolf_ecc) (ecdsa_der [0, 7] [3, 0]) 2) (\<lambda>rs. rs = [0, 7, 3, 0])
   \<and> rejects (der_sig_to_fixed_rs (demo_ecc :: unit wolf_ecc) [0x30, 3] 2)"
  using fixed_width_conversion_exact [where w = "demo_ecc :: unit wolf_ecc", OF demo_ecc_der_ok,
      of 2 "[0x30, 3]" "[0, 7]" "[3, 0]"]
  by (simp add: nonzero_def parse_ecdsa_der_def parse_tlv_def)

text \<open>C11. ECDSA verification is exact.  Each of the three verifiers accepts a signature exactly if
  the public key has the size of its curve and the signature decodes to two numbers that fit the
  curve and, padded to fixed width, are a genuine signature of the message; everything else is
  answered with \<open>InvalidSignature\<close>, a verifier of any other scheme accepts nothing, and nothing
  panics.\<close>

theorem ecdsa_verify_exact:
  assumes "ecdsas_ok w v dec S"
  shows "(\<forall>E. ecdsa_scheme_for S (ev_scheme self) = Some E \<longrightarrow>
            ((\<exists>s'. ecdsa_verify_signature w v self p m sig s = (Ok (), s')) \<longleftrightarrow> ecdsa_valid dec E p m sig))
         \<and> (ecdsa_scheme_for S (ev_scheme self) = None \<longrightarrow>
              ecdsa_verify_signature w v self p m sig = err InvalidSignature)
         \<and> no_panic (ecdsa_verify_signature w v self p m sig)"
proof (cases "ecdsa_scheme_for S (ev_scheme self)")
  case None
  then show ?thesis using ecdsa_verify_other [OF None, of w v p m sig] by (simp add: no_panic_err)
next
  case (Some E)
  obtain sch where "self = \<lparr>ev_scheme = sch\<rparr>" by (cases self) simp
  with Some show ?thesis
    using ecdsa_ver.verify_exact [of "(E, sch, w, v, dec, S)" p m sig s] assms by simp
qed

theorem ecdsa_verify_exact_witness:
  "(\<exists>s'. ecdsa_verify_signature demo_ecc demo_ecdsas P256_SHA256 demo_ec_public [7]
          (demo_ec_signature [7]) () = (Ok (), s'))
   \<and> ecdsa_verify_signature (demo_ecc :: unit wolf_ecc) demo_ecdsas \<lparr>ev_scheme = ED25519\<rparr> [] [] [] = err InvalidSignature"
  using ecdsa_verify_exact [OF demo_ecdsas_ok, of P256_SHA256 demo_ec_public "[7]" "demo_ec_signature [7]" "()"]
    ecdsa_verify_exact [OF demo_ecdsas_ok, of "\<lparr>ev_scheme = ED25519\<rparr>" "[]" "[]" "[]" "()"]
    demo_ec_valid [of "[7]"]
  by (simp add: ecdsa_verifiers demo_ecdsa_schemes_def)

text \<open>C12. ECDSA signatures verify.  A key pair of any of the three curves signs any message
  without an error, the DER signature fits the 141 byte buffer, and the verifier of the key's
  scheme accepts it under the public key.\<close>

theorem ecdsa_signatures_verify:
  assumes "rng_ok r" and "ecdsas_ok w v dec S" and "ecdsa_pair S k p"
  shows "yields (ecdsa_sign r w v k m) (\<lambda>sig. length sig \<le> 141
           \<and> yields (ecdsa_verify_signature w v \<lparr>ev_scheme = ecdsa_signer_scheme k\<rparr> p m sig) (\<lambda>_. True))"
proof -
  obtain E where E: "ecdsa_scheme_for S (esk_scheme k) = Some E"
    using assms(3) by (auto simp: ecdsa_pair_def)
  show ?thesis
    by (rule yields_weaken [OF ecdsa_sign_valid [OF assms E]])
       (simp add: ecdsa_signer_scheme_def ecdsa_verify_accepts [OF assms(2) _, of _ E] E)
qed

theorem ecdsa_signatures_verify_witness:
  "\<exists>sig. ecdsa_sign demo_rng demo_ecc demo_ecdsas demo_ec_key [7] () = (Ok sig, ()) \<and> length sig \<le> 141
     \<and> yields (ecdsa_verify_signature (demo_ecc :: unit wolf_ecc) demo_ecdsas P256_SHA256 demo_ec_public [7] sig) (\<lambda>_. True)"
  using yields_unit [OF ecdsa_signatures_verify [OF demo_rng_ok demo_ecdsas_ok demo_ecdsa_pair, of "[7]"]]
  by (simp add: ecdsa_signer_scheme_def demo_ec_key_def P256_SHA256_def)

text \<open>C40. Loading ECDSA keys.  From SEC1, from PKCS#8 with the EC object identifier, and from
  SEC1 bytes under a PKCS#8 label, a key of a supported curve loads, with its scheme, and is the
  key pair of its scalar; it is offered for exactly its own scheme.  An EdDSA key in PKCS#8, and
  a PKCS#1 key, is refused without a call into the library.\<close>

theorem ecdsa_keys_load:
  assumes "ecdsas_ok w v dec S" and "ecc_load_ok w E eccof" and "ecdsa_scheme_for S sch = Some E"
    and "ec_key_bytes pkcs8 value = Some b" and "es_sec1 E b d"
    and "ec_key_bytes pkcs8 value' = None"
  shows "yields (ecdsa_try_from pkcs8 w value) (\<lambda>k. ecdsa_pair S k (es_pub E d) \<and> esk_scheme k = sch
           \<and> (\<forall>offered. ecdsa_choose_scheme k offered = (if sch \<in> set offered then Some k else None)))
         \<and> (\<exists>msg. \<forall>w. ecdsa_try_from pkcs8 (w :: 'x wolf_ecc) value' = err (General msg))"
proof
  have "length d = es_field E" using ecc_load_okD(1) [OF assms(2,5)] .
  then show "yields (ecdsa_try_from pkcs8 w value) (\<lambda>k. ecdsa_pair S k (es_pub E d) \<and> esk_scheme k = sch
           \<and> (\<forall>offered. ecdsa_choose_scheme k offered = (if sch \<in> set offered then Some k else None)))"
    by (intro yields_weaken [OF ecdsa_try_from_yields [OF assms(2,3) ecdsas_okD(3,5,7) [OF assms(1)] assms(4,5)]])
       (simp add: ecdsa_pair_def assms(3) ecdsa_choose_scheme_def)
  show "\<exists>msg. \<forall>w. ecdsa_try_from pkcs8 (w :: 'x wolf_ecc) value' = err (General msg)"
    using assms(6) by (cases value') (auto simp: ecdsa_try_from_def split: sum.splits if_splits)
qed

theorem ecdsa_keys_load_witness:
  "(\<exists>k. ecdsa_try_from demo_pkcs8 demo_ecc (Sec1 (0x30 # norm 32 [5])) () = (Ok k, ())
      \<and> esk_scheme k = ECDSA_NISTP256_SHA256)
   \<and> (\<exists>msg. \<forall>w. ecdsa_try_from demo_pkcs8 (w :: unit wolf_ecc) (Pkcs8 ([0x31, 3] @ OID_ED25519)) = err (General msg))"
proof -
  have sch: "ecdsa_scheme_for demo_ecdsa_schemes ECDSA_NISTP256_SHA256 = Some (demo_scheme 32)"
    by (rule demo_ecdsa_scheme_for)
  have none: "ec_key_bytes demo_pkcs8 (Pkcs8 ([0x31, 3] @ OID_ED25519)) = None"
    by (simp add: demo_pkcs8_def OID_ED25519_def)
  have sec1: "es_sec1 (demo_scheme 32) (0x30 # norm 32 [5]) (norm 32 [5])" by (simp add: demo_scheme_def)
  have some: "ec_key_bytes demo_pkcs8 (Sec1 (0x30 # norm 32 [5])) = Some (0x30 # norm 32 [5])" by simp
  show ?thesis
    using ecdsa_keys_load [OF demo_ecdsas_ok demo_ecc_load_ok sch some sec1 none]
    by (auto dest!: yields_unit)
qed

end
