(* ===== verification/VerifyEddsa.thy ===== *)
theory VerifyEddsa
  imports WolfSig SignatureFlow
begin

text \<open>\<open>src/verify/eddsa.rs\<close>: Ed25519 verification.\<close>

definition ed25519_public_key_alg_id :: AlgorithmIdentifier where
  "ed25519_public_key_alg_id = ALG_ED25519"

definition ed25519_signature_alg_id :: AlgorithmIdentifier where
  "ed25519_signature_alg_id = ALG_ED25519"

definition ed25519_verify_signature ::
    "'s wolf_ed25519 \<Rightarrow> bytes \<Rightarrow> bytes \<Rightarrow> bytes \<Rightarrow> ('s, InvalidSignature, unit) rust" where
  "ed25519_verify_signature w public_key message signature =
     and_then (map_err (\<lambda>_. InvalidSignature) (ed_new w)) (\<lambda>ed.
     and_then (map_err (\<lambda>_. InvalidSignature) (ed_import_public w ed public_key)) (\<lambda>ed.
     \<lambda>s. case ed_verify_msg w ed signature message s of
           (Inr True, s') \<Rightarrow> (Ok (), s')
         | (_, s') \<Rightarrow> (Err InvalidSignature, s')))"

lemma ed25519_verify_accepts:
  assumes w: "ed25519_ok w E seedof keyof pubof" and g: "eds_genuine E p m sig"
  shows "yields (ed25519_verify_signature w p m sig) (\<lambda>_. True)"
proof -
  note D = ed25519_okD [OF w]
  have p: "length p = 32" using ed_schemeD(2) [OF D(4) g] .
  have last: "yields (\<lambda>s. case ed_verify_msg w ed sig m s of
           (Inr True, s') \<Rightarrow> (Ok (), s') | (_, s') \<Rightarrow> (Err InvalidSignature, s')) (\<lambda>_. True)"
    if pk: "pubof ed p" for ed
  proof (rule yieldsI)
    fix s
    obtain s' where "ed_verify_msg w ed sig m s = (Inr True, s')"
      using ffi_yieldsD [OF D(12) [OF pk g], of s] by auto
    then show "\<exists>x s'. (case ed_verify_msg w ed sig m s of
           (Inr True, s') \<Rightarrow> (Ok (), s') | (_, s') \<Rightarrow> (Err InvalidSignature, s')) = (Ok x, s') \<and> True"
      by simp
  qed
  show ?thesis
    unfolding ed25519_verify_signature_def
    by (rule yields_and_then [OF yields_map_err [OF D(5)]],
        rule yields_and_then [OF yields_map_err [OF D(10) [OF p]]], rule last)
qed

lemma ed25519_verify_rejects:
  assumes w: "ed25519_ok w E seedof keyof pubof" and g: "\<not> eds_genuine E p m sig"
  shows "rejects (ed25519_verify_signature w p m sig)"
proof -
  note D = ed25519_okD [OF w]
  have last: "rejects (\<lambda>s. case ed_verify_msg w ed sig m s of
           (Inr True, s') \<Rightarrow> (Ok (), s') | (_, s') \<Rightarrow> (Err InvalidSignature, s'))"
    if "pubof ed p" for ed
    by (rule rejectsI)
       (use ffi_ensuresD [OF D(13) [OF that g]] in \<open>fastforce split: prod.splits sum.splits bool.splits\<close>)
  show ?thesis
    unfolding ed25519_verify_signature_def
  proof (rule rejects_later [OF yields_map_err [OF D(5)]], cases "length p = 32")
    case True
    then show "rejects (and_then (map_err (\<lambda>_. InvalidSignature) (ed_import_public w ed p)) (\<lambda>ed s.
        case ed_verify_msg w ed sig m s of
           (Inr True, s') \<Rightarrow> (Ok (), s') | (_, s') \<Rightarrow> (Err InvalidSignature, s')))" for ed
      by (intro rejects_later [OF yields_map_err [OF D(10)]] last)
  next
    case False
    then show "rejects (and_then (map_err (\<lambda>_. InvalidSignature) (ed_import_public w ed p)) (\<lambda>ed s.
        case ed_verify_msg w ed sig m s of
           (Inr True, s') \<Rightarrow> (Ok (), s') | (_, s') \<Rightarrow> (Err InvalidSignature, s')))" for ed
      by (intro rejects_first rejects_map_err D(11))
  qed
qed

end
