(* ===== verification/SignEddsa.thy ===== *)
theory SignEddsa
  imports VerifyEddsa WolfSigDemo
begin

text \<open>\<open>src/sign/eddsa.rs\<close>: loading Ed25519 keys and signing.\<close>

definition ALL_EDDSA_SCHEMES :: "SignatureScheme list" where
  "ALL_EDDSA_SCHEMES = [ED25519]"

definition PRIV_KEY_SIZE :: "'s wolf_ed25519 \<Rightarrow> usize" where "PRIV_KEY_SIZE w = ed_KEY_SIZE w"
definition PUB_KEY_SIZE :: "'s wolf_ed25519 \<Rightarrow> usize" where "PUB_KEY_SIZE w = ed_PUB_KEY_SIZE w"

record Ed25519PrivateKey =
  edk_priv_key :: bytes
  edk_pub_key :: bytes
  edk_algo :: SignatureAlgorithm

record Ed25519Signer =
  eds_priv_key :: bytes
  eds_pub_key :: bytes
  eds_scheme :: SignatureScheme

definition ed25519_try_from ::
    "pkcs8_parser \<Rightarrow> 's wolf_ed25519 \<Rightarrow> PrivateKeyDer \<Rightarrow> ('s, rustls_error, Ed25519PrivateKey) rust" where
  "ed25519_try_from pkcs8 w value = (case value of
       Pkcs8 der \<Rightarrow>
         (let pkcs8_der = der in
          and_then (map_err (\<lambda>_. General ''Failed to parse PKCS#8'') (of_result (pkcs8 pkcs8_der))) (\<lambda>pki.
          if length (pki_private_key pki) < 2
             \<or> pki_private_key pki ! 0 \<noteq> 0x04
             \<or> pki_private_key pki ! 1 \<noteq> of_nat (PRIV_KEY_SIZE w)
             \<or> length (pki_private_key pki) \<noteq> 2 + PRIV_KEY_SIZE w
          then err (General ''Invalid Ed25519 private key encoding'')
          else
          and_then (slice_range (pki_private_key pki) 2 (2 + PRIV_KEY_SIZE w)) (\<lambda>raw_priv.
          and_then (map_err (\<lambda>_. General ''Ed25519 init failed'') (ed_new w)) (\<lambda>ed.
          and_then (map_err (\<lambda>_. General ''Ed25519 import_private_only failed'')
              (ed_import_private_only w ed raw_priv)) (\<lambda>ed.
          let pub_buf = zeros (PUB_KEY_SIZE w) in
          and_then (map_err (\<lambda>_. General ''Ed25519 make_public failed'')
              (ed_make_public w ed pub_buf)) (\<lambda>pub_buf.
          ok \<lparr>edk_priv_key = raw_priv, edk_pub_key = pub_buf, edk_algo = AlgED25519\<rparr>))))))
     | _ \<Rightarrow> err (General ''Unsupported private key format''))"

definition ed25519_choose_scheme :: "Ed25519PrivateKey \<Rightarrow> SignatureScheme list \<Rightarrow> Ed25519Signer option" where
  "ed25519_choose_scheme self offered =
     find_map (\<lambda>scheme.
       if scheme \<in> set offered
       then Some \<lparr>eds_priv_key = edk_priv_key self, eds_pub_key = edk_pub_key self, eds_scheme = scheme\<rparr>
       else None) ALL_EDDSA_SCHEMES"

definition ed25519_algorithm :: "Ed25519PrivateKey \<Rightarrow> SignatureAlgorithm" where
  "ed25519_algorithm self = edk_algo self"

definition ed25519_sign ::
    "'s wolf_ed25519 \<Rightarrow> Ed25519Signer \<Rightarrow> bytes \<Rightarrow> ('s, rustls_error, bytes) rust" where
  "ed25519_sign w self message =
     and_then (map_err (\<lambda>_. General ''Ed25519 init failed'') (ed_new w)) (\<lambda>ed.
     and_then (map_err (\<lambda>e. General (''Ed25519 import_private_key_ex failed: '' @ show_i32 e))
         (ed_import_private_key_ex w ed (eds_priv_key self) (Some (eds_pub_key self)) True)) (\<lambda>ed.
     let sig = zeros (ed_SIG_SIZE w) in
     and_then (map_err (\<lambda>e. General (''Ed25519 sign failed: '' @ show_i32 e))
         (ed_sign_msg w ed message sig)) (\<lambda>(sig, sig_len).
     slice_to sig sig_len)))"

definition ed25519_signer_scheme :: "Ed25519Signer \<Rightarrow> SignatureScheme" where
  "ed25519_signer_scheme self = eds_scheme self"

section \<open>Signing\<close>

definition ed25519_pair :: "ed_scheme \<Rightarrow> Ed25519Signer \<Rightarrow> bytes \<Rightarrow> bool" where
  "ed25519_pair E k p \<longleftrightarrow> length (eds_priv_key k) = 32 \<and> p = eds_pub E (eds_priv_key k)
     \<and> eds_pub_key k = p"

lemma ed25519_sign_valid:
  assumes w: "ed25519_ok w E seedof keyof pubof" and k: "ed25519_pair E k p"
  shows "yields (ed25519_sign w k m) (\<lambda>sig. eds_genuine E p m sig \<and> length sig = 64)"
proof -
  note D = ed25519_okD [OF w]
  have k': "length (eds_priv_key k) = 32" "eds_pub_key k = eds_pub E (eds_priv_key k)"
    "p = eds_pub E (eds_priv_key k)"
    using k by (simp_all add: ed25519_pair_def)
  have tail: "yields (and_then (map_err e (ed_sign_msg w ed m (zeros 64))) (\<lambda>(sig, sig_len). slice_to sig sig_len))
      (\<lambda>sig. eds_genuine E p m sig \<and> length sig = 64)" if "keyof ed (eds_priv_key k)" for e ed
    by (rule yields_and_then [OF yields_map_err [OF D(9) [OF that]]])
       (auto simp: k'(3) intro!: yields_ok)
  show ?thesis
    unfolding ed25519_sign_def Let_def D(3) k'(2)
    by (rule yields_and_then [OF yields_map_err [OF D(5)]],
        rule yields_and_then [OF yields_map_err [OF D(8) [OF k'(1)]]], rule tail)
qed

interpretation ed25519_ver: signature_verifier
  "\<lambda>(w, E). \<exists>seedof keyof pubof. ed25519_ok w E seedof keyof pubof"
  "\<lambda>(w, E). ed25519_verify_signature w" "\<lambda>(w, E). eds_genuine E"
  by unfold_locales (auto intro: ed25519_verify_accepts ed25519_verify_rejects)

interpretation ed25519_sig: signature_scheme
  "\<lambda>(w, E). \<exists>seedof keyof pubof. ed25519_ok w E seedof keyof pubof"
  "\<lambda>(w, E). ed25519_verify_signature w" "\<lambda>(w, E). eds_genuine E"
  "\<lambda>(w, E). ed25519_sign w" "\<lambda>(w, E). ed25519_pair E"
  by unfold_locales (auto intro: yields_weaken [OF ed25519_sign_valid])

section \<open>Loading\<close>

text \<open>The seed in a private key, where the format and the inner OCTET STRING allow one.\<close>

fun ed_seed :: "pkcs8_parser \<Rightarrow> PrivateKeyDer \<Rightarrow> bytes option" where
  "ed_seed pkcs8 (Pkcs8 der) = (case pkcs8 der of
       Inl _ \<Rightarrow> None
     | Inr pki \<Rightarrow> (case pki_private_key pki of
           t # n # seed \<Rightarrow> if t = 4 \<and> n = 32 \<and> length seed = 32 then Some seed else None
         | _ \<Rightarrow> None))"
| "ed_seed pkcs8 _ = None"

lemma ed_encoding_check:
  "(length b < 2 \<or> b ! 0 \<noteq> 4 \<or> b ! 1 \<noteq> (32 :: u8) \<or> length b \<noteq> 2 + 32)
     \<longleftrightarrow> (case b of t # n # seed \<Rightarrow> \<not> (t = 4 \<and> n = 32 \<and> length seed = 32) | _ \<Rightarrow> True)"
  by (auto split: list.split)

lemma ed25519_try_from_yields:
  assumes w: "ed25519_ok w E seedof keyof pubof" and seed: "ed_seed pkcs8 value = Some a"
  shows "yields (ed25519_try_from pkcs8 w value)
           (\<lambda>k. k = \<lparr>edk_priv_key = a, edk_pub_key = eds_pub E a, edk_algo = AlgED25519\<rparr>)"
proof -
  note D = ed25519_okD [OF w]
  obtain der pki where v: "value = Pkcs8 der" "pkcs8 der = Inr pki" "pki_private_key pki = 4 # 32 # a" "length a = 32"
    using seed by (cases "value") (auto split: sum.splits list.splits if_splits)
  have "yields (and_then (map_err e1 (ed_new w)) (\<lambda>ed.
          and_then (map_err e2 (ed_import_private_only w ed a)) (\<lambda>ed.
          and_then (map_err e3 (ed_make_public w ed (zeros 32))) (\<lambda>pub_buf.
          ok \<lparr>edk_priv_key = a, edk_pub_key = pub_buf, edk_algo = AlgED25519\<rparr>))))
          (\<lambda>k. k = \<lparr>edk_priv_key = a, edk_pub_key = eds_pub E a, edk_algo = AlgED25519\<rparr>)" for e1 e2 e3
    by (rule yields_and_then [OF yields_map_err [OF D(5)]],
        rule yields_and_then [OF yields_map_err [OF D(6) [OF v(4)]]],
        rule yields_and_then [OF yields_map_err [OF D(7)]], assumption, simp, simp add: yields_ok)
  then show ?thesis
    by (simp add: ed25519_try_from_def v Let_def PRIV_KEY_SIZE_def PUB_KEY_SIZE_def D(1,2))
qed

lemma ed25519_try_from_refuses:
  assumes "ed_KEY_SIZE w = 32" and "ed_seed pkcs8 value = None"
  shows "\<exists>msg. ed25519_try_from pkcs8 w value = err (General msg)"
  using assms
  by (cases "value")
     (auto simp: ed25519_try_from_def PRIV_KEY_SIZE_def ed_encoding_check
       split: sum.splits list.splits if_splits)

text \<open>The object identifier of the PKCS#8 structure plays no part: a key of any algorithm whose
  private key is a 32 byte OCTET STRING loads as an Ed25519 key.\<close>

lemma ed25519_ignores_oid:
  assumes "pkcs8 der = Inr \<lparr>pki_oid = oid, pki_private_key = b\<rparr>"
    and "pkcs8 der' = Inr \<lparr>pki_oid = oid', pki_private_key = b\<rparr>"
  shows "ed25519_try_from pkcs8 w (Pkcs8 der) = ed25519_try_from pkcs8 w (Pkcs8 der')"
  using assms by (simp add: ed25519_try_from_def)

section \<open>Properties\<close>

lemma ed25519_try_from_no_panic:
  assumes "ed25519_ok w E seedof keyof pubof"
  shows "no_panic (ed25519_try_from pkcs8 w key)"
proof (cases "ed_seed pkcs8 key")
  case None
  then obtain msg where "ed25519_try_from pkcs8 w key = err (General msg)"
    using ed25519_try_from_refuses [OF ed25519_okD(1) [OF assms]] by blast
  then show ?thesis by (simp add: no_panic_err)
next
  case (Some a)
  then show ?thesis by (rule yields_no_panic [OF ed25519_try_from_yields [OF assms]])
qed

text \<open>C24. Loading Ed25519 keys is exact.  A private key loads exactly if it is PKCS#8 and its inner
  private key is the OCTET STRING \<open>04 20\<close> with 32 bytes of seed; the key then holds the seed and its
  public key and is offered for the scheme ED25519 and no other.  Anything else is answered with
  an error; nothing panics.\<close>

theorem ed25519_loading_exact:
  assumes "ed25519_ok w E seedof keyof pubof"
  shows "(\<forall>a. ed_seed pkcs8 value = Some a \<longrightarrow>
            yields (ed25519_try_from pkcs8 w value) (\<lambda>k. edk_priv_key k = a \<and> edk_pub_key k = eds_pub E a
              \<and> (\<forall>offered. ed25519_choose_scheme k offered =
                   (if ED25519 \<in> set offered
                    then Some \<lparr>eds_priv_key = a, eds_pub_key = eds_pub E a, eds_scheme = ED25519\<rparr> else None))))
         \<and> (ed_seed pkcs8 value = None \<longrightarrow> (\<exists>msg. ed25519_try_from pkcs8 w value = err (General msg)))
         \<and> no_panic (ed25519_try_from pkcs8 w value)"
proof (cases "ed_seed pkcs8 value")
  case None
  then show ?thesis
    using ed25519_try_from_refuses [OF ed25519_okD(1) [OF assms] None] ed25519_try_from_no_panic [OF assms]
    by simp
next
  case (Some a)
  note y = ed25519_try_from_yields [OF assms Some]
  have "yields (ed25519_try_from pkcs8 w value) (\<lambda>k. edk_priv_key k = a \<and> edk_pub_key k = eds_pub E a
              \<and> (\<forall>offered. ed25519_choose_scheme k offered =
                   (if ED25519 \<in> set offered
                    then Some \<lparr>eds_priv_key = a, eds_pub_key = eds_pub E a, eds_scheme = ED25519\<rparr> else None)))"
    by (rule yields_weaken [OF y]) (simp add: ed25519_choose_scheme_def ALL_EDDSA_SCHEMES_def)
  then show ?thesis using Some ed25519_try_from_no_panic [OF assms] by simp
qed

theorem ed25519_loading_exact_witness:
  "(\<exists>k. ed25519_try_from demo_pkcs8 demo_ed25519 (Pkcs8 ([0x31, 1, 0, 4, 32] @ norm 32 [5])) () = (Ok k, ())
      \<and> edk_priv_key k = norm 32 [5])
   \<and> (\<exists>msg. ed25519_try_from demo_pkcs8 (demo_ed25519 :: unit wolf_ed25519) (Pkcs8 [0x31, 1, 0, 4, 32]) = err (General msg))"
proof -
  have "ed_seed demo_pkcs8 (Pkcs8 ([0x31, 1, 0, 4, 32] @ norm 32 [5])) = Some (norm 32 [5])"
    by (simp add: demo_pkcs8_def)
  moreover have "ed_seed demo_pkcs8 (Pkcs8 [0x31, 1, 0, 4, 32]) = None"
    by (simp add: demo_pkcs8_def)
  ultimately show ?thesis
    using ed25519_loading_exact [OF demo_ed25519_ok, of demo_pkcs8 "Pkcs8 ([0x31, 1, 0, 4, 32] @ norm 32 [5])"]
      ed25519_loading_exact [OF demo_ed25519_ok, of demo_pkcs8 "Pkcs8 [0x31, 1, 0, 4, 32]"]
    by (auto dest!: yields_unit)
qed

text \<open>Ed25519 signatures verify.  A signer with a seed and its public key signs every message
  with 64 bytes that the verifier accepts under that public key.\<close>

theorem ed25519_signatures_verify:
  assumes "ed25519_ok w E seedof keyof pubof" and "ed25519_pair E k p"
  shows "yields (ed25519_sign w k m) (\<lambda>sig. length sig = 64
           \<and> yields (ed25519_verify_signature w p m sig) (\<lambda>_. True))"
  by (rule yields_weaken [OF ed25519_sign_valid [OF assms]])
     (simp add: ed25519_verify_accepts [OF assms(1)])

theorem ed25519_signatures_verify_witness:
  "\<exists>sig. ed25519_sign demo_ed25519 \<lparr>eds_priv_key = norm 32 [5], eds_pub_key = norm 32 [5], eds_scheme = ED25519\<rparr>
       [7] () = (Ok sig, ()) \<and> length sig = 64
     \<and> yields (ed25519_verify_signature (demo_ed25519 :: unit wolf_ed25519) (norm 32 [5]) [7] sig) (\<lambda>_. True)"
proof -
  have "ed25519_pair demo_ed \<lparr>eds_priv_key = norm 32 [5], eds_pub_key = norm 32 [5], eds_scheme = ED25519\<rparr>
      (norm 32 [5])"
    by (simp add: ed25519_pair_def demo_ed_def)
  from yields_unit [OF ed25519_signatures_verify [OF demo_ed25519_ok this, of "[7]"]]
  show ?thesis by simp
qed

end
