(* ===== verification/VerifyRsaPkcs1.thy ===== *)
theory VerifyRsaPkcs1
  imports WolfSig SignatureFlow
begin

text \<open>
  \<open>src/verify/rsapkcs1.rs\<close>: RSA PKCS#1 v1.5 verification.  The macro \<open>try_size\<close> returns from the
  enclosing function where key and signature parse for the size, and otherwise falls through to
  the statement after it, which is its last argument here.
\<close>

definition try_size ::
    "'s wolf_rsa \<Rightarrow> RsaHash \<Rightarrow> usize \<Rightarrow> bytes \<Rightarrow> bytes \<Rightarrow> bytes \<Rightarrow>
     ('s, InvalidSignature, unit) rust \<Rightarrow> ('s, InvalidSignature, unit) rust" where
  "try_size w hash n public_key message signature rest = (\<lambda>s.
     case pk1_vk_from_public_der w hash n public_key s of
       (Inr vk, s') \<Rightarrow>
         (case pk1_sig_try_from w n signature of
            Inr sig \<Rightarrow> map_err (\<lambda>_. InvalidSignature) (pk1_verify w hash n vk message sig) s'
          | Inl _ \<Rightarrow> rest s')
     | (Inl _, s') \<Rightarrow> rest s')"

definition pkcs1_verify ::
    "'s wolf_rsa \<Rightarrow> RsaHash \<Rightarrow> bytes \<Rightarrow> bytes \<Rightarrow> bytes \<Rightarrow> ('s, InvalidSignature, unit) rust" where
  "pkcs1_verify w hash public_key message signature =
     try_size w hash 256 public_key message signature
    (try_size w hash 384 public_key message signature
    (try_size w hash 512 public_key message signature
    (err InvalidSignature)))"

definition rsa_pkcs1_sha256_public_key_alg_id :: AlgorithmIdentifier where
  "rsa_pkcs1_sha256_public_key_alg_id = ALG_RSA_ENCRYPTION"

definition rsa_pkcs1_sha256_signature_alg_id :: AlgorithmIdentifier where
  "rsa_pkcs1_sha256_signature_alg_id = ALG_RSA_PKCS1_SHA256"

definition rsa_pkcs1_sha256_verify_signature ::
    "'s wolf_rsa \<Rightarrow> bytes \<Rightarrow> bytes \<Rightarrow> bytes \<Rightarrow> ('s, InvalidSignature, unit) rust" where
  "rsa_pkcs1_sha256_verify_signature w public_key message signature =
     pkcs1_verify w RsaSha256 public_key message signature"

definition rsa_pkcs1_sha384_public_key_alg_id :: AlgorithmIdentifier where
  "rsa_pkcs1_sha384_public_key_alg_id = ALG_RSA_ENCRYPTION"

definition rsa_pkcs1_sha384_signature_alg_id :: AlgorithmIdentifier where
  "rsa_pkcs1_sha384_signature_alg_id = ALG_RSA_PKCS1_SHA384"

definition rsa_pkcs1_sha384_verify_signature ::
    "'s wolf_rsa \<Rightarrow> bytes \<Rightarrow> bytes \<Rightarrow> bytes \<Rightarrow> ('s, InvalidSignature, unit) rust" where
  "rsa_pkcs1_sha384_verify_signature w public_key message signature =
     pkcs1_verify w RsaSha384 public_key message signature"

definition rsa_pkcs1_sha512_public_key_alg_id :: AlgorithmIdentifier where
  "rsa_pkcs1_sha512_public_key_alg_id = ALG_RSA_ENCRYPTION"

definition rsa_pkcs1_sha512_signature_alg_id :: AlgorithmIdentifier where
  "rsa_pkcs1_sha512_signature_alg_id = ALG_RSA_PKCS1_SHA512"

definition rsa_pkcs1_sha512_verify_signature ::
    "'s wolf_rsa \<Rightarrow> bytes \<Rightarrow> bytes \<Rightarrow> bytes \<Rightarrow> ('s, InvalidSignature, unit) rust" where
  "rsa_pkcs1_sha512_verify_signature w public_key message signature =
     pkcs1_verify w RsaSha512 public_key message signature"

section \<open>What is accepted\<close>

text \<open>The genuine signatures for keys of 2048, 3072 and 4096 bits.\<close>

definition rsa_pkcs1_valid :: "rsa_scheme \<Rightarrow> RsaHash \<Rightarrow> bytes \<Rightarrow> bytes \<Rightarrow> bytes \<Rightarrow> bool" where
  "rsa_pkcs1_valid R t p m sig \<longleftrightarrow> rs_pkcs1 R t p m sig \<and> length sig \<in> {256, 384, 512}"

lemma try_size_skips:
  assumes w: "rsa_pkcs1_ok w R privof skof vkof" and skip: "rs_size R p \<noteq> Some n \<or> length sig \<noteq> n"
  shows "\<exists>s'. try_size w t n p m sig rest s = rest s'"
proof (cases "rs_size R p = Some n")
  case True
  then show ?thesis
    using skip ffi_yieldsD [OF rsa_pkcs1_okD(4) [OF w True], of t s] rsa_pkcs1_okD(7) [OF w]
    by (auto simp: try_size_def)
next
  case False
  obtain e s' where "pk1_vk_from_public_der w t n p s = (Inl e, s')"
    using rsa_pkcs1_okD(5) [OF w False, of t] unfolding ffi_fails_def by blast
  then show ?thesis by (auto simp: try_size_def)
qed

lemma try_size_decides:
  assumes w: "rsa_pkcs1_ok w R privof skof vkof" and hit: "rs_size R p = Some n" "length sig = n"
  shows "rs_pkcs1 R t p m sig \<Longrightarrow> yields (try_size w t n p m sig rest) (\<lambda>_. True)"
    and "\<not> rs_pkcs1 R t p m sig \<Longrightarrow> rejects (try_size w t n p m sig rest)"
proof -
  obtain sig' where sig': "pk1_sig_try_from w n sig = Inr sig'" "pk1_sig_as_ref w sig' = sig"
    using rsa_pkcs1_okD(6) [OF w, of sig] hit(2) by blast
  { fix s
    obtain vk s' where vk: "pk1_vk_from_public_der w t n p s = (Inr vk, s')" "vkof vk p"
      using ffi_yieldsD [OF rsa_pkcs1_okD(4) [OF w hit(1)]] by blast
    have "try_size w t n p m sig rest s = map_err (\<lambda>_. InvalidSignature) (pk1_verify w t n vk m sig') s'"
      by (simp add: try_size_def vk sig')
    with vk(2) have "\<exists>vk s'. vkof vk p \<and>
        try_size w t n p m sig rest s = map_err (\<lambda>_. InvalidSignature) (pk1_verify w t n vk m sig') s'"
      by blast }
  note run = this
  { assume g: "rs_pkcs1 R t p m sig"
    show "yields (try_size w t n p m sig rest) (\<lambda>_. True)"
    proof (rule yieldsI)
      fix s
      obtain vk s' where vk: "vkof vk p"
        and r: "try_size w t n p m sig rest s = map_err (\<lambda>_. InvalidSignature) (pk1_verify w t n vk m sig') s'"
        using run by blast
      have "yields (map_err (\<lambda>_. InvalidSignature) (pk1_verify w t n vk m sig')) (\<lambda>_. True)"
        by (rule yields_map_err [OF rsa_pkcs1_okD(8) [OF w vk hit(1)]]) (simp add: sig' g)
      then show "\<exists>x s'. try_size w t n p m sig rest s = (Ok x, s') \<and> True"
        unfolding r by (blast dest: yieldsD)
    qed }
  { assume g: "\<not> rs_pkcs1 R t p m sig"
    show "rejects (try_size w t n p m sig rest)"
    proof (rule rejectsI)
      fix s
      obtain vk s' where vk: "vkof vk p"
        and r: "try_size w t n p m sig rest s = map_err (\<lambda>_. InvalidSignature) (pk1_verify w t n vk m sig') s'"
        using run by blast
      have "rejects (map_err (\<lambda>_. InvalidSignature) (pk1_verify w t n vk m sig'))"
        by (rule rejects_map_err [OF rsa_pkcs1_okD(9) [OF w vk hit(1)]]) (simp add: sig' g)
      then show "\<exists>e s'. try_size w t n p m sig rest s = (Err e, s')"
        unfolding r by (blast dest: rejectsD)
    qed }
qed

lemma yields_skip: "(\<And>s. \<exists>s'. m s = rest s') \<Longrightarrow> yields rest P \<Longrightarrow> yields m P"
  unfolding yields_def by metis

lemma rejects_skip: "(\<And>s. \<exists>s'. m s = rest s') \<Longrightarrow> rejects rest \<Longrightarrow> rejects m"
  unfolding rejects_def by metis

lemma try_size_yields:
  assumes "rsa_pkcs1_ok w R privof skof vkof" "rs_size R p = Some (length sig)" "rs_pkcs1 R t p m sig"
    and "length sig = n \<or> yields rest (\<lambda>_. True)"
  shows "yields (try_size w t n p m sig rest) (\<lambda>_. True)"
  using assms try_size_decides(1) [OF assms(1), of p n sig t m rest]
    yields_skip [OF try_size_skips [OF assms(1), of p n sig]]
  by (cases "length sig = n") auto

lemma try_size_rejects:
  assumes "rsa_pkcs1_ok w R privof skof vkof" "length sig = n \<longrightarrow> \<not> rs_pkcs1 R t p m sig" "rejects rest"
  shows "rejects (try_size w t n p m sig rest)"
  using assms try_size_decides(2) [OF assms(1), of p n sig t m rest]
    rejects_skip [OF try_size_skips [OF assms(1), of p n sig]]
  by (cases "length sig = n \<and> rs_size R p = Some n") auto

lemma pkcs1_verify_accepts:
  assumes R: "rsa_scheme_ok R" and w: "rsa_pkcs1_ok w R privof skof vkof" and v: "rsa_pkcs1_valid R t p m sig"
  shows "yields (pkcs1_verify w t p m sig) (\<lambda>_. True)"
proof -
  have g: "rs_pkcs1 R t p m sig" "length sig \<in> {256, 384, 512}" using v by (simp_all add: rsa_pkcs1_valid_def)
  note size = try_size_yields [OF w rsa_schemeD(2) [OF R g(1)] g(1)]
  show ?thesis unfolding pkcs1_verify_def using g(2) by (auto intro!: size)
qed

lemma pkcs1_verify_rejects:
  assumes w: "rsa_pkcs1_ok w R privof skof vkof" and v: "\<not> rsa_pkcs1_valid R t p m sig"
  shows "rejects (pkcs1_verify w t p m sig)"
  unfolding pkcs1_verify_def
  using v by (intro try_size_rejects [OF w] rejects_err) (auto simp: rsa_pkcs1_valid_def)

end
