(* ===== verification/VerifyRsaPss.thy ===== *)
theory VerifyRsaPss
  imports WolfSig WolfSha SignatureFlow
begin

text \<open>
  \<open>src/verify/rsapss.rs\<close>: RSA-PSS verification.  The three SHA-2 types of the library are one
  parameter record each.
\<close>

definition RSA_PSS_OUT_SIZE :: usize where "RSA_PSS_OUT_SIZE = 512"

record 's wolf_shas =
  wolf_sha256 :: "'s wolf_sha"
  wolf_sha384 :: "'s wolf_sha"
  wolf_sha512 :: "'s wolf_sha"

definition rsa_pss_sha256_public_key_alg_id :: AlgorithmIdentifier where
  "rsa_pss_sha256_public_key_alg_id = ALG_RSA_ENCRYPTION"

definition rsa_pss_sha256_signature_alg_id :: AlgorithmIdentifier where
  "rsa_pss_sha256_signature_alg_id = ALG_RSA_PSS_SHA256"

definition rsa_pss_sha256_verify_signature ::
    "'s wolf_shas \<Rightarrow> 's wolf_rsa \<Rightarrow> bytes \<Rightarrow> bytes \<Rightarrow> bytes \<Rightarrow> ('s, InvalidSignature, unit) rust" where
  "rsa_pss_sha256_verify_signature h w public_key message signature =
     (let digest = zeros (sha_digest_size (wolf_sha256 h)) in
      and_then (map_err (\<lambda>_. InvalidSignature) (sha_new (wolf_sha256 h))) (\<lambda>sha.
      and_then (map_err (\<lambda>_. InvalidSignature) (sha_update (wolf_sha256 h) sha message)) (\<lambda>sha.
      and_then (map_err (\<lambda>_. InvalidSignature) (sha_finalize (wolf_sha256 h) sha digest)) (\<lambda>digest.
      and_then (map_err (\<lambda>_. InvalidSignature) (rsa_new_public_from_der w public_key)) (\<lambda>rsa.
      let out = zeros RSA_PSS_OUT_SIZE in
      and_then (map_err (\<lambda>_. InvalidSignature)
          (rsa_pss_verify_check w rsa signature out digest (rsa_HASH_TYPE_SHA256 w) (rsa_MGF1SHA256 w))) (\<lambda>_.
      ok ()))))))"

definition rsa_pss_sha384_public_key_alg_id :: AlgorithmIdentifier where
  "rsa_pss_sha384_public_key_alg_id = ALG_RSA_ENCRYPTION"

definition rsa_pss_sha384_signature_alg_id :: AlgorithmIdentifier where
  "rsa_pss_sha384_signature_alg_id = ALG_RSA_PSS_SHA384"

definition rsa_pss_sha384_verify_signature ::
    "'s wolf_shas \<Rightarrow> 's wolf_rsa \<Rightarrow> bytes \<Rightarrow> bytes \<Rightarrow> bytes \<Rightarrow> ('s, InvalidSignature, unit) rust" where
  "rsa_pss_sha384_verify_signature h w public_key message signature =
     (let digest = zeros (sha_digest_size (wolf_sha384 h)) in
      and_then (map_err (\<lambda>_. InvalidSignature) (sha_new (wolf_sha384 h))) (\<lambda>sha.
      and_then (map_err (\<lambda>_. InvalidSignature) (sha_update (wolf_sha384 h) sha message)) (\<lambda>sha.
      and_then (map_err (\<lambda>_. InvalidSignature) (sha_finalize (wolf_sha384 h) sha digest)) (\<lambda>digest.
      and_then (map_err (\<lambda>_. InvalidSignature) (rsa_new_public_from_der w public_key)) (\<lambda>rsa.
      let out = zeros RSA_PSS_OUT_SIZE in
      and_then (map_err (\<lambda>_. InvalidSignature)
          (rsa_pss_verify_check w rsa signature out digest (rsa_HASH_TYPE_SHA384 w) (rsa_MGF1SHA384 w))) (\<lambda>_.
      ok ()))))))"

definition rsa_pss_sha512_public_key_alg_id :: AlgorithmIdentifier where
  "rsa_pss_sha512_public_key_alg_id = ALG_RSA_ENCRYPTION"

definition rsa_pss_sha512_signature_alg_id :: AlgorithmIdentifier where
  "rsa_pss_sha512_signature_alg_id = ALG_RSA_PSS_SHA512"

definition rsa_pss_sha512_verify_signature ::
    "'s wolf_shas \<Rightarrow> 's wolf_rsa \<Rightarrow> bytes \<Rightarrow> bytes \<Rightarrow> bytes \<Rightarrow> ('s, InvalidSignature, unit) rust" where
  "rsa_pss_sha512_verify_signature h w public_key message signature =
     (let digest = zeros (sha_digest_size (wolf_sha512 h)) in
      and_then (map_err (\<lambda>_. InvalidSignature) (sha_new (wolf_sha512 h))) (\<lambda>sha.
      and_then (map_err (\<lambda>_. InvalidSignature) (sha_update (wolf_sha512 h) sha message)) (\<lambda>sha.
      and_then (map_err (\<lambda>_. InvalidSignature) (sha_finalize (wolf_sha512 h) sha digest)) (\<lambda>digest.
      and_then (map_err (\<lambda>_. InvalidSignature) (rsa_new_public_from_der w public_key)) (\<lambda>rsa.
      let out = zeros RSA_PSS_OUT_SIZE in
      and_then (map_err (\<lambda>_. InvalidSignature)
          (rsa_pss_verify_check w rsa signature out digest (rsa_HASH_TYPE_SHA512 w) (rsa_MGF1SHA512 w))) (\<lambda>_.
      ok ()))))))"

section \<open>What is accepted\<close>

fun sha_for :: "'s wolf_shas \<Rightarrow> RsaHash \<Rightarrow> 's wolf_sha" where
  "sha_for h RsaSha256 = wolf_sha256 h"
| "sha_for h RsaSha384 = wolf_sha384 h"
| "sha_for h RsaSha512 = wolf_sha512 h"

text \<open>\<open>D t\<close> is the hash function of type \<open>t\<close>.\<close>

definition shas_ok :: "'s wolf_shas \<Rightarrow> (RsaHash \<Rightarrow> bytes \<Rightarrow> bytes) \<Rightarrow> bool" where
  "shas_ok h D \<longleftrightarrow> (\<forall>t. \<exists>fed. sha_ok (sha_for h t) fed (D t))"

lemma shas_okD: "shas_ok h D \<Longrightarrow> \<exists>fed. sha_ok (sha_for h t) fed (D t)"
  by (simp add: shas_ok_def)

fun rsa_pss_verify :: "'s wolf_shas \<Rightarrow> 's wolf_rsa \<Rightarrow> RsaHash \<Rightarrow> bytes \<Rightarrow> bytes \<Rightarrow> bytes \<Rightarrow>
    ('s, InvalidSignature, unit) rust" where
  "rsa_pss_verify h w RsaSha256 = rsa_pss_sha256_verify_signature h w"
| "rsa_pss_verify h w RsaSha384 = rsa_pss_sha384_verify_signature h w"
| "rsa_pss_verify h w RsaSha512 = rsa_pss_sha512_verify_signature h w"

text \<open>The three functions are one, in the hash type.\<close>

lemma rsa_pss_verify_eq:
  "rsa_pss_verify h w t p m sig =
     and_then (map_err (\<lambda>_. InvalidSignature) (sha_new (sha_for h t))) (\<lambda>sha.
     and_then (map_err (\<lambda>_. InvalidSignature) (sha_update (sha_for h t) sha m)) (\<lambda>sha.
     and_then (map_err (\<lambda>_. InvalidSignature)
         (sha_finalize (sha_for h t) sha (zeros (sha_digest_size (sha_for h t))))) (\<lambda>digest.
     and_then (map_err (\<lambda>_. InvalidSignature) (rsa_new_public_from_der w p)) (\<lambda>rsa.
     and_then (map_err (\<lambda>_. InvalidSignature)
         (rsa_pss_verify_check w rsa sig (zeros 512) digest (pss_hash w t) (pss_mgf w t))) (\<lambda>_. ok ())))))"
  by (cases t) (simp_all add: rsa_pss_sha256_verify_signature_def rsa_pss_sha384_verify_signature_def
      rsa_pss_sha512_verify_signature_def RSA_PSS_OUT_SIZE_def Let_def)

text \<open>The genuine signatures for keys of at most 4096 bits.\<close>

definition rsa_pss_valid ::
    "rsa_scheme \<Rightarrow> (RsaHash \<Rightarrow> bytes \<Rightarrow> bytes) \<Rightarrow> RsaHash \<Rightarrow> bytes \<Rightarrow> bytes \<Rightarrow> bytes \<Rightarrow> bool" where
  "rsa_pss_valid R D t p m sig \<longleftrightarrow> rs_pss R t p (D t m) sig \<and> length sig \<le> 512"

lemma rsa_pss_verify_accepts:
  assumes h: "shas_ok h D" and w: "rsa_pss_ok w R privof pubof" and v: "rsa_pss_valid R D t p m sig"
  shows "yields (rsa_pss_verify h w t p m sig) (\<lambda>_. True)"
proof -
  obtain fed where sha: "sha_ok (sha_for h t) fed (D t)" using shas_okD [OF h] by blast
  note H = sha_okD [OF sha] and W = rsa_pss_okD [OF w]
  have g: "rs_pss R t p (D t m) sig" "length sig \<le> 512" using v by (simp_all add: rsa_pss_valid_def)
  note size = rsa_schemeD(3) [OF W(1) g(1)]
  have check: "yields (and_then (map_err (\<lambda>_. InvalidSignature)
         (rsa_pss_verify_check w rsa sig (zeros 512) (D t m) (pss_hash w t) (pss_mgf w t))) (\<lambda>_. ok ())) (\<lambda>_. True)"
    if "pubof rsa p" for rsa
    by (rule yields_and_then [OF yields_map_err [OF W(8) [OF that size _ g(1)]]])
       (simp_all add: g(2) yields_ok)
  show ?thesis
    unfolding rsa_pss_verify_eq
    by (rule yields_and_then [OF yields_map_err [OF H(1)]],
        rule yields_and_then [OF yields_map_err [OF H(2)]], assumption,
        rule yields_and_then [OF yields_map_err [OF H(4)]], assumption, simp, hypsubst, simp only: append_Nil,
        rule yields_and_then [OF yields_map_err [OF W(5) [OF size]]], rule check)
qed

lemma rsa_pss_verify_rejects:
  assumes h: "shas_ok h D" and w: "rsa_pss_ok w R privof pubof" and v: "\<not> rsa_pss_valid R D t p m sig"
  shows "rejects (rsa_pss_verify h w t p m sig)"
proof -
  obtain fed where sha: "sha_ok (sha_for h t) fed (D t)" using shas_okD [OF h] by blast
  note H = sha_okD [OF sha] and W = rsa_pss_okD [OF w]
  have rest: "rejects (and_then (map_err (\<lambda>_. InvalidSignature) (rsa_new_public_from_der w p)) (\<lambda>rsa.
     and_then (map_err (\<lambda>_. InvalidSignature)
         (rsa_pss_verify_check w rsa sig (zeros 512) (D t m) (pss_hash w t) (pss_mgf w t))) (\<lambda>_. ok ())))"
  proof (cases "rs_size R p")
    case None
    then show ?thesis by (intro rejects_first rejects_map_err W(4))
  next
    case (Some n)
    have "\<not> (n \<le> length (zeros 512) \<and> rs_pss R t p (D t m) sig)"
      using v rsa_schemeD(3) [OF W(1), of t p "D t m" sig] Some by (auto simp: rsa_pss_valid_def)
    then show ?thesis
      by (intro rejects_later [OF yields_map_err [OF W(5) [OF Some]]] rejects_first rejects_map_err
          W(9) [OF _ Some])
  qed
  show ?thesis
    unfolding rsa_pss_verify_eq
    by (rule rejects_later [OF yields_map_err [OF H(1)]],
        rule rejects_later [OF yields_map_err [OF H(2)]], assumption,
        rule rejects_later [OF yields_map_err [OF H(4)]], assumption, simp, hypsubst, simp only: append_Nil,
        rule rest)
qed

end
