(* ===== verification/SignRsa.thy ===== *)
theory SignRsa
  imports VerifyRsaPkcs1 VerifyRsaPss WolfSigDemo
begin

text \<open>\<open>src/sign/rsa.rs\<close>: loading RSA keys and signing.\<close>

definition RSA_SCHEMES :: "SignatureScheme list" where
  "RSA_SCHEMES = [RSA_PSS_SHA256, RSA_PSS_SHA384, RSA_PSS_SHA512,
     RSA_PKCS1_SHA256, RSA_PKCS1_SHA384, RSA_PKCS1_SHA512]"

definition MAX_RSA_SIG_SIZE :: usize where "MAX_RSA_SIG_SIZE = 512"

record RsaPrivateKey =
  rpk_der_bytes :: bytes
  rpk_algo :: SignatureAlgorithm

definition parse_private_key :: "'s wolf_rsa \<Rightarrow> bytes \<Rightarrow> ('s, rustls_error, RSA) rust" where
  "parse_private_key w der_bytes =
     map_err (\<lambda>_. General ''RSA private key decode failed'') (rsa_new_from_der w der_bytes)"

definition rsa_try_from ::
    "'s wolf_rsa \<Rightarrow> PrivateKeyDer \<Rightarrow> ('s, rustls_error, RsaPrivateKey) rust" where
  "rsa_try_from w value =
     and_then (case value of
         Pkcs8 der \<Rightarrow> ok der
       | Pkcs1 der \<Rightarrow> ok der
       | _ \<Rightarrow> err (General ''Unsupported private key format'')) (\<lambda>der_bytes.
     and_then (parse_private_key w der_bytes) (\<lambda>_.
     ok \<lparr>rpk_der_bytes = der_bytes, rpk_algo = AlgRSA\<rparr>))"

record RsaSigner =
  rsg_der_bytes :: bytes
  rsg_scheme :: SignatureScheme

definition rsa_choose_scheme :: "RsaPrivateKey \<Rightarrow> SignatureScheme list \<Rightarrow> RsaSigner option" where
  "rsa_choose_scheme self offered =
     find_map (\<lambda>scheme.
       if scheme \<in> set offered
       then Some \<lparr>rsg_der_bytes = rpk_der_bytes self, rsg_scheme = scheme\<rparr>
       else None) RSA_SCHEMES"

definition rsa_algorithm :: "RsaPrivateKey \<Rightarrow> SignatureAlgorithm" where
  "rsa_algorithm self = rpk_algo self"

definition sha256_digest :: "'s wolf_shas \<Rightarrow> bytes \<Rightarrow> ('s, rustls_error, bytes) rust" where
  "sha256_digest h message =
     (let digest = zeros (sha_digest_size (wolf_sha256 h)) in
      and_then (map_err (\<lambda>_. General ''SHA256 init failed'') (sha_new (wolf_sha256 h))) (\<lambda>sha.
      and_then (map_err (\<lambda>_. General ''SHA256 update failed'')
          (sha_update (wolf_sha256 h) sha message)) (\<lambda>sha.
      and_then (map_err (\<lambda>_. General ''SHA256 finalize failed'')
          (sha_finalize (wolf_sha256 h) sha digest)) (\<lambda>digest.
      ok digest))))"

definition sha384_digest :: "'s wolf_shas \<Rightarrow> bytes \<Rightarrow> ('s, rustls_error, bytes) rust" where
  "sha384_digest h message =
     (let digest = zeros (sha_digest_size (wolf_sha384 h)) in
      and_then (map_err (\<lambda>_. General ''SHA384 init failed'') (sha_new (wolf_sha384 h))) (\<lambda>sha.
      and_then (map_err (\<lambda>_. General ''SHA384 update failed'')
          (sha_update (wolf_sha384 h) sha message)) (\<lambda>sha.
      and_then (map_err (\<lambda>_. General ''SHA384 finalize failed'')
          (sha_finalize (wolf_sha384 h) sha digest)) (\<lambda>digest.
      ok digest))))"

definition sha512_digest :: "'s wolf_shas \<Rightarrow> bytes \<Rightarrow> ('s, rustls_error, bytes) rust" where
  "sha512_digest h message =
     (let digest = zeros (sha_digest_size (wolf_sha512 h)) in
      and_then (map_err (\<lambda>_. General ''SHA512 init failed'') (sha_new (wolf_sha512 h))) (\<lambda>sha.
      and_then (map_err (\<lambda>_. General ''SHA512 update failed'')
          (sha_update (wolf_sha512 h) sha message)) (\<lambda>sha.
      and_then (map_err (\<lambda>_. General ''SHA512 finalize failed'')
          (sha_finalize (wolf_sha512 h) sha digest)) (\<lambda>digest.
      ok digest))))"

definition pkcs1_sign_with_size ::
    "'s wolf_rng \<Rightarrow> 's wolf_rsa \<Rightarrow> RsaHash \<Rightarrow> usize \<Rightarrow> bytes \<Rightarrow> bytes \<Rightarrow> ('s, rustls_error, bytes) rust" where
  "pkcs1_sign_with_size r w hash n der_bytes message =
     and_then (map_err (\<lambda>_. General ''RNG init failed'') (rng_new r)) (\<lambda>rng.
     and_then (map_err (\<lambda>_. General ''RSA key decode failed'') (rsa_new_from_der w der_bytes)) (\<lambda>rsa.
     and_then (map_err (\<lambda>_. General ''PKCS1 key size mismatch'') (pk1_sk_from_rsa w hash n rsa rng)) (\<lambda>sk.
     and_then (map_err (\<lambda>_. General ''PKCS1 sign failed'') (pk1_try_sign w hash n sk message)) (\<lambda>sig.
     ok (pk1_sig_as_ref w sig)))))"

definition rsa_sign ::
    "'s wolf_rng \<Rightarrow> 's wolf_shas \<Rightarrow> 's wolf_rsa \<Rightarrow> RsaSigner \<Rightarrow> bytes \<Rightarrow> ('s, rustls_error, bytes) rust" where
  "rsa_sign r h w self message =
     (let der = rsg_der_bytes self in
      if rsg_scheme self \<in> {RSA_PSS_SHA256, RSA_PSS_SHA384, RSA_PSS_SHA512} then
        and_then (parse_private_key w der) (\<lambda>rsa.
        and_then (map_err (\<lambda>_. General ''RNG init failed'') (rng_new r)) (\<lambda>rng.
        and_then (map_err (\<lambda>_. General ''RSA set_rng failed'') (rsa_set_rng w rsa rng)) (\<lambda>rsa.
        let sig_buf = zeros MAX_RSA_SIG_SIZE in
        case rsg_scheme self of
          RSA_PSS_SHA256 \<Rightarrow>
            and_then (sha256_digest h message) (\<lambda>digest.
            and_then (map_err (\<lambda>_. General ''RSA PSS SHA256 sign failed'')
                (rsa_pss_sign w rsa digest sig_buf (rsa_HASH_TYPE_SHA256 w) (rsa_MGF1SHA256 w) rng))
              (\<lambda>(sig_buf, sig_len). slice_to sig_buf sig_len))
        | RSA_PSS_SHA384 \<Rightarrow>
            and_then (sha384_digest h message) (\<lambda>digest.
            and_then (map_err (\<lambda>_. General ''RSA PSS SHA384 sign failed'')
                (rsa_pss_sign w rsa digest sig_buf (rsa_HASH_TYPE_SHA384 w) (rsa_MGF1SHA384 w) rng))
              (\<lambda>(sig_buf, sig_len). slice_to sig_buf sig_len))
        | RSA_PSS_SHA512 \<Rightarrow>
            and_then (sha512_digest h message) (\<lambda>digest.
            and_then (map_err (\<lambda>_. General ''RSA PSS SHA512 sign failed'')
                (rsa_pss_sign w rsa digest sig_buf (rsa_HASH_TYPE_SHA512 w) (rsa_MGF1SHA512 w) rng))
              (\<lambda>(sig_buf, sig_len). slice_to sig_buf sig_len))
        | _ \<Rightarrow> panic ''internal error: entered unreachable code'')))
      else case rsg_scheme self of
          RSA_PKCS1_SHA256 \<Rightarrow>
            map_err_result (\<lambda>_. General ''RSA PKCS1 SHA256 sign failed'')
             (or_else (or_else (pkcs1_sign_with_size r w RsaSha256 256 der message)
               (\<lambda>_. pkcs1_sign_with_size r w RsaSha256 384 der message))
               (\<lambda>_. pkcs1_sign_with_size r w RsaSha256 512 der message))
        | RSA_PKCS1_SHA384 \<Rightarrow>
            map_err_result (\<lambda>_. General ''RSA PKCS1 SHA384 sign failed'')
             (or_else (or_else (pkcs1_sign_with_size r w RsaSha384 256 der message)
               (\<lambda>_. pkcs1_sign_with_size r w RsaSha384 384 der message))
               (\<lambda>_. pkcs1_sign_with_size r w RsaSha384 512 der message))
        | RSA_PKCS1_SHA512 \<Rightarrow>
            map_err_result (\<lambda>_. General ''RSA PKCS1 SHA512 sign failed'')
             (or_else (or_else (pkcs1_sign_with_size r w RsaSha512 256 der message)
               (\<lambda>_. pkcs1_sign_with_size r w RsaSha512 384 der message))
               (\<lambda>_. pkcs1_sign_with_size r w RsaSha512 512 der message))
        | _ \<Rightarrow> err (General ''Unsupported RSA scheme''))"

definition rsa_signer_scheme :: "RsaSigner \<Rightarrow> SignatureScheme" where
  "rsa_signer_scheme self = rsg_scheme self"

section \<open>The digests\<close>

fun rsa_digest :: "RsaHash \<Rightarrow> 's wolf_shas \<Rightarrow> bytes \<Rightarrow> ('s, rustls_error, bytes) rust" where
  "rsa_digest RsaSha256 = sha256_digest"
| "rsa_digest RsaSha384 = sha384_digest"
| "rsa_digest RsaSha512 = sha512_digest"

lemma sha_digest_sequence:
  assumes "sha_ok h fed D"
  shows "yields (and_then (map_err e1 (sha_new h)) (\<lambda>sha.
           and_then (map_err e2 (sha_update h sha m)) (\<lambda>sha.
           and_then (map_err e3 (sha_finalize h sha (zeros (sha_digest_size h)))) (\<lambda>d. ok d))))
         (\<lambda>d. d = D m)"
  using sha_okD(2) [OF assms, of _ "[]" m]
  by (intro yields_and_then [OF yields_map_err [OF sha_okD(1) [OF assms]]])
     (auto intro!: yields_and_then [OF yields_map_err] yields_map_err sha_okD(4) [OF assms])

lemma rsa_digest_yields:
  assumes "shas_ok h D"
  shows "yields (rsa_digest t h m) (\<lambda>d. d = D t m)"
proof -
  obtain fed where "sha_ok (sha_for h t) fed (D t)" using shas_okD [OF assms] by blast
  note d = sha_digest_sequence [OF this, of _ _ m]
  show ?thesis
    by (cases t) (use d in \<open>simp_all add: sha256_digest_def sha384_digest_def sha512_digest_def\<close>)
qed

section \<open>PKCS#1 v1.5 signing\<close>

lemma pkcs1_sign_with_size_yields:
  assumes r: "rng_ok r" and w: "rsa_pss_ok w R privof pubof" "rsa_pkcs1_ok w R privof skof vkof"
    and k: "rs_pub R der = Some p" "rs_size R p = Some n"
  shows "yields (pkcs1_sign_with_size r w t n der m) (rs_pkcs1 R t p m)"
proof -
  note W = rsa_pss_okD [OF w(1)] and K = rsa_pkcs1_okD [OF w(2)]
  show ?thesis
    unfolding pkcs1_sign_with_size_def
    by (rule yields_and_then [OF yields_map_err [OF rng_okD(1) [OF r]]],
        rule yields_and_then [OF yields_map_err [OF W(3) [OF k(1)]]],
        rule yields_and_then [OF yields_map_err [OF K(1) [OF _ k]]], assumption,
        rule yields_and_then [OF yields_map_err [OF K(3) [OF _ k]]], assumption, rule yields_ok)
qed

lemma pkcs1_sign_with_size_rejects:
  assumes r: "rng_ok r" and w: "rsa_pss_ok w R privof pubof" "rsa_pkcs1_ok w R privof skof vkof"
    and k: "rs_pub R der = Some p" "rs_size R p \<noteq> Some n"
  shows "rejects (pkcs1_sign_with_size r w t n der m)"
proof -
  note W = rsa_pss_okD [OF w(1)] and K = rsa_pkcs1_okD [OF w(2)]
  show ?thesis
    unfolding pkcs1_sign_with_size_def
    by (intro rejects_later [OF yields_map_err [OF rng_okD(1) [OF r]]]
          rejects_later [OF yields_map_err [OF W(3) [OF k(1)]]] rejects_first rejects_map_err K(2) [OF _ k])
qed

text \<open>The three sizes in turn: the first two errors are recovered from, and the call that fits signs.\<close>

lemma pkcs1_sign_chain:
  fixes e :: "rustls_error \<Rightarrow> rustls_error" and t :: RsaHash and m :: bytes
  assumes r: "rng_ok r" and w: "rsa_pss_ok w R privof pubof" "rsa_pkcs1_ok w R privof skof vkof"
    and k: "rs_pub R der = Some p" "rs_size R p = Some n"
  defines "chain \<equiv> map_err_result e
             (or_else (or_else (pkcs1_sign_with_size r w t 256 der m)
               (\<lambda>_. pkcs1_sign_with_size r w t 384 der m))
               (\<lambda>_. pkcs1_sign_with_size r w t 512 der m))"
  shows "n \<in> {256, 384, 512} \<Longrightarrow> yields chain (rs_pkcs1 R t p m)"
    and "n \<notin> {256, 384, 512} \<Longrightarrow> rejects chain"
proof -
  have hit: "yields (pkcs1_sign_with_size r w t n der m) (rs_pkcs1 R t p m)"
    by (rule pkcs1_sign_with_size_yields [OF r w k])
  have miss: "rejects (pkcs1_sign_with_size r w t k der m)" if "k \<noteq> n" for k
    using that k(2) by (intro pkcs1_sign_with_size_rejects [OF r w k(1)]) simp
  show "rejects chain" if "n \<notin> {256, 384, 512}"
    unfolding chain_def using that by (intro rejects_map_err_result or_else_rejects_both miss) auto
  show "yields chain (rs_pkcs1 R t p m)" if n: "n \<in> {256, 384, 512}"
  proof -
    consider "n = 256" | "n = 384" | "n = 512" using n by blast
    then show ?thesis
    proof cases
      case 1
      then show ?thesis unfolding chain_def using hit
        by (intro yields_map_err_result or_else_yields) simp
    next
      case 2
      then show ?thesis unfolding chain_def using hit miss
        by (intro yields_map_err_result or_else_yields or_else_rejects [OF miss]) auto
    next
      case 3
      then show ?thesis unfolding chain_def using hit miss
        by (intro yields_map_err_result or_else_rejects [OF or_else_rejects_both [OF miss miss]]) auto
    qed
  qed
qed

section \<open>PSS signing\<close>

lemma rsa_pss_tail:
  assumes h: "shas_ok h D" and w: "rsa_pss_ok w R privof pubof"
    and k: "privof k der" "rs_pub R der = Some p" "rs_size R p = Some n" and n: "n \<le> 512"
  shows "yields (and_then (rsa_digest t h m) (\<lambda>digest.
           and_then (map_err e (rsa_pss_sign w k digest (zeros 512) (pss_hash w t) (pss_mgf w t) rng))
              (\<lambda>(sig_buf, sig_len). slice_to sig_buf sig_len)))
           (\<lambda>sig. rs_pss R t p (D t m) sig \<and> length sig = n)"
  by (rule yields_and_then [OF rsa_digest_yields [OF h]], hypsubst,
      rule yields_and_then [OF yields_map_err [OF rsa_pss_okD(7) [OF w k]]])
     (auto simp: n intro!: yields_ok)

section \<open>The six schemes together\<close>

fun rsa_pss_hash_of :: "SignatureScheme \<Rightarrow> RsaHash option" where
  "rsa_pss_hash_of RSA_PSS_SHA256 = Some RsaSha256"
| "rsa_pss_hash_of RSA_PSS_SHA384 = Some RsaSha384"
| "rsa_pss_hash_of RSA_PSS_SHA512 = Some RsaSha512"
| "rsa_pss_hash_of _ = None"

fun rsa_pkcs1_hash_of :: "SignatureScheme \<Rightarrow> RsaHash option" where
  "rsa_pkcs1_hash_of RSA_PKCS1_SHA256 = Some RsaSha256"
| "rsa_pkcs1_hash_of RSA_PKCS1_SHA384 = Some RsaSha384"
| "rsa_pkcs1_hash_of RSA_PKCS1_SHA512 = Some RsaSha512"
| "rsa_pkcs1_hash_of _ = None"

text \<open>The genuine signatures of a scheme, and the verification function of a scheme.\<close>

definition rsa_valid ::
    "rsa_scheme \<Rightarrow> (RsaHash \<Rightarrow> bytes \<Rightarrow> bytes) \<Rightarrow> SignatureScheme \<Rightarrow> bytes \<Rightarrow> bytes \<Rightarrow> bytes \<Rightarrow> bool" where
  "rsa_valid R D sch p m sig \<longleftrightarrow>
     (case rsa_pss_hash_of sch of Some t \<Rightarrow> rsa_pss_valid R D t p m sig
      | None \<Rightarrow> (case rsa_pkcs1_hash_of sch of Some t \<Rightarrow> rsa_pkcs1_valid R t p m sig | None \<Rightarrow> False))"

fun rsa_verify :: "'s wolf_shas \<Rightarrow> 's wolf_rsa \<Rightarrow> SignatureScheme \<Rightarrow> bytes \<Rightarrow> bytes \<Rightarrow> bytes \<Rightarrow>
    ('s, InvalidSignature, unit) rust" where
  "rsa_verify h w RSA_PSS_SHA256 p m sig = rsa_pss_sha256_verify_signature h w p m sig"
| "rsa_verify h w RSA_PSS_SHA384 p m sig = rsa_pss_sha384_verify_signature h w p m sig"
| "rsa_verify h w RSA_PSS_SHA512 p m sig = rsa_pss_sha512_verify_signature h w p m sig"
| "rsa_verify h w RSA_PKCS1_SHA256 p m sig = rsa_pkcs1_sha256_verify_signature w p m sig"
| "rsa_verify h w RSA_PKCS1_SHA384 p m sig = rsa_pkcs1_sha384_verify_signature w p m sig"
| "rsa_verify h w RSA_PKCS1_SHA512 p m sig = rsa_pkcs1_sha512_verify_signature w p m sig"
| "rsa_verify h w _ p m sig = err InvalidSignature"

definition rsa_libs_ok ::
    "'s wolf_rng \<Rightarrow> 's wolf_shas \<Rightarrow> 's wolf_rsa \<Rightarrow> rsa_scheme \<Rightarrow> (RsaHash \<Rightarrow> bytes \<Rightarrow> bytes) \<Rightarrow> bool" where
  "rsa_libs_ok r h w R D \<longleftrightarrow> rng_ok r \<and> shas_ok h D
     \<and> (\<exists>privof pubof skof vkof. rsa_pss_ok w R privof pubof \<and> rsa_pkcs1_ok w R privof skof vkof)"

lemma rsa_libs_okE:
  assumes "rsa_libs_ok r h w R D"
  obtains privof pubof skof vkof where "rng_ok r" "shas_ok h D" "rsa_pss_ok w R privof pubof"
    "rsa_pkcs1_ok w R privof skof vkof" "rsa_scheme_ok R"
  using assms rsa_pss_okD(1) unfolding rsa_libs_ok_def by blast

text \<open>A signer with a private key of 2048, 3072 or 4096 bits whose public key is \<open>p\<close>.\<close>

definition rsa_pair :: "rsa_scheme \<Rightarrow> RsaSigner \<Rightarrow> bytes \<Rightarrow> bool" where
  "rsa_pair R k p \<longleftrightarrow> rs_pub R (rsg_der_bytes k) = Some p
     \<and> (\<exists>n \<in> {256, 384, 512}. rs_size R p = Some n) \<and> rsg_scheme k \<in> set RSA_SCHEMES"

lemma rsa_pss_sign_yields:
  assumes ok: "rsa_libs_ok r h w R D" and t: "rsa_pss_hash_of (rsg_scheme k) = Some t"
    and k: "rs_pub R (rsg_der_bytes k) = Some p" "rs_size R p = Some n" "n \<le> 512"
  shows "yields (rsa_sign r h w k m) (\<lambda>sig. rs_pss R t p (D t m) sig \<and> length sig = n)"
proof -
  obtain privof pubof skof vkof where L: "rng_ok r" "shas_ok h D" "rsa_pss_ok w R privof pubof"
    using rsa_libs_okE [OF ok] by metis
  note W = rsa_pss_okD [OF L(3)]
  note tail = rsa_pss_tail [OF L(2,3) _ k]
  have arms: "\<And>e. privof key (rsg_der_bytes k) \<Longrightarrow>
      yields (and_then (sha256_digest h m) (\<lambda>digest. and_then (map_err e (rsa_pss_sign w key digest (zeros 512)
          (rsa_HASH_TYPE_SHA256 w) (rsa_MGF1SHA256 w) rng)) (\<lambda>(sig_buf, sig_len). slice_to sig_buf sig_len)))
        (\<lambda>sig. rs_pss R RsaSha256 p (D RsaSha256 m) sig \<and> length sig = n)"
    "\<And>e. privof key (rsg_der_bytes k) \<Longrightarrow>
      yields (and_then (sha384_digest h m) (\<lambda>digest. and_then (map_err e (rsa_pss_sign w key digest (zeros 512)
          (rsa_HASH_TYPE_SHA384 w) (rsa_MGF1SHA384 w) rng)) (\<lambda>(sig_buf, sig_len). slice_to sig_buf sig_len)))
        (\<lambda>sig. rs_pss R RsaSha384 p (D RsaSha384 m) sig \<and> length sig = n)"
    "\<And>e. privof key (rsg_der_bytes k) \<Longrightarrow>
      yields (and_then (sha512_digest h m) (\<lambda>digest. and_then (map_err e (rsa_pss_sign w key digest (zeros 512)
          (rsa_HASH_TYPE_SHA512 w) (rsa_MGF1SHA512 w) rng)) (\<lambda>(sig_buf, sig_len). slice_to sig_buf sig_len)))
        (\<lambda>sig. rs_pss R RsaSha512 p (D RsaSha512 m) sig \<and> length sig = n)" for key rng
    using tail [of key RsaSha256] tail [of key RsaSha384] tail [of key RsaSha512] by simp_all
  note start = yields_and_then [OF yields_map_err [OF W(3) [OF k(1)]]]
    and rng = yields_and_then [OF yields_map_err [OF rng_okD(1) [OF L(1)]]]
    and set_rng = yields_and_then [OF yields_map_err [OF W(6)]]
  show ?thesis
    using t
    by (cases "rsg_scheme k")
       (simp_all add: rsa_sign_def parse_private_key_def MAX_RSA_SIG_SIZE_def Let_def,
        (rule start, rule rng, rule set_rng, assumption, hypsubst, erule arms)+)
qed

lemma rsa_pkcs1_sign_yields:
  assumes ok: "rsa_libs_ok r h w R D" and t: "rsa_pkcs1_hash_of (rsg_scheme k) = Some t"
    and k: "rs_pub R (rsg_der_bytes k) = Some p" "rs_size R p = Some n"
  shows "n \<in> {256, 384, 512} \<Longrightarrow> yields (rsa_sign r h w k m) (rs_pkcs1 R t p m)"
    and "n \<notin> {256, 384, 512} \<Longrightarrow> rejects (rsa_sign r h w k m)"
proof -
  obtain privof pubof skof vkof where L: "rng_ok r" "rsa_pss_ok w R privof pubof"
    "rsa_pkcs1_ok w R privof skof vkof"
    using rsa_libs_okE [OF ok] by metis
  note chain = pkcs1_sign_chain [OF L k]
  show "yields (rsa_sign r h w k m) (rs_pkcs1 R t p m)" if "n \<in> {256, 384, 512}"
    using t by (cases "rsg_scheme k") (auto simp: rsa_sign_def Let_def intro!: chain(1) [OF that])
  show "rejects (rsa_sign r h w k m)" if "n \<notin> {256, 384, 512}"
    using t by (cases "rsg_scheme k") (auto simp: rsa_sign_def Let_def intro!: chain(2) [OF that])
qed

lemma rsa_scheme_cases:
  assumes "sch \<in> set RSA_SCHEMES"
  shows "(\<exists>t. rsa_pss_hash_of sch = Some t \<and> rsa_pkcs1_hash_of sch = None) \<or>
         (\<exists>t. rsa_pkcs1_hash_of sch = Some t \<and> rsa_pss_hash_of sch = None)"
  using assms by (auto simp: RSA_SCHEMES_def)

lemma rsa_sign_valid:
  assumes ok: "rsa_libs_ok r h w R D" and k: "rsa_pair R k p"
  shows "yields (rsa_sign r h w k m) (rsa_valid R D (rsg_scheme k) p m)"
proof -
  obtain n where K: "rs_pub R (rsg_der_bytes k) = Some p" "rs_size R p = Some n" "n \<in> {256, 384, 512}"
    "rsg_scheme k \<in> set RSA_SCHEMES" using k by (auto simp: rsa_pair_def)
  have R: "rsa_scheme_ok R" using rsa_libs_okE [OF ok] by metis
  from rsa_scheme_cases [OF K(4)] show ?thesis
  proof (elim disjE exE conjE)
    fix t assume t: "rsa_pss_hash_of (rsg_scheme k) = Some t"
    have "n \<le> 512" using K(3) by auto
    from rsa_pss_sign_yields [OF ok t K(1,2) this] show ?thesis
      by (rule yields_weaken) (use K(3) in \<open>auto simp: rsa_valid_def t rsa_pss_valid_def\<close>)
  next
    fix t assume t: "rsa_pkcs1_hash_of (rsg_scheme k) = Some t" "rsa_pss_hash_of (rsg_scheme k) = None"
    from rsa_pkcs1_sign_yields(1) [OF ok t(1) K(1,2,3)] show ?thesis
      by (rule yields_weaken)
         (use K(2,3) rsa_schemeD(2) [OF R] in \<open>fastforce simp: rsa_valid_def t rsa_pkcs1_valid_def\<close>)
  qed
qed

lemmas rsa_verify_defs = rsa_pkcs1_sha256_verify_signature_def rsa_pkcs1_sha384_verify_signature_def
  rsa_pkcs1_sha512_verify_signature_def

lemma rsa_verify_pss: "rsa_pss_hash_of sch = Some t \<Longrightarrow> rsa_verify h w sch p m sig = rsa_pss_verify h w t p m sig"
  by (cases sch) auto

lemma rsa_verify_pkcs1: "rsa_pkcs1_hash_of sch = Some t \<Longrightarrow> rsa_verify h w sch p m sig = pkcs1_verify w t p m sig"
  by (cases sch) (auto simp: rsa_verify_defs)

lemma rsa_verify_other:
  "rsa_pss_hash_of sch = None \<Longrightarrow> rsa_pkcs1_hash_of sch = None \<Longrightarrow> rsa_verify h w sch p m sig = err InvalidSignature"
  by (cases sch) auto

lemma rsa_verify_accepts:
  assumes ok: "rsa_libs_ok r h w R D" and v: "rsa_valid R D sch p m sig"
  shows "yields (rsa_verify h w sch p m sig) (\<lambda>_. True)"
proof -
  obtain privof pubof skof vkof where L: "shas_ok h D" "rsa_pss_ok w R privof pubof"
    "rsa_pkcs1_ok w R privof skof vkof" "rsa_scheme_ok R"
    using rsa_libs_okE [OF ok] by metis
  show ?thesis
    using v rsa_pss_verify_accepts [OF L(1,2)] pkcs1_verify_accepts [OF L(4,3)]
    by (auto simp: rsa_valid_def rsa_verify_pss rsa_verify_pkcs1 split: option.splits)
qed

lemma rsa_verify_rejects:
  assumes ok: "rsa_libs_ok r h w R D" and v: "\<not> rsa_valid R D sch p m sig"
  shows "rejects (rsa_verify h w sch p m sig)"
proof -
  obtain privof pubof skof vkof where L: "shas_ok h D" "rsa_pss_ok w R privof pubof"
    "rsa_pkcs1_ok w R privof skof vkof"
    using rsa_libs_okE [OF ok] by metis
  show ?thesis
    using v rsa_pss_verify_rejects [OF L(1,2)] pkcs1_verify_rejects [OF L(3)]
    by (auto simp: rsa_valid_def rsa_verify_pss rsa_verify_pkcs1 rsa_verify_other split: option.splits)
qed

interpretation rsa_ver: signature_verifier
  "\<lambda>(sch, r, h, w, R, D). rsa_libs_ok r h w R D" "\<lambda>(sch, r, h, w, R, D). rsa_verify h w sch"
  "\<lambda>(sch, r, h, w, R, D). rsa_valid R D sch"
  by unfold_locales (auto intro: rsa_verify_accepts rsa_verify_rejects)

interpretation rsa_sig: signature_scheme
  "\<lambda>(sch, r, h, w, R, D). rsa_libs_ok r h w R D" "\<lambda>(sch, r, h, w, R, D). rsa_verify h w sch"
  "\<lambda>(sch, r, h, w, R, D). rsa_valid R D sch"
  "\<lambda>(sch, r, h, w, R, D). rsa_sign r h w" "\<lambda>(sch, r, h, w, R, D) k p. rsa_pair R k p \<and> rsg_scheme k = sch"
  by unfold_locales (auto intro: rsa_sign_valid)

section \<open>Loading\<close>

fun rsa_der :: "PrivateKeyDer \<Rightarrow> bytes option" where
  "rsa_der (Pkcs8 der) = Some der"
| "rsa_der (Pkcs1 der) = Some der"
| "rsa_der _ = None"

lemma rsa_try_from_yields:
  assumes w: "rsa_pss_ok w R privof pubof" and "rsa_der value = Some der" and "rs_pub R der = Some p"
  shows "yields (rsa_try_from w value) (\<lambda>k. k = \<lparr>rpk_der_bytes = der, rpk_algo = AlgRSA\<rparr>)"
  using assms(2) yields_map_err [OF rsa_pss_okD(3) [OF w assms(3)]]
  by (cases "value") (auto simp: rsa_try_from_def parse_private_key_def intro!: yields_and_then yields_ok)

lemma rsa_try_from_rejects:
  assumes w: "rsa_pss_ok w R privof pubof" and "\<And>der. rsa_der value = Some der \<Longrightarrow> rs_pub R der = None"
  shows "rejects (rsa_try_from w value)"
  using assms(2)
  by (cases "value") (auto simp: rsa_try_from_def parse_private_key_def
      intro!: rejects_first rejects_map_err rsa_pss_okD(2) [OF w])

section \<open>A concrete instance\<close>

definition demo_shas :: "'s wolf_shas" where
  "demo_shas = \<lparr>wolf_sha256 = demo_sha 32, wolf_sha384 = demo_sha 48, wolf_sha512 = demo_sha 64\<rparr>"

fun demo_D :: "RsaHash \<Rightarrow> bytes \<Rightarrow> bytes" where
  "demo_D RsaSha256 = demo_digest 32" | "demo_D RsaSha384 = demo_digest 48" | "demo_D RsaSha512 = demo_digest 64"

lemma demo_shas_ok: "shas_ok demo_shas demo_D"
  unfolding shas_ok_def
proof
  fix t show "\<exists>fed. sha_ok (sha_for demo_shas t) fed (demo_D t)"
    by (cases t) (auto simp: demo_shas_def intro: demo_sha_ok)
qed

lemma demo_rsa_libs_ok: "rsa_libs_ok demo_rng demo_shas demo_rsa demo_rsa_scheme demo_D"
  unfolding rsa_libs_ok_def using demo_rng_ok demo_shas_ok demo_rsa_pss_ok demo_rsa_pkcs1_ok by blast

section \<open>Properties\<close>

text \<open>C25. RSA PKCS#1 v1.5 verification is exact.  Trying the sizes 256, 384 and 512 in turn accepts
  a signature exactly if it is a genuine signature of the message under the key and has one of
  these sizes; a key or signature of another size, bytes that are no key, and a signature that
  is not genuine are answered with an error, and nothing panics.\<close>

theorem pkcs1_verify_exact:
  assumes "rsa_libs_ok r h w R D"
  shows "((\<exists>s'. pkcs1_verify w t p m sig s = (Ok (), s'))
           \<longleftrightarrow> rs_pkcs1 R t p m sig \<and> length sig \<in> {256, 384, 512})
         \<and> no_panic (pkcs1_verify w t p m sig)"
proof -
  obtain sch where sch: "rsa_pkcs1_hash_of sch = Some t" "rsa_pss_hash_of sch = None"
  proof (cases t)
    case RsaSha256 then show thesis by (intro that [of RSA_PKCS1_SHA256]) simp_all
  next
    case RsaSha384 then show thesis by (intro that [of RSA_PKCS1_SHA384]) simp_all
  next
    case RsaSha512 then show thesis by (intro that [of RSA_PKCS1_SHA512]) simp_all
  qed
  show ?thesis
    using rsa_ver.verify_exact [of "(sch, r, h, w, R, D)" p m sig s] assms
    by (simp add: rsa_verify_pkcs1 [OF sch(1)] rsa_valid_def sch rsa_pkcs1_valid_def)
qed

theorem pkcs1_verify_exact_witness:
  "(\<exists>s'. pkcs1_verify (demo_rsa :: unit wolf_rsa) RsaSha256 [10, 3] [7] (demo_rsa_sig 22 [10, 3] [7]) () = (Ok (), s'))
   \<and> \<not> (\<exists>s'. pkcs1_verify (demo_rsa :: unit wolf_rsa) RsaSha256 [10, 1] [7] (demo_rsa_sig 22 [10, 1] [7]) () = (Ok (), s'))"
  using pkcs1_verify_exact [OF demo_rsa_libs_ok, of RsaSha256 "[10, 3]" "[7]" "demo_rsa_sig 22 [10, 3] [7]" "()"]
    pkcs1_verify_exact [OF demo_rsa_libs_ok, of RsaSha256 "[10, 1]" "[7]" "demo_rsa_sig 22 [10, 1] [7]" "()"]
  by (simp add: demo_rsa_scheme_def length_demo_rsa_sig [of "[10, 3]" 384] length_demo_rsa_sig [of "[10, 1]" 128])

text \<open>RSA-PSS verification is exact.  Each of the three verifiers hashes the message with its
  own hash and accepts exactly the genuine signatures of that digest under the key, for keys of
  up to 4096 bits; everything else is answered with an error, and nothing panics.\<close>

theorem pss_verify_exact:
  assumes "rsa_libs_ok r h w R D"
  shows "((\<exists>s'. rsa_pss_verify h w t p m sig s = (Ok (), s'))
           \<longleftrightarrow> rs_pss R t p (D t m) sig \<and> length sig \<le> 512)
         \<and> no_panic (rsa_pss_verify h w t p m sig)"
proof -
  obtain sch where sch: "rsa_pss_hash_of sch = Some t"
  proof (cases t)
    case RsaSha256 then show thesis by (intro that [of RSA_PSS_SHA256]) simp_all
  next
    case RsaSha384 then show thesis by (intro that [of RSA_PSS_SHA384]) simp_all
  next
    case RsaSha512 then show thesis by (intro that [of RSA_PSS_SHA512]) simp_all
  qed
  show ?thesis
    using rsa_ver.verify_exact [of "(sch, r, h, w, R, D)" p m sig s] assms
    by (simp add: rsa_verify_pss [OF sch] rsa_valid_def sch rsa_pss_valid_def)
qed

theorem pss_verify_exact_witness:
  "\<exists>s'. rsa_pss_verify (demo_shas :: unit wolf_shas) demo_rsa RsaSha384 [10, 2] [7]
     (demo_rsa_sig 7 [10, 2] (demo_D RsaSha384 [7])) () = (Ok (), s')"
  using pss_verify_exact [OF demo_rsa_libs_ok, of RsaSha384 "[10, 2]" "[7]"
      "demo_rsa_sig 7 [10, 2] (demo_D RsaSha384 [7])" "()"]
  by (simp add: demo_rsa_scheme_def length_demo_rsa_sig [of "[10, 2]" 256])

text \<open>C26. RSA signatures verify.  With a private key of 2048, 3072 or 4096 bits, each of the six
  schemes signs every message (for PKCS#1 v1.5 whichever of the three sizes fits), and the
  verification function of the scheme accepts the signature under the public key.\<close>

theorem rsa_signatures_verify:
  assumes "rsa_libs_ok r h w R D" and "rsa_pair R k p"
  shows "yields (rsa_sign r h w k m) (\<lambda>sig. yields (rsa_verify h w (rsa_signer_scheme k) p m sig) (\<lambda>_. True))"
  using rsa_sig.signatures_verify [of "(rsg_scheme k, r, h, w, R, D)" k p m] assms
  by (simp add: rsa_signer_scheme_def)

theorem rsa_signatures_verify_witness:
  "\<exists>sig. rsa_sign demo_rng demo_shas demo_rsa \<lparr>rsg_der_bytes = [9, 4], rsg_scheme = RSA_PKCS1_SHA512\<rparr> [7] () = (Ok sig, ())
     \<and> yields (rsa_verify (demo_shas :: unit wolf_shas) demo_rsa RSA_PKCS1_SHA512 [10, 4] [7] sig) (\<lambda>_. True)"
proof -
  have "rsa_pair demo_rsa_scheme \<lparr>rsg_der_bytes = [9, 4], rsg_scheme = RSA_PKCS1_SHA512\<rparr> [10, 4]"
    by (simp add: rsa_pair_def demo_rsa_scheme_def RSA_SCHEMES_def)
  from yields_unit [OF rsa_signatures_verify [OF demo_rsa_libs_ok this, of "[7]"]]
  show ?thesis by (simp add: rsa_signer_scheme_def)
qed

text \<open>Loading RSA keys and choosing a scheme.  A key loads exactly if it comes as PKCS#1 or
  PKCS#8 and decodes; the scheme chosen is the first of the provider's list (PSS before
  PKCS#1 v1.5, SHA-256 first) that the peer offers, and there is none exactly if the peer
  offers none of the list.\<close>

theorem rsa_keys_load_and_choose:
  assumes "rsa_libs_ok r h w R D"
  shows "(case rsa_der key of
            Some der \<Rightarrow> if rs_pub R der = None then rejects (rsa_try_from w key)
                        else yields (rsa_try_from w key) (\<lambda>k. rpk_der_bytes k = der)
          | None \<Rightarrow> rejects (rsa_try_from w key))
         \<and> rsa_choose_scheme k offered =
             map_option (\<lambda>sch. \<lparr>rsg_der_bytes = rpk_der_bytes k, rsg_scheme = sch\<rparr>)
               (List.find (\<lambda>sch. sch \<in> set offered) RSA_SCHEMES)
         \<and> (rsa_choose_scheme k offered = None \<longleftrightarrow> set RSA_SCHEMES \<inter> set offered = {})"
proof (intro conjI)
  obtain privof pubof where w: "rsa_pss_ok w R privof pubof"
    using rsa_libs_okE [OF assms] by metis
  show "case rsa_der key of
            Some der \<Rightarrow> if rs_pub R der = None then rejects (rsa_try_from w key)
                        else yields (rsa_try_from w key) (\<lambda>k. rpk_der_bytes k = der)
          | None \<Rightarrow> rejects (rsa_try_from w key)"
    by (auto split: option.split intro!: rsa_try_from_rejects [OF w]
          yields_weaken [OF rsa_try_from_yields [OF w]])
  show "rsa_choose_scheme k offered =
             map_option (\<lambda>sch. \<lparr>rsg_der_bytes = rpk_der_bytes k, rsg_scheme = sch\<rparr>)
               (List.find (\<lambda>sch. sch \<in> set offered) RSA_SCHEMES)"
    by (simp add: rsa_choose_scheme_def find_map_if)
  then show "rsa_choose_scheme k offered = None \<longleftrightarrow> set RSA_SCHEMES \<inter> set offered = {}"
    by (auto simp: find_None_iff)
qed

theorem rsa_keys_load_and_choose_witness:
  "(\<exists>k. rsa_try_from (demo_rsa :: unit wolf_rsa) (Pkcs1 [9, 2]) () = (Ok k, ()) \<and> rpk_der_bytes k = [9, 2])
   \<and> rsa_choose_scheme \<lparr>rpk_der_bytes = [9, 2], rpk_algo = AlgRSA\<rparr> [RSA_PKCS1_SHA256, RSA_PSS_SHA512]
       = Some \<lparr>rsg_der_bytes = [9, 2], rsg_scheme = RSA_PSS_SHA512\<rparr>"
  using rsa_keys_load_and_choose [OF demo_rsa_libs_ok, where key = "Pkcs1 [9, 2]"
      and k = "\<lparr>rpk_der_bytes = [9, 2], rpk_algo = AlgRSA\<rparr>" and offered = "[RSA_PKCS1_SHA256, RSA_PSS_SHA512]"]
  by (auto simp: demo_rsa_scheme_def RSA_SCHEMES_def dest!: yields_unit)

end
