(* ===== verification/Verify.thy ===== *)
theory Verify
  imports SignEcdsa SignEddsa SignRsa
begin

text \<open>
  \<open>src/verify.rs\<close>: the table of verification algorithms.  A \<open>dyn SignatureVerificationAlgorithm\<close> is
  one of the provider's verifiers, and its methods dispatch on it.
\<close>

datatype VerificationAlgorithm =
    RsaPssSha256Verify | RsaPssSha384Verify | RsaPssSha512Verify
  | RsaPkcs1Sha256Verify | RsaPkcs1Sha384Verify | RsaPkcs1Sha512Verify
  | EcdsaVerify EcdsaVerifier
  | Ed25519Verify

definition ALG_P256_SHA256 :: VerificationAlgorithm where "ALG_P256_SHA256 = EcdsaVerify P256_SHA256"
definition ALG_P384_SHA384 :: VerificationAlgorithm where "ALG_P384_SHA384 = EcdsaVerify P384_SHA384"
definition ALG_P521_SHA512 :: VerificationAlgorithm where "ALG_P521_SHA512 = EcdsaVerify P521_SHA512"

record WebPkiSupportedAlgorithms =
  wp_all :: "VerificationAlgorithm list"
  wp_mapping :: "(SignatureScheme \<times> VerificationAlgorithm list) list"

definition ALGORITHMS :: WebPkiSupportedAlgorithms where
  "ALGORITHMS = \<lparr>
     wp_all = [
       RsaPssSha256Verify,
       RsaPssSha384Verify,
       RsaPkcs1Sha256Verify,
       RsaPkcs1Sha384Verify,
       ALG_P256_SHA256,
       ALG_P384_SHA384,
       ALG_P521_SHA512,
       Ed25519Verify,
       RsaPssSha512Verify,
       RsaPkcs1Sha512Verify],
     wp_mapping = [
       (RSA_PSS_SHA256, [RsaPssSha256Verify]),
       (RSA_PSS_SHA384, [RsaPssSha384Verify]),
       (RSA_PSS_SHA512, [RsaPssSha512Verify]),
       (RSA_PKCS1_SHA256, [RsaPkcs1Sha256Verify]),
       (RSA_PKCS1_SHA384, [RsaPkcs1Sha384Verify]),
       (RSA_PKCS1_SHA512, [RsaPkcs1Sha512Verify]),
       (ECDSA_NISTP256_SHA256, [ALG_P256_SHA256]),
       (ECDSA_NISTP384_SHA384, [ALG_P384_SHA384]),
       (ECDSA_NISTP521_SHA512, [ALG_P521_SHA512]),
       (ED25519, [Ed25519Verify])]\<rparr>"

text \<open>The methods of the trait object.\<close>

fun alg_public_key_alg_id :: "VerificationAlgorithm \<Rightarrow> ('s, 'e, AlgorithmIdentifier) rust" where
  "alg_public_key_alg_id RsaPssSha256Verify = ok rsa_pss_sha256_public_key_alg_id"
| "alg_public_key_alg_id RsaPssSha384Verify = ok rsa_pss_sha384_public_key_alg_id"
| "alg_public_key_alg_id RsaPssSha512Verify = ok rsa_pss_sha512_public_key_alg_id"
| "alg_public_key_alg_id RsaPkcs1Sha256Verify = ok rsa_pkcs1_sha256_public_key_alg_id"
| "alg_public_key_alg_id RsaPkcs1Sha384Verify = ok rsa_pkcs1_sha384_public_key_alg_id"
| "alg_public_key_alg_id RsaPkcs1Sha512Verify = ok rsa_pkcs1_sha512_public_key_alg_id"
| "alg_public_key_alg_id (EcdsaVerify v) = ecdsa_public_key_alg_id v"
| "alg_public_key_alg_id Ed25519Verify = ok ed25519_public_key_alg_id"

fun alg_signature_alg_id :: "VerificationAlgorithm \<Rightarrow> ('s, 'e, AlgorithmIdentifier) rust" where
  "alg_signature_alg_id RsaPssSha256Verify = ok rsa_pss_sha256_signature_alg_id"
| "alg_signature_alg_id RsaPssSha384Verify = ok rsa_pss_sha384_signature_alg_id"
| "alg_signature_alg_id RsaPssSha512Verify = ok rsa_pss_sha512_signature_alg_id"
| "alg_signature_alg_id RsaPkcs1Sha256Verify = ok rsa_pkcs1_sha256_signature_alg_id"
| "alg_signature_alg_id RsaPkcs1Sha384Verify = ok rsa_pkcs1_sha384_signature_alg_id"
| "alg_signature_alg_id RsaPkcs1Sha512Verify = ok rsa_pkcs1_sha512_signature_alg_id"
| "alg_signature_alg_id (EcdsaVerify v) = ecdsa_signature_alg_id v"
| "alg_signature_alg_id Ed25519Verify = ok ed25519_signature_alg_id"

text \<open>The parts of the library that verification uses.\<close>

record 's wolf_sigs =
  ws_ecc :: "'s wolf_ecc"
  ws_ecdsas :: "'s wolf_ecdsas"
  ws_ed25519 :: "'s wolf_ed25519"
  ws_shas :: "'s wolf_shas"
  ws_rsa :: "'s wolf_rsa"

fun alg_verify_signature :: "'s wolf_sigs \<Rightarrow> VerificationAlgorithm \<Rightarrow> bytes \<Rightarrow> bytes \<Rightarrow> bytes \<Rightarrow>
    ('s, InvalidSignature, unit) rust" where
  "alg_verify_signature w RsaPssSha256Verify = rsa_pss_sha256_verify_signature (ws_shas w) (ws_rsa w)"
| "alg_verify_signature w RsaPssSha384Verify = rsa_pss_sha384_verify_signature (ws_shas w) (ws_rsa w)"
| "alg_verify_signature w RsaPssSha512Verify = rsa_pss_sha512_verify_signature (ws_shas w) (ws_rsa w)"
| "alg_verify_signature w RsaPkcs1Sha256Verify = rsa_pkcs1_sha256_verify_signature (ws_rsa w)"
| "alg_verify_signature w RsaPkcs1Sha384Verify = rsa_pkcs1_sha384_verify_signature (ws_rsa w)"
| "alg_verify_signature w RsaPkcs1Sha512Verify = rsa_pkcs1_sha512_verify_signature (ws_rsa w)"
| "alg_verify_signature w (EcdsaVerify v) = ecdsa_verify_signature (ws_ecc w) (ws_ecdsas w) v"
| "alg_verify_signature w Ed25519Verify = ed25519_verify_signature (ws_ed25519 w)"

section \<open>The table\<close>

lemmas ALGORITHMS_defs = ALGORITHMS_def ALG_P256_SHA256_def ALG_P384_SHA384_def ALG_P521_SHA512_def

lemmas alg_id_defs = rsa_pss_sha256_signature_alg_id_def rsa_pss_sha384_signature_alg_id_def
  rsa_pss_sha512_signature_alg_id_def rsa_pkcs1_sha256_signature_alg_id_def
  rsa_pkcs1_sha384_signature_alg_id_def rsa_pkcs1_sha512_signature_alg_id_def
  rsa_pss_sha256_public_key_alg_id_def rsa_pss_sha384_public_key_alg_id_def
  rsa_pss_sha512_public_key_alg_id_def rsa_pkcs1_sha256_public_key_alg_id_def
  rsa_pkcs1_sha384_public_key_alg_id_def rsa_pkcs1_sha512_public_key_alg_id_def
  ecdsa_signature_alg_id_def ecdsa_public_key_alg_id_def ed25519_signature_alg_id_def
  ed25519_public_key_alg_id_def ecdsa_verifiers

text \<open>The algorithms that the table maps a scheme to.\<close>

definition mapped_algorithms :: "SignatureScheme \<Rightarrow> VerificationAlgorithm list" where
  "mapped_algorithms sch =
     (case map_of (wp_mapping ALGORITHMS) sch of Some algs \<Rightarrow> algs | None \<Rightarrow> [])"

definition provider_schemes :: "SignatureScheme list" where
  "provider_schemes = RSA_SCHEMES
     @ [ECDSA_NISTP256_SHA256, ECDSA_NISTP384_SHA384, ECDSA_NISTP521_SHA512] @ ALL_EDDSA_SCHEMES"

text \<open>The pair of identifiers by which a certificate's key and signature select an algorithm.\<close>

definition alg_ids :: "VerificationAlgorithm \<Rightarrow> (AlgorithmIdentifier \<times> AlgorithmIdentifier) option" where
  "alg_ids a = (case (fst (alg_public_key_alg_id a ()), fst (alg_signature_alg_id a ())) of
      (Ok p, Ok s) \<Rightarrow> Some (p, s) :: (AlgorithmIdentifier \<times> AlgorithmIdentifier) option
    | (Err (e :: unit), _) \<Rightarrow> None | (_, Err (e :: unit)) \<Rightarrow> None | _ \<Rightarrow> None)"

text \<open>The entries of the table, their identifiers included.\<close>

lemma algorithms_table:
  "set (map fst (wp_mapping ALGORITHMS)) = set provider_schemes
   \<and> distinct (map fst (wp_mapping ALGORITHMS))
   \<and> distinct (wp_all ALGORITHMS)
   \<and> set (concat (map snd (wp_mapping ALGORITHMS))) = set (wp_all ALGORITHMS)
   \<and> list_all (\<lambda>sch. length (mapped_algorithms sch) = 1) provider_schemes
   \<and> None \<notin> set (map alg_ids (wp_all ALGORITHMS))
   \<and> distinct (map alg_ids (wp_all ALGORITHMS))"
  by (auto simp: ALGORITHMS_defs provider_schemes_def RSA_SCHEMES_def ALL_EDDSA_SCHEMES_def
      mapped_algorithms_def alg_ids_def alg_id_defs P256_SHA256_def P384_SHA384_def P521_SHA512_def)

section \<open>Verification through the table\<close>

text \<open>The specifications of all schemes, and what the library promises of them.\<close>

record sig_spec =
  sg_dec :: der_decoder
  sg_ecdsa :: ecdsa_schemes
  sg_ed :: ed_scheme
  sg_rsa :: rsa_scheme
  sg_digest :: "RsaHash \<Rightarrow> bytes \<Rightarrow> bytes"

definition sigs_ok :: "'s wolf_rng \<Rightarrow> 's wolf_sigs \<Rightarrow> sig_spec \<Rightarrow> bool" where
  "sigs_ok r w G \<longleftrightarrow> ecdsas_ok (ws_ecc w) (ws_ecdsas w) (sg_dec G) (sg_ecdsa G)
     \<and> (\<exists>seedof keyof pubof. ed25519_ok (ws_ed25519 w) (sg_ed G) seedof keyof pubof)
     \<and> rsa_libs_ok r (ws_shas w) (ws_rsa w) (sg_rsa G) (sg_digest G)"

lemma sigs_okE:
  assumes "sigs_ok r w G"
  obtains seedof keyof pubof where "ecdsas_ok (ws_ecc w) (ws_ecdsas w) (sg_dec G) (sg_ecdsa G)"
    "ed25519_ok (ws_ed25519 w) (sg_ed G) seedof keyof pubof"
    "rsa_libs_ok r (ws_shas w) (ws_rsa w) (sg_rsa G) (sg_digest G)"
  using assms unfolding sigs_ok_def by blast

text \<open>The genuine signatures of a scheme.\<close>

definition genuine :: "sig_spec \<Rightarrow> SignatureScheme \<Rightarrow> bytes \<Rightarrow> bytes \<Rightarrow> bytes \<Rightarrow> bool" where
  "genuine G sch p m sig \<longleftrightarrow>
     (case ecdsa_scheme_for (sg_ecdsa G) sch of
        Some E \<Rightarrow> ecdsa_valid (sg_dec G) E p m sig
      | None \<Rightarrow> if sch = ED25519 then eds_genuine (sg_ed G) p m sig
                else rsa_valid (sg_rsa G) (sg_digest G) sch p m sig)"

lemma genuine_simps:
  "ecdsa_scheme_for (sg_ecdsa G) sch = Some E \<Longrightarrow> genuine G sch p m sig \<longleftrightarrow> ecdsa_valid (sg_dec G) E p m sig"
  "genuine G ED25519 p m sig \<longleftrightarrow> eds_genuine (sg_ed G) p m sig"
  "sch \<in> set RSA_SCHEMES \<Longrightarrow> genuine G sch p m sig \<longleftrightarrow> rsa_valid (sg_rsa G) (sg_digest G) sch p m sig"
  by (auto simp: genuine_def RSA_SCHEMES_def)

text \<open>The algorithm of a scheme runs the verifier of the scheme.\<close>

lemma mapped_verify:
  "ecdsa_scheme_for S sch = Some E \<Longrightarrow> mapped_algorithms sch = [EcdsaVerify \<lparr>ev_scheme = sch\<rparr>]"
  "mapped_algorithms ED25519 = [Ed25519Verify]"
  "sch \<in> set RSA_SCHEMES \<Longrightarrow>
     alg_verify_signature w (hd (mapped_algorithms sch)) p m sig = rsa_verify (ws_shas w) (ws_rsa w) sch p m sig"
  "sch \<in> set RSA_SCHEMES \<Longrightarrow> \<exists>a. mapped_algorithms sch = [a]"
  by (auto simp: mapped_algorithms_def ALGORITHMS_defs P256_SHA256_def P384_SHA384_def
      P521_SHA512_def RSA_SCHEMES_def elim!: ecdsa_scheme_for_Some)

lemma provider_scheme_cases:
  assumes "sch \<in> set provider_schemes"
  shows "(\<exists>E. ecdsa_scheme_for S sch = Some E) \<or> sch = ED25519 \<or> sch \<in> set RSA_SCHEMES"
  using assms by (auto simp: provider_schemes_def ALL_EDDSA_SCHEMES_def)

lemma table_verifies:
  assumes ok: "sigs_ok r w G" and sch: "sch \<in> set provider_schemes"
  shows "genuine G sch p m sig \<Longrightarrow> yields (alg_verify_signature w (hd (mapped_algorithms sch)) p m sig) (\<lambda>_. True)"
    and "\<not> genuine G sch p m sig \<Longrightarrow> rejects (alg_verify_signature w (hd (mapped_algorithms sch)) p m sig)"
proof -
  obtain seedof keyof pubof where L: "ecdsas_ok (ws_ecc w) (ws_ecdsas w) (sg_dec G) (sg_ecdsa G)"
    "ed25519_ok (ws_ed25519 w) (sg_ed G) seedof keyof pubof"
    "rsa_libs_ok r (ws_shas w) (ws_rsa w) (sg_rsa G) (sg_digest G)"
    using sigs_okE [OF ok] by blast
  note cases = provider_scheme_cases [OF sch, of "sg_ecdsa G"]
  show "yields (alg_verify_signature w (hd (mapped_algorithms sch)) p m sig) (\<lambda>_. True)"
    if "genuine G sch p m sig"
    using cases
  proof (elim disjE exE)
    fix E assume E: "ecdsa_scheme_for (sg_ecdsa G) sch = Some E"
    then show ?thesis using that ecdsa_verify_accepts [OF L(1), of "\<lparr>ev_scheme = sch\<rparr>" E]
      by (simp add: mapped_verify(1) [OF E] genuine_simps)
  next
    assume "sch = ED25519"
    then show ?thesis using that ed25519_verify_accepts [OF L(2)] by (simp add: mapped_verify genuine_simps)
  next
    assume "sch \<in> set RSA_SCHEMES"
    then show ?thesis using that rsa_verify_accepts [OF L(3)]
      by (simp add: genuine_simps mapped_verify(3))
  qed
  show "rejects (alg_verify_signature w (hd (mapped_algorithms sch)) p m sig)"
    if "\<not> genuine G sch p m sig"
    using cases
  proof (elim disjE exE)
    fix E assume E: "ecdsa_scheme_for (sg_ecdsa G) sch = Some E"
    then show ?thesis using that ecdsa_verify_rejects [OF L(1), of "\<lparr>ev_scheme = sch\<rparr>" E]
      by (simp add: mapped_verify(1) [OF E] genuine_simps)
  next
    assume "sch = ED25519"
    then show ?thesis using that ed25519_verify_rejects [OF L(2)] by (simp add: mapped_verify genuine_simps)
  next
    assume "sch \<in> set RSA_SCHEMES"
    then show ?thesis using that rsa_verify_rejects [OF L(3)]
      by (simp add: genuine_simps mapped_verify(3))
  qed
qed

interpretation table: signature_verifier
  "\<lambda>(sch, r, w, G). sigs_ok r w G \<and> sch \<in> set provider_schemes"
  "\<lambda>(sch, r, w, G). alg_verify_signature w (hd (mapped_algorithms sch))"
  "\<lambda>(sch, r, w, G). genuine G sch"
  by unfold_locales (auto intro: table_verifies)


definition demo_sigs :: "'s wolf_sigs" where
  "demo_sigs = \<lparr>ws_ecc = demo_ecc, ws_ecdsas = demo_ecdsas, ws_ed25519 = demo_ed25519,
     ws_shas = demo_shas, ws_rsa = demo_rsa\<rparr>"

definition demo_sig_spec :: sig_spec where
  "demo_sig_spec = \<lparr>sg_dec = parse_ecdsa_der, sg_ecdsa = demo_ecdsa_schemes, sg_ed = demo_ed,
     sg_rsa = demo_rsa_scheme, sg_digest = demo_D\<rparr>"

lemma demo_sigs_ok: "sigs_ok demo_rng demo_sigs demo_sig_spec"
  using demo_ecdsas_ok demo_ed25519_ok demo_rsa_libs_ok
  by (auto simp: sigs_ok_def demo_sigs_def demo_sig_spec_def)


end
