(* ===== verification/WcError.thy ===== *)
theory WcError
  imports Prelude
begin

text \<open>
  \<open>src/error.rs\<close>: the provider's error type and the classification of wolfCrypt return codes.
  A return code is an \<open>i32\<close>, read with \<open>sint\<close>; a match on it tries its arms in order.
\<close>

datatype WCError =
    Success | Failure | Memory | InvalidArgument | Buffer | Authentication
  | RandomError | ASNParse | KeyError | NotAvailable

fun fmt_WCError :: "WCError \<Rightarrow> string" where
  "fmt_WCError Success = ''Operation successful''"
| "fmt_WCError Failure = ''Operation failed''"
| "fmt_WCError Memory = ''Memory allocation error''"
| "fmt_WCError InvalidArgument = ''Invalid argument or state''"
| "fmt_WCError Buffer = ''Buffer error''"
| "fmt_WCError Authentication = ''Authentication failed''"
| "fmt_WCError RandomError = ''Random number generation error''"
| "fmt_WCError ASNParse = ''ASN parsing error''"
| "fmt_WCError KeyError = ''Key-related error''"
| "fmt_WCError NotAvailable = ''Feature not available''"

type_synonym WCResult = "WCError + unit"

definition check_error :: "i32 \<Rightarrow> WCResult" where
  "check_error ret =
     (let r = sint ret in
      if r = 0 then Inr ()
      else if r = -1 then Inl Failure
      else if r = -125 then Inl Memory
      else if r = -173 then Inl InvalidArgument
      else if r = -132 then Inl Buffer
      else if -181 \<le> r \<and> r \<le> -180 \<or> r = -213 then Inl Authentication
      else if r = -199 \<or> r = -236 then Inl RandomError
      else if -162 \<le> r \<and> r \<le> -140 then Inl ASNParse
      else if r = -262 \<or> r = -216 then Inl KeyError
      else if r = -174 \<or> r = -271 then Inl NotAvailable
      else Inl Failure)"

definition check_if_zero :: "i32 \<Rightarrow> WCResult" where
  "check_if_zero ret = check_error ret"

definition check_if_one :: "i32 \<Rightarrow> WCResult" where
  "check_if_one stat =
     (if sint stat = 1 then Inr ()
      else if sint stat = 0 then Inl Failure
      else check_error stat)"

definition check_if_greater_than_zero :: "i32 \<Rightarrow> WCResult" where
  "check_if_greater_than_zero ret =
     (if sint ret > 0 then Inr ()
      else if sint ret = 0 then Inl Failure
      else check_error ret)"

section \<open>Lemmas\<close>

lemma check_error_Inr [simp]: "check_error r = Inr u \<longleftrightarrow> sint r = 0"
  by (simp add: check_error_def Let_def)

lemma check_error_zero [simp]: "check_error 0 = Inr ()"
  by (simp add: check_error_def)

lemma check_error_not_Success: "check_error r \<noteq> Inl Success"
  by (simp add: check_error_def Let_def)

lemmas check_defs = check_if_zero_def check_if_one_def check_if_greater_than_zero_def

lemma fmt_WCError_inject: "fmt_WCError a = fmt_WCError b \<longleftrightarrow> a = b"
  by (cases a; cases b) simp_all

text \<open>Categories other than \<open>Failure\<close> are reported for negative codes only, from \<open>MEMORY_E\<close> down to
  the last code the classification knows.\<close>

lemma specific_category_range: "check_error r = Inl c \<Longrightarrow> c \<noteq> Failure \<Longrightarrow> sint r \<in> {-271..-125}"
  by (auto simp: check_error_def Let_def split: if_splits)

text \<open>A code for each category.\<close>

fun sample_code :: "WCError \<Rightarrow> i32" where
  "sample_code Success = 0" | "sample_code Failure = -1" | "sample_code Memory = -125"
| "sample_code InvalidArgument = -173" | "sample_code Buffer = -132" | "sample_code Authentication = -213"
| "sample_code RandomError = -236" | "sample_code ASNParse = -151" | "sample_code KeyError = -216"
| "sample_code NotAvailable = -271"

lemma check_error_sample: "c \<noteq> Success \<Longrightarrow> check_error (sample_code c) = Inl c \<and> sint (sample_code c) < 0"
  by (cases c) (simp_all add: check_error_def)

text \<open>What the comment of a check announces: \<open>Failure\<close> for everything it does not accept.\<close>

definition announced :: "bool \<Rightarrow> WCResult" where
  "announced accepts = (if accepts then Inr () else Inl Failure)"

section \<open>Properties\<close>

text \<open>C39. What the checks accept, what they report, and how far that is from their comments.
  \<open>check_if_zero\<close> accepts the code 0 only, \<open>check_if_one\<close> the code 1 only, \<open>check_if_greater_than_zero\<close>
  exactly the positive codes.  On negative codes the three agree, so the category does not
  depend on the check; \<open>Success\<close> is never an error, every other category is reported for some
  code, and its message identifies it.  The comments of all three checks announce \<open>Failure\<close> for whatever is
  refused; the code does so for every code that is not negative, and departs from the comment
  exactly where \<open>check_error\<close> knows a narrower category, which is between -271 and -125 only.\<close>

theorem checks_classify:
  "(check_if_zero r = Inr () \<longleftrightarrow> sint r = 0)
   \<and> (check_if_one r = Inr () \<longleftrightarrow> sint r = 1)
   \<and> (check_if_greater_than_zero r = Inr () \<longleftrightarrow> 0 < sint r)
   \<and> (sint r < 0 \<longrightarrow> check_if_zero r = check_error r \<and> check_if_one r = check_error r
        \<and> check_if_greater_than_zero r = check_error r)
   \<and> Inl Success \<notin> {check_if_zero r, check_if_one r, check_if_greater_than_zero r}
   \<and> (c \<noteq> Success \<longrightarrow> (\<exists>r. {check_if_zero r, check_if_one r, check_if_greater_than_zero r} = {Inl c}))
   \<and> (check_if_zero r = Inl c \<and> check_if_zero r' = Inl d \<and> fmt_WCError c = fmt_WCError d \<longrightarrow>
        check_if_zero r = check_if_zero r')
   \<and> (\<forall>(check, accepts) \<in> {(check_if_zero, \<lambda>i. i = 0), (check_if_one, \<lambda>i. i = 1),
          (check_if_greater_than_zero, \<lambda>i. 0 < i)}.
        (check r \<noteq> announced (accepts (sint r)) \<longleftrightarrow> check_error r \<notin> {Inr (), Inl Failure})
        \<and> (check r \<noteq> announced (accepts (sint r)) \<longrightarrow> sint r \<in> {-271..-125}))"
proof -
  have negative: "sint r < 0 \<longrightarrow> check_if_zero r = check_error r \<and> check_if_one r = check_error r
        \<and> check_if_greater_than_zero r = check_error r"
    by (simp add: check_defs)
  have positive: "0 < sint r \<Longrightarrow> check_error r = Inl Failure" for r by (simp add: check_error_def Let_def)
  have sample: "c \<noteq> Success \<longrightarrow> (\<exists>r. {check_if_zero r, check_if_one r, check_if_greater_than_zero r} = {Inl c})"
    using check_error_sample [of c]
    by (intro impI exI [of _ "sample_code c"]) (simp add: check_defs)
  have departs: "(check r \<noteq> announced (accepts (sint r)) \<longleftrightarrow> check_error r \<notin> {Inr (), Inl Failure})
        \<and> (check r \<noteq> announced (accepts (sint r)) \<longrightarrow> sint r \<in> {-271..-125})"
    if "(check, accepts) \<in> {(check_if_zero, \<lambda>i. i = 0), (check_if_one, \<lambda>i. i = 1),
          (check_if_greater_than_zero, \<lambda>i. 0 < i)}" for check accepts
  proof -
    have "check r \<noteq> announced (accepts (sint r)) \<longleftrightarrow> check_error r \<notin> {Inr (), Inl Failure}"
      using that positive [of r] by (cases "sint r = 0") (auto simp: announced_def check_defs split: if_splits)
    moreover have "check_error r \<notin> {Inr (), Inl Failure} \<Longrightarrow> sint r \<in> {-271..-125}"
      using specific_category_range [of r] by (cases "check_error r") auto
    ultimately show ?thesis by blast
  qed
  have accepts: "check_if_zero r = Inr () \<longleftrightarrow> sint r = 0" "check_if_one r = Inr () \<longleftrightarrow> sint r = 1"
      "check_if_greater_than_zero r = Inr () \<longleftrightarrow> 0 < sint r"
    by (simp_all add: check_defs)
  have no_success: "Inl Success \<notin> {check_if_zero r, check_if_one r, check_if_greater_than_zero r}"
    using check_error_not_Success [of r] by (simp add: check_defs)
  have message: "check_if_zero r = Inl c \<and> check_if_zero r' = Inl d \<and> fmt_WCError c = fmt_WCError d \<longrightarrow>
        check_if_zero r = check_if_zero r'"
    by (simp add: fmt_WCError_inject)
  show ?thesis using accepts negative no_success sample message departs by blast
qed

theorem checks_classify_witness:
  "check_if_greater_than_zero (-125) \<noteq> announced False \<and> check_if_greater_than_zero 0 = announced False
   \<and> (\<exists>r. {check_if_zero r, check_if_one r, check_if_greater_than_zero r} = {Inl ASNParse})"
proof (intro conjI)
  have "check_error (-125) = Inl Memory" by (simp add: check_error_def)
  then show "check_if_greater_than_zero (-125) \<noteq> announced False"
    using checks_classify [of "-125" ASNParse] by (simp add: announced_def)
  show "check_if_greater_than_zero 0 = announced False"
    using checks_classify [of 0 ASNParse] by simp
  show "\<exists>r. {check_if_zero r, check_if_one r, check_if_greater_than_zero r} = {Inl ASNParse}"
    using checks_classify [of 0 ASNParse] by blast
qed

text \<open>The comments' \<open>Failure\<close> and the code, at an exhausted memory.\<close>

lemma checks_not_only_Failure:
  "check_if_zero (-125) = Inl Memory" "check_if_one (-125) = Inl Memory"
  "check_if_greater_than_zero (-125) = Inl Memory"
  by (simp_all add: check_defs check_error_def Let_def)

end
