(* ===== verification/RandomBuffer.thy ===== *)
theory RandomBuffer
  imports WolfKx WcError
begin

text \<open>\<open>src/random.rs\<close>: filling a buffer from the generator.  The value is the buffer afterwards.\<close>

definition wolfcrypt_random_buffer_generator ::
    "'s wolf_rng \<Rightarrow> bytes \<Rightarrow> ('s, WCError, bytes) rust" where
  "wolfcrypt_random_buffer_generator r buff =
     and_then (map_err (\<lambda>_. RandomError) (rng_new r)) (\<lambda>rng.
     map_err (\<lambda>_. RandomError) (rng_generate_block r rng buff))"

lemma random_buffer_yields:
  assumes "rng_ok r"
  shows "yields (wolfcrypt_random_buffer_generator r buff) (\<lambda>b. length b = length buff)"
  unfolding wolfcrypt_random_buffer_generator_def
  by (intro yields_and_then [OF yields_map_err] yields_map_err) (rule rng_okD [OF assms])+

lemma random_buffer_no_panic: "no_panic (wolfcrypt_random_buffer_generator r buff)"
  unfolding wolfcrypt_random_buffer_generator_def by (intro no_panic_intro)

text \<open>Every failure is reported, and as \<open>RandomError\<close>.\<close>

lemma random_buffer_error:
  "wolfcrypt_random_buffer_generator r buff s = (Err e, s') \<Longrightarrow> e = RandomError"
  unfolding wolfcrypt_random_buffer_generator_def
  by (auto simp: and_then_def map_err_def split: prod.splits sum.splits)

end
