(* ===== verification/ProviderLib.thy ===== *)
theory ProviderLib
  imports Verify RandomBuffer Prf Suites
begin

text \<open>
  \<open>src/lib.rs\<close>: the \<open>CryptoProvider\<close>, its random source and its key loader.  A
  \<open>dyn SigningKey\<close> and a \<open>dyn Signer\<close> are one of the provider's three kinds.
\<close>

section \<open>The provider\<close>

datatype Provider = Provider

record CryptoProvider =
  cp_cipher_suites :: "SupportedCipherSuite list"
  cp_kx_groups :: "SupportedKxGroup list"
  cp_signature_verification_algorithms :: WebPkiSupportedAlgorithms
  cp_secure_random :: Provider
  cp_key_provider :: Provider

definition provider :: CryptoProvider where
  "provider = \<lparr>
     cp_cipher_suites = ALL_CIPHER_SUITES,
     cp_kx_groups = ALL_KX_GROUPS,
     cp_signature_verification_algorithms = ALGORITHMS,
     cp_secure_random = Provider,
     cp_key_provider = Provider\<rparr>"

definition provider_with_specified_ciphers :: "SupportedCipherSuite list \<Rightarrow> CryptoProvider" where
  "provider_with_specified_ciphers ciphers = \<lparr>
     cp_cipher_suites = ciphers,
     cp_kx_groups = ALL_KX_GROUPS,
     cp_signature_verification_algorithms = ALGORITHMS,
     cp_secure_random = Provider,
     cp_key_provider = Provider\<rparr>"

text \<open>\<open>impl SecureRandom for Provider\<close>.\<close>

definition provider_fill :: "'s wolf_rng \<Rightarrow> bytes \<Rightarrow> ('s, GetRandomFailed, bytes) rust" where
  "provider_fill r bytes = (\<lambda>s. case wolfcrypt_random_buffer_generator r bytes s of
       (Ok bytes, s') \<Rightarrow> (Ok bytes, s')
     | (Err _, s') \<Rightarrow> (Err GetRandomFailed, s')
     | (Panic p, s') \<Rightarrow> (Panic p, s'))"

section \<open>Loading keys\<close>

datatype SigningKey =
    KeyEcdsa EcdsaSigningKey
  | KeyRsa RsaPrivateKey
  | KeyEd25519 Ed25519PrivateKey

datatype Signer =
    SignerEcdsa EcdsaSigningKey
  | SignerRsa RsaSigner
  | SignerEd25519 Ed25519Signer

fun key_choose_scheme :: "SigningKey \<Rightarrow> SignatureScheme list \<Rightarrow> Signer option" where
  "key_choose_scheme (KeyEcdsa k) offered = map_option SignerEcdsa (ecdsa_choose_scheme k offered)"
| "key_choose_scheme (KeyRsa k) offered = map_option SignerRsa (rsa_choose_scheme k offered)"
| "key_choose_scheme (KeyEd25519 k) offered = map_option SignerEd25519 (ed25519_choose_scheme k offered)"

fun key_algorithm :: "SigningKey \<Rightarrow> SignatureAlgorithm" where
  "key_algorithm (KeyEcdsa k) = ecdsa_algorithm k"
| "key_algorithm (KeyRsa k) = rsa_algorithm k"
| "key_algorithm (KeyEd25519 k) = ed25519_algorithm k"

fun signer_sign :: "'s wolf_rng \<Rightarrow> 's wolf_sigs \<Rightarrow> Signer \<Rightarrow> bytes \<Rightarrow> ('s, rustls_error, bytes) rust" where
  "signer_sign r w (SignerEcdsa k) message = ecdsa_sign r (ws_ecc w) (ws_ecdsas w) k message"
| "signer_sign r w (SignerRsa k) message = rsa_sign r (ws_shas w) (ws_rsa w) k message"
| "signer_sign r w (SignerEd25519 k) message = ed25519_sign (ws_ed25519 w) k message"

fun signer_scheme :: "Signer \<Rightarrow> SignatureScheme" where
  "signer_scheme (SignerEcdsa k) = ecdsa_signer_scheme k"
| "signer_scheme (SignerRsa k) = rsa_signer_scheme k"
| "signer_scheme (SignerEd25519 k) = ed25519_signer_scheme k"

type_synonym 's signing_key_fn = "PrivateKeyDer \<Rightarrow> ('s, rustls_error, SigningKey) rust"

definition signing_algorithms :: "pkcs8_parser \<Rightarrow> 's wolf_sigs \<Rightarrow> 's signing_key_fn list" where
  "signing_algorithms pkcs8 w = [
     (\<lambda>key. and_then (ecdsa_try_from pkcs8 (ws_ecc w) key) (\<lambda>x. ok (KeyEcdsa x))),
     (\<lambda>key. and_then (rsa_try_from (ws_rsa w) key) (\<lambda>x. ok (KeyRsa x))),
     (\<lambda>key. and_then (ed25519_try_from pkcs8 (ws_ed25519 w) key) (\<lambda>x. ok (KeyEd25519 x)))]"

text \<open>The loop over the algorithms, and what follows it.\<close>

fun try_algorithms :: "'s signing_key_fn list \<Rightarrow> PrivateKeyDer \<Rightarrow> ('s, rustls_error, SigningKey) rust" where
  "try_algorithms [] key_der = err (General ''Unsupported private key format'')"
| "try_algorithms (algorithm # algorithms) key_der =
     or_else (algorithm key_der) (\<lambda>_. try_algorithms algorithms key_der)"

definition load_private_key ::
    "pkcs8_parser \<Rightarrow> 's wolf_sigs \<Rightarrow> PrivateKeyDer \<Rightarrow> ('s, rustls_error, SigningKey) rust" where
  "load_private_key pkcs8 w key_der = try_algorithms (signing_algorithms pkcs8 w) key_der"

section \<open>The random source\<close>

text \<open>Both foreign calls must succeed for the buffer to be taken as filled.\<close>

lemma provider_fill_eq:
  "provider_fill r b s =
     (case rng_new r s of
        (Inl _, s') \<Rightarrow> (Err GetRandomFailed, s')
      | (Inr rng, s') \<Rightarrow> (case rng_generate_block r rng b s' of
            (Inl _, s'') \<Rightarrow> (Err GetRandomFailed, s'')
          | (Inr b', s'') \<Rightarrow> (Ok b', s'')))"
  by (auto simp: provider_fill_def wolfcrypt_random_buffer_generator_def and_then_def map_err_def
      split: prod.splits sum.splits)

lemma provider_fill_no_panic: "no_panic (provider_fill r b)"
  by (auto simp: no_panic_def provider_fill_eq split: prod.splits sum.splits)

lemma provider_fill_yields: "rng_ok r \<Longrightarrow> yields (provider_fill r b) (\<lambda>b'. length b' = length b)"
proof (rule yieldsI)
  fix s assume "rng_ok r"
  from yieldsD [OF random_buffer_yields [OF this, of b], of s]
  show "\<exists>x s'. provider_fill r b s = (Ok x, s') \<and> length x = length b"
    by (auto simp: provider_fill_def)
qed

section \<open>The key loader\<close>

lemma load_private_key_eq:
  "load_private_key pkcs8 w key =
     or_else (and_then (ecdsa_try_from pkcs8 (ws_ecc w) key) (\<lambda>x. ok (KeyEcdsa x))) (\<lambda>_.
     or_else (and_then (rsa_try_from (ws_rsa w) key) (\<lambda>x. ok (KeyRsa x))) (\<lambda>_.
     or_else (and_then (ed25519_try_from pkcs8 (ws_ed25519 w) key) (\<lambda>x. ok (KeyEd25519 x))) (\<lambda>_.
     err (General ''Unsupported private key format''))))"
  by (simp add: load_private_key_def signing_algorithms_def)

lemma or_else_err [simp]: "or_else (err e) f = f e"
  by (simp add: or_else_def err_def)

lemma try_algorithms_error:
  "try_algorithms algorithms key s = (Err e, s') \<Longrightarrow> e = General ''Unsupported private key format''"
  by (induction algorithms arbitrary: s)
    (auto simp: or_else_def err_def split: prod.splits outcome.splits)

lemma ensures_or_else: "ensures m P \<Longrightarrow> (\<And>e. ensures (f e) P) \<Longrightarrow> ensures (or_else m f) P"
  by (fastforce simp: ensures_def or_else_def split: prod.splits outcome.splits)

lemma rsa_try_from_no_panic: "no_panic (rsa_try_from w key)"
  by (cases key) (auto simp: rsa_try_from_def parse_private_key_def intro!: no_panic_intro)

lemma load_private_key_no_panic:
  assumes "ecc_export_sound (ws_ecc w)" and "no_panic (ed25519_try_from pkcs8 (ws_ed25519 w) key)"
  shows "no_panic (load_private_key pkcs8 w key)"
  unfolding load_private_key_eq
  by (intro no_panic_or_else no_panic_and_then_any no_panic_ok no_panic_err assms(2)
      ecdsa_try_from_no_panic [OF assms(1)] rsa_try_from_no_panic)

fun is_ecdsa_key :: "SigningKey \<Rightarrow> bool" where
  "is_ecdsa_key (KeyEcdsa _) = True" | "is_ecdsa_key _ = False"

fun is_rsa_key :: "SigningKey \<Rightarrow> bool" where
  "is_rsa_key (KeyRsa _) = True" | "is_rsa_key _ = False"

text \<open>The loader refuses what an algorithm refuses, and takes the first key in its order.\<close>

lemma load_ecdsa:
  assumes "yields (ecdsa_try_from pkcs8 (ws_ecc w) key) P"
  shows "yields (load_private_key pkcs8 w key) (\<lambda>k. \<exists>x. k = KeyEcdsa x \<and> P x)"
  unfolding load_private_key_eq
  by (rule or_else_yields, rule yields_and_then [OF assms]) (simp add: yields_ok)

lemma load_rsa:
  assumes "rejects (ecdsa_try_from pkcs8 (ws_ecc w) key)" and "yields (rsa_try_from (ws_rsa w) key) P"
  shows "yields (load_private_key pkcs8 w key) (\<lambda>k. \<exists>x. k = KeyRsa x \<and> P x)"
  unfolding load_private_key_eq
  by (rule or_else_rejects [OF rejects_first [OF assms(1)]], rule or_else_yields,
      rule yields_and_then [OF assms(2)]) (simp add: yields_ok)

lemma load_ed25519:
  assumes "rejects (ecdsa_try_from pkcs8 (ws_ecc w) key)" and "rejects (rsa_try_from (ws_rsa w) key)"
    and "yields (ed25519_try_from pkcs8 (ws_ed25519 w) key) P"
  shows "yields (load_private_key pkcs8 w key) (\<lambda>k. \<exists>x. k = KeyEd25519 x \<and> P x)"
  unfolding load_private_key_eq
  by (rule or_else_rejects [OF rejects_first [OF assms(1)]],
      rule or_else_rejects [OF rejects_first [OF assms(2)]], rule or_else_yields,
      rule yields_and_then [OF assms(3)]) (simp add: yields_ok)

text \<open>C31. What the loader can make of each format.  A PKCS#1 file gives an RSA key or none, a SEC1 file
  an ECDSA key or none, any other label but PKCS#8 nothing.  An Ed25519 or Ed448 key in PKCS#8 never
  reaches the ECC decoder: the outcome, and the library state, are the same whatever the ECC part
  of the library does.  Every error of the loader is ``Unsupported private key format''.\<close>

theorem loader_respects_formats:
  "ensures (load_private_key pkcs8 w (Pkcs1 der)) is_rsa_key
   \<and> ensures (load_private_key pkcs8 w (Sec1 der)) is_ecdsa_key
   \<and> load_private_key pkcs8 w (OtherKeyDer der) = err (General ''Unsupported private key format'')
   \<and> (pkcs8 der = Inr pki \<and> pki_oid pki \<in> {OID_ED25519, OID_ED448} \<longrightarrow>
        load_private_key pkcs8 (w\<lparr>ws_ecc := ecc\<rparr>) (Pkcs8 der) = load_private_key pkcs8 w (Pkcs8 der))
   \<and> (load_private_key pkcs8 w key s = (Err e, s') \<longrightarrow> e = General ''Unsupported private key format'')"
proof (intro conjI impI)
  have rsa: "ensures (and_then m (\<lambda>x. ok (KeyRsa x))) is_rsa_key" for m :: "('a, rustls_error, RsaPrivateKey) rust"
    by (intro ensures_and_then [OF ensures_True] ensures_ok) simp
  have ecdsa: "ensures (and_then m (\<lambda>x. ok (KeyEcdsa x))) is_ecdsa_key" for m :: "('a, rustls_error, EcdsaSigningKey) rust"
    by (intro ensures_and_then [OF ensures_True] ensures_ok) simp
  have refused: "\<exists>msg. ecdsa_try_from pkcs8 (ws_ecc w) (Pkcs1 der) = err (General msg)"
    "\<exists>msg. ecdsa_try_from pkcs8 (ws_ecc w) (OtherKeyDer der) = err (General msg)"
    by (rule ecdsa_try_from_refuses, simp)+
  show "ensures (load_private_key pkcs8 w (Pkcs1 der)) is_rsa_key"
    using refused(1) by (auto simp: load_private_key_eq ed25519_try_from_def ensures_err
        intro!: ensures_or_else rsa)
  show "ensures (load_private_key pkcs8 w (Sec1 der)) is_ecdsa_key"
    by (auto simp: load_private_key_eq ed25519_try_from_def rsa_try_from_def ensures_err
        intro!: ensures_or_else ecdsa)
  show "load_private_key pkcs8 w (OtherKeyDer der) = err (General ''Unsupported private key format'')"
    using refused(2) by (auto simp: load_private_key_eq ed25519_try_from_def rsa_try_from_def)
next
  assume "pkcs8 der = Inr pki \<and> pki_oid pki \<in> {OID_ED25519, OID_ED448}"
  then have "\<And>w :: 'a wolf_ecc. ecdsa_try_from pkcs8 w (Pkcs8 der) = err (General ''Unsupported ECDSA key format (EdDSA key)'')"
    by (auto simp: ecdsa_try_from_def)
  then show "load_private_key pkcs8 (w\<lparr>ws_ecc := ecc\<rparr>) (Pkcs8 der) = load_private_key pkcs8 w (Pkcs8 der)"
    by (simp add: load_private_key_eq)
next
  assume "load_private_key pkcs8 w key s = (Err e, s')"
  then show "e = General ''Unsupported private key format''"
    unfolding load_private_key_def by (rule try_algorithms_error)
qed

theorem loader_respects_formats_witness:
  "load_private_key demo_pkcs8 ((demo_sigs :: unit wolf_sigs)\<lparr>ws_ecc := demo_ecc\<lparr>ecc_import_der := \<lambda>_ s. (Inl 1, s)\<rparr>\<rparr>)
      (Pkcs8 ([0x31, 3] @ OID_ED25519 @ [4, 32]))
   = load_private_key demo_pkcs8 demo_sigs (Pkcs8 ([0x31, 3] @ OID_ED25519 @ [4, 32]))"
proof -
  have "demo_pkcs8 ([0x31, 3] @ OID_ED25519 @ [4, 32]) = Inr \<lparr>pki_oid = OID_ED25519, pki_private_key = [4, 32]\<rparr>"
    by (simp add: demo_pkcs8_def OID_ED25519_def)
  then show ?thesis
    using loader_respects_formats [where ?pkcs8.0 = demo_pkcs8 and w = "demo_sigs :: unit wolf_sigs"
        and der = "[0x31, 3] @ OID_ED25519 @ [4, 32]"
        and pki = "\<lparr>pki_oid = OID_ED25519, pki_private_key = [4, 32]\<rparr>"
        and ecc = "demo_ecc\<lparr>ecc_import_der := \<lambda>_ s. (Inl 1, s)\<rparr>"]
    by simp
qed

section \<open>From a key file to an accepted signature\<close>

text \<open>
  \<open>usable_key G pkcs8 w key sch p\<close>: the file \<open>key\<close> holds a private key whose public key is \<open>p\<close> and
  which signs under the scheme \<open>sch\<close>.  Files that are not elliptic curve keys must be refused by
  the ECC decoder, which the loader asks first, and Ed25519 files by the RSA decoder.
\<close>

inductive usable_key :: "sig_spec \<Rightarrow> pkcs8_parser \<Rightarrow> 's wolf_sigs \<Rightarrow> PrivateKeyDer \<Rightarrow> SignatureScheme \<Rightarrow> bytes \<Rightarrow> bool"
  for G pkcs8 w where
  usable_ecdsa: "ecdsa_scheme_for (sg_ecdsa G) sch = Some E \<Longrightarrow> ecc_load_ok (ws_ecc w) E eccof \<Longrightarrow>
     ec_key_bytes pkcs8 key = Some b \<Longrightarrow> es_sec1 E b d \<Longrightarrow>
     usable_key G pkcs8 w key sch (es_pub E d)"
| usable_rsa: "rsa_der key = Some der \<Longrightarrow> rs_pub (sg_rsa G) der = Some p \<Longrightarrow>
     rs_size (sg_rsa G) p = Some n \<Longrightarrow> n \<in> {256, 384, 512} \<Longrightarrow> sch \<in> set RSA_SCHEMES \<Longrightarrow>
     (\<And>b. ec_key_bytes pkcs8 key = Some b \<Longrightarrow> ffi_fails (ecc_import_der (ws_ecc w) b)) \<Longrightarrow>
     usable_key G pkcs8 w key sch p"
| usable_ed25519: "ed_seed pkcs8 key = Some a \<Longrightarrow> ec_key_bytes pkcs8 key = None \<Longrightarrow>
     (\<And>der. rsa_der key = Some der \<Longrightarrow> rs_pub (sg_rsa G) der = None) \<Longrightarrow>
     usable_key G pkcs8 w key ED25519 (eds_pub (sg_ed G) a)"

lemma ecdsa_try_from_rejects:
  assumes "\<And>b. ec_key_bytes pkcs8 key = Some b \<Longrightarrow> ffi_fails (ecc_import_der w b)"
  shows "rejects (ecdsa_try_from pkcs8 w key)"
proof (cases "ec_key_bytes pkcs8 key")
  case None
  then obtain msg where "ecdsa_try_from pkcs8 w key = err (General msg)"
    using ecdsa_try_from_refuses by blast
  then show ?thesis by simp
next
  case (Some b)
  note f = rejects_first [OF rejects_map_err [OF assms [OF Some]]]
  show ?thesis
    using Some f by (cases key) (auto simp: ecdsa_try_from_def split: sum.splits if_splits)
qed

text \<open>What a usable key does with a message.\<close>

definition sign_with_file ::
    "'s wolf_rng \<Rightarrow> pkcs8_parser \<Rightarrow> 's wolf_sigs \<Rightarrow> PrivateKeyDer \<Rightarrow> SignatureScheme list \<Rightarrow> bytes \<Rightarrow>
     ('s, rustls_error, SignatureScheme \<times> bytes) rust" where
  "sign_with_file r pkcs8 w key offered m =
     and_then (load_private_key pkcs8 w key) (\<lambda>k.
     and_then (some_or_panic (key_choose_scheme k offered) ''signing provider supports this scheme'') (\<lambda>signer.
     and_then (signer_sign r w signer m) (\<lambda>sig. ok (signer_scheme signer, sig))))"

lemma load_then_sign:
  assumes load: "yields (load_private_key pkcs8 w key) P"
    and sign: "\<And>k. P k \<Longrightarrow> \<exists>signer. key_choose_scheme k offered = Some signer \<and> signer_scheme signer = sch
       \<and> yields (signer_sign r w signer m) (Q sch)"
  shows "yields (sign_with_file r pkcs8 w key offered m) (\<lambda>(sch', sig). sch' = sch \<and> Q sch sig)"
  unfolding sign_with_file_def
proof (rule yields_and_then [OF load])
  fix k assume "P k"
  then obtain signer where s: "key_choose_scheme k offered = Some signer" "signer_scheme signer = sch"
    "yields (signer_sign r w signer m) (Q sch)" using sign by blast
  then show "yields (and_then (some_or_panic (key_choose_scheme k offered) ''signing provider supports this scheme'') (\<lambda>signer.
     and_then (signer_sign r w signer m) (\<lambda>sig. ok (signer_scheme signer, sig))))
     (\<lambda>(sch', sig). sch' = sch \<and> Q sch sig)"
    by (simp, intro yields_and_then [OF s(3)] yields_ok) simp
qed

lemma rsa_choose_offered:
  assumes "sch \<in> set RSA_SCHEMES"
  shows "rsa_choose_scheme k [sch] = Some \<lparr>rsg_der_bytes = rpk_der_bytes k, rsg_scheme = sch\<rparr>"
  using assms by (auto simp: rsa_choose_scheme_def RSA_SCHEMES_def)

text \<open>The key that an ECDSA file gives, and what it signs.\<close>

lemma loaded_ecdsa_key:
  assumes "sigs_ok r w G" and u: "ecdsa_scheme_for (sg_ecdsa G) sch = Some E"
      "ecc_load_ok (ws_ecc w) E eccof" "ec_key_bytes pkcs8 key = Some b" "es_sec1 E b d"
  shows "yields (load_private_key pkcs8 w key)
    (\<lambda>k. k = KeyEcdsa \<lparr>esk_priv_key = d, esk_pub_x963 = es_pub E d, esk_scheme = sch\<rparr>)"
proof -
  have L: "ecdsas_ok (ws_ecc w) (ws_ecdsas w) (sg_dec G) (sg_ecdsa G)" using assms(1) by (simp add: sigs_ok_def)
  show ?thesis
    by (rule yields_weaken [OF load_ecdsa [OF ecdsa_try_from_yields [OF u(2,1) ecdsas_okD(3,5,7) [OF L] u(3,4)]]]) simp
qed

lemma loaded_ecdsa_key_signs:
  assumes ok: "rng_ok r" "sigs_ok r w G" and E: "ecdsa_scheme_for (sg_ecdsa G) sch = Some E" and d: "length d = es_field E"
  shows "\<exists>signer. key_choose_scheme (KeyEcdsa \<lparr>esk_priv_key = d, esk_pub_x963 = es_pub E d, esk_scheme = sch\<rparr>) [sch]
      = Some signer \<and> signer_scheme signer = sch
    \<and> (\<forall>m. yields (signer_sign r w signer m) (genuine G sch (es_pub E d) m))"
proof -
  have L: "ecdsas_ok (ws_ecc w) (ws_ecdsas w) (sg_dec G) (sg_ecdsa G)" using ok(2) by (simp add: sigs_ok_def)
  have pair: "ecdsa_pair (sg_ecdsa G) \<lparr>esk_priv_key = d, esk_pub_x963 = es_pub E d, esk_scheme = sch\<rparr> (es_pub E d)"
    using E d by (simp add: ecdsa_pair_def)
  show ?thesis
    using yields_weaken [OF ecdsa_sign_valid [OF ok(1) L pair]] E
    by (simp add: ecdsa_choose_scheme_def ecdsa_signer_scheme_def genuine_simps)
qed

lemma ecdsa_key_signs:
  assumes ok: "rng_ok r" "sigs_ok r w G" and u: "ecdsa_scheme_for (sg_ecdsa G) sch = Some E"
      "ecc_load_ok (ws_ecc w) E eccof" "ec_key_bytes pkcs8 key = Some b" "es_sec1 E b d"
  shows "yields (sign_with_file r pkcs8 w key [sch] m) (\<lambda>(sch', sig). sch' = sch \<and> genuine G sch (es_pub E d) m sig)"
  by (rule load_then_sign [OF loaded_ecdsa_key [OF ok(2) u]])
     (use loaded_ecdsa_key_signs [OF ok u(1) ecc_load_okD(1) [OF u(2,4)]] in blast)

lemma rsa_key_signs:
  assumes ok: "rng_ok r" "sigs_ok r w G" and u: "rsa_der key = Some der" "rs_pub (sg_rsa G) der = Some p"
      "rs_size (sg_rsa G) p = Some n" "n \<in> {256, 384, 512}" "sch \<in> set RSA_SCHEMES"
      "\<And>b. ec_key_bytes pkcs8 key = Some b \<Longrightarrow> ffi_fails (ecc_import_der (ws_ecc w) b)"
  shows "yields (sign_with_file r pkcs8 w key [sch] m) (\<lambda>(sch', sig). sch' = sch \<and> genuine G sch p m sig)"
proof -
  have L: "rsa_libs_ok r (ws_shas w) (ws_rsa w) (sg_rsa G) (sg_digest G)" using ok(2) by (simp add: sigs_ok_def)
  obtain privof pubof where pss: "rsa_pss_ok (ws_rsa w) (sg_rsa G) privof pubof"
    using rsa_libs_okE [OF L] by metis
  note load = rsa_try_from_yields [OF pss u(1,2)]
  have pair: "rsa_pair (sg_rsa G) \<lparr>rsg_der_bytes = der, rsg_scheme = sch\<rparr> p"
    using u(1-5) by (auto simp: rsa_pair_def)
  show ?thesis
  proof (rule load_then_sign [OF load_rsa [OF ecdsa_try_from_rejects [OF u(6)] load]])
    fix k assume "\<exists>x. k = KeyRsa x \<and> x = \<lparr>rpk_der_bytes = der, rpk_algo = AlgRSA\<rparr>"
    then have k: "k = KeyRsa \<lparr>rpk_der_bytes = der, rpk_algo = AlgRSA\<rparr>" by simp
    show "\<exists>signer. key_choose_scheme k [sch] = Some signer \<and> signer_scheme signer = sch
       \<and> yields (signer_sign r w signer m) (genuine G sch p m)"
      using yields_weaken [OF rsa_sign_valid [OF L pair]] u(5)
      by (simp add: k rsa_choose_offered rsa_signer_scheme_def genuine_simps)
  qed
qed

lemma ed25519_key_signs:
  assumes ok: "sigs_ok r w G" and u: "ed_seed pkcs8 key = Some a" "ec_key_bytes pkcs8 key = None"
      "\<And>der. rsa_der key = Some der \<Longrightarrow> rs_pub (sg_rsa G) der = None"
  shows "yields (sign_with_file r pkcs8 w key [ED25519] m)
           (\<lambda>(sch', sig). sch' = ED25519 \<and> genuine G ED25519 (eds_pub (sg_ed G) a) m sig)"
proof -
  obtain seedof keyof pubof where L: "ed25519_ok (ws_ed25519 w) (sg_ed G) seedof keyof pubof"
    "rsa_libs_ok r (ws_shas w) (ws_rsa w) (sg_rsa G) (sg_digest G)"
    using sigs_okE [OF ok] by blast
  obtain privof pubof' where pss: "rsa_pss_ok (ws_rsa w) (sg_rsa G) privof pubof'"
    using rsa_libs_okE [OF L(2)] by metis
  have no_ec: "rejects (ecdsa_try_from pkcs8 (ws_ecc w) key)"
    using u(2) by (intro ecdsa_try_from_rejects) simp
  have no_rsa: "rejects (rsa_try_from (ws_rsa w) key)"
    using u(3) by (intro rsa_try_from_rejects [OF pss])
  note load = ed25519_try_from_yields [OF L(1) u(1)]
  have a: "length a = 32" using u(1) by (cases key) (auto split: sum.splits list.splits if_splits)
  have pair: "ed25519_pair (sg_ed G) \<lparr>eds_priv_key = a, eds_pub_key = eds_pub (sg_ed G) a, eds_scheme = ED25519\<rparr>
      (eds_pub (sg_ed G) a)"
    using a by (simp add: ed25519_pair_def)
  show ?thesis
  proof (rule load_then_sign [OF load_ed25519 [OF no_ec no_rsa load]])
    fix k assume "\<exists>x. k = KeyEd25519 x \<and> x = \<lparr>edk_priv_key = a, edk_pub_key = eds_pub (sg_ed G) a, edk_algo = AlgED25519\<rparr>"
    then have k: "k = KeyEd25519 \<lparr>edk_priv_key = a, edk_pub_key = eds_pub (sg_ed G) a, edk_algo = AlgED25519\<rparr>" by simp
    show "\<exists>signer. key_choose_scheme k [ED25519] = Some signer \<and> signer_scheme signer = ED25519
       \<and> yields (signer_sign r w signer m) (genuine G ED25519 (eds_pub (sg_ed G) a) m)"
      using yields_weaken [OF ed25519_sign_valid [OF L(1) pair]]
      by (simp add: k ed25519_choose_scheme_def ALL_EDDSA_SCHEMES_def ed25519_signer_scheme_def genuine_simps)
  qed
qed

lemma usable_key_signs:
  assumes ok: "rng_ok r" "sigs_ok r w G" and "usable_key G pkcs8 w key sch p"
  shows "yields (sign_with_file r pkcs8 w key [sch] m) (\<lambda>(sch', sig). sch' = sch \<and> genuine G sch p m sig)"
  using assms(3)
proof cases
  case usable_ecdsa
  then show ?thesis using ecdsa_key_signs [OF ok] by simp
next
  case usable_rsa
  then show ?thesis using rsa_key_signs [OF ok] by blast
next
  case usable_ed25519
  then show ?thesis using ed25519_key_signs [OF ok(2)] by simp
qed

lemma usable_key_scheme: "usable_key G pkcs8 w key sch p \<Longrightarrow> sch \<in> set provider_schemes"
  by (induction rule: usable_key.induct)
     (auto simp: provider_schemes_def ALL_EDDSA_SCHEMES_def elim: ecdsa_scheme_for_Some)

text \<open>C3. A key file signs what the provider verifies.  Load a private key of any supported kind
  through the provider, choose a scheme from the one that is offered, sign, and verify with the
  algorithm the provider's table maps the scheme to: every step succeeds, for every message and
  each of the ten schemes.\<close>

theorem provider_signs_and_verifies:
  assumes "rng_ok r" and "sigs_ok r w G" and "usable_key G pkcs8 w key sch p"
  shows "yields (sign_with_file r pkcs8 w key [sch] m) (\<lambda>(sch', sig). sch' = sch
           \<and> (\<exists>a. mapped_algorithms sch = [a] \<and> yields (alg_verify_signature w a p m sig) (\<lambda>_. True)))"
proof (rule yields_weaken [OF usable_key_signs [OF assms]])
  fix x assume "case x of (sch', sig) \<Rightarrow> sch' = sch \<and> genuine G sch p m sig"
  moreover have "\<exists>a. mapped_algorithms sch = [a]"
    using provider_scheme_cases [OF usable_key_scheme [OF assms(3)], of "sg_ecdsa G"] mapped_verify(4) [of sch]
    by (elim disjE exE) (auto simp: mapped_verify(1,2))
  ultimately show "case x of (sch', sig) \<Rightarrow> sch' = sch
           \<and> (\<exists>a. mapped_algorithms sch = [a] \<and> yields (alg_verify_signature w a p m sig) (\<lambda>_. True))"
    using table_verifies(1) [OF assms(2) usable_key_scheme [OF assms(3)]] by auto
qed

theorem provider_signs_and_verifies_witness:
  "\<exists>sig. sign_with_file demo_rng demo_pkcs8 demo_sigs (Pkcs8 [9, 2]) [RSA_PSS_SHA256] [7] () = (Ok (RSA_PSS_SHA256, sig), ())
     \<and> (\<exists>a. mapped_algorithms RSA_PSS_SHA256 = [a]
          \<and> yields (alg_verify_signature (demo_sigs :: unit wolf_sigs) a [10, 2] [7] sig) (\<lambda>_. True))"
proof -
  have "usable_key demo_sig_spec demo_pkcs8 (demo_sigs :: unit wolf_sigs) (Pkcs8 [9, 2]) RSA_PSS_SHA256 [10, 2]"
    by (rule usable_rsa [of _ "[9, 2]" _ _ 256])
       (auto simp: demo_sig_spec_def demo_rsa_scheme_def RSA_SCHEMES_def demo_pkcs8_def demo_sigs_def
          demo_ecc_def ffi_fails_def)
  from yields_unit [OF provider_signs_and_verifies [OF demo_rng_ok demo_sigs_ok this, of "[7]"]]
  show ?thesis by auto
qed

end
