(* ===== verification/Handshake.thy ===== *)
theory Handshake
  imports Connection ProviderLib
begin

text \<open>
  The components together, as rustls drives them: from the key exchange through the key schedule of
  the suite to the ciphers of both ends and the records between them.  The steps of rustls are the
  definitions of this theory; everything they call is the provider.
\<close>

section \<open>The libraries under the provider\<close>

record 's provider_libs =
  pl_aead :: "'s aead_libs"
  pl_rng :: "'s wolf_rng"
  pl_x25519 :: "'s wolf_curve25519"
  pl_ecc :: "'s wolf_ecc"
  pl_kdf :: "'s wolf_kdf"

definition provider_libs_ok :: "'s provider_libs \<Rightarrow> kx_spec \<Rightarrow> (i32 \<Rightarrow> mac_fun) \<Rightarrow> (i32 \<Rightarrow> mac_fun) \<Rightarrow> bool" where
  "provider_libs_ok L S hmac prf \<longleftrightarrow> aead_libs_ok (pl_aead L)
     \<and> kx_ok (pl_rng L) (pl_x25519 L) (pl_ecc L) S \<and> hkdf_ok (pl_kdf L) hmac \<and> prf_ok (pl_kdf L) prf"

lemma provider_libs_okD:
  assumes "provider_libs_ok L S hmac prf"
  shows "aead_libs_ok (pl_aead L)" and "kx_ok (pl_rng L) (pl_x25519 L) (pl_ecc L) S"
    and "hkdf_ok (pl_kdf L) hmac" and "prf_ok (pl_kdf L) prf"
  using assms by (simp_all add: provider_libs_ok_def)

text \<open>What the two sides have in common besides the secret: labels, hellos and transcript hashes.\<close>

record schedule_inputs =
  si_master_label :: bytes
  si_master_seed :: bytes
  si_expansion_label :: bytes
  si_expansion_seed :: bytes
  si_salt :: "bytes option"
  si_traffic_info :: "bytes list"
  si_key_info :: "bytes list"
  si_iv_info :: "bytes list"

section \<open>Key material\<close>

text \<open>TLS 1.2: the master secret, and the key block cut as in RFC 5246 section 6.3 into the two write
  keys, the two IVs and the explicit nonce; this is the side of the client's records.\<close>

definition tls12_material ::
    "'s provider_libs \<Rightarrow> Tls12CipherSuite \<Rightarrow> schedule_inputs \<Rightarrow> ActiveKeyExchange \<Rightarrow> bytes \<Rightarrow>
     ('s, rustls_error, bytes \<times> bytes \<times> bytes) rust" where
  "tls12_material L s I a peer =
     (let shape = tls12_key_block_shape (t12_aead_alg s);
          n = 2 * enc_key_len shape + 2 * fixed_iv_len shape + explicit_nonce_len shape in
      and_then (prf_for_key_exchange (pl_rng L) (pl_x25519 L) (pl_ecc L) (pl_kdf L) (t12_prf_provider s)
          (zeros 48) a peer (si_master_label I) (si_master_seed I)) (\<lambda>master.
      and_then (prf_for_secret (pl_kdf L) (t12_prf_provider s) (zeros n) master
          (si_expansion_label I) (si_expansion_seed I)) (\<lambda>block.
      ok (take (enc_key_len shape) block,
          take (fixed_iv_len shape) (drop (2 * enc_key_len shape) block),
          drop (2 * enc_key_len shape + 2 * fixed_iv_len shape) block))))"

text \<open>TLS 1.3: the handshake secret, a traffic secret derived from it, and its key and IV.\<close>

definition tls13_material ::
    "'s provider_libs \<Rightarrow> Tls13CipherSuite \<Rightarrow> schedule_inputs \<Rightarrow> ActiveKeyExchange \<Rightarrow> bytes \<Rightarrow>
     ('s, rustls_error, bytes \<times> bytes \<times> bytes) rust" where
  "tls13_material L s I a peer =
     (let v = t13_hkdf_provider s; k = pl_kdf L in
      and_then (kx_complete (pl_rng L) (pl_x25519 L) (pl_ecc L) a peer) (\<lambda>secret.
      and_then (extract_from_secret k v (si_salt I) secret) (\<lambda>expander.
      and_then (expand_block k expander (si_traffic_info I)) (\<lambda>okm.
      and_then (expander_for_okm k v okm) (\<lambda>expander.
      and_then (expect_result (expand_slice k expander (si_key_info I)
          (zeros (tls13_key_len (pl_aead L) (t13_aead_alg s)))) ''expand key'') (\<lambda>key.
      and_then (expect_result (expand_slice k expander (si_iv_info I) (zeros NONCE_LEN)) ''expand iv'') (\<lambda>iv.
      ok (key, iv, []))))))))"

fun suite_material ::
    "'s provider_libs \<Rightarrow> SupportedCipherSuite \<Rightarrow> schedule_inputs \<Rightarrow> ActiveKeyExchange \<Rightarrow> bytes \<Rightarrow>
     ('s, rustls_error, bytes \<times> bytes \<times> bytes) rust" where
  "suite_material L (SuiteTls12 s) I a peer = tls12_material L s I a peer"
| "suite_material L (SuiteTls13 s) I a peer = tls13_material L s I a peer"

text \<open>The material as a function of the secret; the lengths are those the suite asks for.\<close>

definition tls12_block :: "'s provider_libs \<Rightarrow> (i32 \<Rightarrow> mac_fun) \<Rightarrow> Tls12CipherSuite \<Rightarrow> schedule_inputs \<Rightarrow> bytes \<Rightarrow> bytes" where
  "tls12_block L prf s I z =
     (let shape = tls12_key_block_shape (t12_aead_alg s); v = prf_variant (t12_prf_provider s) in
      variant_prf (pl_kdf L) prf v
        (variant_prf (pl_kdf L) prf v z (si_master_label I) (si_master_seed I) 48)
        (si_expansion_label I) (si_expansion_seed I)
        (2 * enc_key_len shape + 2 * fixed_iv_len shape + explicit_nonce_len shape))"

definition tls13_traffic :: "'s provider_libs \<Rightarrow> (i32 \<Rightarrow> mac_fun) \<Rightarrow> Tls13CipherSuite \<Rightarrow> schedule_inputs \<Rightarrow> bytes \<Rightarrow> bytes" where
  "tls13_traffic L hmac s I z =
     (let v = t13_hkdf_provider s; mac = hmac (hmac_type (pl_kdf L) v) in
      mac (mac (salt_or_zeros v (si_salt I)) z) (concat (si_traffic_info I) @ [1]))"

fun material_of ::
    "'s provider_libs \<Rightarrow> (i32 \<Rightarrow> mac_fun) \<Rightarrow> (i32 \<Rightarrow> mac_fun) \<Rightarrow> SupportedCipherSuite \<Rightarrow> schedule_inputs \<Rightarrow>
     bytes \<Rightarrow> bytes \<times> bytes \<times> bytes" where
  "material_of L hmac prf (SuiteTls12 s) I z =
     (let shape = tls12_key_block_shape (t12_aead_alg s); block = tls12_block L prf s I z in
      (take (enc_key_len shape) block,
       take (fixed_iv_len shape) (drop (2 * enc_key_len shape) block),
       drop (2 * enc_key_len shape + 2 * fixed_iv_len shape) block))"
| "material_of L hmac prf (SuiteTls13 s) I z =
     (let v = t13_hkdf_provider s; traffic = tls13_traffic L hmac s I z in
      (variant_okm (pl_kdf L) hmac v traffic (concat (si_key_info I)) (tls13_key_len (pl_aead L) (t13_aead_alg s)),
       variant_okm (pl_kdf L) hmac v traffic (concat (si_iv_info I)) NONCE_LEN, []))"

lemma tls13_lengths:
  assumes "aead_libs_ok L"
  shows "0 < tls13_key_len L alg" and "tls13_key_len L alg \<le> 255 * variant_len v"
    and "0 < NONCE_LEN" and "NONCE_LEN \<le> 255 * variant_len v"
  using aead_libs_okD(6) [OF assms] variant_len_bounds [of v]
  by (cases alg; simp add: aes128_key_len_def aes256_key_len_def chacha_key_len_def NONCE_LEN_def)+

lemma suite_material_yields:
  assumes "provider_libs_ok L S hmac prf"
    and "yields (kx_complete (pl_rng L) (pl_x25519 L) (pl_ecc L) a peer) (\<lambda>x. x = z)"
  shows "yields (suite_material L suite I a peer) (\<lambda>x. x = material_of L hmac prf suite I z)"
proof -
  note D = provider_libs_okD [OF assms(1)]
  show ?thesis
  proof (cases suite)
    case (SuiteTls12 s)
    have master: "yields (prf_for_key_exchange (pl_rng L) (pl_x25519 L) (pl_ecc L) (pl_kdf L) (t12_prf_provider s)
          (zeros 48) a peer (si_master_label I) (si_master_seed I))
        (\<lambda>m. m = variant_prf (pl_kdf L) prf (prf_variant (t12_prf_provider s)) z (si_master_label I) (si_master_seed I) 48)"
      unfolding prf_for_key_exchange_def
      by (rule yields_and_then [OF assms(2)])
        (use wc_prf_yields [OF D(4), of "zeros 48"] in simp)
    have block: "0 < 2 * enc_key_len shape + 2 * fixed_iv_len shape + explicit_nonce_len shape"
      if "shape = tls12_key_block_shape (t12_aead_alg s)" for shape
      unfolding that by (cases "t12_aead_alg s")
        (simp_all add: aes128_key_block_shape_def aes256_key_block_shape_def chacha_key_block_shape_def)
    show ?thesis
      unfolding SuiteTls12 suite_material.simps tls12_material_def Let_def prf_for_secret_def
      by (rule yields_and_then [OF master], rule yields_and_then [OF yields_expect_result [OF wc_prf_yields [OF D(4)]]],
          use block in simp, rule yields_ok) (simp add: tls12_block_def Let_def)
  next
    case (SuiteTls13 s)
    note len = tls13_lengths [OF D(1)]
    have slice: "yields (expect_result (expand_slice (pl_kdf L) (expander_of (pl_kdf L) v prk) info (zeros n)) msg)
        (\<lambda>r. r = variant_okm (pl_kdf L) hmac v prk (concat info) n)"
      if "0 < n" "n \<le> 255 * variant_len v" for v prk info n msg
      using yields_expect_result [OF expand_slice_yields [OF D(3), of "zeros n" v prk info]] that by simp
    show ?thesis
      unfolding SuiteTls13 suite_material.simps tls13_material_def Let_def
      by (rule yields_and_then [OF assms(2)], rule yields_and_then [OF extract_from_secret_yields [OF D(3)]], simp only:,
          rule yields_and_then [OF expand_block_yields [OF D(3)]],
          rule yields_and_then [OF expander_for_okm_yields [OF D(3)]], simp only:,
          rule yields_and_then [OF slice [OF len(1,2)]], rule yields_and_then [OF slice [OF len(3,4)]], rule yields_ok)
        (simp add: tls13_traffic_def Let_def)
  qed
qed

lemma material_of_lengths:
  assumes "provider_libs_ok L S hmac prf" and "material_of L hmac prf suite I z = (key, iv, extra)"
  shows "key_material (pl_aead L) suite key iv extra"
proof -
  note D = provider_libs_okD [OF assms(1)]
  show ?thesis
  proof (cases suite)
    case (SuiteTls12 s)
    have "length (tls12_block L prf s I z) = (let shape = tls12_key_block_shape (t12_aead_alg s) in
        2 * enc_key_len shape + 2 * fixed_iv_len shape + explicit_nonce_len shape)"
      by (simp add: tls12_block_def Let_def length_variant_prf [OF D(4)])
    then show ?thesis using assms(2) SuiteTls12 by (auto simp: Let_def)
  next
    case (SuiteTls13 s)
    then show ?thesis
      using assms(2) by (auto simp: Let_def variant_okm_def variant_len_bounds
          length_hkdf_okm [OF length_mac [OF D(3)]])
  qed
qed

section \<open>A connection\<close>

text \<open>The client and the server start an exchange in one group, complete it with each other's public
  key, derive the key material of the suite, and make the client's writer and the server's reader
  of it; the client sends, the server receives.\<close>

definition connection ::
    "'s provider_libs \<Rightarrow> SupportedCipherSuite \<Rightarrow> SupportedKxGroup \<Rightarrow> schedule_inputs \<Rightarrow>
     OutboundPlainMessage list \<Rightarrow> u64 \<Rightarrow> ('s, rustls_error, InboundPlainMessage list) rust" where
  "connection L suite g I ms seq =
     and_then (kx_start (pl_rng L) (pl_x25519 L) (pl_ecc L) g) (\<lambda>client.
     and_then (kx_start (pl_rng L) (pl_x25519 L) (pl_ecc L) g) (\<lambda>server.
     and_then (suite_material L suite I client (kx_pub_key server)) (\<lambda>(ckey, civ, cextra).
     and_then (suite_material L suite I server (kx_pub_key client)) (\<lambda>(skey, siv, _).
     and_then (suite_writer (pl_aead L) suite ckey civ cextra) (\<lambda>e.
     and_then (suite_reader (pl_aead L) suite skey siv) (\<lambda>d.
     and_then (send_all (message_encrypt (pl_aead L) e) ms seq) (\<lambda>oms.
     recv_all (message_decrypt (pl_aead L) d) (map deliver oms) seq)))))))"

lemma cipher_sendable13: "sendable13 m \<Longrightarrow> cipher_sendable e m"
  by (cases e) simp_all

lemma suite_session:
  assumes L: "aead_libs_ok L" and k: "key_material L suite key iv extra"
    and ms: "\<forall>m \<in> set ms. sendable13 m"
  shows "yields (and_then (suite_writer L suite key iv extra) (\<lambda>e.
                 and_then (suite_reader L suite key iv) (\<lambda>d.
                 and_then (send_all (message_encrypt L e) ms seq) (\<lambda>oms.
                 recv_all (message_decrypt L d) (map deliver oms) seq))))
           (list_all2 same_content ms)"
proof -
  have run: "yields (and_then (suite_ends L suite key iv extra) (\<lambda>(e, d).
                 and_then (send_all (message_encrypt L e) ms seq) (\<lambda>oms.
                 recv_all (message_decrypt L d) (map deliver oms) seq)))
           (list_all2 same_content ms)"
  proof (rule yields_and_then [OF suite_ends_paired [OF L k]], clarify)
    fix e d assume "cipher_paired e d"
    then show "yields (and_then (send_all (message_encrypt L e) ms seq) (\<lambda>oms.
        recv_all (message_decrypt L d) (map deliver oms) seq)) (list_all2 same_content ms)"
      by (intro yields_and_then [OF cipher.session_ends_agree [OF L]]) (use ms in \<open>auto intro: cipher_sendable13\<close>)
  qed
  then show ?thesis by (simp add: suite_ends_def and_then_assoc)
qed

definition demo_provider :: "'s provider_libs" where
  "demo_provider = \<lparr>pl_aead = demo_aead, pl_rng = demo_rng, pl_x25519 = demo_curve25519,
     pl_ecc = demo_ecc, pl_kdf = demo_kdf\<rparr>"

lemma demo_provider_ok: "provider_libs_ok demo_provider demo_kx demo_mac demo_prf_mac"
  by (simp add: provider_libs_ok_def demo_provider_def demo_aead_ok demo_kx_ok demo_hkdf_ok demo_prf_ok)

text \<open>C1. From the key exchange to the application data.  For every suite and every group: two sides
  that run the key exchange, the key schedule of the suite and the record protection through the
  provider understand each other.  All steps succeed, and the receiver gets the sender's messages,
  in order and with the same content.\<close>

theorem connection_delivers:
  assumes "provider_libs_ok L S hmac prf" and "\<forall>m \<in> set ms. sendable13 m"
  shows "yields (connection L suite g I ms seq) (list_all2 same_content ms)"
  unfolding connection_def
proof (rule kx.both_started [where w = "(g, pl_rng L, pl_x25519 L, pl_ecc L, S)", simplified])
  note D = provider_libs_okD [OF assms(1)]
  show "kx_ok (pl_rng L) (pl_x25519 L) (pl_ecc L) S" by (rule D)
  fix client server a b
  assume h: "kx_holds S g client a" "kx_holds S g server b"
  define z where "z = kx_secret S g a (kx_pub_of S g b)"
  have c: "yields (kx_complete (pl_rng L) (pl_x25519 L) (pl_ecc L) client (kx_pub_key server)) (\<lambda>x. x = z)"
    using kx_complete_secret [OF D(2) h] by (simp add: z_def)
  have s: "yields (kx_complete (pl_rng L) (pl_x25519 L) (pl_ecc L) server (kx_pub_key client)) (\<lambda>x. x = z)"
    using kx_complete_secret [OF D(2) h(2,1)] by (simp add: z_def kx_secret_symmetric [OF D(2), of g a b])
  obtain key iv extra where m: "material_of L hmac prf suite I z = (key, iv, extra)"
    by (metis prod_cases3)
  note session = suite_session [OF D(1) material_of_lengths [OF assms(1) m] assms(2), of seq]
  show "yields (and_then (suite_material L suite I client (kx_pub_key server)) (\<lambda>(ckey, civ, cextra).
     and_then (suite_material L suite I server (kx_pub_key client)) (\<lambda>(skey, siv, _).
     and_then (suite_writer (pl_aead L) suite ckey civ cextra) (\<lambda>e.
     and_then (suite_reader (pl_aead L) suite skey siv) (\<lambda>d.
     and_then (send_all (message_encrypt (pl_aead L) e) ms seq) (\<lambda>oms.
     recv_all (message_decrypt (pl_aead L) d) (map deliver oms) seq))))))
     (list_all2 same_content ms)"
    by (rule yields_and_then [OF suite_material_yields [OF assms(1) c]], simp only: m prod.case,
        rule yields_and_then [OF suite_material_yields [OF assms(1) s]], simp only: m prod.case)
      (rule session)
qed

theorem connection_delivers_witness:
  "\<exists>ips. connection (demo_provider :: unit provider_libs) TLS12_ECDHE_RSA_WITH_AES_128_GCM_SHA256 SecP256R1
      \<lparr>si_master_label = [1], si_master_seed = [2], si_expansion_label = [3], si_expansion_seed = [4],
       si_salt = None, si_traffic_info = [], si_key_info = [], si_iv_info = []\<rparr>
      [\<lparr>pm_typ = ApplicationData, pm_version = TLSv1_2, pm_payload = [[7, 8], [9]]\<rparr>] 0 () = (Ok ips, ())
    \<and> map received_content ips = [(ApplicationData, [7, 8, 9])]"
  using yields_unit [OF connection_delivers [OF demo_provider_ok, of
        "[\<lparr>pm_typ = ApplicationData, pm_version = TLSv1_2, pm_payload = [[7, 8], [9]]\<rparr>]"]]
  by (simp add: same_contents_iff sendable13_def record_types_def chunks_len_def max_fragment_len_def
      sent_content_def chunks_bytes_def)

section \<open>Untrusted input\<close>

text \<open>C2. No input from outside stops the program.  Whatever bytes a peer, an attacker or a file
  supplies, as records, as a public key in the key exchange, as a certificate's key with a message
  and a signature, or as a private key file: none of the operations that take them panics.\<close>

theorem untrusted_input_never_panics:
  assumes "provider_libs_ok L S hmac prf" and "sigs_ok r w G" and "ecc_export_sound (ws_ecc w)"
    and "key_material (pl_aead L) suite key iv extra"
  shows "yields (suite_ends (pl_aead L) suite key iv extra) (\<lambda>(e, d). \<forall>im seq.
           no_panic (message_decrypt (pl_aead L) d im seq)
           \<and> (length (io_payload im) < 16 \<longrightarrow> message_decrypt (pl_aead L) d im seq = err DecryptError))
       \<and> yields (kx_start (pl_rng L) (pl_x25519 L) (pl_ecc L) g) (\<lambda>a. \<forall>peer.
           no_panic (kx_complete (pl_rng L) (pl_x25519 L) (pl_ecc L) a peer))
       \<and> (\<forall>a \<in> set (mapped_algorithms sch). no_panic (alg_verify_signature w a p m sig))
       \<and> no_panic (load_private_key pkcs8 w file)"
proof (intro conjI)
  note D = provider_libs_okD [OF assms(1)]
  show "yields (suite_ends (pl_aead L) suite key iv extra) (\<lambda>(e, d). \<forall>im seq.
           no_panic (message_decrypt (pl_aead L) d im seq)
           \<and> (length (io_payload im) < 16 \<longrightarrow> message_decrypt (pl_aead L) d im seq = err DecryptError))"
    by (rule yields_weaken [OF suite_ends_paired [OF D(1) assms(4)]])
       (auto intro: cipher.decrypt_panic_free [OF D(1)] cipher.decrypt_short)
  show "yields (kx_start (pl_rng L) (pl_x25519 L) (pl_ecc L) g) (\<lambda>a. \<forall>peer.
           no_panic (kx_complete (pl_rng L) (pl_x25519 L) (pl_ecc L) a peer))"
    by (rule yields_weaken [OF kx_start_holds [OF D(2)]]) (simp add: kx_complete_no_panic)
  show "\<forall>a \<in> set (mapped_algorithms sch). no_panic (alg_verify_signature w a p m sig)"
  proof (cases "sch \<in> set provider_schemes")
    case True
    have "length (mapped_algorithms sch) = 1"
      using algorithms_table True by (simp add: list_all_iff)
    then obtain a where a: "mapped_algorithms sch = [a]" by (auto simp: length_Suc_conv)
    from table.verify_exact [of "(sch, r, w, G)" p m sig undefined] True assms(2)
    show ?thesis by (simp add: a)
  next
    case False
    then have "sch \<notin> fst ` set (wp_mapping ALGORITHMS)" using algorithms_table by simp
    then have "mapped_algorithms sch = []"
      by (simp add: mapped_algorithms_def flip: map_of_eq_None_iff)
    then show ?thesis by simp
  qed
  obtain seedof keyof pubof where "ed25519_ok (ws_ed25519 w) (sg_ed G) seedof keyof pubof"
    by (rule sigs_okE [OF assms(2)])
  then show "no_panic (load_private_key pkcs8 w file)"
    by (intro load_private_key_no_panic assms(3) ed25519_try_from_no_panic)
qed

theorem untrusted_input_never_panics_witness:
  "no_panic (load_private_key demo_pkcs8 (demo_sigs :: unit wolf_sigs) (Sec1 [0x30, 0xff]))
   \<and> no_panic (alg_verify_signature (demo_sigs :: unit wolf_sigs) RsaPssSha512Verify [1] [2] [])"
proof -
  have "RsaPssSha512Verify \<in> set (mapped_algorithms RSA_PSS_SHA512)"
    by (simp add: mapped_algorithms_def ALGORITHMS_def)
  moreover have "ecc_export_sound (ws_ecc (demo_sigs :: unit wolf_sigs))"
    by (simp add: demo_sigs_def demo_ecc_export)
  moreover have "key_material (pl_aead (demo_provider :: unit provider_libs)) TLS13_CHACHA20_POLY1305_SHA256
      (zeros 32) (zeros 12) []"
    using demo_chacha_material by (simp add: demo_provider_def)
  ultimately show ?thesis
    using untrusted_input_never_panics [OF demo_provider_ok demo_sigs_ok] by blast
qed

end
