(* ===== verification/TestHarness.thy ===== *)
theory TestHarness
  imports Prelude
begin

text \<open>
  The unit tests of the source files are programs over the provider, and are modelled like the rest
  of it.  This theory holds what a Rust test is made of: assertions, \<open>unwrap\<close>, inspecting a
  \<open>Result\<close> without leaving the test, and loops over a counted list of cases.  A test passes if it
  returns; a failed assertion is a panic.  A Rust test cannot return an error here, so the error
  type of a test is \<open>unit\<close> and stays unused.
\<close>

type_synonym 's test = "('s, unit, unit) rust"

definition assert_that :: "bool \<Rightarrow> ('s, 'e, unit) rust" where
  "assert_that b = (if b then ok () else panic ''assertion failed'')"

abbreviation unwrap :: "('s, 'x, 'a) ffi \<Rightarrow> ('s, 'e, 'a) rust" where
  "unwrap c \<equiv> expect c ''called Result::unwrap() on an Err value''"

abbreviation unwrap_result :: "('s, 'x, 'a) rust \<Rightarrow> ('s, 'e, 'a) rust" where
  "unwrap_result m \<equiv> expect_result m ''called Result::unwrap() on an Err value''"

lemma unwrap_of_result [simp]: "unwrap (of_result (Inr x)) = ok x"
  by (simp add: expect_def of_result_def ok_def)

text \<open>\<open>let result = call;\<close>: the \<open>Result\<close> itself as a value.\<close>

definition attempt :: "('s, 'x, 'a) ffi \<Rightarrow> ('s, 'e, 'x + 'a) rust" where
  "attempt c = (\<lambda>s. case c s of (r, s') \<Rightarrow> (Ok r, s'))"

definition attempt_result :: "('s, 'x, 'a) rust \<Rightarrow> ('s, 'e, 'x + 'a) rust" where
  "attempt_result m = (\<lambda>s. case m s of
       (Ok x, s') \<Rightarrow> (Ok (Inr x), s')
     | (Err e, s') \<Rightarrow> (Ok (Inl e), s')
     | (Panic p, s') \<Rightarrow> (Panic p, s'))"

fun is_ok :: "'x + 'a \<Rightarrow> bool" where
  "is_ok (Inr x) = True"
| "is_ok (Inl e) = False"

text \<open>The verdict that the \<open>wycheproof\<close> crate gives of a vector.\<close>

datatype TestResult = Valid | Invalid | Acceptable

text \<open>\<open>"...".as_bytes()\<close>.\<close>

definition as_bytes :: "string \<Rightarrow> bytes" where
  "as_bytes s = map of_char s"

text \<open>\<open>counter += 1\<close> on an \<open>i32\<close>, with the overflow check of a test build.\<close>

definition i32_increment :: "int \<Rightarrow> ('s, 'e, int) rust" where
  "i32_increment c = (if c < 2147483647 then ok (c + 1) else panic ''attempt to add with overflow'')"

text \<open>\<open>for case in cases { counter += 1; body }\<close>, and \<open>for case in cases { body }\<close>.\<close>

fun for_counted :: "('a \<Rightarrow> ('s, 'e, unit) rust) \<Rightarrow> 'a list \<Rightarrow> int \<Rightarrow> ('s, 'e, int) rust" where
  "for_counted body [] c = ok c"
| "for_counted body (x # xs) c =
     and_then (i32_increment c) (\<lambda>c. and_then (body x) (\<lambda>_. for_counted body xs c))"

fun for_each :: "('a \<Rightarrow> ('s, 'e, unit) rust) \<Rightarrow> 'a list \<Rightarrow> ('s, 'e, unit) rust" where
  "for_each body [] = ok ()"
| "for_each body (x # xs) = and_then (body x) (\<lambda>_. for_each body xs)"

text \<open>\<open>passes t\<close>: the test passes from every state of the library; \<open>panics t\<close>: it fails from every
  state.  \<open>decides t C\<close>: it passes if \<open>C\<close> holds and fails otherwise.\<close>

definition passes :: "('s, 'e, 'a) rust \<Rightarrow> bool" where
  "passes t \<longleftrightarrow> yields t (\<lambda>_. True)"

definition panics :: "('s, 'e, 'a) rust \<Rightarrow> bool" where
  "panics t \<longleftrightarrow> (\<forall>s. \<exists>p s'. t s = (Panic p, s'))"

definition decides :: "('s, 'e, 'a) rust \<Rightarrow> bool \<Rightarrow> bool" where
  "decides t C \<longleftrightarrow> (C \<longrightarrow> passes t) \<and> (\<not> C \<longrightarrow> panics t)"

text \<open>A test cannot both pass and fail, so \<open>decides\<close> is an equivalence.\<close>

lemma passes_not_panics: "passes t \<Longrightarrow> \<not> panics t"
proof
  fix s assume "passes t" "panics t"
  then obtain x s' p s'' where "t s = (Ok x, s')" "t s = (Panic p, s'')"
    unfolding passes_def panics_def yields_def by blast
  then show False by simp
qed

lemma decides_iff: "decides t C \<Longrightarrow> passes t \<longleftrightarrow> C"
  using passes_not_panics [of t] by (auto simp: decides_def)

lemma panics_panic [simp]: "panics (panic p)"
  by (simp add: panics_def panic_def)

lemma passes_ok [simp]: "passes (ok x)"
  by (simp add: passes_def yields_ok)

lemma not_panics_ok [simp]: "\<not> panics (ok x)"
  by (rule passes_not_panics) simp

lemma not_passes_panic [simp]: "\<not> passes (panic p)"
  using passes_not_panics panics_panic by blast

lemma panics_first: "panics m \<Longrightarrow> panics (and_then m f)"
  unfolding panics_def by (rule allI, drule_tac x = s in spec) (auto simp: and_then_def)

lemma panics_later:
  assumes m: "yields m P" and f: "\<And>x. P x \<Longrightarrow> panics (f x)"
  shows "panics (and_then m f)"
  unfolding panics_def
proof
  fix s
  obtain x s' where "m s = (Ok x, s')" "P x" using yieldsD [OF m] by blast
  moreover then obtain p s'' where "f x s' = (Panic p, s'')" using f unfolding panics_def by blast
  ultimately show "\<exists>p s'. and_then m f s = (Panic p, s')" by (simp add: and_then_def)
qed

text \<open>The rules by which the verdict of a test is put together.\<close>

lemma decides_assert [simp]: "decides (assert_that b) C \<longleftrightarrow> b = C"
  by (auto simp: decides_def assert_that_def)

lemma decides_ok [simp]: "decides (ok x) C \<longleftrightarrow> C"
  by (simp add: decides_def)

lemma expect_of_result: "expect (of_result (Inr x)) msg = ok x"
  by (simp add: expect_def of_result_def ok_def)

lemma assert_that_True [simp]: "assert_that True = ok ()"
  by (simp add: assert_that_def)

lemma decides_cong: "decides t C \<Longrightarrow> C = D \<Longrightarrow> decides t D"
  by simp

lemma decides_after:
  assumes "yields m P" and "\<And>x. P x \<Longrightarrow> decides (f x) C"
  shows "decides (and_then m f) C"
  using assms unfolding decides_def passes_def
  by (blast intro: yields_and_then panics_later)

lemma decides_conj:
  assumes "decides m C" and "\<And>x. C \<Longrightarrow> decides (f x) D"
  shows "decides (and_then m f) (C \<and> D)"
proof (cases C)
  case True
  then have "yields m (\<lambda>_. True)" using assms(1) by (simp add: decides_def passes_def)
  from decides_after [OF this, of f D] show ?thesis using assms(2) True by simp
next
  case False
  then show ?thesis using assms(1) by (simp add: decides_def panics_first)
qed

lemma yields_attempt: "ffi_yields c P \<Longrightarrow> yields (attempt c) (\<lambda>r. \<exists>x. r = Inr x \<and> P x)"
  unfolding yields_def ffi_yields_def by (rule allI, drule_tac x = s in spec) (auto simp: attempt_def)

lemma yields_attempt_any: "ffi_ensures c P \<Longrightarrow> yields (attempt c) (\<lambda>r. \<forall>x. r = Inr x \<longrightarrow> P x)"
  unfolding yields_def ffi_ensures_def attempt_def
  by (metis (mono_tags, lifting) case_prod_conv surj_pair)

lemma yields_attempt_result: "yields m P \<Longrightarrow> yields (attempt_result m) (\<lambda>r. \<exists>x. r = Inr x \<and> P x)"
  unfolding yields_def attempt_result_def by (rule allI, drule_tac x = s in spec) auto

lemma attempt_result_err [simp]: "attempt_result (err e) = ok (Inl e)"
  by (rule ext) (simp add: attempt_result_def err_def ok_def)

lemma i32_increment_small: "c < 2147483647 \<Longrightarrow> i32_increment c = ok (c + 1)"
  by (simp add: i32_increment_def)

lemma for_counted_yields:
  assumes "\<And>x. x \<in> set xs \<Longrightarrow> passes (body x)" and "c + int (length xs) \<le> 2147483647"
  shows "yields (for_counted body xs c) (\<lambda>c'. c' = c + int (length xs))"
  using assms
proof (induction xs arbitrary: c)
  case (Cons x xs)
  have rest: "yields (for_counted body xs (c + 1)) (\<lambda>c'. c' = c + int (length (x # xs)))"
    using Cons.IH [of "c + 1"] Cons.prems by (simp add: add.assoc)
  have "yields (body x) (\<lambda>_. True)" using Cons.prems(1) [of x] by (simp add: passes_def)
  from yields_and_then [OF this rest] show ?case using Cons.prems(2) by (simp add: i32_increment_small)
qed (simp add: yields_ok)

lemma for_counted_panics:
  assumes "\<And>x. x \<in> set xs \<Longrightarrow> decides (body x) (C x)" and "c + int (length xs) \<le> 2147483647"
    and "x \<in> set xs" and "\<not> C x"
  shows "panics (for_counted body xs c)"
  using assms
proof (induction xs arbitrary: c)
  case (Cons y xs)
  have loop: "for_counted body (y # xs) c = and_then (body y) (\<lambda>_. for_counted body xs (c + 1))"
    using Cons.prems(2) by (simp add: i32_increment_small)
  have y: "decides (body y) (C y)" using Cons.prems(1) by simp
  show ?case
  proof (cases "C y")
    case True
    then have "x \<in> set xs" using Cons.prems(3,4) by auto
    then have "panics (for_counted body xs (c + 1))" using Cons.IH [of "c + 1"] Cons.prems by simp
    moreover have "yields (body y) (\<lambda>_. True)" using y True by (simp add: decides_def passes_def)
    ultimately show ?thesis unfolding loop by (blast intro: panics_later)
  next
    case False
    then show ?thesis unfolding loop using y by (simp add: decides_def panics_first)
  qed
qed simp

text \<open>A counted loop followed by what the test does with the count.\<close>

lemma decides_for_counted:
  assumes "\<And>x. x \<in> set xs \<Longrightarrow> decides (body x) (C x)" and "c + int (length xs) \<le> 2147483647"
    and "decides (f (c + int (length xs))) D"
  shows "decides (and_then (for_counted body xs c) f) ((\<forall>x\<in>set xs. C x) \<and> D)"
proof (cases "\<forall>x\<in>set xs. C x")
  case True
  then have "yields (for_counted body xs c) (\<lambda>c'. c' = c + int (length xs))"
    using assms(1,2) by (intro for_counted_yields) (simp_all add: decides_def)
  from decides_after [OF this, of f D] show ?thesis using assms(3) True by simp
next
  case False
  then obtain x where "x \<in> set xs" "\<not> C x" by blast
  then have "panics (for_counted body xs c)" by (intro for_counted_panics [where C = C and x = x] assms(1,2))
  with False show ?thesis unfolding decides_def by (blast intro: panics_first)
qed

lemma decides_for_each:
  assumes "\<And>x. x \<in> set xs \<Longrightarrow> decides (body x) (C x)"
  shows "decides (for_each body xs) (\<forall>x\<in>set xs. C x)"
  using assms
proof (induction xs)
  case (Cons x xs)
  have "decides (for_each body (x # xs)) (C x \<and> (\<forall>y\<in>set xs. C y))"
    using Cons by (simp, intro decides_conj) simp_all
  then show ?case by simp
qed simp

lemma passes_for_each:
  "(\<And>x. x \<in> set xs \<Longrightarrow> passes (body x)) \<Longrightarrow> passes (for_each body xs)"
  by (induction xs) (auto simp: passes_def intro!: yields_and_then yields_ok)

end
