(* ===== verification/AeadVectors.thy ===== *)
theory AeadVectors
  imports TestHarness Aes256Gcm Chacha20
begin

text \<open>
  The tests of \<open>src/aead/aes128gcm.rs\<close>, \<open>aes256gcm.rs\<close> and \<open>chacha20.rs\<close>: one fixed vector each, and a
  run over the vectors of the \<open>wycheproof\<close> crate.  They call the AEAD the way the record functions
  do, so they are what checks the laws that those rest on.  The theorems say what a test checks: it
  passes exactly if the vectors agree with the AEAD function of the library.

  The vectors are data of the crate, which is not under \<open>src/\<close>: what \<open>TestSet::load\<close> gives is an
  argument.  Of the crate's flags only \<open>ModifiedTag\<close> matters.  What a failed encryption leaves in its
  two buffers is not documented, and is an argument as well (\<open>left\<close>).  A GCM context that was used for
  an encryption keeps its key.
\<close>

section \<open>Vectors\<close>

datatype TestName = AesGcm | ChaCha20Poly1305
datatype TestFlag = ModifiedTag | OtherFlag string

record aead_test =
  at_key :: bytes
  at_nonce :: bytes
  at_aad :: bytes
  at_pt :: bytes
  at_ct :: bytes
  at_tag :: bytes
  at_result :: TestResult
  at_flags :: "TestFlag list"

record aead_group =
  ag_key_size :: usize
  ag_nonce_size :: usize
  ag_tests :: "aead_test list"

type_synonym leftovers = "bytes \<times> bytes \<Rightarrow> i32 \<Rightarrow> bytes \<times> bytes"

text \<open>The fixed vector of a test.\<close>

record aead_vector =
  av_key :: bytes
  av_iv :: bytes
  av_plain :: bytes
  av_aad :: bytes
  av_cipher :: bytes
  av_tag :: bytes

section \<open>The code\<close>

text \<open>What the runs over \<open>wycheproof\<close> check of an encryption and of a decryption.\<close>

definition check_encryption :: "aead_test \<Rightarrow> i32 + bytes \<times> bytes \<Rightarrow> bytes \<times> bytes \<Rightarrow> ('s, 'e, unit) rust" where
  "check_encryption test encrypt_result actual =
     (case actual of (actual_ciphertext, actual_tag) \<Rightarrow>
        (case at_result test of
           Invalid \<Rightarrow>
             if list_ex (\<lambda>flag. flag = ModifiedTag) (at_flags test)
             then assert_that (actual_tag \<noteq> at_tag test) else ok ()
         | _ \<Rightarrow>
             and_then (assert_that (is_ok encrypt_result)) (\<lambda>_.
             and_then (assert_that (actual_ciphertext = at_ct test)) (\<lambda>_.
             assert_that (actual_tag = at_tag test)))))"

definition check_decryption :: "aead_test \<Rightarrow> i32 + bytes \<Rightarrow> ('s, 'e, unit) rust" where
  "check_decryption test decrypt_result =
     (case at_result test of
        Invalid \<Rightarrow> assert_that (\<not> is_ok decrypt_result)
      | _ \<Rightarrow> (case decrypt_result of
           Inr decrypted_data \<Rightarrow> assert_that (decrypted_data = at_pt test)
         | Inl _ \<Rightarrow> panic ''Decryption failed''))"

text \<open>The two buffers after an encryption.\<close>

fun buffers_after :: "leftovers \<Rightarrow> bytes \<times> bytes \<Rightarrow> i32 + bytes \<times> bytes \<Rightarrow> bytes \<times> bytes" where
  "buffers_after left before (Inr r) = r"
| "buffers_after left before (Inl e) = left before e"

text \<open>\<open>aead/aes128gcm.rs\<close>.\<close>

definition test_aesgcm128_vector :: aead_vector where
  "test_aesgcm128_vector = \<lparr>
     av_key = [
       0x29, 0x8e, 0xfa, 0x1c, 0xcf, 0x29, 0xcf, 0x62, 0xae, 0x68, 0x24, 0xbf, 0xc1, 0x95, 0x57, 0xfc],
     av_iv = [
       0x6f, 0x58, 0xa9, 0x3f, 0xe1, 0xd2, 0x07, 0xfa, 0xe4, 0xed, 0x2f, 0x6d],
     av_plain = [
       0xcc, 0x38, 0xbc, 0xcd, 0x6b, 0xc5, 0x36, 0xad, 0x91, 0x9b, 0x13, 0x95, 0xf5, 0xd6, 0x38,
       0x01, 0xf9, 0x9f, 0x80, 0x68, 0xd6, 0x5c, 0xa5, 0xac, 0x63, 0x87, 0x2d, 0xaf, 0x16, 0xb9,
       0x39, 0x01],
     av_aad = [
       0x02, 0x1f, 0xaf, 0xd2, 0x38, 0x46, 0x39, 0x73, 0xff, 0xe8, 0x02, 0x56, 0xe5, 0xb1, 0xc6, 0xb1],
     av_cipher = [
       0xdf, 0xce, 0x4e, 0x9c, 0xd2, 0x91, 0x10, 0x3d, 0x7f, 0xe4, 0xe6, 0x33, 0x51, 0xd9, 0xe7,
       0x9d, 0x3d, 0xfd, 0x39, 0x1e, 0x32, 0x67, 0x10, 0x46, 0x58, 0x21, 0x2d, 0xa9, 0x65, 0x21,
       0xb7, 0xdb],
     av_tag = [
       0x54, 0x24, 0x65, 0xef, 0x59, 0x93, 0x16, 0xf7, 0x3a, 0x7a, 0x56, 0x05, 0x09, 0xa2, 0xd9, 0xf2]\<rparr>"

definition test_aesgcm128 :: "'s wolf_gcm \<Rightarrow> 's test" where
  "test_aesgcm128 w =
     (let v = test_aesgcm128_vector;
          result_encrypted = zeros 32; result_decrypted = zeros 32; result_tag = zeros 16 in
      and_then (unwrap (gcm_new w)) (\<lambda>gcm.
      and_then (unwrap (gcm_init w gcm (av_key v))) (\<lambda>gcm.
      and_then (unwrap (gcm_encrypt w gcm (av_plain v) result_encrypted (av_iv v) (av_aad v) result_tag))
        (\<lambda>(result_encrypted, result_tag).
      and_then (assert_that (result_encrypted = av_cipher v)) (\<lambda>_.
      and_then (assert_that (result_tag = av_tag v)) (\<lambda>_.
      and_then (unwrap (gcm_decrypt w gcm (av_cipher v) result_decrypted (av_iv v) (av_aad v) result_tag))
        (\<lambda>result_decrypted.
      assert_that (result_decrypted = av_plain v))))))))"

definition aesgcm128_case :: "'s wolf_gcm \<Rightarrow> leftovers \<Rightarrow> aead_test \<Rightarrow> 's test" where
  "aesgcm128_case w left test =
     (let actual_ciphertext = zeros (length (at_pt test));
          actual_tag = zeros GCM_TAG_LENGTH in
      and_then (unwrap (gcm_new w)) (\<lambda>gcm.
      and_then (unwrap (gcm_init w gcm (at_key test))) (\<lambda>gcm.
      and_then (attempt (gcm_encrypt w gcm (at_pt test) actual_ciphertext (at_nonce test) (at_aad test) actual_tag))
        (\<lambda>encrypt_result.
      and_then (check_encryption test encrypt_result
                 (buffers_after left (actual_ciphertext, actual_tag) encrypt_result)) (\<lambda>_.
      let decrypted_data = zeros (length (at_ct test)) in
      and_then (attempt (gcm_decrypt w gcm (at_ct test) decrypted_data (at_nonce test) (at_aad test) (at_tag test)))
        (\<lambda>decrypt_result.
      check_decryption test decrypt_result))))))"

definition groups_tests :: "usize \<Rightarrow> aead_group list \<Rightarrow> aead_test list" where
  "groups_tests key_size gs =
     concat (map ag_tests (filter (\<lambda>group. ag_nonce_size group = 96)
       (filter (\<lambda>group. ag_key_size group = key_size) gs)))"

definition test_aesgcm128_wycheproof ::
    "'s wolf_gcm \<Rightarrow> leftovers \<Rightarrow> (TestName \<Rightarrow> string + aead_group list) \<Rightarrow> 's test" where
  "test_aesgcm128_wycheproof w left load =
     and_then (unwrap (of_result (load AesGcm))) (\<lambda>test_set.
     and_then (for_counted (aesgcm128_case w left) (groups_tests 128 test_set) 0) (\<lambda>counter.
     assert_that (counter > 50)))"

text \<open>\<open>aead/aes256gcm.rs\<close>.\<close>

definition test_aesgcm256_vector :: aead_vector where
  "test_aesgcm256_vector = \<lparr>
     av_key = [
       0xfe, 0xff, 0xe9, 0x92, 0x86, 0x65, 0x73, 0x1c, 0x6d, 0x6a, 0x8f, 0x94, 0x67, 0x30, 0x83,
       0x08, 0xfe, 0xff, 0xe9, 0x92, 0x86, 0x65, 0x73, 0x1c, 0x6d, 0x6a, 0x8f, 0x94, 0x67, 0x30,
       0x83, 0x08],
     av_iv = [
       0xca, 0xfe, 0xba, 0xbe, 0xfa, 0xce, 0xdb, 0xad, 0xde, 0xca, 0xf8, 0x88],
     av_plain = [
       0xd9, 0x31, 0x32, 0x25, 0xf8, 0x84, 0x06, 0xe5, 0xa5, 0x59, 0x09, 0xc5, 0xaf, 0xf5, 0x26,
       0x9a, 0x86, 0xa7, 0xa9, 0x53, 0x15, 0x34, 0xf7, 0xda, 0x2e, 0x4c, 0x30, 0x3d, 0x8a, 0x31,
       0x8a, 0x72, 0x1c, 0x3c, 0x0c, 0x95, 0x95, 0x68, 0x09, 0x53, 0x2f, 0xcf, 0x0e, 0x24, 0x49,
       0xa6, 0xb5, 0x25, 0xb1, 0x6a, 0xed, 0xf5, 0xaa, 0x0d, 0xe6, 0x57, 0xba, 0x63, 0x7b, 0x39],
     av_aad = [
       0xfe, 0xed, 0xfa, 0xce, 0xde, 0xad, 0xbe, 0xef, 0xfe, 0xed, 0xfa, 0xce, 0xde, 0xad, 0xbe,
       0xef, 0xab, 0xad, 0xda, 0xd2],
     av_cipher = [
       0x52, 0x2d, 0xc1, 0xf0, 0x99, 0x56, 0x7d, 0x07, 0xf4, 0x7f, 0x37, 0xa3, 0x2a, 0x84, 0x42,
       0x7d, 0x64, 0x3a, 0x8c, 0xdc, 0xbf, 0xe5, 0xc0, 0xc9, 0x75, 0x98, 0xa2, 0xbd, 0x25, 0x55,
       0xd1, 0xaa, 0x8c, 0xb0, 0x8e, 0x48, 0x59, 0x0d, 0xbb, 0x3d, 0xa7, 0xb0, 0x8b, 0x10, 0x56,
       0x82, 0x88, 0x38, 0xc5, 0xf6, 0x1e, 0x63, 0x93, 0xba, 0x7a, 0x0a, 0xbc, 0xc9, 0xf6, 0x62],
     av_tag = [
       0x76, 0xfc, 0x6e, 0xce, 0x0f, 0x4e, 0x17, 0x68, 0xcd, 0xdf, 0x88, 0x53, 0xbb, 0x2d, 0x55, 0x1b]\<rparr>"

definition test_aesgcm256 :: "'s wolf_gcm \<Rightarrow> 's test" where
  "test_aesgcm256 w =
     (let v = test_aesgcm256_vector;
          result_encrypted = zeros 60; result_decrypted = zeros 60; result_tag = zeros 16 in
      and_then (unwrap (gcm_new w)) (\<lambda>gcm.
      and_then (unwrap (gcm_init w gcm (av_key v))) (\<lambda>gcm.
      and_then (unwrap (gcm_encrypt w gcm (av_plain v) result_encrypted (av_iv v) (av_aad v) result_tag))
        (\<lambda>(result_encrypted, result_tag).
      and_then (assert_that (result_encrypted = av_cipher v)) (\<lambda>_.
      and_then (assert_that (result_tag = av_tag v)) (\<lambda>_.
      and_then (unwrap (gcm_decrypt w gcm (av_cipher v) result_decrypted (av_iv v) (av_aad v) result_tag))
        (\<lambda>result_decrypted.
      assert_that (result_decrypted = av_plain v))))))))"

definition aesgcm256_case :: "'s wolf_gcm \<Rightarrow> leftovers \<Rightarrow> aead_test \<Rightarrow> 's test" where
  "aesgcm256_case w left test =
     (let actual_ciphertext = zeros (length (at_pt test));
          actual_tag = zeros GCM_TAG_LENGTH in
      and_then (unwrap (gcm_new w)) (\<lambda>gcm.
      and_then (unwrap (gcm_init w gcm (at_key test))) (\<lambda>gcm.
      and_then (attempt (gcm_encrypt w gcm (at_pt test) actual_ciphertext (at_nonce test) (at_aad test) actual_tag))
        (\<lambda>encrypt_result.
      and_then (check_encryption test encrypt_result
                 (buffers_after left (actual_ciphertext, actual_tag) encrypt_result)) (\<lambda>_.
      let decrypted_data = zeros (length (at_ct test)) in
      and_then (attempt (gcm_decrypt w gcm (at_ct test) decrypted_data (at_nonce test) (at_aad test) (at_tag test)))
        (\<lambda>decrypt_result.
      check_decryption test decrypt_result))))))"

definition test_aesgcm256_wycheproof ::
    "'s wolf_gcm \<Rightarrow> leftovers \<Rightarrow> (TestName \<Rightarrow> string + aead_group list) \<Rightarrow> 's test" where
  "test_aesgcm256_wycheproof w left load =
     and_then (unwrap (of_result (load AesGcm))) (\<lambda>test_set.
     and_then (for_counted (aesgcm256_case w left) (groups_tests 256 test_set) 0) (\<lambda>counter.
     assert_that (counter > 50)))"

text \<open>\<open>aead/chacha20.rs\<close>.\<close>

definition test_chacha_vector :: aead_vector where
  "test_chacha_vector = \<lparr>
     av_key = [
       0x80, 0x81, 0x82, 0x83, 0x84, 0x85, 0x86, 0x87, 0x88, 0x89, 0x8a, 0x8b, 0x8c, 0x8d, 0x8e,
       0x8f, 0x90, 0x91, 0x92, 0x93, 0x94, 0x95, 0x96, 0x97, 0x98, 0x99, 0x9a, 0x9b, 0x9c, 0x9d,
       0x9e, 0x9f],
     av_iv = [
       0x07, 0x00, 0x00, 0x00, 0x40, 0x41, 0x42, 0x43, 0x44, 0x45, 0x46, 0x47],
     av_plain = [
       0x4c, 0x61, 0x64, 0x69, 0x65, 0x73, 0x20, 0x61, 0x6e, 0x64, 0x20, 0x47, 0x65, 0x6e, 0x74,
       0x6c, 0x65, 0x6d, 0x65, 0x6e, 0x20, 0x6f, 0x66, 0x20, 0x74, 0x68, 0x65, 0x20, 0x63, 0x6c,
       0x61, 0x73, 0x73, 0x20, 0x6f, 0x66, 0x20, 0x27, 0x39, 0x39, 0x3a, 0x20, 0x49, 0x66, 0x20,
       0x49, 0x20, 0x63, 0x6f, 0x75, 0x6c, 0x64, 0x20, 0x6f, 0x66, 0x66, 0x65, 0x72, 0x20, 0x79,
       0x6f, 0x75, 0x20, 0x6f, 0x6e, 0x6c, 0x79, 0x20, 0x6f, 0x6e, 0x65, 0x20, 0x74, 0x69, 0x70,
       0x20, 0x66, 0x6f, 0x72, 0x20, 0x74, 0x68, 0x65, 0x20, 0x66, 0x75, 0x74, 0x75, 0x72, 0x65,
       0x2c, 0x20, 0x73, 0x75, 0x6e, 0x73, 0x63, 0x72, 0x65, 0x65, 0x6e, 0x20, 0x77, 0x6f, 0x75,
       0x6c, 0x64, 0x20, 0x62, 0x65, 0x20, 0x69, 0x74, 0x2e],
     av_aad = [
       0x50, 0x51, 0x52, 0x53, 0xc0, 0xc1, 0xc2, 0xc3, 0xc4, 0xc5, 0xc6, 0xc7],
     av_cipher = [
       0xd3, 0x1a, 0x8d, 0x34, 0x64, 0x8e, 0x60, 0xdb, 0x7b, 0x86, 0xaf, 0xbc, 0x53, 0xef, 0x7e,
       0xc2, 0xa4, 0xad, 0xed, 0x51, 0x29, 0x6e, 0x08, 0xfe, 0xa9, 0xe2, 0xb5, 0xa7, 0x36, 0xee,
       0x62, 0xd6, 0x3d, 0xbe, 0xa4, 0x5e, 0x8c, 0xa9, 0x67, 0x12, 0x82, 0xfa, 0xfb, 0x69, 0xda,
       0x92, 0x72, 0x8b, 0x1a, 0x71, 0xde, 0x0a, 0x9e, 0x06, 0x0b, 0x29, 0x05, 0xd6, 0xa5, 0xb6,
       0x7e, 0xcd, 0x3b, 0x36, 0x92, 0xdd, 0xbd, 0x7f, 0x2d, 0x77, 0x8b, 0x8c, 0x98, 0x03, 0xae,
       0xe3, 0x28, 0x09, 0x1b, 0x58, 0xfa, 0xb3, 0x24, 0xe4, 0xfa, 0xd6, 0x75, 0x94, 0x55, 0x85,
       0x80, 0x8b, 0x48, 0x31, 0xd7, 0xbc, 0x3f, 0xf4, 0xde, 0xf0, 0x8e, 0x4b, 0x7a, 0x9d, 0xe5,
       0x76, 0xd2, 0x65, 0x86, 0xce, 0xc6, 0x4b, 0x61, 0x16],
     av_tag = [
       0x1a, 0xe1, 0x0b, 0x59, 0x4f, 0x09, 0xe2, 0x6a, 0x7e, 0x90, 0x2e, 0xcb, 0xd0, 0x60, 0x06, 0x91]\<rparr>"

definition test_chacha :: "'s wolf_chacha \<Rightarrow> 's test" where
  "test_chacha w =
     (let v = test_chacha_vector;
          generated_cipher_text = zeros 114; generated_auth_tag = zeros CHACHAPOLY1305_OVERHEAD in
      and_then (unwrap (chacha_encrypt w (av_key v) (av_iv v) (av_aad v) (av_plain v)
                  generated_cipher_text generated_auth_tag))
        (\<lambda>(generated_cipher_text, generated_auth_tag).
      and_then (assert_that (generated_cipher_text = av_cipher v)) (\<lambda>_.
      and_then (assert_that (generated_auth_tag = av_tag v)) (\<lambda>_.
      let generated_plain_text = zeros 114 in
      and_then (unwrap (chacha_decrypt w (av_key v) (av_iv v) (av_aad v) (av_cipher v) (av_tag v)
                  generated_plain_text)) (\<lambda>generated_plain_text.
      assert_that (generated_plain_text = av_plain v))))))"

definition chacha_case :: "'s wolf_chacha \<Rightarrow> leftovers \<Rightarrow> aead_test \<Rightarrow> 's test" where
  "chacha_case w left test =
     (let actual_ciphertext = zeros (length (at_pt test));
          actual_tag = zeros CHACHAPOLY1305_OVERHEAD in
      and_then (attempt (chacha_encrypt w (at_key test) (at_nonce test) (at_aad test) (at_pt test)
                  actual_ciphertext actual_tag)) (\<lambda>encrypt_result.
      and_then (check_encryption test encrypt_result
                 (buffers_after left (actual_ciphertext, actual_tag) encrypt_result)) (\<lambda>_.
      let decrypted_data = zeros (length (at_ct test)) in
      and_then (attempt (chacha_decrypt w (at_key test) (at_nonce test) (at_aad test) (at_ct test)
                  (at_tag test) decrypted_data)) (\<lambda>decrypt_result.
      check_decryption test decrypt_result))))"

definition test_chacha20poly1305_wycheproof ::
    "'s wolf_chacha \<Rightarrow> leftovers \<Rightarrow> (TestName \<Rightarrow> string + aead_group list) \<Rightarrow> 's test" where
  "test_chacha20poly1305_wycheproof w left load =
     and_then (unwrap (of_result (load ChaCha20Poly1305))) (\<lambda>test_set.
     and_then (for_counted (chacha_case w left) (groups_tests 256 test_set) 0) (\<lambda>counter.
     assert_that (counter > 50)))"

section \<open>What a test checks\<close>

text \<open>The encryption and the decryption of a case, with the AEAD function they implement.\<close>

definition vector_right :: "aead_fun \<Rightarrow> aead_test \<Rightarrow> bool" where
  "vector_right seal test =
     (let sealed = seal (at_key test) (at_nonce test) (at_aad test) in
      case at_result test of
        Invalid \<Rightarrow> (ModifiedTag \<in> set (at_flags test) \<longrightarrow> snd (sealed (at_pt test)) \<noteq> at_tag test)
          \<and> (\<forall>p. sealed p \<noteq> (at_ct test, at_tag test))
      | _ \<Rightarrow> sealed (at_pt test) = (at_ct test, at_tag test))"

definition vector_shaped :: "usize \<Rightarrow> aead_test \<Rightarrow> bool" where
  "vector_shaped key_size test \<longleftrightarrow>
     length (at_key test) = key_size div 8 \<and> length (at_nonce test) = 12 \<and> length (at_tag test) = 16"

lemma decides_vector:
  fixes enc :: "('s, i32, bytes \<times> bytes) ffi" and dec :: "('s, i32, bytes) ffi"
  assumes enc: "ffi_yields enc (\<lambda>r. seal (at_key test) (at_nonce test) (at_aad test) (at_pt test) = r)"
    and dec: "ffi_ensures dec (\<lambda>p. seal (at_key test) (at_nonce test) (at_aad test) p = (at_ct test, at_tag test))"
    and dec_live: "\<And>p. seal (at_key test) (at_nonce test) (at_aad test) p = (at_ct test, at_tag test) \<Longrightarrow>
      ffi_yields dec (\<lambda>p'. p' = p)"
  shows "decides (and_then (attempt enc) (\<lambda>er.
      and_then (check_encryption test er (buffers_after left before er)) (\<lambda>_.
      and_then (attempt dec) (check_decryption test)))) (vector_right seal test)"
proof (rule decides_after [OF yields_attempt [OF enc]])
  fix er :: "i32 + bytes \<times> bytes"
  assume "\<exists>r. er = Inr r \<and> seal (at_key test) (at_nonce test) (at_aad test) (at_pt test) = r"
  then obtain c t where er: "er = Inr (c, t)"
    and sealed: "seal (at_key test) (at_nonce test) (at_aad test) (at_pt test) = (c, t)" by fastforce
  define Q where "Q \<longleftrightarrow> (\<exists>p. seal (at_key test) (at_nonce test) (at_aad test) p = (at_ct test, at_tag test))"
  have none: "yields (attempt dec) (\<lambda>r. \<not> is_ok r)" if "\<not> Q"
  proof (rule yields_weaken [OF yields_attempt_any [OF dec]])
    fix r assume "\<forall>p. r = Inr p \<longrightarrow> seal (at_key test) (at_nonce test) (at_aad test) p = (at_ct test, at_tag test)"
    then show "\<not> is_ok r" using that by (cases r) (auto simp: Q_def)
  qed
  have some: "yields (attempt dec) (\<lambda>r. r = Inr p)"
    if "seal (at_key test) (at_nonce test) (at_aad test) p = (at_ct test, at_tag test)" for p
    by (rule yields_weaken [OF yields_attempt [OF dec_live [OF that]]]) auto
  show "decides (and_then (check_encryption test er (buffers_after left before er)) (\<lambda>_.
      and_then (attempt dec) (check_decryption test))) (vector_right seal test)"
  proof (cases "at_result test = Invalid")
    case True
    have D: "decides (and_then (attempt dec) (check_decryption test)) (\<not> Q)"
    proof (cases Q)
      case True
      then obtain p where "seal (at_key test) (at_nonce test) (at_aad test) p = (at_ct test, at_tag test)"
        unfolding Q_def by blast
      from decides_after [OF some [OF this], of "check_decryption test" "\<not> Q"] show ?thesis
        using True \<open>at_result test = Invalid\<close> by (simp add: check_decryption_def)
    next
      case False
      from decides_after [OF none [OF this], of "check_decryption test" "\<not> Q"] show ?thesis
        using False \<open>at_result test = Invalid\<close> by (simp add: check_decryption_def)
    qed
    have E: "decides (check_encryption test er (buffers_after left before er))
        (ModifiedTag \<in> set (at_flags test) \<longrightarrow> t \<noteq> at_tag test)"
      using True by (auto simp: check_encryption_def er list_ex_iff)
    show ?thesis
      by (rule decides_cong [OF decides_conj [OF E D]])
         (simp add: vector_right_def sealed Q_def Let_def True)
  next
    case False
    then have E: "decides (check_encryption test er (buffers_after left before er))
        (c = at_ct test \<and> t = at_tag test)"
      by (cases "at_result test") (auto simp: check_encryption_def er intro!: decides_conj)
    have D: "decides (and_then (attempt dec) (check_decryption test)) True"
      if "c = at_ct test \<and> t = at_tag test"
      using decides_after [OF some, of "at_pt test" "check_decryption test" True] sealed that False
      by (cases "at_result test") (simp_all add: check_decryption_def)
    have "vector_right seal test \<longleftrightarrow> (c = at_ct test \<and> t = at_tag test) \<and> True"
      using False by (cases "at_result test") (simp_all add: vector_right_def sealed Let_def)
    then show ?thesis using decides_conj [OF E D] by simp
  qed
qed

text \<open>The call sequences of the cases.\<close>

lemma gcm_case_decides:
  assumes w: "gcm_sound w keyed seal" "gcm_live w keyed seal" and k: "aes_key (at_key test)"
    and len: "length (at_nonce test) = 12" "length (at_tag test) = 16"
  shows "decides (aesgcm128_case w left test) (vector_right seal test)"
  unfolding aesgcm128_case_def Let_def gcm_consts
proof (rule decides_after [OF yields_expect [OF gcm_liveD(1) [OF w(2)]]])
  fix g
  have init: "ffi_yields (gcm_init w g (at_key test)) (\<lambda>g'. keyed g' (at_key test))"
    using k by (intro gcm_liveD(2) [OF w(2)]) (simp add: aes_key_def)
  show "decides (and_then (unwrap (gcm_init w g (at_key test))) (\<lambda>gcm.
      and_then (attempt (gcm_encrypt w gcm (at_pt test) (zeros (length (at_pt test))) (at_nonce test)
          (at_aad test) (zeros 16))) (\<lambda>er.
      and_then (check_encryption test er (buffers_after left (zeros (length (at_pt test)), zeros 16) er)) (\<lambda>_.
      and_then (attempt (gcm_decrypt w gcm (at_ct test) (zeros (length (at_ct test))) (at_nonce test)
          (at_aad test) (at_tag test))) (check_decryption test))))) (vector_right seal test)"
  proof (rule decides_after [OF yields_expect [OF init]], rule decides_vector)
    fix g' assume g': "keyed g' (at_key test)"
    show "ffi_yields (gcm_encrypt w g' (at_pt test) (zeros (length (at_pt test))) (at_nonce test)
        (at_aad test) (zeros 16)) (\<lambda>r. seal (at_key test) (at_nonce test) (at_aad test) (at_pt test) = r)"
      by (rule ffi_yields_weaken [OF gcm_liveD(3) [OF w(2) g']]) (auto simp: len)
    show "ffi_ensures (gcm_decrypt w g' (at_ct test) (zeros (length (at_ct test))) (at_nonce test)
        (at_aad test) (at_tag test))
        (\<lambda>p. seal (at_key test) (at_nonce test) (at_aad test) p = (at_ct test, at_tag test))"
      by (rule ffi_ensures_weaken [OF gcm_soundD(3) [OF w(1) g']]) (auto simp: len)
    fix p assume "seal (at_key test) (at_nonce test) (at_aad test) p = (at_ct test, at_tag test)"
    then show "ffi_yields (gcm_decrypt w g' (at_ct test) (zeros (length (at_ct test))) (at_nonce test)
        (at_aad test) (at_tag test)) (\<lambda>p'. p' = p)"
      by (intro gcm_liveD(4) [OF w(2) g']) (simp_all add: len)
  qed
qed

lemma aesgcm256_case_eq: "aesgcm256_case = aesgcm128_case"
  by (intro ext) (simp add: aesgcm256_case_def aesgcm128_case_def)

lemma chacha_case_decides:
  assumes w: "chacha_sound w seal" "chacha_live w seal"
    and len: "length (at_key test) = 32" "length (at_nonce test) = 12" "length (at_tag test) = 16"
  shows "decides (chacha_case w left test) (vector_right seal test)"
  unfolding chacha_case_def Let_def chacha_consts
proof (rule decides_vector)
  show "ffi_yields (chacha_encrypt w (at_key test) (at_nonce test) (at_aad test) (at_pt test)
      (zeros (length (at_pt test))) (zeros 16))
      (\<lambda>r. seal (at_key test) (at_nonce test) (at_aad test) (at_pt test) = r)"
    by (rule ffi_yields_weaken [OF chacha_liveD(2) [OF w(2)]]) (auto simp: len)
  show "ffi_ensures (chacha_decrypt w (at_key test) (at_nonce test) (at_aad test) (at_ct test)
      (at_tag test) (zeros (length (at_ct test))))
      (\<lambda>p. seal (at_key test) (at_nonce test) (at_aad test) p = (at_ct test, at_tag test))"
    by (rule ffi_ensures_weaken [OF chacha_soundD(2) [OF w(1)]]) (auto simp: len)
  fix p assume "seal (at_key test) (at_nonce test) (at_aad test) p = (at_ct test, at_tag test)"
  then show "ffi_yields (chacha_decrypt w (at_key test) (at_nonce test) (at_aad test) (at_ct test)
      (at_tag test) (zeros (length (at_ct test)))) (\<lambda>p'. p' = p)"
    by (intro chacha_liveD(3) [OF w(2)]) (simp_all add: len)
qed

section \<open>Properties\<close>

text \<open>The cases that a run over the vectors selects, and the verdict it gives on them.\<close>

definition run_verdict :: "aead_fun \<Rightarrow> usize \<Rightarrow> aead_group list \<Rightarrow> bool" where
  "run_verdict seal key_size gs \<longleftrightarrow>
     (\<forall>test\<in>set (groups_tests key_size gs). vector_right seal test) \<and> 50 < length (groups_tests key_size gs)"

definition run_shaped :: "usize \<Rightarrow> aead_group list \<Rightarrow> bool" where
  "run_shaped key_size gs \<longleftrightarrow>
     (\<forall>test\<in>set (groups_tests key_size gs). vector_shaped key_size test)
     \<and> length (groups_tests key_size gs) \<le> 2147483647"

lemma run_decides:
  assumes "run_shaped key_size gs"
    and "\<And>test. vector_shaped key_size test \<Longrightarrow> decides (body test) (vector_right seal test)"
  shows "decides (and_then (for_counted body (groups_tests key_size gs) 0) (\<lambda>counter. assert_that (counter > 50)))
           (run_verdict seal key_size gs)"
  unfolding run_verdict_def using assms by (intro decides_for_counted) (auto simp: run_shaped_def)

lemma fixed_gcm_decides:
  assumes w: "gcm_sound w keyed seal" "gcm_live w keyed seal" and k: "aes_key k"
    and len: "length n = 12" "length t = 16" "length c = length p" "length buf = length p" "length buf' = length p"
  shows "decides (and_then (unwrap (gcm_new w)) (\<lambda>g. and_then (unwrap (gcm_init w g k)) (\<lambda>g.
      and_then (unwrap (gcm_encrypt w g p buf n a (zeros 16))) (\<lambda>(rc, rt).
      and_then (assert_that (rc = c)) (\<lambda>_. and_then (assert_that (rt = t)) (\<lambda>_.
      and_then (unwrap (gcm_decrypt w g c buf' n a rt)) (\<lambda>rp. assert_that (rp = p))))))))
    (seal k n a p = (c, t))"
proof (rule decides_after [OF yields_expect [OF gcm_liveD(1) [OF w(2)]]],
       rule decides_after [OF yields_expect [OF gcm_liveD(2) [OF w(2)]]])
  show "length k = 16 \<or> length k = 32" using k by (simp add: aes_key_def)
  fix g assume g: "keyed g k"
  have enc: "ffi_yields (gcm_encrypt w g p buf n a (zeros 16)) (\<lambda>r. seal k n a p = r)"
    by (rule ffi_yields_weaken [OF gcm_liveD(3) [OF w(2) g]]) (auto simp: len)
  show "decides (and_then (unwrap (gcm_encrypt w g p buf n a (zeros 16))) (\<lambda>(rc, rt).
      and_then (assert_that (rc = c)) (\<lambda>_. and_then (assert_that (rt = t)) (\<lambda>_.
      and_then (unwrap (gcm_decrypt w g c buf' n a rt)) (\<lambda>rp. assert_that (rp = p))))))
    (seal k n a p = (c, t))"
  proof (rule decides_after [OF yields_expect [OF enc]], clarify)
    fix rc rt assume s: "seal k n a p = (rc, rt)"
    have dec: "decides (and_then (unwrap (gcm_decrypt w g c buf' n a rt)) (\<lambda>rp. assert_that (rp = p))) True"
      if "rc = c" "rt = t"
      by (rule decides_after [OF yields_expect [OF gcm_liveD(4) [OF w(2) g]]]) (use s that len in simp_all)
    have "decides (and_then (assert_that (rc = c)) (\<lambda>_. and_then (assert_that (rt = t)) (\<lambda>_.
        and_then (unwrap (gcm_decrypt w g c buf' n a rt)) (\<lambda>rp. assert_that (rp = p)))))
        (rc = c \<and> (rt = t \<and> True))"
      by (intro decides_conj dec) simp_all
    then show "decides (and_then (assert_that (rc = c)) (\<lambda>_. and_then (assert_that (rt = t)) (\<lambda>_.
        and_then (unwrap (gcm_decrypt w g c buf' n a rt)) (\<lambda>rp. assert_that (rp = p)))))
        (seal k n a p = (c, t))" by (simp add: s)
  qed
qed

definition fixed_vector_right :: "aead_fun \<Rightarrow> aead_vector \<Rightarrow> bool" where
  "fixed_vector_right seal v \<longleftrightarrow> seal (av_key v) (av_iv v) (av_aad v) (av_plain v) = (av_cipher v, av_tag v)"

lemma aes_fixed_decide:
  assumes w: "gcm_sound w keyed seal" "gcm_live w keyed seal"
  shows "decides (test_aesgcm128 w) (fixed_vector_right seal test_aesgcm128_vector)"
    and "decides (test_aesgcm256 w) (fixed_vector_right seal test_aesgcm256_vector)"
  unfolding test_aesgcm128_def test_aesgcm256_def Let_def fixed_vector_right_def
  by (rule fixed_gcm_decides [OF w],
      simp_all add: aes_key_def test_aesgcm128_vector_def test_aesgcm256_vector_def)+

lemma chacha_fixed_decide:
  assumes w: "chacha_sound w seal" "chacha_live w seal"
  shows "decides (test_chacha w) (fixed_vector_right seal test_chacha_vector)"
proof -
  define v where "v = test_chacha_vector"
  have len: "length (av_key v) = 32" "length (av_iv v) = 12" "length (av_plain v) = 114"
    "length (av_cipher v) = 114" "length (av_tag v) = 16" by (simp_all add: v_def test_chacha_vector_def)
  have enc: "ffi_yields (chacha_encrypt w (av_key v) (av_iv v) (av_aad v) (av_plain v) (zeros 114) (zeros 16))
      (\<lambda>r. seal (av_key v) (av_iv v) (av_aad v) (av_plain v) = r)"
    by (rule ffi_yields_weaken [OF chacha_liveD(2) [OF w(2)]]) (auto simp: len)
  show ?thesis
    unfolding test_chacha_def Let_def fixed_vector_right_def chacha_consts v_def [symmetric]
  proof (rule decides_after [OF yields_expect [OF enc]], clarify)
    fix rc rt assume s: "seal (av_key v) (av_iv v) (av_aad v) (av_plain v) = (rc, rt)"
    let ?dec = "and_then (unwrap (chacha_decrypt w (av_key v) (av_iv v) (av_aad v) (av_cipher v) (av_tag v)
        (zeros 114))) (\<lambda>rp. assert_that (rp = av_plain v))"
    have dec: "decides ?dec True" if "rc = av_cipher v" "rt = av_tag v"
      by (rule decides_after [OF yields_expect [OF chacha_liveD(3) [OF w(2)]]]) (use s that len in simp_all)
    have "decides (and_then (assert_that (rc = av_cipher v)) (\<lambda>_. and_then (assert_that (rt = av_tag v)) (\<lambda>_. ?dec)))
        (rc = av_cipher v \<and> (rt = av_tag v \<and> True))"
      by (intro decides_conj dec) simp_all
    then show "decides (and_then (assert_that (rc = av_cipher v)) (\<lambda>_. and_then (assert_that (rt = av_tag v)) (\<lambda>_. ?dec)))
        (seal (av_key v) (av_iv v) (av_aad v) (av_plain v) = (av_cipher v, av_tag v))" by (simp add: s)
  qed
qed

text \<open>What the AES-GCM tests establish.  Over any library whose AES-GCM behaves as documented for
  some AEAD function, and any set of vectors of the right lengths, each of the four tests passes from
  every state if its vectors are right for that function, and fails from every state otherwise.  For
  the runs over \<open>wycheproof\<close> right means: more than 50 vectors were selected, a valid vector is the
  function's ciphertext and tag, no plaintext encrypts to an invalid one, and a modified tag is not the
  tag.\<close>

lemma gcm_vector_tests_exact:
  assumes "gcm_sound w keyed seal" and "gcm_live w keyed seal"
    and "load AesGcm = Inr gs" and "run_shaped 128 gs" and "run_shaped 256 gs"
  shows "decides (test_aesgcm128_wycheproof w left load) (run_verdict seal 128 gs)
    \<and> decides (test_aesgcm256_wycheproof w left load) (run_verdict seal 256 gs)
    \<and> decides (test_aesgcm128 w) (fixed_vector_right seal test_aesgcm128_vector)
    \<and> decides (test_aesgcm256 w) (fixed_vector_right seal test_aesgcm256_vector)"
proof -
  note gcm_case = gcm_case_decides [OF assms(1,2)]
  have "decides (aesgcm128_case w left test) (vector_right seal test)"
    if "vector_shaped 128 test \<or> vector_shaped 256 test" for test
    by (rule gcm_case) (use that in \<open>auto simp: vector_shaped_def aes_key_def\<close>)
  then show ?thesis
    using aes_fixed_decide [OF assms(1,2)]
    by (auto simp: test_aesgcm128_wycheproof_def test_aesgcm256_wycheproof_def aesgcm256_case_eq assms(3)
        expect_of_result intro!: run_decides assms(4,5))
qed

text \<open>Vectors for the demonstration AEAD.\<close>

definition demo_test :: "usize \<Rightarrow> bool \<Rightarrow> aead_test" where
  "demo_test key_len good = \<lparr>at_key = zeros key_len, at_nonce = zeros 12, at_aad = [1], at_pt = [2, 3],
     at_ct = [2, 3], at_tag = (if good then [0, 0, 1, 5] else [0, 0, 1, 6]) @ replicate 12 7,
     at_result = (if good then Valid else Invalid), at_flags = (if good then [] else [ModifiedTag])\<rparr>"

definition demo_groups :: "usize \<Rightarrow> aead_group list" where
  "demo_groups key_len = [
     \<lparr>ag_key_size = 8 * key_len, ag_nonce_size = 96,
       ag_tests = demo_test key_len False # replicate 50 (demo_test key_len True)\<rparr>,
     \<lparr>ag_key_size = 8 * key_len, ag_nonce_size = 64, ag_tests = [demo_test 1 True]\<rparr>]"

lemma demo_groups_right:
  "key_len > 0 \<Longrightarrow> run_verdict demo_seal (8 * key_len) (demo_groups key_len)"
  "run_shaped (8 * key_len) (demo_groups key_len)"
  "n \<noteq> 8 * key_len \<Longrightarrow> run_shaped n (demo_groups key_len)"
  by (auto simp: run_verdict_def run_shaped_def groups_tests_def demo_groups_def demo_test_def
      vector_right_def vector_shaped_def demo_seal_def zeros_def sum_list_replicate)

text \<open>What the ChaCha20-Poly1305 tests establish: the same for \<open>test_chacha\<close> and for the run over
  \<open>wycheproof\<close>, which takes the groups with keys of 256 and nonces of 96 bits.\<close>

lemma chacha_vector_tests_exact:
  assumes "chacha_sound w seal" and "chacha_live w seal"
    and "load ChaCha20Poly1305 = Inr gs" and "run_shaped 256 gs"
  shows "decides (test_chacha20poly1305_wycheproof w left load) (run_verdict seal 256 gs)
    \<and> decides (test_chacha w) (fixed_vector_right seal test_chacha_vector)"
proof -
  have "decides (chacha_case w left test) (vector_right seal test)" if "vector_shaped 256 test" for test
    by (rule chacha_case_decides [OF assms(1,2)]) (use that in \<open>auto simp: vector_shaped_def\<close>)
  then show ?thesis
    using chacha_fixed_decide [OF assms(1,2)]
    by (auto simp: test_chacha20poly1305_wycheproof_def assms(3) expect_of_result intro!: run_decides assms(4))
qed

text \<open>C27. What the AEAD tests establish.  Over any library whose AES-GCM and ChaCha20-Poly1305 behave
  as documented for some AEAD functions, and any set of vectors of the right lengths, each of the six
  tests of \<open>aead/\<close> passes from every state if its vectors are right for the function, and fails from
  every state otherwise.  For the runs over \<open>wycheproof\<close> right means: more than 50 vectors of the key
  size and of 96 bit nonces were selected, a valid vector is the function's ciphertext and tag, no
  plaintext encrypts to an invalid one, and a modified tag is not the tag.\<close>

theorem aead_vector_tests_exact:
  assumes "gcm_sound w keyed seal" and "gcm_live w keyed seal"
    and "chacha_sound c cseal" and "chacha_live c cseal"
    and "load AesGcm = Inr gs" and "run_shaped 128 gs" and "run_shaped 256 gs"
    and "load ChaCha20Poly1305 = Inr cs" and "run_shaped 256 cs"
  shows "decides (test_aesgcm128_wycheproof w left load) (run_verdict seal 128 gs)
    \<and> decides (test_aesgcm256_wycheproof w left load) (run_verdict seal 256 gs)
    \<and> decides (test_chacha20poly1305_wycheproof c left load) (run_verdict cseal 256 cs)
    \<and> decides (test_aesgcm128 w) (fixed_vector_right seal test_aesgcm128_vector)
    \<and> decides (test_aesgcm256 w) (fixed_vector_right seal test_aesgcm256_vector)
    \<and> decides (test_chacha c) (fixed_vector_right cseal test_chacha_vector)"
  using gcm_vector_tests_exact [where load = load, OF assms(1,2,5,6,7)]
    chacha_vector_tests_exact [where load = load, OF assms(3,4,8,9)] by simp

theorem aead_vector_tests_exact_witness:
  "passes (test_aesgcm128_wycheproof (demo_gcm :: unit wolf_gcm) (\<lambda>b e. b) (\<lambda>_. Inr (demo_groups 16)))
   \<and> panics (test_aesgcm256_wycheproof (demo_gcm :: unit wolf_gcm) (\<lambda>b e. b) (\<lambda>_. Inr (demo_groups 16)))
   \<and> panics (test_chacha (demo_chacha :: unit wolf_chacha))"
proof -
  note W = aead_vector_tests_exact [where w = "demo_gcm :: unit wolf_gcm" and c = "demo_chacha :: unit wolf_chacha",
      OF demo_gcm_laws demo_chacha_laws, where load = "\<lambda>_. Inr (demo_groups 16)" and left = "\<lambda>b e. b"
      and gs = "demo_groups 16" and cs = "demo_groups 16"]
  have "\<not> run_verdict demo_seal 256 (demo_groups 16)"
    by (simp add: run_verdict_def groups_tests_def demo_groups_def)
  moreover have "\<not> fixed_vector_right demo_seal test_chacha_vector"
    by (simp add: fixed_vector_right_def demo_seal_def test_chacha_vector_def)
  ultimately show ?thesis
    using W demo_groups_right [of 16] demo_groups_right(3) [of 256 16] by (simp add: decides_def)
qed

end
