(* ===== verification/EndToEnd.thy ===== *)
theory EndToEnd
  imports TestHarness ProviderLib
begin

text \<open>
  The signature tests of \<open>tests/e2e.rs\<close>: keys of every kind are generated, put into every file format
  the loader knows, and used through the provider as rustls uses it, from \<open>load_private_key\<close> to the
  verification table.

  What the tests generate keys with is not under \<open>src/\<close>: the key generators of wolfCrypt (further
  operations of its parameter records), the \<open>rsa\<close> crate, and the encoders of the \<open>sec1\<close>, \<open>der\<close> and
  \<open>pkcs8\<close> crates.  The tests of RSA run their cases on a thread pool (\<open>par_iter\<close>); the model runs
  them one after the other, in any order.  The pool is built by whichever of them runs first.  The
  two helpers for RSA return \<open>Ok(())\<close> or panic, so that the \<open>expect\<close> on their result never fires and is
  left out.
\<close>

section \<open>The key generators and encoders\<close>

record 's wolf_ed_gen =
  edg_generate :: "RNG \<Rightarrow> ('s, i32, WcEd25519) ffi"
  edg_export_private_only :: "WcEd25519 \<Rightarrow> bytes \<Rightarrow> ('s, i32, bytes) ffi"
  edg_export_public :: "WcEd25519 \<Rightarrow> bytes \<Rightarrow> ('s, i32, bytes) ffi"

datatype RsaCrateKey = RsaCrateKey_ctx bytes

record 's key_crates =
  kc_sec1_to_der :: "bytes \<Rightarrow> string \<Rightarrow> bytes \<Rightarrow> unit + bytes"
    \<comment> \<open>private key, named curve, public key\<close>
  kc_octet_string_to_der :: "bytes \<Rightarrow> unit + bytes"
  kc_pkcs8_to_der :: "string \<Rightarrow> bytes \<Rightarrow> unit + bytes"
    \<comment> \<open>algorithm, private key\<close>
  kc_rsa_new :: "usize \<Rightarrow> ('s, unit, RsaCrateKey) ffi"
  kc_rsa_to_pkcs8_der :: "RsaCrateKey \<Rightarrow> unit + bytes"
  kc_rsa_to_pkcs1_der :: "RsaCrateKey \<Rightarrow> unit + bytes"
  kc_rsa_public_to_der :: "RsaCrateKey \<Rightarrow> unit + bytes"
    \<comment> \<open>\<open>to_public_key\<close> and \<open>to_public_key_der\<close>\<close>

text \<open>The libraries of a test, bundled.\<close>

record 's e2e_libs =
  e2_rng :: "'s wolf_rng"
  e2_pkcs8 :: pkcs8_parser
  e2_sigs :: "'s wolf_sigs"
  e2_ed_gen :: "'s wolf_ed_gen"
  e2_crates :: "'s key_crates"

section \<open>The code\<close>

text \<open>\<open>algs.iter().any(|alg| alg.verify_signature(...).is_ok())\<close>.\<close>

fun any_ok :: "('a \<Rightarrow> ('s, 'x, unit) rust) \<Rightarrow> 'a list \<Rightarrow> ('s, 'e, bool) rust" where
  "any_ok f [] = ok False"
| "any_ok f (a # as) = and_then (attempt_result (f a)) (\<lambda>r. if is_ok r then ok True else any_ok f as)"

fun load_with_key_provider ::
    "Provider \<Rightarrow> 's e2e_libs \<Rightarrow> PrivateKeyDer \<Rightarrow> ('s, rustls_error, SigningKey) rust" where
  "load_with_key_provider Provider L key = load_private_key (e2_pkcs8 L) (e2_sigs L) key"

definition sign_and_verify ::
    "'s e2e_libs \<Rightarrow> CryptoProvider \<Rightarrow> SignatureScheme \<Rightarrow> PrivateKeyDer \<Rightarrow> bytes \<Rightarrow> 's test" where
  "sign_and_verify L prov scheme rustls_private_key pub_key =
     (let data = as_bytes ''data to sign and verify'' in
      and_then (unwrap_result (load_with_key_provider (cp_key_provider prov) L rustls_private_key))
        (\<lambda>signing_key.
      and_then (some_or_panic (key_choose_scheme signing_key [scheme])
                  ''signing provider supports this scheme'') (\<lambda>signer.
      and_then (unwrap_result (signer_sign (e2_rng L) (e2_sigs L) signer data)) (\<lambda>signature.
      and_then (some_or_panic
          (map_option (\<lambda>(k, v). v)
             (List.find (\<lambda>(k, v). k = scheme) (wp_mapping (cp_signature_verification_algorithms prov))))
          ''verifying provider supports this scheme'') (\<lambda>algs.
      and_then (assert_that (algs \<noteq> [])) (\<lambda>_.
      and_then (any_ok (\<lambda>alg. alg_verify_signature (e2_sigs L) alg pub_key data signature) algs)
        assert_that))))))"

definition ecdsa_config_case ::
    "'s e2e_libs \<Rightarrow> CryptoProvider \<Rightarrow> SignatureScheme \<times> i32 \<times> usize \<times> string \<Rightarrow> 's test" where
  "ecdsa_config_case L prov = (\<lambda>(scheme, curve_id, key_size, curve_oid).
     let w = ws_ecc (e2_sigs L) in
     and_then (expect (rng_new (e2_rng L)) ''RNG::new failed'') (\<lambda>rng.
     and_then (expect (ecc_generate_ex w (of_nat key_size) rng curve_id) ''ECC::generate_ex failed'') (\<lambda>ecc.
     let priv_scalar = zeros key_size in
     and_then (expect (ecc_export_private w ecc priv_scalar) ''ECC::export_private failed'')
       (\<lambda>(priv_scalar, priv_len).
     and_then (slice_to priv_scalar priv_len) (\<lambda>priv_scalar.
     let pub_x963 = zeros (1 + 2 * key_size) in
     and_then (expect (ecc_export_x963 w ecc pub_x963) ''ECC::export_x963 failed'') (\<lambda>(pub_x963, pub_len).
     and_then (slice_to pub_x963 pub_len) (\<lambda>pub_x963.
     and_then (expect (of_result (kc_sec1_to_der (e2_crates L) priv_scalar curve_oid pub_x963))
                 ''EcPrivateKey::to_der failed'') (\<lambda>der_ecc_key.
     and_then (sign_and_verify L prov scheme (Pkcs8 der_ecc_key) pub_x963) (\<lambda>_.
     sign_and_verify L prov scheme (Sec1 der_ecc_key) pub_x963)))))))))"

definition ecdsa_sign_and_verify :: "'s e2e_libs \<Rightarrow> 's test" where
  "ecdsa_sign_and_verify L =
     (let wolfcrypt_default_provider = provider; w = ws_ecc (e2_sigs L);
          test_configs = [
            (ECDSA_NISTP256_SHA256, ecc_SECP256R1 w, 32, ''1.2.840.10045.3.1.7''),
            (ECDSA_NISTP384_SHA384, ecc_SECP384R1 w, 48, ''1.3.132.0.34''),
            (ECDSA_NISTP521_SHA512, ecc_SECP521R1 w, 66, ''1.3.132.0.35'')] in
      for_each (ecdsa_config_case L wolfcrypt_default_provider) test_configs)"

definition eddsa_sign_and_verify :: "'s e2e_libs \<Rightarrow> 's test" where
  "eddsa_sign_and_verify L =
     (let wolfcrypt_default_provider = provider; g = e2_ed_gen L in
      and_then (expect (rng_new (e2_rng L)) ''RNG::new failed'') (\<lambda>rng.
      and_then (expect (edg_generate g rng) ''Ed25519::generate failed'') (\<lambda>ed.
      let priv_seed = zeros 32 in
      and_then (expect (edg_export_private_only g ed priv_seed) ''Ed25519::export_private_only failed'')
        (\<lambda>priv_seed.
      let pub_key_raw = zeros 32 in
      and_then (expect (edg_export_public g ed pub_key_raw) ''Ed25519::export_public failed'') (\<lambda>pub_key_raw.
      and_then (expect (of_result (kc_octet_string_to_der (e2_crates L) priv_seed))
                  ''OctetString::to_der for Ed25519 seed failed'') (\<lambda>inner_der.
      and_then (expect (of_result (kc_pkcs8_to_der (e2_crates L) ''1.3.101.112'' inner_der))
                  ''PrivateKeyInfo::to_der failed'') (\<lambda>pkcs8_der.
      sign_and_verify L wolfcrypt_default_provider ED25519 (Pkcs8 pkcs8_der) pub_key_raw)))))))"

definition generate_and_test_rsa_pkcs8_key ::
    "'s e2e_libs \<Rightarrow> CryptoProvider \<Rightarrow> SignatureScheme \<Rightarrow> usize \<Rightarrow> 's test" where
  "generate_and_test_rsa_pkcs8_key L prov scheme key_size =
     (let K = e2_crates L in
      and_then (expect (kc_rsa_new K key_size) ''RsaPrivateKey::new failed'') (\<lambda>priv_key.
      and_then (expect (of_result (kc_rsa_to_pkcs8_der K priv_key)) ''RsaPrivateKey::to_pkcs8_der failed'')
        (\<lambda>pkcs8_doc.
      and_then (expect (of_result (kc_rsa_public_to_der K priv_key)) ''RsaPublicKey::to_public_key_der failed'')
        (\<lambda>pub_der.
      sign_and_verify L prov scheme (Pkcs8 pkcs8_doc) pub_der))))"

definition generate_and_test_rsa_pkcs1_key ::
    "'s e2e_libs \<Rightarrow> CryptoProvider \<Rightarrow> SignatureScheme \<Rightarrow> usize \<Rightarrow> 's test" where
  "generate_and_test_rsa_pkcs1_key L prov scheme key_size =
     (let K = e2_crates L in
      and_then (expect (kc_rsa_new K key_size) ''RsaPrivateKey::new failed'') (\<lambda>priv_key.
      and_then (expect (of_result (kc_rsa_to_pkcs1_der K priv_key)) ''RsaPrivateKey::to_pkcs1_der failed'')
        (\<lambda>pkcs1_doc.
      and_then (expect (of_result (kc_rsa_public_to_der K priv_key)) ''RsaPublicKey::to_public_key_der failed'')
        (\<lambda>pub_der.
      sign_and_verify L prov scheme (Pkcs1 pkcs1_doc) pub_der))))"

text \<open>\<open>schemes.iter().flat_map(|&scheme| [2048, 4096].iter().map(move |&key_size| (scheme, key_size)))\<close>.\<close>

definition rsa_test_cases :: "SignatureScheme list \<Rightarrow> (SignatureScheme \<times> usize) list" where
  "rsa_test_cases schemes = concat (map (\<lambda>scheme. map (\<lambda>key_size. (scheme, key_size)) [2048, 4096]) schemes)"

text \<open>\<open>test_cases.par_iter().for_each(...)\<close> under a schedule, which gives the order of the cases.\<close>

type_synonym schedule = "(SignatureScheme \<times> usize) list \<Rightarrow> (SignatureScheme \<times> usize) list"

definition par_for_each :: "schedule \<Rightarrow> (SignatureScheme \<times> usize \<Rightarrow> 's test) \<Rightarrow> (SignatureScheme \<times> usize) list \<Rightarrow> 's test" where
  "par_for_each schedule body cases = for_each body (schedule cases)"

text \<open>\<open>Once\<close> of the standard library: the first call runs the closure, later calls do nothing, and a closure
  that panics poisons it.  The two tests that use the thread pool share one; it is part of their state,
  and the rest of such a test leaves it alone.\<close>

datatype Once = OnceIncomplete | OnceComplete | OncePoisoned

definition call_once :: "'s test \<Rightarrow> (Once \<times> 's) test" where
  "call_once f = (\<lambda>(once, s). case once of
       OnceComplete \<Rightarrow> (Ok (), (OnceComplete, s))
     | OncePoisoned \<Rightarrow> (Panic ''Once instance has previously been poisoned'', (OncePoisoned, s))
     | OnceIncomplete \<Rightarrow>
         (case f s of
            (Panic p, s') \<Rightarrow> (Panic p, (OncePoisoned, s'))
          | (r, s') \<Rightarrow> (r, (OnceComplete, s'))))"

definition beside_once :: "'s test \<Rightarrow> (Once \<times> 's) test" where
  "beside_once t = (\<lambda>(once, s). case t s of (r, s') \<Rightarrow> (r, (once, s')))"

record 's thread_pools =
  tp_num_cpus :: usize
  tp_build_global :: "usize \<Rightarrow> ('s, unit, unit) ffi"
    \<comment> \<open>the builder with that number of threads\<close>

definition init_thread_pool :: "'s thread_pools \<Rightarrow> (Once \<times> 's) test" where
  "init_thread_pool T = call_once
     (let num_cpus = tp_num_cpus T in
      unwrap (tp_build_global T num_cpus))"

definition rsa_pss_sign_and_verify :: "'s thread_pools \<Rightarrow> schedule \<Rightarrow> 's e2e_libs \<Rightarrow> (Once \<times> 's) test" where
  "rsa_pss_sign_and_verify T schedule L =
     and_then (init_thread_pool T) (\<lambda>_. beside_once
     (let wolfcrypt_default_provider = provider;
          test_cases = rsa_test_cases [RSA_PSS_SHA256, RSA_PSS_SHA384, RSA_PSS_SHA512] in
      and_then (par_for_each schedule (\<lambda>(scheme, key_size).
          generate_and_test_rsa_pkcs8_key L wolfcrypt_default_provider scheme key_size) test_cases) (\<lambda>_.
      par_for_each schedule (\<lambda>(scheme, key_size).
          generate_and_test_rsa_pkcs1_key L wolfcrypt_default_provider scheme key_size) test_cases)))"

definition rsa_pkcs1_sign_and_verify :: "'s thread_pools \<Rightarrow> schedule \<Rightarrow> 's e2e_libs \<Rightarrow> (Once \<times> 's) test" where
  "rsa_pkcs1_sign_and_verify T schedule L =
     and_then (init_thread_pool T) (\<lambda>_. beside_once
     (let wolfcrypt_default_provider = provider;
          test_cases = rsa_test_cases [RSA_PKCS1_SHA256, RSA_PKCS1_SHA384, RSA_PKCS1_SHA512] in
      and_then (par_for_each schedule (\<lambda>(scheme, key_size).
          generate_and_test_rsa_pkcs1_key L wolfcrypt_default_provider scheme key_size) test_cases) (\<lambda>_.
      par_for_each schedule (\<lambda>(scheme, key_size).
          generate_and_test_rsa_pkcs8_key L wolfcrypt_default_provider scheme key_size) test_cases)))"

section \<open>Signing and verifying with one key\<close>

lemma map_of_find: "map_option (\<lambda>(k, v). v) (List.find (\<lambda>(k, v). k = x) xs) = map_of xs x"
  by (induction xs) auto

lemma any_ok_yields: "yields (f a) P \<Longrightarrow> yields (any_ok f (a # as)) (\<lambda>b. b)"
  by (simp, rule yields_and_then [OF yields_attempt_result], assumption) (auto intro: yields_ok)

lemma sign_and_verify_eq:
  "sign_and_verify L provider sch key p =
     and_then (unwrap_result (sign_with_file (e2_rng L) (e2_pkcs8 L) (e2_sigs L) key [sch]
                (as_bytes ''data to sign and verify''))) (\<lambda>(_, sig).
     and_then (some_or_panic (map_of (wp_mapping ALGORITHMS) sch) ''verifying provider supports this scheme'') (\<lambda>algs.
     and_then (assert_that (algs \<noteq> [])) (\<lambda>_.
     and_then (any_ok (\<lambda>alg. alg_verify_signature (e2_sigs L) alg p (as_bytes ''data to sign and verify'') sig) algs)
       assert_that)))"
  unfolding sign_and_verify_def sign_with_file_def Let_def expect_result_and_then and_then_assoc
    expect_result_simps and_then_ok prod.case map_of_find
  by (simp only: provider_def CryptoProvider.simps load_with_key_provider.simps)

lemma sign_and_verify_passes:
  assumes ok: "rng_ok (e2_rng L)" "sigs_ok (e2_rng L) (e2_sigs L) G"
    and key: "usable_key G (e2_pkcs8 L) (e2_sigs L) key sch p"
  shows "passes (sign_and_verify L provider sch key p)"
  unfolding passes_def sign_and_verify_eq
proof (rule yields_and_then [OF yields_expect_result [OF usable_key_signs [OF ok key]]], clarify)
  let ?data = "as_bytes ''data to sign and verify''"
  fix sig assume g: "genuine G sch p ?data sig"
  note sch = usable_key_scheme [OF key]
  obtain a where a: "mapped_algorithms sch = [a]"
    using provider_scheme_cases [OF sch, of "sg_ecdsa G"] mapped_verify(4) [of sch]
    by (elim disjE exE) (auto simp: mapped_verify(1,2))
  then have algs: "map_of (wp_mapping ALGORITHMS) sch = Some [a]"
    by (simp add: mapped_algorithms_def split: option.splits)
  have "yields (alg_verify_signature (e2_sigs L) a p ?data sig) (\<lambda>_. True)"
    using table_verifies(1) [OF ok(2) sch g] a by simp
  then have "yields (any_ok (\<lambda>alg. alg_verify_signature (e2_sigs L) alg p ?data sig) [a]) (\<lambda>b. b)"
    by (intro any_ok_yields [where a = a and P = "\<lambda>_. True"])
  then show "yields (and_then (some_or_panic (map_of (wp_mapping ALGORITHMS) sch)
       ''verifying provider supports this scheme'') (\<lambda>algs.
     and_then (assert_that (algs \<noteq> [])) (\<lambda>_.
     and_then (any_ok (\<lambda>alg. alg_verify_signature (e2_sigs L) alg p ?data sig) algs) assert_that))) (\<lambda>_. True)"
    by (simp del: any_ok.simps add: algs) (erule yields_and_then, simp add: yields_ok)
qed

section \<open>The documented behaviour of the generators\<close>

text \<open>A generated key of a curve exports its scalar and its public key, and the encoder writes a SEC1
  key that the ECC decoder reads and the PKCS#8 parser refuses.\<close>

definition ec_generates :: "'s e2e_libs \<Rightarrow> ecdsa_scheme \<Rightarrow> i32 \<Rightarrow> string \<Rightarrow> bool" where
  "ec_generates L E curve_id oid \<longleftrightarrow> (\<exists>eccof. ecc_load_ok (ws_ecc (e2_sigs L)) E eccof
     \<and> (\<forall>rng. ffi_yields (ecc_generate_ex (ws_ecc (e2_sigs L)) (of_nat (es_field E)) rng curve_id)
          (\<lambda>k. \<exists>d. length d = es_field E \<and> eccof k d))
     \<and> (\<forall>d. length d = es_field E \<longrightarrow> (\<exists>der. kc_sec1_to_der (e2_crates L) d oid (es_pub E d) = Inr der
          \<and> es_sec1 E der d \<and> e2_pkcs8 L der = Inl ())))"

definition ed_generates :: "'s e2e_libs \<Rightarrow> sig_spec \<Rightarrow> bool" where
  "ed_generates L G \<longleftrightarrow> (\<exists>edof.
     (\<forall>rng. ffi_yields (edg_generate (e2_ed_gen L) rng) (\<lambda>k. \<exists>a. length a = 32 \<and> edof k a))
   \<and> (\<forall>k a buf. edof k a \<longrightarrow> length buf = 32 \<longrightarrow>
        ffi_yields (edg_export_private_only (e2_ed_gen L) k buf) (\<lambda>b. b = a)
      \<and> ffi_yields (edg_export_public (e2_ed_gen L) k buf) (\<lambda>b. b = eds_pub (sg_ed G) a))
   \<and> (\<forall>a. length a = 32 \<longrightarrow> (\<exists>inner der. kc_octet_string_to_der (e2_crates L) a = Inr inner
        \<and> kc_pkcs8_to_der (e2_crates L) ''1.3.101.112'' inner = Inr der
        \<and> e2_pkcs8 L der = Inr \<lparr>pki_oid = OID_ED25519, pki_private_key = 4 # 32 # a\<rparr>
        \<and> rs_pub (sg_rsa G) der = None)))"

definition rsa_generates :: "'s e2e_libs \<Rightarrow> sig_spec \<Rightarrow> bool" where
  "rsa_generates L G \<longleftrightarrow> (\<exists>rsaof.
     (\<forall>n\<in>{2048, 4096}. ffi_yields (kc_rsa_new (e2_crates L) n) (\<lambda>k. rsaof k n))
   \<and> (\<forall>k n. rsaof k n \<longrightarrow> (\<exists>d8 d1 p. kc_rsa_to_pkcs8_der (e2_crates L) k = Inr d8
        \<and> kc_rsa_to_pkcs1_der (e2_crates L) k = Inr d1 \<and> kc_rsa_public_to_der (e2_crates L) k = Inr p
        \<and> rs_pub (sg_rsa G) d8 = Some p \<and> rs_pub (sg_rsa G) d1 = Some p
        \<and> rs_size (sg_rsa G) p = Some (n div 8)
        \<and> (\<forall>b. ec_key_bytes (e2_pkcs8 L) (Pkcs8 d8) = Some b \<longrightarrow> ffi_fails (ecc_import_der (ws_ecc (e2_sigs L)) b)))))"

definition e2e_ok :: "'s e2e_libs \<Rightarrow> sig_spec \<Rightarrow> bool" where
  "e2e_ok L G \<longleftrightarrow> rng_ok (e2_rng L) \<and> sigs_ok (e2_rng L) (e2_sigs L) G
     \<and> ec_generates L (es_p256 (sg_ecdsa G)) (ecc_SECP256R1 (ws_ecc (e2_sigs L))) ''1.2.840.10045.3.1.7''
     \<and> ec_generates L (es_p384 (sg_ecdsa G)) (ecc_SECP384R1 (ws_ecc (e2_sigs L))) ''1.3.132.0.34''
     \<and> ec_generates L (es_p521 (sg_ecdsa G)) (ecc_SECP521R1 (ws_ecc (e2_sigs L))) ''1.3.132.0.35''
     \<and> ed_generates L G \<and> rsa_generates L G"

lemma e2e_okD:
  assumes "e2e_ok L G"
  shows "rng_ok (e2_rng L)" and "sigs_ok (e2_rng L) (e2_sigs L) G"
    and "ed_generates L G" and "rsa_generates L G"
  using assms by (simp_all add: e2e_ok_def)

section \<open>The tests pass\<close>

lemma ecdsa_config_passes:
  assumes ok: "e2e_ok L G" and E: "ecdsa_scheme_for (sg_ecdsa G) sch = Some E"
    and gen: "ec_generates L E curve_id oid" and n: "n = es_field E"
  shows "passes (ecdsa_config_case L provider (sch, curve_id, n, oid))"
proof -
  note ok' = e2e_okD(1,2) [OF ok]
  obtain eccof where load: "ecc_load_ok (ws_ecc (e2_sigs L)) E eccof"
    and new: "\<And>rng. ffi_yields (ecc_generate_ex (ws_ecc (e2_sigs L)) (of_nat n) rng curve_id)
          (\<lambda>k. \<exists>d. length d = es_field E \<and> eccof k d)"
    and enc: "\<And>d. length d = es_field E \<Longrightarrow> \<exists>der. kc_sec1_to_der (e2_crates L) d oid (es_pub E d) = Inr der
          \<and> es_sec1 E der d \<and> e2_pkcs8 L der = Inl ()"
    using gen unfolding ec_generates_def n by blast
  have both: "yields (and_then (expect (of_result (kc_sec1_to_der (e2_crates L) d oid (es_pub E d))) msg) (\<lambda>der.
     and_then (sign_and_verify L provider sch (Pkcs8 der) (es_pub E d)) (\<lambda>_.
     sign_and_verify L provider sch (Sec1 der) (es_pub E d)))) (\<lambda>_. True)" if d: "length d = es_field E" for d msg
  proof -
    obtain der where der: "kc_sec1_to_der (e2_crates L) d oid (es_pub E d) = Inr der" "es_sec1 E der d"
      "e2_pkcs8 L der = Inl ()" using enc [OF d] by blast
    have "usable_key G (e2_pkcs8 L) (e2_sigs L) key sch (es_pub E d)" if "key = Pkcs8 der \<or> key = Sec1 der" for key
      by (rule usable_ecdsa [OF E load _ der(2)]) (use that der(3) in auto)
    then show ?thesis
      using sign_and_verify_passes [OF ok']
      by (auto simp: der(1) expect_of_result passes_def intro!: yields_and_then)
  qed
  note L' = ecc_load_okD [OF load]
  show ?thesis
    unfolding ecdsa_config_case_def passes_def Let_def prod.case
  proof (rule yields_and_then [OF yields_expect [OF rng_okD(1) [OF ok'(1)]]],
         rule yields_and_then [OF yields_expect [OF new]], elim exE conjE)
    fix ecc d assume d: "length d = es_field E" "eccof ecc d"
    let ?w = "ws_ecc (e2_sigs L)"
    have pub: "yields (and_then (expect (ecc_export_x963 ?w ecc (zeros (1 + 2 * n))) msg) (\<lambda>(b, l).
        and_then (slice_to b l) f)) Q" if "yields (f (es_pub E d)) Q"
      for msg and f :: "bytes \<Rightarrow> ('a, unit, unit) rust" and Q
      by (rule yields_and_then [OF yields_expect [OF L'(4) [OF d(2)]]]) (use that in \<open>auto simp: n\<close>)
    have priv: "yields (and_then (expect (ecc_export_private ?w ecc (zeros n)) msg) (\<lambda>(b, l).
        and_then (slice_to b l) f)) Q" if "yields (f d) Q"
      for msg and f :: "bytes \<Rightarrow> ('a, unit, unit) rust" and Q
      by (rule yields_and_then [OF yields_expect [OF L'(5) [OF d(2)]]]) (use that d in \<open>auto simp: n\<close>)
    show "yields (and_then (expect (ecc_export_private ?w ecc (zeros n)) ''ECC::export_private failed'')
       (\<lambda>(priv_scalar, priv_len).
     and_then (slice_to priv_scalar priv_len) (\<lambda>priv_scalar.
     and_then (expect (ecc_export_x963 ?w ecc (zeros (1 + 2 * n))) ''ECC::export_x963 failed'') (\<lambda>(pub_x963, pub_len).
     and_then (slice_to pub_x963 pub_len) (\<lambda>pub_x963.
     and_then (expect (of_result (kc_sec1_to_der (e2_crates L) priv_scalar oid pub_x963))
                 ''EcPrivateKey::to_der failed'') (\<lambda>der_ecc_key.
     and_then (sign_and_verify L provider sch (Pkcs8 der_ecc_key) pub_x963) (\<lambda>_.
     sign_and_verify L provider sch (Sec1 der_ecc_key) pub_x963))))))) (\<lambda>_. True)"
      by (rule priv, rule pub, rule both [OF d(1)])
  qed
qed

lemma eddsa_passes:
  assumes ok: "e2e_ok L G"
  shows "passes (eddsa_sign_and_verify L)"
proof -
  note ok' = e2e_okD(1,2) [OF ok]
  obtain edof where new: "\<And>rng. ffi_yields (edg_generate (e2_ed_gen L) rng) (\<lambda>k. \<exists>a. length a = 32 \<and> edof k a)"
    and exp: "\<And>k a buf. edof k a \<Longrightarrow> length buf = 32 \<Longrightarrow>
        ffi_yields (edg_export_private_only (e2_ed_gen L) k buf) (\<lambda>b. b = a)"
      "\<And>k a buf. edof k a \<Longrightarrow> length buf = 32 \<Longrightarrow>
        ffi_yields (edg_export_public (e2_ed_gen L) k buf) (\<lambda>b. b = eds_pub (sg_ed G) a)"
    and enc: "\<And>a. length a = 32 \<Longrightarrow> \<exists>inner der. kc_octet_string_to_der (e2_crates L) a = Inr inner
        \<and> kc_pkcs8_to_der (e2_crates L) ''1.3.101.112'' inner = Inr der
        \<and> e2_pkcs8 L der = Inr \<lparr>pki_oid = OID_ED25519, pki_private_key = 4 # 32 # a\<rparr>
        \<and> rs_pub (sg_rsa G) der = None"
    using e2e_okD(3) [OF ok] unfolding ed_generates_def by blast
  have key_file: "yields (and_then (expect (of_result (kc_octet_string_to_der (e2_crates L) a)) m1) (\<lambda>inner.
      and_then (expect (of_result (kc_pkcs8_to_der (e2_crates L) ''1.3.101.112'' inner)) m2) (\<lambda>der.
      sign_and_verify L provider ED25519 (Pkcs8 der) (eds_pub (sg_ed G) a)))) (\<lambda>_. True)"
    if a: "length a = 32" for a m1 m2
  proof -
    obtain inner der where der: "kc_octet_string_to_der (e2_crates L) a = Inr inner"
        "kc_pkcs8_to_der (e2_crates L) ''1.3.101.112'' inner = Inr der"
        "e2_pkcs8 L der = Inr \<lparr>pki_oid = OID_ED25519, pki_private_key = 4 # 32 # a\<rparr>"
        "rs_pub (sg_rsa G) der = None" using enc [OF a] by blast
    have "usable_key G (e2_pkcs8 L) (e2_sigs L) (Pkcs8 der) ED25519 (eds_pub (sg_ed G) a)"
      by (rule usable_ed25519) (simp_all add: der a)
    from sign_and_verify_passes [OF ok' this] show ?thesis
      by (simp add: der(1,2) expect_of_result passes_def)
  qed
  have exports: "yields (and_then (expect (edg_export_private_only (e2_ed_gen L) ed (zeros 32)) m1) (\<lambda>seed.
      and_then (expect (edg_export_public (e2_ed_gen L) ed (zeros 32)) m2) (f seed))) Q"
    if "edof ed a" "yields (f a (eds_pub (sg_ed G) a)) Q"
    for ed a m1 m2 and f :: "bytes \<Rightarrow> bytes \<Rightarrow> ('a, unit, unit) rust" and Q
    by (rule yields_and_then [OF yields_expect [OF exp(1) [OF that(1)]]], simp, hypsubst,
        rule yields_and_then [OF yields_expect [OF exp(2) [OF that(1)]]]) (simp_all add: that(2))
  show ?thesis
    unfolding eddsa_sign_and_verify_def passes_def Let_def
    by (rule yields_and_then [OF yields_expect [OF rng_okD(1) [OF ok'(1)]]],
        rule yields_and_then [OF yields_expect [OF new]], elim exE conjE, erule exports, erule key_file)
qed

lemma rsa_key_passes:
  assumes ok: "e2e_ok L G" and sch: "sch \<in> set RSA_SCHEMES" and n: "n \<in> {2048, 4096}"
  shows "passes (generate_and_test_rsa_pkcs8_key L provider sch n)"
    and "passes (generate_and_test_rsa_pkcs1_key L provider sch n)"
proof -
  note ok' = e2e_okD(1,2) [OF ok]
  obtain rsaof where new: "ffi_yields (kc_rsa_new (e2_crates L) n) (\<lambda>k. rsaof k n)"
    and enc: "\<And>k n. rsaof k n \<Longrightarrow> \<exists>d8 d1 p. kc_rsa_to_pkcs8_der (e2_crates L) k = Inr d8
        \<and> kc_rsa_to_pkcs1_der (e2_crates L) k = Inr d1 \<and> kc_rsa_public_to_der (e2_crates L) k = Inr p
        \<and> rs_pub (sg_rsa G) d8 = Some p \<and> rs_pub (sg_rsa G) d1 = Some p
        \<and> rs_size (sg_rsa G) p = Some (n div 8)
        \<and> (\<forall>b. ec_key_bytes (e2_pkcs8 L) (Pkcs8 d8) = Some b \<longrightarrow> ffi_fails (ecc_import_der (ws_ecc (e2_sigs L)) b))"
    using e2e_okD(4) [OF ok] n unfolding rsa_generates_def by blast
  have "yields (and_then (expect (of_result (kc_rsa_to_pkcs8_der (e2_crates L) k)) m1) (\<lambda>doc.
        and_then (expect (of_result (kc_rsa_public_to_der (e2_crates L) k)) m2) (\<lambda>p.
        sign_and_verify L provider sch (Pkcs8 doc) p))) (\<lambda>_. True)
      \<and> yields (and_then (expect (of_result (kc_rsa_to_pkcs1_der (e2_crates L) k)) m1) (\<lambda>doc.
        and_then (expect (of_result (kc_rsa_public_to_der (e2_crates L) k)) m2) (\<lambda>p.
        sign_and_verify L provider sch (Pkcs1 doc) p))) (\<lambda>_. True)" if k: "rsaof k n" for k m1 m2
  proof -
    obtain d8 d1 p where K: "kc_rsa_to_pkcs8_der (e2_crates L) k = Inr d8"
        "kc_rsa_to_pkcs1_der (e2_crates L) k = Inr d1" "kc_rsa_public_to_der (e2_crates L) k = Inr p"
        "rs_pub (sg_rsa G) d8 = Some p" "rs_pub (sg_rsa G) d1 = Some p" "rs_size (sg_rsa G) p = Some (n div 8)"
        "\<And>b. ec_key_bytes (e2_pkcs8 L) (Pkcs8 d8) = Some b \<Longrightarrow> ffi_fails (ecc_import_der (ws_ecc (e2_sigs L)) b)"
      using enc [OF k] by blast
    have n8: "n div 8 \<in> {256, 384, 512}" using n by auto
    have "usable_key G (e2_pkcs8 L) (e2_sigs L) (Pkcs8 d8) sch p"
      by (rule usable_rsa [OF _ K(4,6) n8 sch K(7)]) simp_all
    moreover have "usable_key G (e2_pkcs8 L) (e2_sigs L) (Pkcs1 d1) sch p"
      by (rule usable_rsa [OF _ K(5,6) n8 sch]) simp_all
    ultimately show ?thesis
      using sign_and_verify_passes [OF ok'] by (simp add: K(1-3) expect_of_result passes_def)
  qed
  then show "passes (generate_and_test_rsa_pkcs8_key L provider sch n)"
    and "passes (generate_and_test_rsa_pkcs1_key L provider sch n)"
    unfolding generate_and_test_rsa_pkcs8_key_def generate_and_test_rsa_pkcs1_key_def passes_def Let_def
    by (rule_tac [!] yields_and_then [OF yields_expect [OF new]]) blast+
qed

lemma par_for_each_passes:
  assumes "\<And>cases. set (schedule cases) \<subseteq> set cases" and "\<And>c. c \<in> set cases \<Longrightarrow> passes (body c)"
  shows "passes (par_for_each schedule body cases)"
  unfolding par_for_each_def using assms by (intro passes_for_each) blast

lemma rsa_cases:
  assumes "c \<in> set (rsa_test_cases schemes)"
  obtains sch n where "c = (sch, n)" "sch \<in> set schemes" "n \<in> {2048, 4096}"
  using assms by (auto simp: rsa_test_cases_def)

text \<open>A test after the start of the pool: it takes the pool that is there, or builds it once.\<close>

lemma with_pool:
  assumes "passes body"
  shows "tp_build_global T (tp_num_cpus T) s = (Inr (), s1) \<Longrightarrow>
      \<exists>s'. and_then (init_thread_pool T) (\<lambda>_. beside_once body) (OnceIncomplete, s) = (Ok (), (OnceComplete, s'))"
    and "\<exists>s'. and_then (init_thread_pool T) (\<lambda>_. beside_once body) (OnceComplete, s) = (Ok (), (OnceComplete, s'))"
    and "tp_build_global T (tp_num_cpus T) s = (Inl (), s1) \<Longrightarrow>
      \<exists>p. and_then (init_thread_pool T) (\<lambda>_. beside_once body) (OnceIncomplete, s) = (Panic p, (OncePoisoned, s1))"
    and "\<exists>p. and_then (init_thread_pool T) (\<lambda>_. beside_once body) (OncePoisoned, s) = (Panic p, (OncePoisoned, s))"
proof -
  have body: "\<exists>s'. body s = (Ok (), s')" for s using assms yieldsD [of body _ s] by (auto simp: passes_def)
  show "\<exists>s'. and_then (init_thread_pool T) (\<lambda>_. beside_once body) (OnceComplete, s) = (Ok (), (OnceComplete, s'))"
    using body [of s] by (auto simp: init_thread_pool_def call_once_def beside_once_def and_then_def)
  show "\<exists>s'. and_then (init_thread_pool T) (\<lambda>_. beside_once body) (OnceIncomplete, s) = (Ok (), (OnceComplete, s'))"
    if "tp_build_global T (tp_num_cpus T) s = (Inr (), s1)"
    using body [of s1] that by (auto simp: init_thread_pool_def call_once_def beside_once_def and_then_def expect_def)
qed (simp_all add: init_thread_pool_def call_once_def and_then_def expect_def)

section \<open>Properties\<close>

text \<open>C16. The signature tests of the provider pass.  Over every library that behaves as documented:
  keys generated on the three curves, with Ed25519 and with RSA of 2048 and 4096 bits, written as
  PKCS#8, SEC1 and PKCS#1 files, are loaded through the provider, sign with each of the ten schemes,
  and the signature is accepted by an algorithm of the provider's table under the generated public key;
  whatever order the thread pool runs the RSA cases in.  The first RSA test to run builds the pool, and
  fails if that fails; one that finds it built passes without building it again, so the two run in
  either order.\<close>

theorem signature_tests_pass:
  assumes "e2e_ok L G" and "\<And>cases. set (schedule cases) \<subseteq> set cases"
  shows "passes (ecdsa_sign_and_verify L) \<and> passes (eddsa_sign_and_verify L)
    \<and> (\<forall>t\<in>{rsa_pss_sign_and_verify T schedule L, rsa_pkcs1_sign_and_verify T schedule L}.
        (\<forall>s s1. tp_build_global T (tp_num_cpus T) s = (Inr (), s1) \<longrightarrow>
           (\<exists>s'. t (OnceIncomplete, s) = (Ok (), (OnceComplete, s'))))
      \<and> (\<forall>s s1. tp_build_global T (tp_num_cpus T) s = (Inl (), s1) \<longrightarrow>
           (\<exists>p. t (OnceIncomplete, s) = (Panic p, (OncePoisoned, s1))))
      \<and> (\<forall>s. \<exists>s'. t (OnceComplete, s) = (Ok (), (OnceComplete, s'))))"
proof -
  have S: "ecdsas_ok (ws_ecc (e2_sigs L)) (ws_ecdsas (e2_sigs L)) (sg_dec G) (sg_ecdsa G)"
    using e2e_okD(2) [OF assms(1)] by (simp add: sigs_ok_def)
  have "passes (ecdsa_sign_and_verify L)"
    unfolding ecdsa_sign_and_verify_def Let_def
    using assms(1) ecdsas_okD(3,5,7) [OF S]
    by (intro passes_for_each) (auto simp: e2e_ok_def intro!: ecdsa_config_passes [OF assms(1)])
  moreover have rsa: "passes (par_for_each schedule (\<lambda>(sch, n). generate_and_test_rsa_pkcs8_key L provider sch n)
      (rsa_test_cases schemes))"
    "passes (par_for_each schedule (\<lambda>(sch, n). generate_and_test_rsa_pkcs1_key L provider sch n)
      (rsa_test_cases schemes))" if "set schemes \<subseteq> set RSA_SCHEMES" for schemes
    using that by (auto intro!: par_for_each_passes [OF assms(2)] rsa_key_passes [OF assms(1)] elim!: rsa_cases)
  have both: "passes (and_then m (\<lambda>_. m'))" if "passes m" "passes m'" for m m' :: "'a test"
    using that by (auto simp: passes_def intro: yields_and_then)
  have "set [RSA_PSS_SHA256, RSA_PSS_SHA384, RSA_PSS_SHA512] \<subseteq> set RSA_SCHEMES"
    "set [RSA_PKCS1_SHA256, RSA_PKCS1_SHA384, RSA_PKCS1_SHA512] \<subseteq> set RSA_SCHEMES" by (simp_all add: RSA_SCHEMES_def)
  note pss = both [OF rsa(1) [OF this(1)] rsa(2) [OF this(1)]] and pkcs1 = both [OF rsa(2) [OF this(2)] rsa(1) [OF this(2)]]
  ultimately show ?thesis using eddsa_passes [OF assms(1)] with_pool(1-3) [OF pss, of T] with_pool(1-3) [OF pkcs1, of T]
    unfolding rsa_pss_sign_and_verify_def rsa_pkcs1_sign_and_verify_def Let_def by blast
qed

text \<open>Generators for the demonstration library.\<close>

definition demo_ed_gen :: "'s wolf_ed_gen" where
  "demo_ed_gen = \<lparr>
     edg_generate = (\<lambda>rng s. (Inr (WcEd25519_ctx (replicate 32 5)), s)),
     edg_export_private_only = (\<lambda>k buf s. (Inr (demo_ed_bytes k), s)),
     edg_export_public = (\<lambda>k buf s. (Inr (norm 32 (demo_ed_bytes k)), s))\<rparr>"

fun demo_rsa_number :: "RsaCrateKey \<Rightarrow> bytes" where
  "demo_rsa_number (RsaCrateKey_ctx b) = b"

definition demo_crates :: "'s key_crates" where
  "demo_crates = \<lparr>
     kc_sec1_to_der = (\<lambda>d oid p. Inr (0x30 # d)),
     kc_octet_string_to_der = (\<lambda>a. Inr (4 # 32 # a)),
     kc_pkcs8_to_der = (\<lambda>oid k. Inr ([0x31, 3] @ OID_ED25519 @ k)),
     kc_rsa_new = (\<lambda>n s. (Inr (RsaCrateKey_ctx [of_nat (n div 1024)]), s)),
     kc_rsa_to_pkcs8_der = (\<lambda>k. Inr (9 # demo_rsa_number k)),
     kc_rsa_to_pkcs1_der = (\<lambda>k. Inr (9 # demo_rsa_number k)),
     kc_rsa_public_to_der = (\<lambda>k. Inr (10 # demo_rsa_number k))\<rparr>"

definition demo_e2e :: "'s e2e_libs" where
  "demo_e2e = \<lparr>e2_rng = demo_rng, e2_pkcs8 = demo_pkcs8, e2_sigs = demo_sigs, e2_ed_gen = demo_ed_gen,
     e2_crates = demo_crates\<rparr>"

lemma demo_ec_generates:
  assumes "n \<in> {32, 48, 66}"
  shows "ec_generates (demo_e2e :: 's e2e_libs) (demo_scheme n) i oid"
proof -
  have "unat (of_nat n :: u32) = n" using assms by auto
  moreover have "demo_pkcs8 (0x30 # d) = Inl ()" if "length d = n" for d
    using that assms by (cases d) (auto simp: demo_pkcs8_def)
  ultimately have "(\<forall>rng. ffi_yields (ecc_generate_ex demo_ecc (of_nat n) rng i :: ('s, _, _) ffi)
        (\<lambda>k. \<exists>d. length d = n \<and> demo_eccof n k d))
      \<and> (\<forall>d. length d = n \<longrightarrow> demo_pkcs8 (0x30 # d) = Inl ())"
    by (simp add: demo_ecc_def demo_eccof_def ffi_yields_def)
  then show ?thesis
    using demo_ecc_load_ok [OF assms, where 'a = 's]
    by (auto simp: ec_generates_def demo_e2e_def demo_sigs_def demo_crates_def demo_scheme_def)
qed

lemma demo_ed_generates: "ed_generates (demo_e2e :: 's e2e_libs) demo_sig_spec"
  unfolding ed_generates_def
  by (rule exI [of _ demo_edof])
     (auto simp: demo_e2e_def demo_ed_gen_def demo_crates_def demo_sig_spec_def demo_edof_def demo_ed_def
        ffi_yields_def demo_pkcs8_def OID_ED25519_def demo_rsa_scheme_def)

lemma demo_rsa_generates: "rsa_generates (demo_e2e :: 's e2e_libs) demo_sig_spec"
  unfolding rsa_generates_def
  by (rule exI [of _ "\<lambda>k n. n \<in> {2048, 4096} \<and> k = RsaCrateKey_ctx [of_nat (n div 1024)]"])
     (auto simp: demo_e2e_def demo_crates_def demo_sig_spec_def ffi_yields_def ffi_fails_def demo_pkcs8_def
        demo_rsa_scheme_def demo_sigs_def demo_ecc_def)

lemma demo_e2e_fields:
  "e2_rng demo_e2e = demo_rng" "e2_sigs demo_e2e = demo_sigs" "sg_ecdsa demo_sig_spec = demo_ecdsa_schemes"
  by (simp_all add: demo_e2e_def demo_sig_spec_def)

lemma demo_e2e_ok: "e2e_ok (demo_e2e :: 's e2e_libs) demo_sig_spec"
  unfolding e2e_ok_def demo_e2e_fields demo_ecdsa_schemes_def ecdsa_schemes.simps
  by (intro conjI demo_rng_ok demo_sigs_ok demo_ec_generates demo_ed_generates demo_rsa_generates) simp_all

definition demo_pool :: "bool thread_pools" where
  "demo_pool = \<lparr>tp_num_cpus = 8, tp_build_global = (\<lambda>n built. if built then (Inl (), built) else (Inr (), True))\<rparr>"

theorem signature_tests_pass_witness:
  "(\<exists>s'. rsa_pss_sign_and_verify demo_pool rev (demo_e2e :: bool e2e_libs) (OnceIncomplete, False) = (Ok (), (OnceComplete, s')))
   \<and> (\<exists>s'. rsa_pkcs1_sign_and_verify demo_pool rev (demo_e2e :: bool e2e_libs) (OnceComplete, True) = (Ok (), (OnceComplete, s')))
   \<and> passes (ecdsa_sign_and_verify (demo_e2e :: bool e2e_libs))"
proof -
  have "tp_build_global demo_pool (tp_num_cpus demo_pool) False = (Inr (), True)" by (simp add: demo_pool_def)
  moreover have "set (rev cases) \<subseteq> set cases" for cases :: "(SignatureScheme \<times> usize) list" by simp
  ultimately show ?thesis
    using signature_tests_pass [where L = "demo_e2e :: bool e2e_libs" and schedule = rev and T = demo_pool, OF demo_e2e_ok]
    by blast
qed

end
