(* ===== verification/UnitTests.thy ===== *)
theory UnitTests
  imports TestHarness Kx RandomBuffer
begin

text \<open>
  The tests of \<open>src/error.rs\<close>, \<open>src/random.rs\<close> and \<open>src/kx/\<close>.
\<close>

section \<open>\<open>src/error.rs\<close>\<close>

text \<open>The tests are lists of assertions; \<open>matches!(r, Err(e))\<close> is an equation.\<close>

definition all_assertions :: "bool list \<Rightarrow> 's test" where
  "all_assertions bs = for_each assert_that bs"

definition test_error_display :: "'s test" where
  "test_error_display = all_assertions [
     fmt_WCError Success = ''Operation successful'',
     fmt_WCError Failure = ''Operation failed'',
     fmt_WCError Memory = ''Memory allocation error'',
     fmt_WCError InvalidArgument = ''Invalid argument or state'',
     fmt_WCError Buffer = ''Buffer error'',
     fmt_WCError Authentication = ''Authentication failed'',
     fmt_WCError WCError.RandomError = ''Random number generation error'',
     fmt_WCError ASNParse = ''ASN parsing error'',
     fmt_WCError KeyError = ''Key-related error'',
     fmt_WCError NotAvailable = ''Feature not available'']"

definition test_check_error :: "'s test" where
  "test_check_error = all_assertions [
     is_ok (check_error 0),
     check_error (- 1) = Inl Failure,
     check_error (- 125) = Inl Memory,
     check_error (- 173) = Inl InvalidArgument,
     check_error (- 132) = Inl Buffer,
     check_error (- 180) = Inl Authentication,
     check_error (- 199) = Inl WCError.RandomError,
     check_error (- 140) = Inl ASNParse,
     check_error (- 262) = Inl KeyError,
     check_error (- 174) = Inl NotAvailable]"

definition test_check_if_zero :: "'s test" where
  "test_check_if_zero = all_assertions [
     is_ok (check_if_zero 0),
     check_if_zero (- 1) = Inl Failure,
     check_if_zero (- 125) = Inl Memory]"

definition test_check_if_one :: "'s test" where
  "test_check_if_one = all_assertions [
     is_ok (check_if_one 1),
     \<not> is_ok (check_if_one 0),
     check_if_one (- 1) = Inl Failure]"

definition test_check_if_greater_than_zero :: "'s test" where
  "test_check_if_greater_than_zero = all_assertions [
     is_ok (check_if_greater_than_zero 1),
     \<not> is_ok (check_if_greater_than_zero 0),
     check_if_greater_than_zero (- 1) = Inl Failure]"

lemma error_tests_pass:
  "passes test_error_display" "passes test_check_error" "passes test_check_if_zero"
  "passes test_check_if_one" "passes test_check_if_greater_than_zero"
  by (simp_all add: test_error_display_def test_check_error_def test_check_if_zero_def
      test_check_if_one_def test_check_if_greater_than_zero_def all_assertions_def
      check_if_zero_def check_if_one_def check_if_greater_than_zero_def check_error_def)

section \<open>\<open>src/random.rs\<close>\<close>

definition test_random :: "'s wolf_rng \<Rightarrow> 's test" where
  "test_random r =
     (let buff_1 = zeros 10; buff_2 = zeros 10 in
      and_then (unwrap_result (wolfcrypt_random_buffer_generator r buff_1)) (\<lambda>buff_1.
      and_then (unwrap_result (wolfcrypt_random_buffer_generator r buff_2)) (\<lambda>buff_2.
      assert_that (buff_1 \<noteq> buff_2))))"

section \<open>\<open>src/kx/\<close>\<close>

definition test_curve25519_kx :: "'s wolf_rng \<Rightarrow> 's wolf_curve25519 \<Rightarrow> 's test" where
  "test_curve25519_kx r w =
     and_then (unwrap_result (use_curve25519 r w)) (\<lambda>alice.
     and_then (unwrap_result (use_curve25519 r w)) (\<lambda>bob.
     and_then (unwrap_result (x25519_derive_shared_secret w alice (x25519_pub_key bob))) (\<lambda>left.
     and_then (unwrap_result (x25519_derive_shared_secret w bob (x25519_pub_key alice))) (\<lambda>right.
     assert_that (left = right)))))"

definition test_secp256r1_kx :: "'s wolf_rng \<Rightarrow> 's wolf_ecc \<Rightarrow> 's test" where
  "test_secp256r1_kx r w =
     and_then (unwrap_result (use_secp256r1 r w)) (\<lambda>alice.
     and_then (unwrap_result (use_secp256r1 r w)) (\<lambda>bob.
     and_then (unwrap_result (p256_derive_shared_secret r w alice (p256_pub_key bob))) (\<lambda>left.
     and_then (unwrap_result (p256_derive_shared_secret r w bob (p256_pub_key alice))) (\<lambda>right.
     assert_that (left = right)))))"

definition test_secp384r1_kx :: "'s wolf_rng \<Rightarrow> 's wolf_ecc \<Rightarrow> 's test" where
  "test_secp384r1_kx r w =
     and_then (unwrap_result (use_secp384r1 r w)) (\<lambda>alice.
     and_then (unwrap_result (use_secp384r1 r w)) (\<lambda>bob.
     and_then (unwrap_result (p384_derive_shared_secret r w alice (p384_pub_key bob))) (\<lambda>left.
     and_then (unwrap_result (p384_derive_shared_secret r w bob (p384_pub_key alice))) (\<lambda>right.
     assert_that (left = right)))))"

definition test_secp521r1_kx :: "'s wolf_rng \<Rightarrow> 's wolf_ecc \<Rightarrow> 's test" where
  "test_secp521r1_kx r w =
     and_then (unwrap_result (use_secp521r1 r w)) (\<lambda>alice.
     and_then (unwrap_result (use_secp521r1 r w)) (\<lambda>bob.
     and_then (unwrap_result (p521_derive_shared_secret r w alice (p521_pub_key bob))) (\<lambda>left.
     and_then (unwrap_result (p521_derive_shared_secret r w bob (p521_pub_key alice))) (\<lambda>right.
     assert_that (left = right)))))"

text \<open>The same test over the interface of a group.\<close>

context key_exchange
begin

lemma self_test_passes:
  assumes w: "lib_ok w"
  shows "passes (and_then (unwrap_result (start w)) (\<lambda>alice.
     and_then (unwrap_result (start w)) (\<lambda>bob.
     and_then (unwrap_result (complete w alice (pub_key bob))) (\<lambda>left.
     and_then (unwrap_result (complete w bob (pub_key alice))) (\<lambda>right.
     assert_that (left = right))))))"
  unfolding passes_def
proof (rule yields_and_then [OF yields_expect_result [OF start_holds [OF w]]],
       rule yields_and_then [OF yields_expect_result [OF start_holds [OF w]]], elim exE)
  fix alice bob a b
  assume h: "holds w alice a" "holds w bob b"
  show "yields (and_then (unwrap_result (complete w alice (pub_key bob))) (\<lambda>left.
     and_then (unwrap_result (complete w bob (pub_key alice))) (\<lambda>right.
     assert_that (left = right)))) (\<lambda>_. True)"
    by (rule yields_and_then [OF yields_expect_result [OF complete_secret [OF w h]]],
        rule yields_and_then [OF yields_expect_result [OF complete_secret [OF w h(2,1)]]])
       (simp add: secret_symmetric [OF w, of b a] yields_ok)
qed

end

lemma kx_tests_pass:
  assumes "kx_ok r c w S"
  shows "passes (test_curve25519_kx r c)" and "passes (test_secp256r1_kx r w)"
    and "passes (test_secp384r1_kx r w)" and "passes (test_secp521r1_kx r w)"
  using assms kx25519.self_test_passes [of "(r, c, ks_x25519 S)"] kxp256.self_test_passes [of "(r, w, ks_p256 S)"]
    kxp384.self_test_passes [of "(r, w, ks_p384 S)"] kxp521.self_test_passes [of "(r, w, ks_p521 S)"]
  by (simp_all add: kx_ok_def test_curve25519_kx_def test_secp256r1_kx_def test_secp384r1_kx_def
      test_secp521r1_kx_def x25519_complete_def p256_complete_def p384_complete_def p521_complete_def)

section \<open>The verdict on the tests\<close>

text \<open>The tests of the error codes, of the four key exchange groups and of the random buffers.
  Those of the codes pass; those of the groups pass over every library that behaves as documented;
  that of the random buffers panics exactly if the generator gives the same ten bytes twice in a row
  (which no documented law excludes), and passes otherwise.\<close>

lemma unit_tests_verdict:
  assumes "kx_ok r c w S"
  shows "list_all passes [test_error_display, test_check_error, test_check_if_zero, test_check_if_one,
      test_check_if_greater_than_zero, test_curve25519_kx r c, test_secp256r1_kx r w,
      test_secp384r1_kx r w, test_secp521r1_kx r w]
    \<and> (\<exists>b s' b' s''. wolfcrypt_random_buffer_generator r (zeros 10) s = (Ok b, s')
         \<and> wolfcrypt_random_buffer_generator r (zeros 10) s' = (Ok b', s'')
         \<and> fst (test_random r s) = (if b = b' then Panic ''assertion failed'' else Ok ()))"
proof
  have r: "rng_ok r" using assms by (simp add: kx_ok_def x25519_lib_ok_def)
  note draw = yieldsD [OF random_buffer_yields [OF r, of "zeros 10"]]
  obtain b s' where 1: "wolfcrypt_random_buffer_generator r (zeros 10) s = (Ok b, s')" using draw by blast
  obtain b' s'' where 2: "wolfcrypt_random_buffer_generator r (zeros 10) s' = (Ok b', s'')" using draw by blast
  have "fst (test_random r s) = (if b = b' then Panic ''assertion failed'' else Ok ())"
    by (simp add: test_random_def Let_def and_then_def expect_result_def 1 2 assert_that_def ok_def panic_def)
  with 1 2 show "\<exists>b s' b' s''. wolfcrypt_random_buffer_generator r (zeros 10) s = (Ok b, s')
         \<and> wolfcrypt_random_buffer_generator r (zeros 10) s' = (Ok b', s'')
         \<and> fst (test_random r s) = (if b = b' then Panic ''assertion failed'' else Ok ())" by blast
qed (simp add: error_tests_pass kx_tests_pass [OF assms])

end
