(* ===== verification/KdfTests.thy ===== *)
theory KdfTests
  imports TestHarness Suites
begin

text \<open>
  The tests of \<open>src/hkdf.rs\<close>, of \<open>src/prf.rs\<close> (which tests the HMAC variants) and of \<open>src/hash/\<close>.
  Where a test compares two results of the provider it passes over every library that behaves as
  documented; where it compares a result with a constant or with the vectors of the \<open>wycheproof\<close> crate
  (an argument, \<open>load\<close>) it decides whether these agree with RFC 5869.
\<close>

section \<open>\<open>src/hkdf.rs\<close>\<close>

definition test_hkdf_ikm :: bytes where
  "test_hkdf_ikm = [0x0b, 0x0b, 0x0b, 0x0b, 0x0b, 0x0b, 0x0b, 0x0b, 0x0b, 0x0b, 0x0b,
     0x0b, 0x0b, 0x0b, 0x0b, 0x0b, 0x0b, 0x0b, 0x0b, 0x0b, 0x0b, 0x0b]"

definition test_hkdf_salt :: bytes where
  "test_hkdf_salt = [0x00, 0x01, 0x02, 0x03, 0x04, 0x05, 0x06, 0x07, 0x08, 0x09, 0x0a, 0x0b, 0x0c]"

definition test_hkdf_info :: bytes where
  "test_hkdf_info = [0xf0, 0xf1, 0xf2, 0xf3, 0xf4, 0xf5, 0xf6, 0xf7, 0xf8, 0xf9]"

definition test_hkdf_expected_okm :: bytes where
  "test_hkdf_expected_okm = [
     0x3c, 0xb2, 0x5f, 0x25, 0xfa, 0xac, 0xd5, 0x7a, 0x90, 0x43, 0x4f, 0x64, 0xd0, 0x36, 0x2f, 0x2a,
     0x2d, 0x2d, 0x0a, 0x90, 0xcf, 0x1a, 0x5a, 0x4c, 0x5d, 0xb0, 0x2d, 0x56, 0xec, 0xc4, 0xc5, 0xbf,
     0x34, 0x00, 0x72, 0x08, 0xd5, 0xb8, 0x87, 0x18, 0x58, 0x65]"

definition test_hkdf_sha256 :: "'s wolf_kdf \<Rightarrow> 's test" where
  "test_hkdf_sha256 w =
     and_then (extract_from_secret w Sha256 (Some test_hkdf_salt) test_hkdf_ikm) (\<lambda>expander.
     let okm = zeros 42 in
     and_then (unwrap_result (expand_slice w expander [test_hkdf_info] okm)) (\<lambda>okm.
     assert_that (okm = test_hkdf_expected_okm)))"

definition test_hkdf_sha384 :: "'s wolf_kdf \<Rightarrow> 's test" where
  "test_hkdf_sha384 w =
     and_then (extract_from_secret w Sha384 (Some test_hkdf_salt) test_hkdf_ikm) (\<lambda>expander.
     let okm = zeros 48 in
     and_then (unwrap_result (expand_slice w expander [test_hkdf_info] okm)) (\<lambda>okm.
     assert_that (\<not> list_all (\<lambda>x. x = 0) okm)))"

definition test_hkdf_output_length_limit :: "'s wolf_kdf \<Rightarrow> 's test" where
  "test_hkdf_output_length_limit w =
     and_then (extract_from_zero_ikm w Sha256 None) (\<lambda>expander.
     let max_len = 255 * 32; okm = zeros max_len in
     and_then (attempt_result (expand_slice w expander [[]] okm)) (\<lambda>result.
     and_then (assert_that (is_ok result)) (\<lambda>_.
     let okm = zeros (max_len + 1) in
     and_then (attempt_result (expand_slice w expander [[]] okm)) (\<lambda>result.
     assert_that (\<not> is_ok result)))))"

definition test_hkdf_zero_ikm :: "'s wolf_kdf \<Rightarrow> 's test" where
  "test_hkdf_zero_ikm w =
     and_then (extract_from_zero_ikm w Sha256 (Some test_hkdf_salt)) (\<lambda>expander.
     let okm1 = zeros 32 in
     and_then (unwrap_result (expand_slice w expander [test_hkdf_info] okm1)) (\<lambda>okm1.
     and_then (extract_from_zero_ikm w Sha256 (Some test_hkdf_salt)) (\<lambda>expander2.
     let okm2 = zeros 32 in
     and_then (unwrap_result (expand_slice w expander2 [test_hkdf_info] okm2)) (\<lambda>okm2.
     assert_that (okm1 = okm2)))))"

definition test_hkdf_multiple_info_components :: "'s wolf_kdf \<Rightarrow> 's test" where
  "test_hkdf_multiple_info_components w =
     (let info1 = [0xf0, 0xf1, 0xf2, 0xf3]; info2 = [0xf4, 0xf5, 0xf6, 0xf7]; info3 = [0xf8, 0xf9] in
      and_then (extract_from_zero_ikm w Sha256 (Some test_hkdf_salt)) (\<lambda>expander.
      let okm1 = zeros 32 in
      and_then (unwrap_result (expand_slice w expander [info1, info2, info3] okm1)) (\<lambda>okm1.
      let info_concat = [] @ info1 @ info2 @ info3; okm2 = zeros 32 in
      and_then (unwrap_result (expand_slice w expander [info_concat] okm2)) (\<lambda>okm2.
      assert_that (okm1 = okm2)))))"

text \<open>The runs over \<open>wycheproof\<close>.\<close>

datatype HkdfTestName = HkdfSha256 | HkdfSha384

record hkdf_test =
  ht_ikm :: bytes
  ht_salt :: bytes
  ht_info :: bytes
  ht_size :: usize
  ht_okm :: bytes
  ht_result :: TestResult

type_synonym hkdf_groups = "hkdf_test list list"

text \<open>\<open>SupportedCipherSuite::tls13\<close> of rustls.\<close>

fun suite_tls13 :: "SupportedCipherSuite \<Rightarrow> Tls13CipherSuite option" where
  "suite_tls13 (SuiteTls13 s) = Some s"
| "suite_tls13 (SuiteTls12 s) = None"

definition hkdf_case :: "'s wolf_kdf \<Rightarrow> WCShaHmac \<Rightarrow> hkdf_test \<Rightarrow> 's test" where
  "hkdf_case w hkdf_provider test =
     and_then (extract_from_secret w hkdf_provider (Some (ht_salt test)) (ht_ikm test)) (\<lambda>expander.
     let okm = zeros (ht_size test) in
     and_then (attempt_result (expand_slice w expander [ht_info test] okm)) (\<lambda>result.
     case ht_result test of
       Invalid \<Rightarrow> assert_that (\<not> is_ok result)
     | _ \<Rightarrow> (case result of
           Inr okm \<Rightarrow> assert_that (okm = ht_okm test)
         | Inl _ \<Rightarrow> panic ''assertion failed: result.is_ok()'')))"

definition hkdf_suite_run :: "'s wolf_kdf \<Rightarrow> hkdf_groups \<Rightarrow> SupportedCipherSuite \<Rightarrow> 's test" where
  "hkdf_suite_run w test_set suite =
     and_then (some_or_panic (suite_tls13 suite) ''called Option::unwrap() on a None value'') (\<lambda>suite.
     for_each (for_each (hkdf_case w (t13_hkdf_provider suite))) test_set)"

definition test_hkdf_wycheproof_sha256 ::
    "'s wolf_kdf \<Rightarrow> (HkdfTestName \<Rightarrow> string + hkdf_groups) \<Rightarrow> 's test" where
  "test_hkdf_wycheproof_sha256 w load =
     and_then (unwrap (of_result (load HkdfSha256))) (\<lambda>test_set.
     for_each (hkdf_suite_run w test_set) [TLS13_AES_128_GCM_SHA256, TLS13_CHACHA20_POLY1305_SHA256])"

definition test_hkdf_wycheproof_sha384 ::
    "'s wolf_kdf \<Rightarrow> (HkdfTestName \<Rightarrow> string + hkdf_groups) \<Rightarrow> 's test" where
  "test_hkdf_wycheproof_sha384 w load =
     and_then (unwrap (of_result (load HkdfSha384))) (\<lambda>test_set.
     for_each (hkdf_suite_run w test_set) [TLS13_AES_256_GCM_SHA384])"

section \<open>\<open>src/prf.rs\<close>\<close>

definition hmac_variant_case :: "'s wolf_kdf \<Rightarrow> WCShaHmac \<times> usize \<Rightarrow> 's test" where
  "hmac_variant_case w = (\<lambda>(variant, expected_size).
     let hash = with_key variant (as_bytes ''this is my key'');
         parts = [as_bytes ''fake it'', as_bytes ''till you'', as_bytes ''make'', as_bytes ''it''] in
     and_then (sign_concat w hash [] parts []) (\<lambda>tag1.
     and_then (sign_concat w hash [] parts []) (\<lambda>tag2.
     and_then (assert_that (tag1 = tag2)) (\<lambda>_.
     assert_that (length tag1 = expected_size)))))"

definition test_hmac_variants :: "'s wolf_kdf \<Rightarrow> 's test" where
  "test_hmac_variants w = for_each (hmac_variant_case w) [(Sha256, 32), (Sha384, 48)]"

section \<open>\<open>src/hash/sha256.rs\<close> and \<open>src/hash/sha384.rs\<close>\<close>

text \<open>\<open>hex::encode\<close> is an argument.\<close>

definition test_sha256 :: "(bytes \<Rightarrow> string) \<Rightarrow> 's wolf_sha \<Rightarrow> 's test" where
  "test_sha256 hex_encode w =
     and_then (sha256_hash w (as_bytes ''hello'')) (\<lambda>hash1.
     and_then (sha256_hash w (as_bytes ''hello'')) (\<lambda>hash2.
     assert_that (hex_encode hash1 = hex_encode hash2)))"

definition test_sha256_fork :: "(bytes \<Rightarrow> string) \<Rightarrow> 's wolf_sha \<Rightarrow> 's test" where
  "test_sha256_fork hex_encode w =
     and_then (sha256_start w) (\<lambda>ctx.
     and_then (sha256_update w ctx (as_bytes ''hello '')) (\<lambda>ctx.
     and_then (sha256_fork w ctx) (\<lambda>forked.
     and_then (sha256_update w ctx (as_bytes ''world'')) (\<lambda>ctx.
     and_then (sha256_update w forked (as_bytes ''world'')) (\<lambda>f.
     and_then (sha256_finish w f) (\<lambda>forked_finish.
     and_then (sha256_finish w ctx) (\<lambda>orig_finish.
     assert_that (hex_encode orig_finish = hex_encode forked_finish))))))))"

definition test_sha384 :: "(bytes \<Rightarrow> string) \<Rightarrow> 's wolf_sha \<Rightarrow> 's test" where
  "test_sha384 hex_encode w =
     and_then (sha384_hash w (as_bytes ''hello'')) (\<lambda>hash1.
     and_then (sha384_hash w (as_bytes ''hello'')) (\<lambda>hash2.
     assert_that (hex_encode hash1 = hex_encode hash2)))"

definition test_sha384_fork :: "(bytes \<Rightarrow> string) \<Rightarrow> 's wolf_sha \<Rightarrow> 's test" where
  "test_sha384_fork hex_encode w =
     and_then (sha384_start w) (\<lambda>ctx.
     and_then (sha384_update w ctx (as_bytes ''hello '')) (\<lambda>ctx.
     and_then (sha384_fork w ctx) (\<lambda>forked.
     and_then (sha384_update w ctx (as_bytes ''world'')) (\<lambda>ctx.
     and_then (sha384_update w forked (as_bytes ''world'')) (\<lambda>f.
     and_then (sha384_finish w f) (\<lambda>forked_finish.
     and_then (sha384_finish w ctx) (\<lambda>orig_finish.
     assert_that (hex_encode orig_finish = hex_encode forked_finish))))))))"

section \<open>What the tests check\<close>

text \<open>The output of HKDF for a salt and input key material, and the verdict on a vector.\<close>

definition hkdf_output :: "'s wolf_kdf \<Rightarrow> (i32 \<Rightarrow> mac_fun) \<Rightarrow> WCShaHmac \<Rightarrow> bytes \<Rightarrow> bytes \<Rightarrow> bytes \<Rightarrow> usize \<Rightarrow> bytes" where
  "hkdf_output w mac v salt ikm info n = variant_okm w mac v (mac (hmac_type w v) salt ikm) info n"

definition hkdf_vector_right :: "'s wolf_kdf \<Rightarrow> (i32 \<Rightarrow> mac_fun) \<Rightarrow> WCShaHmac \<Rightarrow> hkdf_test \<Rightarrow> bool" where
  "hkdf_vector_right w mac v test \<longleftrightarrow>
     (case ht_result test of
        Invalid \<Rightarrow> 255 * variant_len v < ht_size test
      | _ \<Rightarrow> ht_size test \<le> 255 * variant_len v
          \<and> ht_okm test = hkdf_output w mac v (ht_salt test) (ht_ikm test) (ht_info test) (ht_size test))"

definition hkdf_run_right :: "'s wolf_kdf \<Rightarrow> (i32 \<Rightarrow> mac_fun) \<Rightarrow> WCShaHmac \<Rightarrow> hkdf_groups \<Rightarrow> bool" where
  "hkdf_run_right w mac v gs \<longleftrightarrow> (\<forall>tests\<in>set gs. \<forall>test\<in>set tests. hkdf_vector_right w mac v test)"

lemma extract_with_salt:
  assumes "hkdf_ok w mac"
  shows "yields (extract_from_secret w v (Some salt) ikm) (\<lambda>e. e = expander_of w v (mac (hmac_type w v) salt ikm))"
  using extract_from_secret_yields [OF assms, of v "Some salt" ikm] by (simp add: salt_or_zeros_def)

lemma expand_attempt:
  assumes "hkdf_ok w mac" and "0 < n" "n \<le> 255 * variant_len v"
  shows "yields (attempt_result (expand_slice w (expander_of w v prk) info (zeros n)))
           (\<lambda>r. r = Inr (variant_okm w mac v prk (concat info) n))"
  by (rule yields_weaken [OF yields_attempt_result [OF expand_slice_yields [OF assms(1)]]])
     (use assms in auto)

lemma expand_attempt_too_long:
  assumes "255 * variant_len v < n"
  shows "attempt_result (expand_slice w (expander_of w v prk) info (zeros n)) = ok (Inl OutputLengthError)"
  by (subst expand_slice_too_long) (use assms in \<open>simp_all add: expander_of_def\<close>)

lemma hkdf_case_decides:
  assumes w: "hkdf_ok w mac" and size: "0 < ht_size test"
  shows "decides (hkdf_case w v test) (hkdf_vector_right w mac v test)"
  unfolding hkdf_case_def Let_def
proof (rule decides_after [OF extract_with_salt [OF w]], hypsubst)
  let ?e = "expander_of w v (mac (hmac_type w v) (ht_salt test) (ht_ikm test))"
  let ?check = "\<lambda>result. case ht_result test of
       Invalid \<Rightarrow> assert_that (\<not> is_ok result)
     | _ \<Rightarrow> (case result of
           Inr okm \<Rightarrow> assert_that (okm = ht_okm test)
         | Inl _ \<Rightarrow> panic ''assertion failed: result.is_ok()'')"
  show "decides (and_then (attempt_result (expand_slice w ?e [ht_info test] (zeros (ht_size test)))) ?check)
      (hkdf_vector_right w mac v test)"
  proof (cases "ht_size test \<le> 255 * variant_len v")
    case True
    show ?thesis
      by (rule decides_after [OF expand_attempt [OF w size True]], hypsubst)
         (cases "ht_result test"; use True in \<open>auto simp: hkdf_vector_right_def hkdf_output_def\<close>)
  next
    case False
    then have "decides (?check (Inl OutputLengthError)) (hkdf_vector_right w mac v test)"
      by (cases "ht_result test") (simp_all add: hkdf_vector_right_def decides_def)
    then show ?thesis using False by (simp add: expand_attempt_too_long)
  qed
qed

lemma hkdf_suite_run_decides:
  assumes "hkdf_ok w mac" and "\<And>tests test. tests \<in> set gs \<Longrightarrow> test \<in> set tests \<Longrightarrow> 0 < ht_size test"
    and "suite_tls13 suite = Some s"
  shows "decides (hkdf_suite_run w gs suite) (hkdf_run_right w mac (t13_hkdf_provider s) gs)"
  unfolding hkdf_suite_run_def hkdf_run_right_def
  by (auto simp: assms(3) intro!: decides_for_each hkdf_case_decides assms(1) dest: assms(2))

lemma fixed_hkdf_decides:
  assumes w: "hkdf_ok w mac" and n: "0 < n" "n \<le> 255 * variant_len v"
  shows "decides (and_then (extract_from_secret w v (Some salt) ikm) (\<lambda>e.
             and_then (unwrap_result (expand_slice w e [info] (zeros n))) (\<lambda>okm. assert_that (P okm))))
           (P (hkdf_output w mac v salt ikm info n))"
  by (rule decides_after [OF extract_with_salt [OF w]], hypsubst,
      rule decides_after [OF yields_expect_result [OF expand_slice_yields [OF w]]])
     (use n in \<open>auto simp: hkdf_output_def\<close>)

lemma zero_ikm_expander:
  assumes "hkdf_ok w mac"
  shows "yields (extract_from_zero_ikm w v salt) (\<lambda>e. \<exists>prk. e = expander_of w v prk
    \<and> prk = mac (hmac_type w v) (salt_or_zeros v salt) (zeros (variant_len v)))"
  using extract_from_zero_ikm_yields [OF assms, of v salt] by simp

lemma expand_sha256:
  assumes "hkdf_ok w mac" and "0 < n" "n \<le> 8160"
  shows "yields (unwrap_result (expand_slice w (expander_of w Sha256 prk) info (zeros n)))
    (\<lambda>r. r = variant_okm w mac Sha256 prk (concat info) n)"
  using expand_slice_yields [OF assms(1), of "zeros n" Sha256 prk info] assms(2,3)
  by (simp add: yields_expect_result)

lemma hkdf_self_tests:
  assumes w: "hkdf_ok w mac"
  shows "passes (test_hkdf_output_length_limit w)" and "passes (test_hkdf_zero_ikm w)"
    and "passes (test_hkdf_multiple_info_components w)"
proof -
  note zero = zero_ikm_expander [OF w, where v = Sha256]
  note expand = yields_and_then [OF expand_sha256 [OF w]]
  have long: "attempt_result (expand_slice w (expander_of w Sha256 prk) [[]] (zeros 8161)) = ok (Inl OutputLengthError)"
    for prk by (rule expand_attempt_too_long) simp
  show "passes (test_hkdf_output_length_limit w)"
    unfolding test_hkdf_output_length_limit_def passes_def Let_def
    by (rule yields_and_then [OF zero], elim exE conjE, hypsubst,
        rule yields_and_then [OF expand_attempt [OF w]])
       (simp_all add: long yields_ok)
  show "passes (test_hkdf_zero_ikm w)"
    unfolding test_hkdf_zero_ikm_def passes_def Let_def
    by (rule yields_and_then [OF zero], elim exE conjE, hypsubst, rule expand, simp, simp,
        rule yields_and_then [OF zero], elim exE conjE, hypsubst, rule expand)
       (simp_all add: yields_ok)
  show "passes (test_hkdf_multiple_info_components w)"
    unfolding test_hkdf_multiple_info_components_def passes_def Let_def
    by (rule yields_and_then [OF zero], elim exE conjE, hypsubst, rule expand, simp, simp, rule expand)
       (simp_all add: yields_ok)
qed

lemma hmac_self_test:
  assumes w: "hkdf_ok w mac"
  shows "passes (test_hmac_variants w)"
proof -
  have variant: "passes (hmac_variant_case w (v, n))" if "n = variant_len v" for v n
    unfolding hmac_variant_case_def passes_def Let_def prod.case
    by (rule yields_and_then [OF sign_concat_yields [OF w]],
        rule yields_and_then [OF sign_concat_yields [OF w]])
       (simp add: that length_mac [OF w] yields_ok)
  show ?thesis unfolding test_hmac_variants_def by (intro passes_for_each) (auto intro!: variant)
qed

lemma sha_self_tests:
  assumes w: "sha_ok h fed digest"
  shows "passes (test_sha256 hex h)" and "passes (test_sha256_fork hex h)"
    and "passes (test_sha384 hex h)" and "passes (test_sha384_fork hex h)"
proof -
  note s256 = sha256_ops_yield [OF w] and s384 = sha384_ops_yield [OF w]
  show "passes (test_sha256_fork hex h)"
    unfolding test_sha256_fork_def passes_def
    by (rule yields_and_then [OF s256(1)], rule yields_and_then [OF s256(2)], assumption,
        rule yields_and_then [OF s256(3)], assumption, rule yields_and_then [OF s256(2)], assumption,
        rule yields_and_then [OF s256(2)], assumption, rule yields_and_then [OF s256(4)], assumption,
        rule yields_and_then [OF s256(4)], assumption) (simp add: yields_ok)
  show "passes (test_sha384_fork hex h)"
    unfolding test_sha384_fork_def passes_def
    by (rule yields_and_then [OF s384(1)], rule yields_and_then [OF s384(2)], assumption,
        rule yields_and_then [OF s384(3)], assumption, rule yields_and_then [OF s384(2)], assumption,
        rule yields_and_then [OF s384(2)], assumption, rule yields_and_then [OF s384(4)], assumption,
        rule yields_and_then [OF s384(4)], assumption) (simp add: yields_ok)
  show "passes (test_sha256 hex h)"
    unfolding test_sha256_def passes_def
    by (rule yields_and_then [OF sha256_hash_yields [OF w]], rule yields_and_then [OF sha256_hash_yields [OF w]])
       (simp add: yields_ok)
  show "passes (test_sha384 hex h)"
    unfolding test_sha384_def passes_def
    by (rule yields_and_then [OF sha384_hash_yields [OF w]], rule yields_and_then [OF sha384_hash_yields [OF w]])
       (simp add: yields_ok)
qed

section \<open>Properties\<close>

text \<open>C28. What the HKDF vector tests establish.  Over any library whose HKDF behaves as documented,
  and any set of vectors with outputs of at least one byte: a run over \<open>wycheproof\<close> passes exactly if
  every valid vector is the RFC 5869 output for its salt, input key material and info, within the
  limit of 255 blocks, and every invalid one is beyond the limit; the fixed test for SHA-256 passes
  exactly if its constant is the RFC 5869 output; the one for SHA-384 exactly if the output is not all
  zeros.\<close>

theorem hkdf_vector_tests_exact:
  assumes "hkdf_ok w mac" and "load HkdfSha256 = Inr gs" and "load HkdfSha384 = Inr gs'"
    and "\<forall>tests\<in>set (gs @ gs'). \<forall>test\<in>set tests. 0 < ht_size test"
  shows "decides (test_hkdf_wycheproof_sha256 w load) (hkdf_run_right w mac Sha256 gs)
    \<and> decides (test_hkdf_wycheproof_sha384 w load) (hkdf_run_right w mac Sha384 gs')
    \<and> decides (test_hkdf_sha256 w)
        (hkdf_output w mac Sha256 test_hkdf_salt test_hkdf_ikm test_hkdf_info 42 = test_hkdf_expected_okm)
    \<and> decides (test_hkdf_sha384 w)
        (\<exists>x\<in>set (hkdf_output w mac Sha384 test_hkdf_salt test_hkdf_ikm test_hkdf_info 48). x \<noteq> 0)"
proof (intro conjI)
  have run: "decides (hkdf_suite_run w g suite) (hkdf_run_right w mac v g)"
    if "g = gs \<or> g = gs'" "suite_tls13 suite = Some s" "t13_hkdf_provider s = v" for g suite s v
    unfolding that(3) [symmetric]
    by (rule hkdf_suite_run_decides [OF assms(1) _ that(2)]) (use assms(4) that(1) in auto)
  have "decides (test_hkdf_wycheproof_sha256 w load)
      (\<forall>suite\<in>set [TLS13_AES_128_GCM_SHA256, TLS13_CHACHA20_POLY1305_SHA256]. hkdf_run_right w mac Sha256 gs)"
    unfolding test_hkdf_wycheproof_sha256_def assms(2) expect_of_result and_then_ok
    by (rule decides_for_each) (auto simp: suite_defs intro!: run)
  then show "decides (test_hkdf_wycheproof_sha256 w load) (hkdf_run_right w mac Sha256 gs)"
    by (rule decides_cong) auto
  have "decides (test_hkdf_wycheproof_sha384 w load)
      (\<forall>suite\<in>set [TLS13_AES_256_GCM_SHA384]. hkdf_run_right w mac Sha384 gs')"
    unfolding test_hkdf_wycheproof_sha384_def assms(3) expect_of_result and_then_ok
    by (rule decides_for_each) (auto simp: suite_defs intro!: run)
  then show "decides (test_hkdf_wycheproof_sha384 w load) (hkdf_run_right w mac Sha384 gs')" by simp
  show "decides (test_hkdf_sha256 w)
      (hkdf_output w mac Sha256 test_hkdf_salt test_hkdf_ikm test_hkdf_info 42 = test_hkdf_expected_okm)"
    unfolding test_hkdf_sha256_def Let_def by (rule fixed_hkdf_decides [OF assms(1)]) simp_all
  have "decides (test_hkdf_sha384 w)
      (\<not> list_all (\<lambda>x. x = 0) (hkdf_output w mac Sha384 test_hkdf_salt test_hkdf_ikm test_hkdf_info 48))"
    unfolding test_hkdf_sha384_def Let_def by (rule fixed_hkdf_decides [OF assms(1)]) simp_all
  then show "decides (test_hkdf_sha384 w)
      (\<exists>x\<in>set (hkdf_output w mac Sha384 test_hkdf_salt test_hkdf_ikm test_hkdf_info 48). x \<noteq> 0)"
    by (simp add: list_all_iff)
qed

theorem hkdf_vector_tests_exact_witness:
  "passes (test_hkdf_wycheproof_sha256 (demo_kdf :: unit wolf_kdf) (\<lambda>_. Inr
     [[\<lparr>ht_ikm = [1], ht_salt = [2], ht_info = [3], ht_size = 8161, ht_okm = [], ht_result = Invalid\<rparr>]]))
   \<and> panics (test_hkdf_wycheproof_sha384 (demo_kdf :: unit wolf_kdf) (\<lambda>_. Inr
     [[\<lparr>ht_ikm = [1], ht_salt = [2], ht_info = [3], ht_size = 8161, ht_okm = [], ht_result = Invalid\<rparr>]]))"
proof -
  let ?gs = "[[\<lparr>ht_ikm = [1], ht_salt = [2], ht_info = [3], ht_size = 8161, ht_okm = [], ht_result = Invalid\<rparr>]]"
  have "hkdf_run_right (demo_kdf :: unit wolf_kdf) demo_mac Sha256 ?gs"
    "\<not> hkdf_run_right (demo_kdf :: unit wolf_kdf) demo_mac Sha384 ?gs"
    by (simp_all add: hkdf_run_right_def hkdf_vector_right_def)
  then show ?thesis
    using hkdf_vector_tests_exact [where w = "demo_kdf :: unit wolf_kdf" and gs = ?gs and gs' = ?gs
        and load = "\<lambda>_. Inr ?gs", OF demo_hkdf_ok] by (simp add: decides_def)
qed

text \<open>The tests that compare the provider with itself pass, over every library that behaves as
  documented: the output limit of HKDF, the repeated extraction from zero key material, the info in
  three parts or in one, both HMAC variants, and hashing and forking with SHA-256 and SHA-384 (under
  any rendering of a digest).\<close>

lemma derivation_tests_pass:
  assumes "hkdf_ok w mac" and "sha_ok h fed digest"
  shows "list_all passes [test_hkdf_output_length_limit w, test_hkdf_zero_ikm w,
      test_hkdf_multiple_info_components w, test_hmac_variants w]
    \<and> list_all passes [test_sha256 hex h, test_sha256_fork hex h, test_sha384 hex h, test_sha384_fork hex h]"
  by (simp add: hkdf_self_tests [OF assms(1)] hmac_self_test [OF assms(1)] sha_self_tests [OF assms(2)])

end
