(* ===== verification/KeyTests.thy ===== *)
theory KeyTests
  imports EndToEnd UnitTests KdfTests
begin

text \<open>
  The tests of \<open>src/sign/ecdsa.rs\<close> and \<open>src/sign/eddsa.rs\<close>, which write key files by hand: a SEC1 key
  of P-256, assembled from its parts with lengths spelled out, and the PKCS#8 key of an Ed25519 seed.
  The files are compared with the encodings that RFC 5915 and RFC 8410 prescribe.  At the end, the
  verdict on all the tests of the source files that compare the provider with itself.
\<close>

section \<open>The encodings of the standards\<close>

text \<open>A DER value: the tag, the length of the content, the content.\<close>

definition tlv :: "u8 \<Rightarrow> bytes \<Rightarrow> bytes" where
  "tlv tag c = tag # der_len (length c) @ c"

definition OID_PRIME256V1 :: bytes where
  "OID_PRIME256V1 = [0x2a, 0x86, 0x48, 0xce, 0x3d, 0x03, 0x01, 0x07]"

text \<open>\<open>ECPrivateKey\<close> of RFC 5915: version 1, the scalar, the named curve, the public key.\<close>

definition rfc5915_p256 :: "bytes \<Rightarrow> bytes \<Rightarrow> bytes" where
  "rfc5915_p256 d p =
     tlv 0x30 (tlv 2 [1] @ tlv 4 d @ tlv 0xa0 (tlv 6 OID_PRIME256V1) @ tlv 0xa1 (tlv 3 (0 # p)))"

text \<open>\<open>OneAsymmetricKey\<close> of RFC 8410: version 0, the algorithm, the seed as an OCTET STRING.\<close>

definition rfc8410_key :: "bytes \<Rightarrow> bytes" where
  "rfc8410_key a = tlv 0x30 (tlv 2 [0] @ tlv 0x30 (tlv 6 OID_ED25519) @ tlv 4 (tlv 4 a))"

text \<open>A reader for the first of them.\<close>

definition parse_all :: "u8 \<Rightarrow> bytes \<Rightarrow> bytes option" where
  "parse_all tag b = (case parse_tlv tag b of Some (c, []) \<Rightarrow> Some c | _ \<Rightarrow> None)"

definition parse_sec1 :: "bytes \<Rightarrow> (bytes \<times> bytes \<times> bytes) option" where
  "parse_sec1 der =
     Option.bind (parse_all 0x30 der) (\<lambda>body.
     Option.bind (parse_tlv 2 body) (\<lambda>(version, rest).
     if version \<noteq> [1] then None else
     Option.bind (parse_tlv 4 rest) (\<lambda>(d, rest).
     Option.bind (parse_tlv 0xa0 rest) (\<lambda>(params, rest).
     Option.bind (parse_all 6 params) (\<lambda>oid.
     Option.bind (parse_all 0xa1 rest) (\<lambda>point.
     Option.bind (parse_all 3 point) (\<lambda>bits.
     case bits of [] \<Rightarrow> None | unused # p \<Rightarrow> if unused = 0 then Some (d, oid, p) else None)))))))"

lemma parse_tlv_tlv [simp]: "length c < 256 \<Longrightarrow> parse_tlv tag (tlv tag c @ rest) = Some (c, rest)"
  by (simp add: tlv_def parse_tlv_encoded)

lemma parse_all_tlv [simp]: "length c < 256 \<Longrightarrow> parse_all tag (tlv tag c) = Some c"
  using parse_tlv_tlv [of c tag "[]"] by (simp add: parse_all_def)

lemma length_tlv [simp]: "length (tlv tag c) = (if length c < 128 then 2 else 3) + length c"
  by (simp add: tlv_def length_der_len)

section \<open>The code of \<open>sign/ecdsa.rs\<close>\<close>

definition make_sec1_p256 :: "bytes \<Rightarrow> bytes \<Rightarrow> bytes" where
  "make_sec1_p256 priv_bytes pub_bytes =
     (let oid = [0x2a, 0x86, 0x48, 0xce, 0x3d, 0x03, 0x01, 0x07];
          named_curve = [0xa0, 0x0a, 0x06, 0x08] @ oid;
          pub_key_field = [0xa1, 0x44, 0x03, 0x42, 0x00] @ pub_bytes;
          priv_field = [0x04, 0x20] @ priv_bytes;
          version = [0x02, 0x01, 0x01];
          inner_len = length version + length priv_field + length named_curve + length pub_key_field;
          der = [0x30, of_nat inner_len] @ version @ priv_field @ named_curve @ pub_key_field in
      der)"

definition test_ecdsa_import_and_sign :: "'s wolf_rng \<Rightarrow> 's wolf_ecc \<Rightarrow> 's wolf_ecdsas \<Rightarrow> 's test" where
  "test_ecdsa_import_and_sign r w v =
     and_then (expect (rng_new r) ''rng'') (\<lambda>rng.
     and_then (expect (ecc_get_curve_size_from_id w (ecc_SECP256R1 w)) ''curve_size'') (\<lambda>curve_size.
     and_then (expect (ecc_generate_ex w curve_size rng (ecc_SECP256R1 w)) ''generate'') (\<lambda>key.
     let priv_buf = zeros 32 in
     and_then (expect (ecc_export_private w key priv_buf) ''export_private'') (\<lambda>(priv_buf, _).
     let x963 = zeros 65 in
     and_then (expect (ecc_export_x963 w key x963) ''export_x963'') (\<lambda>(x963, x963_len).
     and_then (assert_that (x963_len = 65)) (\<lambda>_.
     and_then (expect (rng_new r) ''rng2'') (\<lambda>rng2.
     and_then (expect (sk_import_x963 (wolf_p256 v) x963 priv_buf rng2) ''P256SigningKey::import_x963'') (\<lambda>sk.
     and_then (expect (sk_try_sign (wolf_p256 v) sk (as_bytes ''hello world'')) ''try_sign'') (\<lambda>sig.
     assert_that (length (sig_to_bytes (wolf_p256 v) sig) = 64))))))))))"

definition test_ecdsa_try_from_sec1 :: "'s wolf_rng \<Rightarrow> pkcs8_parser \<Rightarrow> 's wolf_ecc \<Rightarrow> 's test" where
  "test_ecdsa_try_from_sec1 r pkcs8 w =
     and_then (expect (rng_new r) ''RNG::new'') (\<lambda>rng.
     and_then (expect (ecc_get_curve_size_from_id w (ecc_SECP256R1 w)) ''curve_size'') (\<lambda>curve_size.
     and_then (expect (ecc_generate_ex w curve_size rng (ecc_SECP256R1 w)) ''generate'') (\<lambda>key.
     let priv_bytes = zeros 32 in
     and_then (expect (ecc_export_private w key priv_bytes) ''export_private'') (\<lambda>(priv_bytes, _).
     let x963 = zeros 65 in
     and_then (expect (ecc_export_x963 w key x963) ''export_x963'') (\<lambda>(x963, _).
     let pub_bytes = x963;
         sec1_der = make_sec1_p256 priv_bytes pub_bytes in
     and_then (expect_result (ecdsa_try_from pkcs8 w (Sec1 sec1_der)) ''SEC1 try_from failed'') (\<lambda>_.
     and_then (expect_result (ecdsa_try_from pkcs8 w (Pkcs8 sec1_der))
         ''PKCS8-labeled-SEC1 try_from failed'') (\<lambda>_.
     ok ())))))))"

section \<open>The code of \<open>sign/eddsa.rs\<close>\<close>

definition test_eddsa_sign_verify_roundtrip ::
    "'s wolf_rng \<Rightarrow> pkcs8_parser \<Rightarrow> 's wolf_ed_gen \<Rightarrow> 's wolf_ed25519 \<Rightarrow> 's test" where
  "test_eddsa_sign_verify_roundtrip r pkcs8 g w =
     and_then (expect (rng_new r) ''RNG::new failed'') (\<lambda>rng.
     and_then (expect (edg_generate g rng) ''generate failed'') (\<lambda>key.
     let priv_raw = zeros (ed_KEY_SIZE w) in
     and_then (expect (edg_export_private_only g key priv_raw) ''export_private_only failed'') (\<lambda>priv_raw.
     let pub_raw = zeros (ed_PUB_KEY_SIZE w) in
     and_then (expect (ed_make_public w key pub_raw) ''make_public failed'') (\<lambda>pub_raw.
     let pkcs8_der = zeros 48 in
     and_then (copy_into_range pkcs8_der 0 16 [
         0x30, 0x2e, 0x02, 0x01, 0x00, 0x30, 0x05, 0x06,
         0x03, 0x2b, 0x65, 0x70, 0x04, 0x22, 0x04, 0x20]) (\<lambda>pkcs8_der.
     and_then (copy_into_range pkcs8_der 16 48 priv_raw) (\<lambda>pkcs8_der.
     and_then (expect_result (ed25519_try_from pkcs8 w (Pkcs8 pkcs8_der))
         ''Ed25519PrivateKey::try_from failed'') (\<lambda>private_key.
     and_then (some_or_panic (ed25519_choose_scheme private_key [ED25519]) ''choose_scheme failed'') (\<lambda>signer.
     let message = as_bytes ''test message'' in
     and_then (expect_result (ed25519_sign w signer message) ''sign failed'') (\<lambda>signature.
     and_then (assert_that (length signature = 64)) (\<lambda>_.
     and_then (attempt_result (ed25519_verify_signature w pub_raw message signature)) (\<lambda>result.
     assert_that (is_ok result))))))))))))"

section \<open>The key files\<close>

lemma make_sec1_p256_eq:
  "length d = 32 \<Longrightarrow> length p = 65 \<Longrightarrow> make_sec1_p256 d p = rfc5915_p256 d p"
  by (simp add: make_sec1_p256_def rfc5915_p256_def tlv_def der_len_def OID_PRIME256V1_def)

lemma parse_rfc5915:
  assumes "length d = 32" "length p = 65"
  shows "parse_sec1 (rfc5915_p256 d p) = Some (d, OID_PRIME256V1, p)"
  using parse_all_tlv [of OID_PRIME256V1 6] assms
  by (simp add: parse_sec1_def rfc5915_p256_def OID_PRIME256V1_def)

lemma ed25519_key_file:
  assumes "length a = 32"
  shows "and_then (copy_into_range (zeros 48) 0 16 [
         0x30, 0x2e, 0x02, 0x01, 0x00, 0x30, 0x05, 0x06,
         0x03, 0x2b, 0x65, 0x70, 0x04, 0x22, 0x04, 0x20])
       (\<lambda>b. and_then (copy_into_range b 16 48 a) f) = f (rfc8410_key a)"
  using assms by (simp add: rfc8410_key_def tlv_def der_len_def OID_ED25519_def)

section \<open>The documented behaviour\<close>

text \<open>Keys generated on P-256 export their scalar and public key; the decoder reads the RFC 5915 form,
  which the PKCS#8 parser refuses: where it looks for the algorithm there is an OCTET STRING.\<close>

definition p256_keys_ok :: "pkcs8_parser \<Rightarrow> 's wolf_ecc \<Rightarrow> ecdsa_scheme \<Rightarrow> bool" where
  "p256_keys_ok pkcs8 w E \<longleftrightarrow> (\<exists>eccof. ecc_load_ok w E eccof
     \<and> ffi_yields (ecc_get_curve_size_from_id w (ecc_SECP256R1 w)) (\<lambda>n. n = 32)
     \<and> (\<forall>rng. ffi_yields (ecc_generate_ex w 32 rng (ecc_SECP256R1 w)) (\<lambda>k. \<exists>d. length d = 32 \<and> eccof k d))
     \<and> (\<forall>d. length d = 32 \<longrightarrow> es_sec1 E (rfc5915_p256 d (es_pub E d)) d
          \<and> pkcs8 (rfc5915_p256 d (es_pub E d)) = Inl ()))"

text \<open>Generated Ed25519 keys hold a seed and export it; the PKCS#8 parser reads the RFC 8410 form.\<close>

definition ed_keys_ok :: "pkcs8_parser \<Rightarrow> 's wolf_ed_gen \<Rightarrow> (WcEd25519 \<Rightarrow> bytes \<Rightarrow> bool) \<Rightarrow> bool" where
  "ed_keys_ok pkcs8 g seedof \<longleftrightarrow>
     (\<forall>rng. ffi_yields (edg_generate g rng) (\<lambda>k. \<exists>a. length a = 32 \<and> seedof k a))
   \<and> (\<forall>k a buf. seedof k a \<longrightarrow> length buf = 32 \<longrightarrow> ffi_yields (edg_export_private_only g k buf) (\<lambda>b. b = a))
   \<and> (\<forall>a. length a = 32 \<longrightarrow> pkcs8 (rfc8410_key a) = Inr \<lparr>pki_oid = OID_ED25519, pki_private_key = tlv 4 a\<rparr>)"

section \<open>The tests pass\<close>

text \<open>What both ECDSA tests start with: a generated key and its two exports.\<close>

lemma p256_key_exported:
  assumes r: "rng_ok r" and key: "p256_keys_ok pkcs8 w E" and n: "es_field E = 32"
    and f: "\<And>d. length d = 32 \<Longrightarrow> yields (f d (es_pub E d, 65)) Q"
    and pub: "\<And>d. length (es_pub E d) = 65"
  shows "yields (and_then (expect (rng_new r) m1) (\<lambda>rng.
     and_then (expect (ecc_get_curve_size_from_id w (ecc_SECP256R1 w)) m2) (\<lambda>curve_size.
     and_then (expect (ecc_generate_ex w curve_size rng (ecc_SECP256R1 w)) m3) (\<lambda>key.
     and_then (expect (ecc_export_private w key (zeros 32)) m4) (\<lambda>(priv, _).
     and_then (expect (ecc_export_x963 w key (zeros 65)) m5) (\<lambda>x963. f priv x963)))))) Q"
proof -
  obtain eccof where load: "ecc_load_ok w E eccof"
    and size: "ffi_yields (ecc_get_curve_size_from_id w (ecc_SECP256R1 w)) (\<lambda>n. n = 32)"
    and new: "\<And>rng. ffi_yields (ecc_generate_ex w 32 rng (ecc_SECP256R1 w)) (\<lambda>k. \<exists>d. length d = 32 \<and> eccof k d)"
    using key unfolding p256_keys_ok_def by blast
  note L = ecc_load_okD [OF load, unfolded n]
  have exports: "yields (and_then (expect (ecc_export_private w k (zeros 32)) m4) (\<lambda>(priv, _).
      and_then (expect (ecc_export_x963 w k (zeros 65)) m5) (\<lambda>x963. f priv x963))) Q"
    if d: "length d = 32" "eccof k d" for k d
  proof (rule yields_and_then [OF yields_expect [OF L(5) [OF d(2)]]], simp, clarsimp)
    have "ffi_yields (ecc_export_x963 w k (zeros 65)) (\<lambda>x. x = (es_pub E d, 65))"
      by (rule ffi_yields_weaken [OF L(4) [OF d(2)]]) auto
    from yields_and_then [OF yields_expect [OF this]] f [OF d(1)]
    show "yields (and_then (expect (ecc_export_x963 w k (zeros 65)) m5) (f d)) Q" by blast
  qed
  show ?thesis
    by (rule yields_and_then [OF yields_expect [OF rng_okD(1) [OF r]]],
        rule yields_and_then [OF yields_expect [OF size]], hypsubst,
        rule yields_and_then [OF yields_expect [OF new]], elim exE conjE, erule exports)
qed

lemma import_and_sign_passes:
  assumes r: "rng_ok r" and w: "ecdsas_ok w v dec S" and key: "p256_keys_ok pkcs8 w (es_p256 S)"
  shows "passes (test_ecdsa_import_and_sign r w v)"
proof -
  obtain skof where V: "ecdsa_ok (wolf_p256 v) (es_p256 S) skof" using ecdsas_okD(2) [OF w] by blast
  note n = ecdsas_okD(3) [OF w]
  note V' = ecdsa_okD [OF V] and E = ecdsa_schemeD [OF ecdsa_okD(1) [OF V]]
  have sign: "yields (and_then (expect (rng_new r) m1) (\<lambda>rng.
      and_then (expect (sk_import_x963 (wolf_p256 v) (es_pub (es_p256 S) d) d rng) m2) (\<lambda>sk.
      and_then (expect (sk_try_sign (wolf_p256 v) sk m) m3) (\<lambda>sig.
      assert_that (length (sig_to_bytes (wolf_p256 v) sig) = 64))))) (\<lambda>_. True)"
    if d: "length d = 32" for d m m1 m2 m3
    by (rule yields_and_then [OF yields_expect [OF rng_okD(1) [OF r]]],
        rule yields_and_then [OF yields_expect [OF V'(2)]], simp add: n d,
        rule yields_and_then [OF yields_expect [OF V'(3)]], assumption,
        drule E(2), simp add: n yields_ok)
  show ?thesis
    unfolding test_ecdsa_import_and_sign_def passes_def Let_def
    by (rule p256_key_exported [OF r key n]) (simp_all add: sign E(1) n)
qed

lemma try_from_sec1_passes:
  assumes r: "rng_ok r" and w: "ecdsas_ok w v dec S" and key: "p256_keys_ok pkcs8 w (es_p256 S)"
  shows "passes (test_ecdsa_try_from_sec1 r pkcs8 w)"
proof -
  note n = ecdsas_okD(3) [OF w]
  obtain skof where V: "ecdsa_ok (wolf_p256 v) (es_p256 S) skof" using ecdsas_okD(2) [OF w] by blast
  note E = ecdsa_schemeD [OF ecdsa_okD(1) [OF V]]
  obtain eccof where load: "ecc_load_ok w (es_p256 S) eccof"
    and der: "\<And>d. length d = 32 \<Longrightarrow> es_sec1 (es_p256 S) (rfc5915_p256 d (es_pub (es_p256 S) d)) d"
      "\<And>d. length d = 32 \<Longrightarrow> pkcs8 (rfc5915_p256 d (es_pub (es_p256 S) d)) = Inl ()"
    using key unfolding p256_keys_ok_def by blast
  have sch: "ecdsa_scheme_for S ECDSA_NISTP256_SHA256 = Some (es_p256 S)" by simp
  note try_from = ecdsa_try_from_yields [OF load sch ecdsas_okD(3,5,7) [OF w] _ der(1)]
  have both: "yields (and_then (expect_result (ecdsa_try_from pkcs8 w (Sec1 b)) m1) (\<lambda>_.
      and_then (expect_result (ecdsa_try_from pkcs8 w (Pkcs8 b)) m2) (\<lambda>_. ok ()))) (\<lambda>_. True)"
    if d: "length d = 32" "b = rfc5915_p256 d (es_pub (es_p256 S) d)" for d b m1 m2
    unfolding d(2)
    by (rule yields_and_then [OF yields_expect_result [OF try_from]], simp, rule d(1),
        rule yields_and_then [OF yields_expect_result [OF try_from]], simp add: der(2) d(1), rule d(1), rule yields_ok) simp
  show ?thesis
    unfolding test_ecdsa_try_from_sec1_def passes_def Let_def
    by (rule p256_key_exported [OF r key n])
       (auto simp: E(1) n make_sec1_p256_eq intro: both)
qed

lemma yields_is_ok:
  "yields m P \<Longrightarrow> yields (and_then (attempt_result m) (\<lambda>r. assert_that (is_ok r))) (\<lambda>_. True)"
  by (erule yields_and_then [OF yields_attempt_result]) (auto simp: yields_ok)

lemma eddsa_round_trip_passes:
  assumes r: "rng_ok r" and w: "ed25519_ok w E seedof keyof pubof" and key: "ed_keys_ok pkcs8 g seedof"
  shows "passes (test_eddsa_sign_verify_roundtrip r pkcs8 g w)"
proof -
  note D = ed25519_okD [OF w]
  have new: "\<And>rng. ffi_yields (edg_generate g rng) (\<lambda>k. \<exists>a. length a = 32 \<and> seedof k a)"
    and seed: "\<And>k a buf. seedof k a \<Longrightarrow> length buf = 32 \<Longrightarrow> ffi_yields (edg_export_private_only g k buf) (\<lambda>b. b = a)"
    and der: "\<And>a. length a = 32 \<Longrightarrow> pkcs8 (rfc8410_key a) = Inr \<lparr>pki_oid = OID_ED25519, pki_private_key = tlv 4 a\<rparr>"
    using key unfolding ed_keys_ok_def by blast+
  have sign: "yields (and_then (expect_result (ed25519_try_from pkcs8 w (Pkcs8 (rfc8410_key a))) m1) (\<lambda>private_key.
     and_then (some_or_panic (ed25519_choose_scheme private_key [ED25519]) m2) (\<lambda>signer.
     and_then (expect_result (ed25519_sign w signer m) m3) (\<lambda>signature.
     and_then (assert_that (length signature = 64)) (\<lambda>_.
     and_then (attempt_result (ed25519_verify_signature w (eds_pub E a) m signature)) (\<lambda>result.
     assert_that (is_ok result))))))) (\<lambda>_. True)" if a: "length a = 32" for a m m1 m2 m3
  proof (rule yields_and_then [OF yields_expect_result [OF ed25519_try_from_yields [OF w]]])
    show "ed_seed pkcs8 (Pkcs8 (rfc8410_key a)) = Some a"
      by (simp add: der a tlv_def der_len_def)
    fix k assume k: "k = \<lparr>edk_priv_key = a, edk_pub_key = eds_pub E a, edk_algo = AlgED25519\<rparr>"
    let ?s = "\<lparr>eds_priv_key = a, eds_pub_key = eds_pub E a, eds_scheme = ED25519\<rparr>"
    have "yields (and_then (expect_result (ed25519_sign w ?s m) m3) (\<lambda>signature.
       and_then (assert_that (length signature = 64)) (\<lambda>_.
       and_then (attempt_result (ed25519_verify_signature w (eds_pub E a) m signature)) (\<lambda>result.
       assert_that (is_ok result))))) (\<lambda>_. True)"
    proof (rule yields_and_then [OF yields_expect_result [OF ed25519_sign_valid [OF w]]])
      show "ed25519_pair E ?s (eds_pub E a)" by (simp add: ed25519_pair_def a)
      fix sig assume sig: "eds_genuine E (eds_pub E a) m sig \<and> length sig = 64"
      then show "yields (and_then (assert_that (length sig = 64)) (\<lambda>_.
         and_then (attempt_result (ed25519_verify_signature w (eds_pub E a) m sig)) (\<lambda>result.
         assert_that (is_ok result)))) (\<lambda>_. True)"
        by (simp add: yields_is_ok [OF ed25519_verify_accepts [OF w]] sig)
    qed
    then show "yields (and_then (some_or_panic (ed25519_choose_scheme k [ED25519]) m2) (\<lambda>signer.
       and_then (expect_result (ed25519_sign w signer m) m3) (\<lambda>signature.
       and_then (assert_that (length signature = 64)) (\<lambda>_.
       and_then (attempt_result (ed25519_verify_signature w (eds_pub E a) m signature)) (\<lambda>result.
       assert_that (is_ok result)))))) (\<lambda>_. True)"
      by (simp add: k ed25519_choose_scheme_def ALL_EDDSA_SCHEMES_def some_or_panic_def)
  qed
  have exports: "yields (and_then (expect (edg_export_private_only g k (zeros 32)) m1) (\<lambda>priv_raw.
     and_then (expect (ed_make_public w k (zeros 32)) m2) (\<lambda>pub_raw. f priv_raw pub_raw))) Q"
    if "seedof k a" "yields (f a (eds_pub E a)) Q"
    for k a m1 m2 Q and f :: "bytes \<Rightarrow> bytes \<Rightarrow> ('a, unit, unit) rust"
    by (rule yields_and_then [OF yields_expect [OF seed [OF that(1)]]], simp, hypsubst,
        rule yields_and_then [OF yields_expect [OF D(7) [OF that(1)]]]) (simp_all add: that(2))
  show ?thesis
    unfolding test_eddsa_sign_verify_roundtrip_def passes_def Let_def D(1,2)
    by (rule yields_and_then [OF yields_expect [OF rng_okD(1) [OF r]]],
        rule yields_and_then [OF yields_expect [OF new]], elim exE conjE, erule exports)
       (simp only: ed25519_key_file sign)
qed

section \<open>Properties\<close>

text \<open>The key file that the ECDSA test assembles by hand is the one RFC 5915 prescribes.  The
  length octets it spells out, and the total it narrows to a byte, are those of DER, so that reading
  the file back gives the scalar, the curve and the public key.\<close>

theorem sec1_key_file_round_trip:
  assumes "length d = 32" and "length p = 65"
  shows "make_sec1_p256 d p = rfc5915_p256 d p
    \<and> parse_sec1 (make_sec1_p256 d p) = Some (d, OID_PRIME256V1, p)
    \<and> length (make_sec1_p256 d p) = 121"
  using assms
  by (simp add: make_sec1_p256_eq parse_rfc5915) (simp add: rfc5915_p256_def OID_PRIME256V1_def)

theorem sec1_key_file_round_trip_witness:
  "parse_sec1 (make_sec1_p256 (replicate 32 7) (4 # replicate 64 9))
     = Some (replicate 32 7, OID_PRIME256V1, 4 # replicate 64 9)"
  by (rule sec1_key_file_round_trip [THEN conjunct2, THEN conjunct1]) simp_all

lemma demo_p256_keys_ok: "p256_keys_ok demo_pkcs8 (demo_ecc :: 's wolf_ecc) (es_p256 demo_ecdsa_schemes)"
proof -
  have "es_sec1 (demo_scheme 32) (rfc5915_p256 d (es_pub (demo_scheme 32) d)) d
      \<and> demo_pkcs8 (rfc5915_p256 d (es_pub (demo_scheme 32) d)) = Inl ()" if "length d = 32" for d
    using that by (simp add: demo_scheme_def rfc5915_p256_def tlv_def der_len_def OID_PRIME256V1_def demo_pkcs8_def)
  moreover have "ffi_yields (ecc_get_curve_size_from_id (demo_ecc :: 's wolf_ecc) (ecc_SECP256R1 (demo_ecc :: 's wolf_ecc)))
      (\<lambda>n. n = 32)"
    by (simp add: demo_ecc_def demo_coord_def ffi_yields_def)
  moreover have "ffi_yields (ecc_generate_ex (demo_ecc :: 's wolf_ecc) 32 rng i)
      (\<lambda>k. \<exists>d. length d = 32 \<and> demo_eccof 32 k d)" for rng i
    by (simp add: demo_ecc_def demo_eccof_def ffi_yields_def)
  ultimately show ?thesis
    unfolding p256_keys_ok_def demo_ecdsa_schemes_def ecdsa_schemes.simps
    by (intro exI [of _ "demo_eccof 32"] conjI demo_ecc_load_ok allI impI) simp_all
qed

lemma demo_ed_keys_ok: "ed_keys_ok demo_pkcs8 (demo_ed_gen :: 's wolf_ed_gen) demo_edof"
  by (auto simp: ed_keys_ok_def demo_ed_gen_def demo_edof_def ffi_yields_def rfc8410_key_def tlv_def
      der_len_def OID_ED25519_def demo_pkcs8_def)

text \<open>C35. The tests of the source files that compare the provider with itself pass, over every library
  that behaves as documented: the error codes, the four key exchange groups, the limit of HKDF and its
  contexts, the two HMAC variants, hashing and forking, P-256 keys through the fixed-width API and
  through hand-made SEC1 files under both labels, and an Ed25519 key from its PKCS#8 file to an
  accepted signature.\<close>

theorem module_tests_pass:
  assumes "kx_ok r c w K" and "hkdf_ok f mac" and "sha_ok h fed digest"
    and "ecdsas_ok w v dec S" and "p256_keys_ok pkcs8 w (es_p256 S)"
    and "ed25519_ok u E seedof keyof pubof" and "ed_keys_ok pkcs8 g seedof"
  shows "list_all passes [test_error_display, test_check_error, test_check_if_zero, test_check_if_one,
      test_check_if_greater_than_zero, test_curve25519_kx r c, test_secp256r1_kx r w,
      test_secp384r1_kx r w, test_secp521r1_kx r w]
    \<and> list_all passes [test_hkdf_output_length_limit f, test_hkdf_zero_ikm f,
      test_hkdf_multiple_info_components f, test_hmac_variants f]
    \<and> list_all passes [test_sha256 hex h, test_sha256_fork hex h, test_sha384 hex h, test_sha384_fork hex h]
    \<and> list_all passes [test_ecdsa_import_and_sign r w v, test_ecdsa_try_from_sec1 r pkcs8 w,
      test_eddsa_sign_verify_roundtrip r pkcs8 g u]"
proof -
  have r: "rng_ok r" using assms(1) by (simp add: kx_ok_def x25519_lib_ok_def)
  show ?thesis
    using unit_tests_verdict [OF assms(1)] derivation_tests_pass [OF assms(2,3)]
      import_and_sign_passes [OF r assms(4,5)] try_from_sec1_passes [OF r assms(4,5)]
      eddsa_round_trip_passes [OF r assms(6,7)] by simp
qed

theorem module_tests_pass_witness:
  "passes (test_secp384r1_kx demo_rng (demo_ecc :: unit wolf_ecc))
   \<and> passes (test_ecdsa_try_from_sec1 demo_rng demo_pkcs8 (demo_ecc :: unit wolf_ecc))
   \<and> passes (test_eddsa_sign_verify_roundtrip demo_rng demo_pkcs8 demo_ed_gen (demo_ed25519 :: unit wolf_ed25519))"
  using module_tests_pass [where w = "demo_ecc :: unit wolf_ecc" and u = "demo_ed25519 :: unit wolf_ed25519"
      and f = "demo_kdf :: unit wolf_kdf" and h = "demo_sha 48 :: unit wolf_sha" and hex = "\<lambda>_. []",
      OF demo_kx_ok demo_hkdf_ok demo_sha_ok demo_ecdsas_ok demo_p256_keys_ok demo_ed25519_ok demo_ed_keys_ok]
  by simp

end
