(* ===== verification/DebugText.thy ===== *)
theory DebugText
  imports ProviderLib
begin

text \<open>
  The \<open>Debug\<close> implementations of the key types in \<open>sign/\<close>.  They use the builder of the standard
  library, which is modelled as the text it writes, in the compact form (\<open>{:?}\<close>) and in the pretty
  form (\<open>{:#?}\<close>).  How rustls prints a scheme or an algorithm is an argument.
\<close>

section \<open>The builder\<close>

record DebugStruct =
  ds_pretty :: bool
  ds_text :: string
  ds_has_fields :: bool

definition newline :: char where
  "newline = CHR 0x0A"

text \<open>The adapter of the pretty form: four spaces at the start of each line.\<close>

fun pad_adapter :: "bool \<Rightarrow> string \<Rightarrow> string" where
  "pad_adapter on_newline [] = []"
| "pad_adapter on_newline (c # cs) =
     (if on_newline then replicate 4 CHR '' '' else []) @ c # pad_adapter (c = newline) cs"

definition debug_struct :: "bool \<Rightarrow> string \<Rightarrow> DebugStruct" where
  "debug_struct pretty name = \<lparr>ds_pretty = pretty, ds_text = name, ds_has_fields = False\<rparr>"

definition debug_field :: "string \<Rightarrow> string \<Rightarrow> DebugStruct \<Rightarrow> DebugStruct" where
  "debug_field name v self = self\<lparr>
     ds_text := ds_text self @
       (if ds_pretty self
        then (if ds_has_fields self then [] else '' {'' @ [newline])
          @ pad_adapter True (name @ '': '' @ v @ '','' @ [newline])
        else (if ds_has_fields self then '', '' else '' { '') @ name @ '': '' @ v),
     ds_has_fields := True\<rparr>"

definition finish_non_exhaustive :: "DebugStruct \<Rightarrow> string" where
  "finish_non_exhaustive self = ds_text self @
     (if ds_has_fields self
      then if ds_pretty self then pad_adapter True (''..'' @ [newline]) @ ''}'' else '', .. }''
      else '' { .. }'')"

section \<open>The code\<close>

record debug_names =
  dn_scheme :: "SignatureScheme \<Rightarrow> string"
  dn_algorithm :: "SignatureAlgorithm \<Rightarrow> string"

definition fmt_EcdsaSigningKey :: "debug_names \<Rightarrow> bool \<Rightarrow> EcdsaSigningKey \<Rightarrow> string" where
  "fmt_EcdsaSigningKey D pretty self =
     finish_non_exhaustive (debug_field ''scheme'' (dn_scheme D (esk_scheme self))
       (debug_struct pretty ''EcdsaSigningKey''))"

definition fmt_Ed25519PrivateKey :: "debug_names \<Rightarrow> bool \<Rightarrow> Ed25519PrivateKey \<Rightarrow> string" where
  "fmt_Ed25519PrivateKey D pretty self =
     finish_non_exhaustive (debug_field ''algo'' (dn_algorithm D (edk_algo self))
       (debug_struct pretty ''Ed25519PrivateKey''))"

definition fmt_Ed25519Signer :: "debug_names \<Rightarrow> bool \<Rightarrow> Ed25519Signer \<Rightarrow> string" where
  "fmt_Ed25519Signer D pretty self =
     finish_non_exhaustive (debug_field ''scheme'' (dn_scheme D (eds_scheme self))
       (debug_struct pretty ''Ed25519Signer''))"

definition fmt_RsaPrivateKey :: "debug_names \<Rightarrow> bool \<Rightarrow> RsaPrivateKey \<Rightarrow> string" where
  "fmt_RsaPrivateKey D pretty self = finish_non_exhaustive (debug_struct pretty ''RsaPrivateKey'')"

definition fmt_RsaSigner :: "debug_names \<Rightarrow> bool \<Rightarrow> RsaSigner \<Rightarrow> string" where
  "fmt_RsaSigner D pretty self =
     finish_non_exhaustive (debug_field ''scheme'' (dn_scheme D (rsg_scheme self))
       (debug_struct pretty ''RsaSigner''))"

text \<open>The trait objects of rustls print their implementation.\<close>

fun fmt_SigningKey :: "debug_names \<Rightarrow> bool \<Rightarrow> SigningKey \<Rightarrow> string" where
  "fmt_SigningKey D pretty (KeyEcdsa k) = fmt_EcdsaSigningKey D pretty k"
| "fmt_SigningKey D pretty (KeyRsa k) = fmt_RsaPrivateKey D pretty k"
| "fmt_SigningKey D pretty (KeyEd25519 k) = fmt_Ed25519PrivateKey D pretty k"

fun fmt_Signer :: "debug_names \<Rightarrow> bool \<Rightarrow> Signer \<Rightarrow> string" where
  "fmt_Signer D pretty (SignerEcdsa k) = fmt_EcdsaSigningKey D pretty k"
| "fmt_Signer D pretty (SignerRsa k) = fmt_RsaSigner D pretty k"
| "fmt_Signer D pretty (SignerEd25519 k) = fmt_Ed25519Signer D pretty k"

section \<open>What the text depends on\<close>

text \<open>A key with all of its key material taken out, public keys included.\<close>

fun redact_key :: "SigningKey \<Rightarrow> SigningKey" where
  "redact_key (KeyEcdsa k) = KeyEcdsa (k\<lparr>esk_priv_key := [], esk_pub_x963 := []\<rparr>)"
| "redact_key (KeyRsa k) = KeyRsa (k\<lparr>rpk_der_bytes := []\<rparr>)"
| "redact_key (KeyEd25519 k) = KeyEd25519 (k\<lparr>edk_priv_key := [], edk_pub_key := []\<rparr>)"

fun redact_signer :: "Signer \<Rightarrow> Signer" where
  "redact_signer (SignerEcdsa k) = SignerEcdsa (k\<lparr>esk_priv_key := [], esk_pub_x963 := []\<rparr>)"
| "redact_signer (SignerRsa k) = SignerRsa (k\<lparr>rsg_der_bytes := []\<rparr>)"
| "redact_signer (SignerEd25519 k) = SignerEd25519 (k\<lparr>eds_priv_key := [], eds_pub_key := []\<rparr>)"

fun signer_kind :: "Signer \<Rightarrow> string" where
  "signer_kind (SignerEcdsa k) = ''EcdsaSigningKey''"
| "signer_kind (SignerRsa k) = ''RsaSigner''"
| "signer_kind (SignerEd25519 k) = ''Ed25519Signer''"

lemmas debug_defs = fmt_EcdsaSigningKey_def fmt_Ed25519PrivateKey_def fmt_Ed25519Signer_def
  fmt_RsaPrivateKey_def fmt_RsaSigner_def debug_struct_def debug_field_def finish_non_exhaustive_def

lemma pad_adapter_line:
  "newline \<notin> set l \<Longrightarrow> pad_adapter False (l @ newline # cs) = l @ newline # pad_adapter True cs"
  by (induction l) auto

text \<open>The pretty form of a struct with one field whose text is a single line.\<close>

lemma pretty_field:
  assumes "newline \<notin> set v" and "newline \<notin> set name" and "name \<noteq> []"
  shows "finish_non_exhaustive (debug_field name v (debug_struct True kind))
    = kind @ '' {'' @ [newline] @ ''    '' @ name @ '': '' @ v @ '','' @ [newline]
        @ ''    ..'' @ [newline] @ ''}''"
proof -
  obtain c l where name: "name = c # l" using assms(3) by (cases name) auto
  have "newline \<notin> set (l @ '': '' @ v @ '','')" using assms(1,2) by (auto simp: name newline_def)
  from pad_adapter_line [OF this, of "[]"]
  have line: "pad_adapter False (l @ '': '' @ v @ '','' @ [newline]) = l @ '': '' @ v @ '','' @ [newline]" by simp
  have "(c = newline) = False" using assms(2) by (auto simp: name)
  with line show ?thesis by (simp add: debug_defs name numeral_eq_Suc) (simp add: newline_def)
qed

section \<open>Properties\<close>

text \<open>C32. The \<open>Debug\<close> text of a key does not reveal key material.  In the compact and in the pretty
  form, a key and a signer print exactly as they do with every byte of their private and public key
  taken out; the text of a signer is its kind and its scheme, on one line or spread over four, so that
  two signers of a kind and a scheme print the same whichever bytes they were loaded from.\<close>

theorem debug_hides_key_material:
  "fmt_SigningKey D pretty k = fmt_SigningKey D pretty (redact_key k)
   \<and> fmt_Signer D pretty s = fmt_Signer D pretty (redact_signer s)
   \<and> fmt_Signer D False s = signer_kind s @ '' { scheme: '' @ dn_scheme D (signer_scheme s) @ '', .. }''
   \<and> (newline \<notin> set (dn_scheme D (signer_scheme s)) \<longrightarrow>
        fmt_Signer D True s = signer_kind s @ '' {'' @ [newline] @ ''    scheme: ''
          @ dn_scheme D (signer_scheme s) @ '','' @ [newline] @ ''    ..'' @ [newline] @ ''}'')
   \<and> (signer_kind s = signer_kind s' \<and> signer_scheme s = signer_scheme s' \<longrightarrow>
        fmt_Signer D pretty s = fmt_Signer D pretty s')"
proof (intro conjI)
  show "fmt_SigningKey D pretty k = fmt_SigningKey D pretty (redact_key k)"
    by (cases k) (simp_all add: debug_defs)
  show "newline \<notin> set (dn_scheme D (signer_scheme s)) \<longrightarrow>
        fmt_Signer D True s = signer_kind s @ '' {'' @ [newline] @ ''    scheme: ''
          @ dn_scheme D (signer_scheme s) @ '','' @ [newline] @ ''    ..'' @ [newline] @ ''}''"
    using pretty_field [of "dn_scheme D (signer_scheme s)" "''scheme''" "signer_kind s"]
    by (cases s) (auto simp: fmt_EcdsaSigningKey_def fmt_RsaSigner_def fmt_Ed25519Signer_def newline_def
        ecdsa_signer_scheme_def rsa_signer_scheme_def ed25519_signer_scheme_def)
qed (cases s; cases s'; simp add: debug_defs ecdsa_signer_scheme_def rsa_signer_scheme_def
       ed25519_signer_scheme_def)+

theorem debug_hides_key_material_witness:
  "fmt_Signer \<lparr>dn_scheme = (\<lambda>_. ''ED25519''), dn_algorithm = (\<lambda>_. ''ED25519'')\<rparr> False
     (SignerEd25519 \<lparr>eds_priv_key = [1, 2], eds_pub_key = [3], eds_scheme = ED25519\<rparr>)
     = ''Ed25519Signer { scheme: ED25519, .. }''"
  using debug_hides_key_material [of "\<lparr>dn_scheme = (\<lambda>_. ''ED25519''), dn_algorithm = (\<lambda>_. ''ED25519'')\<rparr>" False
      undefined "SignerEd25519 \<lparr>eds_priv_key = [1, 2], eds_pub_key = [3], eds_scheme = ED25519\<rparr>"
      undefined, THEN conjunct2, THEN conjunct2, THEN conjunct1]
  by (simp add: ed25519_signer_scheme_def)

end
