(* ===== verification/ServerExample.thy ===== *)
theory ServerExample
  imports TestHarness ProviderLib
begin

text \<open>
  \<open>examples/server.rs\<close>: the loop that serves one client after the other.  The TLS acceptor, the
  connection and the sockets are rustls and the standard library, a parameter record.  The inner
  loop, which reads until a ClientHello is there, need not end: it is a partial function, and a run
  that never returns is \<open>None\<close>.
\<close>

datatype TcpStream = TcpStream_fd nat
datatype Acceptor = Acceptor_ctx bytes
datatype Accepted = Accepted_ctx bytes
datatype ServerConnection = ServerConnection_ctx bytes

text \<open>A certificate is what it says, and not the bytes this is written in, at which nothing here looks.\<close>

datatype BasicConstraints = Unconstrained | Constrained u8
datatype IsCa = NoCa | ExplicitNoCa | Ca BasicConstraints
datatype ExtendedKeyUsagePurpose = ServerAuth | ExtendedKeyUsageOther u8
datatype CertificateDer = CertificateDer_ctx (cd_names: "string list") (cd_is_ca: IsCa)
  (cd_extended_key_usages: "ExtendedKeyUsagePurpose list") (cd_public: bytes) (cd_issuer_public: bytes)
datatype KeyLog = NoKeyLog | KeyLogFile "string option"

text \<open>A server configuration: the certificate chain and the key it presents, and where secrets are logged.\<close>

record ServerConfig =
  sc_chain :: "CertificateDer list"
  sc_key :: SigningKey
  sc_key_log :: KeyLog

record 's server_lib =
  sv_acceptor_default :: Acceptor
  sv_read_tls :: "Acceptor \<Rightarrow> TcpStream \<Rightarrow> ('s, unit, Acceptor \<times> usize) ffi"
    \<comment> \<open>the acceptor afterwards, and the number of bytes read\<close>
  sv_accept :: "Acceptor \<Rightarrow> ('s, rustls_error, Acceptor \<times> Accepted option) ffi"
  sv_into_connection :: "Accepted \<Rightarrow> ServerConfig \<Rightarrow> ('s, rustls_error, ServerConnection) ffi"
  sv_write_all :: "ServerConnection \<Rightarrow> bytes \<Rightarrow> ('s, unit, ServerConnection) ffi"
  sv_write_tls :: "ServerConnection \<Rightarrow> TcpStream \<Rightarrow> ('s, unit, ServerConnection) ffi"
  sv_complete_io :: "ServerConnection \<Rightarrow> TcpStream \<Rightarrow> ('s, unit, ServerConnection) ffi"
  sv_send_close_notify :: "ServerConnection \<Rightarrow> ('s, unit, ServerConnection) rust"
  sv_eprintln :: "rustls_error \<Rightarrow> ('s, unit, unit) rust"

section \<open>The code\<close>

text \<open>A computation that may not return.\<close>

type_synonym ('s, 'a) diverging = "'s \<Rightarrow> ((unit, 'a) outcome \<times> 's) option"

text \<open>\<open>loop { acceptor.read_tls(&mut stream).unwrap(); if let Some(accepted) = acceptor.accept().unwrap()
  { break accepted; } }\<close>.\<close>

definition unwrap_failed :: string where
  "unwrap_failed = ''called Result::unwrap() on an Err value''"

partial_function (option) accept_loop :: "'s server_lib \<Rightarrow> TcpStream \<Rightarrow> Acceptor \<Rightarrow> ('s, Accepted) diverging" where
  "accept_loop L stream acceptor s =
     (case sv_read_tls L acceptor stream s of
        (Inl e, s) \<Rightarrow> Some (Panic unwrap_failed, s)
      | (Inr (acceptor, n), s) \<Rightarrow>
          (case sv_accept L acceptor s of
             (Inl e, s) \<Rightarrow> Some (Panic unwrap_failed, s)
           | (Inr (acceptor, Some accepted), s) \<Rightarrow> Some (Ok accepted, s)
           | (Inr (acceptor, None), s) \<Rightarrow> accept_loop L stream acceptor s))"

declare accept_loop.simps [code]

definition crlf :: string where
  "crlf = [CHR 0x0D, CHR 0x0A]"

definition respond :: "'s server_lib \<Rightarrow> ServerConfig \<Rightarrow> TcpStream \<Rightarrow> Accepted \<Rightarrow> ('s, unit, unit) rust" where
  "respond L server_config stream accepted = (\<lambda>s.
     case sv_into_connection L accepted server_config s of
       (Inr conn, s) \<Rightarrow>
         (let msg = as_bytes (''HTTP/1.1 200 OK'' @ crlf @ ''Connection: Closed'' @ crlf
                      @ ''Content-Type: text/html'' @ crlf @ crlf @ ''<h1>Hello World!</h1>'' @ crlf) in
          and_then (unwrap (sv_write_all L conn msg)) (\<lambda>conn.
          and_then (unwrap (sv_write_tls L conn stream)) (\<lambda>conn.
          and_then (unwrap (sv_complete_io L conn stream)) (\<lambda>conn.
          and_then (sv_send_close_notify L conn) (\<lambda>conn.
          and_then (unwrap (sv_write_tls L conn stream)) (\<lambda>conn.
          and_then (unwrap (sv_complete_io L conn stream)) (\<lambda>conn.
          ok ())))))) s)
     | (Inl e, s) \<Rightarrow> sv_eprintln L e s)"

definition serve_stream :: "'s server_lib \<Rightarrow> ServerConfig \<Rightarrow> TcpStream \<Rightarrow> ('s, unit) diverging" where
  "serve_stream L server_config stream s =
     (let acceptor = sv_acceptor_default L in
      case accept_loop L stream acceptor s of
        None \<Rightarrow> None
      | Some (Ok accepted, s) \<Rightarrow> Some (respond L server_config stream accepted s)
      | Some (Err e, s) \<Rightarrow> Some (Err e, s)
      | Some (Panic p, s) \<Rightarrow> Some (Panic p, s))"

text \<open>\<open>for stream in listener.incoming()\<close>, over the connections that have come in so far.\<close>

fun serve_incoming :: "'s server_lib \<Rightarrow> ServerConfig \<Rightarrow> (unit + TcpStream) list \<Rightarrow> ('s, unit) diverging" where
  "serve_incoming L server_config [] s = Some (Ok (), s)"
| "serve_incoming L server_config (Inl e # incoming) s = Some (Panic unwrap_failed, s)"
| "serve_incoming L server_config (Inr stream # incoming) s =
     (case serve_stream L server_config stream s of
        None \<Rightarrow> None
      | Some (Ok x, s) \<Rightarrow> serve_incoming L server_config incoming s
      | Some (Err e, s) \<Rightarrow> Some (Err e, s)
      | Some (Panic p, s) \<Rightarrow> Some (Panic p, s))"

section \<open>The documented behaviour of the acceptor\<close>

text \<open>What the first bytes of a client amount to.\<close>

datatype hello_status = Incomplete | Complete | Malformed

text \<open>How the stream ends once those bytes are read: the client closes its side, or a read fails.  The loop does
  not survive a failed read, so what would come after one does not matter.\<close>

datatype stream_end = Closed | Broken

text \<open>\<open>incoming st s\<close> are the bytes that reads of the stream will still deliver, \<open>ending st s\<close> is what comes then,
  and \<open>received a\<close> are the bytes the acceptor holds.  As long as the acceptor waits for the rest of a ClientHello, a read takes some
  of the bytes there are; at the end of the stream it gives 0, and on a broken stream it fails.  \<open>accept\<close>
  answers by what has been received, \<open>None\<close> as long as the ClientHello is not complete; bytes that come later do not
  change a verdict.  Of a read after a verdict nothing is said.\<close>

definition read_tls_ok ::
    "'s server_lib \<Rightarrow> (Acceptor \<Rightarrow> bytes) \<Rightarrow> (TcpStream \<Rightarrow> 's \<Rightarrow> bytes) \<Rightarrow> (TcpStream \<Rightarrow> 's \<Rightarrow> stream_end) \<Rightarrow>
     (bytes \<Rightarrow> hello_status) \<Rightarrow> bool" where
  "read_tls_ok L received incoming ending status \<longleftrightarrow>
     (\<forall>a st s. status (received a) = Incomplete \<longrightarrow>
        (if incoming st s = [] \<and> ending st s = Broken then \<exists>e s'. sv_read_tls L a st s = (Inl e, s')
         else \<exists>a' n s'. sv_read_tls L a st s = (Inr (a', n), s')
           \<and> n \<le> length (incoming st s) \<and> (n = 0 \<longrightarrow> incoming st s = [])
           \<and> received a' = received a @ take n (incoming st s)
           \<and> incoming st s' = drop n (incoming st s) \<and> ending st s' = ending st s))"

definition acceptor_ok ::
    "'s server_lib \<Rightarrow> (Acceptor \<Rightarrow> bytes) \<Rightarrow> (TcpStream \<Rightarrow> 's \<Rightarrow> bytes) \<Rightarrow> (TcpStream \<Rightarrow> 's \<Rightarrow> stream_end) \<Rightarrow>
     (bytes \<Rightarrow> hello_status) \<Rightarrow> bool" where
  "acceptor_ok L received incoming ending status \<longleftrightarrow>
     received (sv_acceptor_default L) = [] \<and> status [] = Incomplete
   \<and> (\<forall>b c. status b \<noteq> Incomplete \<longrightarrow> status (b @ c) = status b)
   \<and> read_tls_ok L received incoming ending status
   \<and> (\<forall>a s. \<exists>r s'. sv_accept L a s = (r, s')
        \<and> (\<forall>st. incoming st s' = incoming st s \<and> ending st s' = ending st s)
        \<and> (case status (received a) of
             Incomplete \<Rightarrow> (\<exists>a'. r = Inr (a', None) \<and> received a' = received a)
           | Complete \<Rightarrow> (\<exists>a' acc. r = Inr (a', Some acc))
           | Malformed \<Rightarrow> (\<exists>e. r = Inl e)))"

lemma acceptor_okD:
  assumes "acceptor_ok L received incoming ending status"
  shows "received (sv_acceptor_default L) = []" and "status [] = Incomplete"
    and "status b \<noteq> Incomplete \<Longrightarrow> status (b @ c) = status b"
    and "read_tls_ok L received incoming ending status"
    and "\<exists>r s'. sv_accept L a s = (r, s')
        \<and> (\<forall>st. incoming st s' = incoming st s \<and> ending st s' = ending st s)
        \<and> (case status (received a) of
             Incomplete \<Rightarrow> (\<exists>a'. r = Inr (a', None) \<and> received a' = received a)
           | Complete \<Rightarrow> (\<exists>a' acc. r = Inr (a', Some acc))
           | Malformed \<Rightarrow> (\<exists>e. r = Inl e))"
  using assms unfolding acceptor_ok_def by simp_all

section \<open>One turn of the loop\<close>

text \<open>What a client's bytes and the end of its stream come to.\<close>

definition loop_verdict :: "hello_status \<Rightarrow> stream_end \<Rightarrow> hello_status" where
  "loop_verdict h e = (if h = Incomplete \<and> e = Broken then Malformed else h)"

text \<open>A turn ends the loop, with the accepted connection or with a panic, or it goes on with the same bytes, some of
  them moved from the stream to the acceptor; it moves none only if there are none left.\<close>

lemma accept_turn:
  assumes ok: "acceptor_ok L received incoming ending status" and waiting: "status (received a) = Incomplete"
  obtains (ends) r s' where "accept_loop L st a s = Some (r, s')"
      "case loop_verdict (status (received a @ incoming st s)) (ending st s) of
         Incomplete \<Rightarrow> False | Complete \<Rightarrow> \<exists>acc. r = Ok acc | Malformed \<Rightarrow> r = Panic unwrap_failed"
  | (goes_on) a1 n s1 a' s' where "sv_read_tls L a st s = (Inr (a1, n), s1)" "sv_accept L a1 s1 = (Inr (a', None), s')"
      "status (received a') = Incomplete"
      "received a' @ incoming st s' = received a @ incoming st s" "ending st s' = ending st s"
      "incoming st s \<noteq> [] \<Longrightarrow> length (incoming st s') < length (incoming st s)"
      "incoming st s = [] \<Longrightarrow> loop_verdict (status (received a @ incoming st s)) (ending st s) = Incomplete"
proof (cases "incoming st s = [] \<and> ending st s = Broken")
  case True
  then obtain e s' where "sv_read_tls L a st s = (Inl e, s')"
    using acceptor_okD(4) [OF ok] waiting unfolding read_tls_ok_def by metis
  then show thesis
    using True waiting by (intro ends [of "Panic unwrap_failed" s']) (auto simp: accept_loop.simps [of L st a] loop_verdict_def)
next
  case False
  obtain a1 n s1 where read: "sv_read_tls L a st s = (Inr (a1, n), s1)" "n \<le> length (incoming st s)"
      "n = 0 \<longrightarrow> incoming st s = []" "received a1 = received a @ take n (incoming st s)"
      "incoming st s1 = drop n (incoming st s)" "ending st s1 = ending st s"
    using acceptor_okD(4) [OF ok] waiting False unfolding read_tls_ok_def by metis
  obtain r s2 where acc: "sv_accept L a1 s1 = (r, s2)" "incoming st s2 = incoming st s1" "ending st s2 = ending st s1"
      "case status (received a1) of
             Incomplete \<Rightarrow> (\<exists>a'. r = Inr (a', None) \<and> received a' = received a1)
           | Complete \<Rightarrow> (\<exists>a' acc. r = Inr (a', Some acc))
           | Malformed \<Rightarrow> (\<exists>e. r = Inl e)"
    using acceptor_okD(5) [OF ok, of a1 s1] by blast
  have same: "received a1 @ incoming st s1 = received a @ incoming st s" by (simp add: read)
  have stable: "status (received a @ incoming st s) = status (received a1)" if "status (received a1) \<noteq> Incomplete"
    using acceptor_okD(3) [OF ok that, of "incoming st s1"] same by simp
  show thesis
  proof (cases "status (received a1)")
    case Incomplete
    then obtain a2 where "r = Inr (a2, None)" "received a2 = received a1" using acc(4) by auto
    then show thesis
      using read acc(1-3) same Incomplete False
      by (intro goes_on [of a1 n s1 a2 s2]) (auto simp: loop_verdict_def)
  next
    case Complete
    then obtain a2 accepted where "r = Inr (a2, Some accepted)" using acc(4) by auto
    then show thesis
      using read(1) acc(1) stable Complete
      by (intro ends [of "Ok accepted" s2]) (auto simp: accept_loop.simps [of L st a] loop_verdict_def)
  next
    case Malformed
    then obtain e where "r = Inl e" using acc(4) by auto
    then show thesis
      using read(1) acc(1) stable Malformed
      by (intro ends [of "Panic unwrap_failed" s2]) (auto simp: accept_loop.simps [of L st a] loop_verdict_def)
  qed
qed

section \<open>When the loop ends\<close>

text \<open>It ends as soon as the bytes of the client have a verdict or its stream breaks: each turn moves at
  least one byte.\<close>

lemma accept_loop_ends:
  assumes ok: "acceptor_ok L received incoming ending status" and "status (received a) = Incomplete"
    and "loop_verdict (status (received a @ incoming st s)) (ending st s) \<noteq> Incomplete"
  shows "\<exists>r s'. accept_loop L st a s = Some (r, s')
    \<and> (if loop_verdict (status (received a @ incoming st s)) (ending st s) = Complete then \<exists>acc. r = Ok acc
       else r = Panic unwrap_failed)"
  using assms(2,3)
proof (induction "length (incoming st s)" arbitrary: a s rule: less_induct)
  case less
  show ?case
  proof (rule accept_turn [OF ok less.prems(1), of st s])
    fix r s'
    assume "accept_loop L st a s = Some (r, s')"
      "case loop_verdict (status (received a @ incoming st s)) (ending st s) of
         Incomplete \<Rightarrow> False | Complete \<Rightarrow> \<exists>acc. r = Ok acc | Malformed \<Rightarrow> r = Panic unwrap_failed"
    then show ?thesis by (auto split: hello_status.splits)
  next
    fix a1 n s1 a' s'
    assume turn: "sv_read_tls L a st s = (Inr (a1, n), s1)" "sv_accept L a1 s1 = (Inr (a', None), s')"
      "status (received a') = Incomplete"
      "received a' @ incoming st s' = received a @ incoming st s" "ending st s' = ending st s"
      "incoming st s \<noteq> [] \<Longrightarrow> length (incoming st s') < length (incoming st s)"
      "incoming st s = [] \<Longrightarrow> loop_verdict (status (received a @ incoming st s)) (ending st s) = Incomplete"
    then have "length (incoming st s') < length (incoming st s)" using less.prems(2) by blast
    from less.hyps [OF this turn(3)] turn less.prems(2)
    show ?thesis by (simp add: accept_loop.simps [of L st a])
  qed
qed

text \<open>It does not end if they have none and the client closes its side, by induction on the fixed point.\<close>

lemma accept_loop_diverges:
  assumes ok: "acceptor_ok L received incoming ending status" and "status (received a) = Incomplete"
    and "loop_verdict (status (received a @ incoming st s)) (ending st s) = Incomplete"
  shows "accept_loop L st a s = None"
proof (rule ccontr)
  assume "accept_loop L st a s \<noteq> None"
  then obtain r where "accept_loop L st a s = Some r" by blast
  then have "acceptor_ok L received incoming ending status \<longrightarrow> status (received a) = Incomplete \<longrightarrow>
      loop_verdict (status (received a @ incoming st s)) (ending st s) \<noteq> Incomplete"
  proof (rule accept_loop.raw_induct [rotated, where P = "\<lambda>L st a s r.
      acceptor_ok L received incoming ending status \<longrightarrow> status (received a) = Incomplete \<longrightarrow>
      loop_verdict (status (received a @ incoming st s)) (ending st s) \<noteq> Incomplete"], intro impI)
    fix loop L st a s r
    assume IH: "\<And>L st a s r. loop L st a s = Some r \<Longrightarrow>
        acceptor_ok L received incoming ending status \<longrightarrow> status (received a) = Incomplete \<longrightarrow>
        loop_verdict (status (received a @ incoming st s)) (ending st s) \<noteq> Incomplete"
      and turn: "(case sv_read_tls L a st s of
        (Inl e, s) \<Rightarrow> Some (Panic unwrap_failed, s)
      | (Inr (acceptor, n), s) \<Rightarrow>
          (case sv_accept L acceptor s of
             (Inl e, s) \<Rightarrow> Some (Panic unwrap_failed, s)
           | (Inr (acceptor, Some accepted), s) \<Rightarrow> Some (Ok accepted, s)
           | (Inr (acceptor, None), s) \<Rightarrow> loop L st acceptor s)) = Some r"
      and ok: "acceptor_ok L received incoming ending status" and waiting: "status (received a) = Incomplete"
    show "loop_verdict (status (received a @ incoming st s)) (ending st s) \<noteq> Incomplete"
    proof (rule accept_turn [OF ok waiting, of st s])
      fix r' s'
      assume "case loop_verdict (status (received a @ incoming st s)) (ending st s) of
         Incomplete \<Rightarrow> False | Complete \<Rightarrow> \<exists>acc. r' = Ok acc | Malformed \<Rightarrow> r' = Panic unwrap_failed"
      then show ?thesis by auto
    next
      fix a1 n s1 a' s'
      assume go: "sv_read_tls L a st s = (Inr (a1, n), s1)" "sv_accept L a1 s1 = (Inr (a', None), s')"
        "status (received a') = Incomplete"
        "received a' @ incoming st s' = received a @ incoming st s" "ending st s' = ending st s"
      then have "loop L st a' s' = Some r" using turn by simp
      from IH [OF this] show ?thesis using ok go(3-5) by simp
    qed
  qed
  with assms show False by simp
qed

section \<open>Properties\<close>

text \<open>C21. When the server's accept loop ends.  It ends exactly if the bytes that the stream delivers
  have a verdict or the stream breaks: with the accepted connection if the bytes are a complete
  ClientHello; with a panic of the server if they cannot be one, and if a read fails before they
  are.  A client that closes its side earlier keeps the loop running for ever, and none of the clients behind it is
  served.\<close>

theorem accept_loop_verdict:
  assumes "acceptor_ok L received incoming ending status"
  shows "(accept_loop L st (sv_acceptor_default L) s \<noteq> None \<longleftrightarrow>
           status (incoming st s) \<noteq> Incomplete \<or> ending st s = Broken)
    \<and> (status (incoming st s) = Complete \<longrightarrow> (\<exists>acc s'. accept_loop L st (sv_acceptor_default L) s = Some (Ok acc, s')
         \<and> serve_stream L cfg st s = Some (respond L cfg st acc s')))
    \<and> (status (incoming st s) = Malformed \<or> status (incoming st s) = Incomplete \<and> ending st s = Broken \<longrightarrow>
         (\<exists>s'. serve_incoming L cfg (Inr st # rest) s = Some (Panic unwrap_failed, s')))
    \<and> (status (incoming st s) = Incomplete \<and> ending st s = Closed \<longrightarrow>
         serve_incoming L cfg (Inr st # rest) s = None)"
proof -
  let ?a = "sv_acceptor_default L" and ?v = "loop_verdict (status (incoming st s)) (ending st s)"
  have start: "received ?a @ incoming st s = incoming st s" and waiting: "status (received ?a) = Incomplete"
    using acceptor_okD(1,2) [OF assms] by simp_all
  show ?thesis
  proof (cases "?v = Incomplete")
    case True
    then have "accept_loop L st ?a s = None" using accept_loop_diverges [OF assms waiting, of st s] start by simp
    then show ?thesis using True by (cases "ending st s") (auto simp: serve_stream_def loop_verdict_def split: if_splits)
  next
    case False
    obtain r s' where "accept_loop L st ?a s = Some (r, s')"
        "if ?v = Complete then \<exists>acc. r = Ok acc else r = Panic unwrap_failed"
      using accept_loop_ends [OF assms waiting, of st s] False start by auto
    then show ?thesis
      using False by (cases "status (incoming st s)"; cases "ending st s") (auto simp: serve_stream_def loop_verdict_def)
  qed
qed

text \<open>A small acceptor: the state is the bytes the client still sends, read one at a time, where a 255 breaks
  the stream; a hello is a 22 and one more byte.\<close>

fun demo_received :: "Acceptor \<Rightarrow> bytes" where
  "demo_received (Acceptor_ctx b) = b"

definition demo_status :: "bytes \<Rightarrow> hello_status" where
  "demo_status b = (case b of [] \<Rightarrow> Incomplete | t # rest \<Rightarrow>
     if t \<noteq> 22 then Malformed else if rest = [] then Incomplete else Complete)"

definition demo_server :: "bytes server_lib" where
  "demo_server = \<lparr>
     sv_acceptor_default = Acceptor_ctx [],
     sv_read_tls = (\<lambda>a st s. if s \<noteq> [] \<and> hd s = 255 then (Inl (), s)
         else (Inr (Acceptor_ctx (demo_received a @ take 1 s), if s = [] then 0 else 1), drop 1 s)),
     sv_accept = (\<lambda>a s. (case demo_status (demo_received a) of
         Incomplete \<Rightarrow> Inr (a, None)
       | Complete \<Rightarrow> Inr (a, Some (Accepted_ctx (demo_received a)))
       | Malformed \<Rightarrow> Inl (General ''not a handshake''), s)),
     sv_into_connection = (\<lambda>acc cfg s. (Inr (ServerConnection_ctx []), s)),
     sv_write_all = (\<lambda>c b s. (Inr c, s)),
     sv_write_tls = (\<lambda>c st s. (Inr c, s)),
     sv_complete_io = (\<lambda>c st s. (Inr c, s)),
     sv_send_close_notify = ok,
     sv_eprintln = (\<lambda>e. ok ())\<rparr>"

definition demo_config :: ServerConfig where
  "demo_config = \<lparr>sc_chain = [], sc_key = KeyEcdsa demo_ec_key, sc_key_log = NoKeyLog\<rparr>"

definition demo_incoming :: "TcpStream \<Rightarrow> bytes \<Rightarrow> bytes" where
  "demo_incoming st s = takeWhile (\<lambda>b. b \<noteq> 255) s"

definition demo_ending :: "TcpStream \<Rightarrow> bytes \<Rightarrow> stream_end" where
  "demo_ending st s = (if 255 \<in> set s then Broken else Closed)"

lemma demo_acceptor_ok: "acceptor_ok demo_server demo_received demo_incoming demo_ending demo_status"
proof -
  have "read_tls_ok demo_server demo_received demo_incoming demo_ending demo_status"
    unfolding read_tls_ok_def
  proof (intro allI impI)
    fix a st s
    show "if demo_incoming st s = [] \<and> demo_ending st s = Broken then \<exists>e s'. sv_read_tls demo_server a st s = (Inl e, s')
      else \<exists>a' n s'. sv_read_tls demo_server a st s = (Inr (a', n), s')
        \<and> n \<le> length (demo_incoming st s) \<and> (n = 0 \<longrightarrow> demo_incoming st s = [])
        \<and> demo_received a' = demo_received a @ take n (demo_incoming st s)
        \<and> demo_incoming st s' = drop n (demo_incoming st s) \<and> demo_ending st s' = demo_ending st s"
      by (cases s) (simp_all add: demo_server_def demo_incoming_def demo_ending_def)
  qed
  then show ?thesis
    unfolding acceptor_ok_def
    by (auto simp: demo_server_def demo_status_def split: list.splits hello_status.splits)
qed

theorem accept_loop_verdict_witness:
  "accept_loop demo_server (TcpStream_fd 0) (Acceptor_ctx []) [22, 1, 7] \<noteq> None
   \<and> (\<exists>s'. serve_incoming demo_server demo_config [Inr (TcpStream_fd 0)] [22, 255, 1] = Some (Panic unwrap_failed, s'))
   \<and> serve_incoming demo_server demo_config [Inr (TcpStream_fd 0), Inr (TcpStream_fd 1)] [22] = None"
  using accept_loop_verdict [OF demo_acceptor_ok, of "TcpStream_fd 0" "[22, 1, 7]"]
    accept_loop_verdict [OF demo_acceptor_ok, of "TcpStream_fd 0" "[22, 255, 1]" demo_config "[]"]
    accept_loop_verdict [OF demo_acceptor_ok, of "TcpStream_fd 0" "[22]" demo_config "[Inr (TcpStream_fd 1)]"]
  by (simp add: demo_status_def demo_incoming_def demo_ending_def) (simp add: demo_server_def)

end
