(* ===== verification/ServerSetup.thy ===== *)
theory ServerSetup
  imports ServerExample ProviderLib
begin

text \<open>
  \<open>examples/server.rs\<close>: the certificates that the server makes for itself, its configuration, and
  \<open>main\<close>, which runs the loop of \<open>ServerExample\<close>.  The certificate generator \<open>rcgen\<close> and the configuration
  of rustls are a parameter record; the configuration loads the private key through the provider.
\<close>

section \<open>Parameters\<close>

datatype DnType = OrganizationName | CommonName
datatype DistinguishedName = DistinguishedName_ctx "(DnType \<times> string) list"
datatype KeyUsagePurpose = KeyCertSign | DigitalSignature | KeyUsageOther u8
datatype KeyPairAlgorithm = PKCS_ECDSA_P256_SHA256 | KeyPairOther u8
datatype KeyPair = KeyPair_ctx bytes
datatype Certificate = Certificate_ctx CertificateDer
datatype TcpListener = TcpListener_fd nat

text \<open>The fields of \<open>rcgen::CertificateParams\<close> that the example sets.\<close>

record CertificateParams =
  cpar_subject_alt_names :: "string list"
  cpar_distinguished_name :: DistinguishedName
  cpar_is_ca :: IsCa
  cpar_key_usages :: "KeyUsagePurpose list"
  cpar_extended_key_usages :: "ExtendedKeyUsagePurpose list"

record 's setup_lib =
  st_params_new :: "string list \<Rightarrow> unit + CertificateParams"
  st_dn_push :: "DistinguishedName \<Rightarrow> DnType \<Rightarrow> string \<Rightarrow> DistinguishedName"
  st_generate_for :: "KeyPairAlgorithm \<Rightarrow> ('s, unit, KeyPair) ffi"
  st_self_signed :: "CertificateParams \<Rightarrow> KeyPair \<Rightarrow> ('s, unit, Certificate) ffi"
  st_signed_by :: "CertificateParams \<Rightarrow> KeyPair \<Rightarrow> Certificate \<Rightarrow> KeyPair \<Rightarrow> ('s, unit, Certificate) ffi"
    \<comment> \<open>the key of the subject, the issuer and its key\<close>
  st_certificate_der :: "Certificate \<Rightarrow> CertificateDer"
  st_serialize_der :: "KeyPair \<Rightarrow> bytes"
  st_safe_default_versions :: "ProtocolVersion list"
  st_with_single_cert :: "CryptoProvider \<Rightarrow> ProtocolVersion list \<Rightarrow>
      (PrivateKeyDer \<Rightarrow> ('s, rustls_error, SigningKey) rust) \<Rightarrow> CertificateDer list \<Rightarrow> PrivateKeyDer \<Rightarrow>
      ('s, rustls_error, ServerConfig) rust"
    \<comment> \<open>the third argument is the key loader of the provider, which the builder calls\<close>
  st_check_versions :: "CryptoProvider \<Rightarrow> ProtocolVersion list \<Rightarrow> rustls_error + unit"
    \<comment> \<open>whether \<open>with_safe_default_protocol_versions\<close> accepts the provider\<close>
  st_key_log_file_new :: "('s, unit, KeyLog) rust"
  st_bind :: "string \<Rightarrow> ('s, unit, TcpListener) ffi"
  st_incoming :: "TcpListener \<Rightarrow> (unit + TcpStream) list"
    \<comment> \<open>the connections that have come in so far\<close>

section \<open>The code\<close>

record TestPki =
  server_cert_der :: CertificateDer
  server_key_der :: PrivateKeyDer

definition TestPki_new :: "'s setup_lib \<Rightarrow> ('s, unit, TestPki) rust" where
  "TestPki_new T =
     (let alg = PKCS_ECDSA_P256_SHA256 in
      and_then (unwrap (of_result (st_params_new T []))) (\<lambda>ca_params.
      let ca_params = ca_params\<lparr>cpar_distinguished_name :=
            st_dn_push T (cpar_distinguished_name ca_params) OrganizationName ''Provider Server Example''\<rparr>;
          ca_params = ca_params\<lparr>cpar_distinguished_name :=
            st_dn_push T (cpar_distinguished_name ca_params) CommonName ''Example CA''\<rparr>;
          ca_params = ca_params\<lparr>cpar_is_ca := Ca Unconstrained\<rparr>;
          ca_params = ca_params\<lparr>cpar_key_usages := [KeyCertSign, DigitalSignature]\<rparr> in
      and_then (unwrap (st_generate_for T alg)) (\<lambda>ca_key.
      and_then (unwrap (st_self_signed T ca_params ca_key)) (\<lambda>ca_cert.
      and_then (unwrap (of_result (st_params_new T [''localhost'']))) (\<lambda>server_ee_params.
      let server_ee_params = server_ee_params\<lparr>cpar_is_ca := NoCa\<rparr>;
          server_ee_params = server_ee_params\<lparr>cpar_extended_key_usages := [ServerAuth]\<rparr> in
      and_then (unwrap (st_generate_for T alg)) (\<lambda>server_key.
      and_then (unwrap (st_signed_by T server_ee_params server_key ca_cert ca_key)) (\<lambda>server_cert.
      ok \<lparr>server_cert_der = st_certificate_der T server_cert,
          server_key_der = Pkcs8 (st_serialize_der T server_key)\<rparr>)))))))"

definition TestPki_server_config ::
    "pkcs8_parser \<Rightarrow> 's wolf_sigs \<Rightarrow> 's setup_lib \<Rightarrow> TestPki \<Rightarrow> ('s, unit, ServerConfig) rust" where
  "TestPki_server_config pkcs8 w T self =
     and_then (unwrap (of_result (st_check_versions T provider (st_safe_default_versions T)))) (\<lambda>_.
     and_then (unwrap_result (st_with_single_cert T provider (st_safe_default_versions T) (load_private_key pkcs8 w)
         [server_cert_der self] (server_key_der self))) (\<lambda>server_config.
     and_then (st_key_log_file_new T) (\<lambda>key_log.
     ok (server_config\<lparr>sc_key_log := key_log\<rparr>))))"

text \<open>\<open>main\<close>, without the logger: the set-up, which returns or panics, and then the loop.\<close>

definition server_main ::
    "pkcs8_parser \<Rightarrow> 's wolf_sigs \<Rightarrow> 's setup_lib \<Rightarrow> 's server_lib \<Rightarrow> ('s, unit) diverging" where
  "server_main pkcs8 w T L s =
     (case and_then (TestPki_new T) (\<lambda>pki.
           and_then (TestPki_server_config pkcs8 w T pki) (\<lambda>server_config.
           and_then (unwrap (st_bind T ''[::]:4443'')) (\<lambda>listener.
           ok (server_config, listener)))) s of
        (Ok (server_config, listener), s) \<Rightarrow> serve_incoming L server_config (st_incoming T listener) s
      | (Err e, s) \<Rightarrow> Some (Err e, s)
      | (Panic p, s) \<Rightarrow> Some (Panic p, s))"

section \<open>The documented behaviour\<close>

text \<open>A key pair is written as a PKCS#8 file that holds its scalar under the OID of elliptic curve keys,
  in the form \<open>es_sec1\<close> of P-256.  A certificate says what its parameters say, and names the key of its subject and of
  its issuer.\<close>

definition rcgen_ok :: "pkcs8_parser \<Rightarrow> ecdsa_scheme \<Rightarrow> 's setup_lib \<Rightarrow> (KeyPair \<Rightarrow> bytes) \<Rightarrow> bool" where
  "rcgen_ok pkcs8 E T pubof \<longleftrightarrow>
     (\<forall>names. set names \<subseteq> {''localhost''} \<longrightarrow> (\<exists>p. st_params_new T names = Inr p \<and> cpar_subject_alt_names p = names))
   \<and> ffi_yields (st_generate_for T PKCS_ECDSA_P256_SHA256) (\<lambda>k. \<exists>pki d. pkcs8 (st_serialize_der T k) = Inr pki
        \<and> pki_oid pki = OID_EC_PUBLIC_KEY \<and> es_sec1 E (pki_private_key pki) d \<and> pubof k = es_pub E d)
   \<and> (\<forall>p k. ffi_yields (st_self_signed T p k) (\<lambda>_. True))
   \<and> (\<forall>p k c ca. ffi_yields (st_signed_by T p k c ca) (\<lambda>cert. st_certificate_der T cert
        = CertificateDer_ctx (cpar_subject_alt_names p) (cpar_is_ca p) (cpar_extended_key_usages p) (pubof k) (pubof ca)))"

text \<open>The public key that a loaded key holds, where it holds one.\<close>

fun key_public :: "SigningKey \<Rightarrow> bytes option" where
  "key_public (KeyEcdsa k) = Some (esk_pub_x963 k)"
| "key_public (KeyRsa k) = None"
| "key_public (KeyEd25519 k) = Some (edk_pub_key k)"

text \<open>The builder accepts a provider that has a group, and a suite for one of the versions.  It takes a key that
  the loader takes, unless that key is known not to be the one in the certificate, and passes on what else the
  loader answers.  Nothing is said of binding the port: another process may hold it.\<close>

definition builder_ok :: "'s setup_lib \<Rightarrow> bool" where
  "builder_ok T \<longleftrightarrow>
     (\<forall>prov versions. cp_kx_groups prov \<noteq> [] \<longrightarrow> (\<exists>suite\<in>set (cp_cipher_suites prov). suite_version suite \<in> set versions) \<longrightarrow>
        st_check_versions T prov versions = Inr ())
   \<and> TLSv1_3 \<in> set (st_safe_default_versions T)
   \<and> (\<forall>prov versions load cert key s.
        (case load key s of
           (Ok k, s') \<Rightarrow> key_public k \<in> {None, Some (cd_public cert)} \<longrightarrow>
              (\<exists>cfg. st_with_single_cert T prov versions load [cert] key s = (Ok cfg, s')
                 \<and> sc_chain cfg = [cert] \<and> sc_key cfg = k)
         | (Err e, s') \<Rightarrow> st_with_single_cert T prov versions load [cert] key s = (Err e, s')
         | (Panic p, s') \<Rightarrow> st_with_single_cert T prov versions load [cert] key s = (Panic p, s')))
   \<and> yields (st_key_log_file_new T) (\<lambda>_. True)"

lemma rcgen_okD:
  assumes "rcgen_ok pkcs8 E T pubof"
  shows "set names \<subseteq> {''localhost''} \<Longrightarrow> \<exists>p. st_params_new T names = Inr p \<and> cpar_subject_alt_names p = names"
    and "ffi_yields (st_generate_for T PKCS_ECDSA_P256_SHA256) (\<lambda>k. \<exists>pki d. pkcs8 (st_serialize_der T k) = Inr pki
        \<and> pki_oid pki = OID_EC_PUBLIC_KEY \<and> es_sec1 E (pki_private_key pki) d \<and> pubof k = es_pub E d)"
    and "ffi_yields (st_self_signed T p k) (\<lambda>_. True)"
    and "ffi_yields (st_signed_by T p k c ca) (\<lambda>cert. st_certificate_der T cert
        = CertificateDer_ctx (cpar_subject_alt_names p) (cpar_is_ca p) (cpar_extended_key_usages p) (pubof k) (pubof ca))"
  by (rule assms [unfolded rcgen_ok_def, THEN conjunct1, rule_format], assumption,
      rule assms [unfolded rcgen_ok_def, THEN conjunct2, THEN conjunct1],
      rule assms [unfolded rcgen_ok_def, THEN conjunct2, THEN conjunct2, THEN conjunct1, rule_format],
      rule assms [unfolded rcgen_ok_def, THEN conjunct2, THEN conjunct2, THEN conjunct2, rule_format])

lemma builder_okD:
  assumes "builder_ok T"
  shows "cp_kx_groups prov \<noteq> [] \<Longrightarrow> \<exists>suite\<in>set (cp_cipher_suites prov). suite_version suite \<in> set versions \<Longrightarrow>
        st_check_versions T prov versions = Inr ()"
    and "TLSv1_3 \<in> set (st_safe_default_versions T)"
    and "case load key s of
           (Ok k, s') \<Rightarrow> key_public k \<in> {None, Some (cd_public cert)} \<longrightarrow>
              (\<exists>cfg. st_with_single_cert T prov versions load [cert] key s = (Ok cfg, s')
                 \<and> sc_chain cfg = [cert] \<and> sc_key cfg = k)
         | (Err e, s') \<Rightarrow> st_with_single_cert T prov versions load [cert] key s = (Err e, s')
         | (Panic p, s') \<Rightarrow> st_with_single_cert T prov versions load [cert] key s = (Panic p, s')"
    and "yields (st_key_log_file_new T) (\<lambda>_. True)"
  by (rule assms [unfolded builder_ok_def, THEN conjunct1, rule_format], assumption, assumption,
      rule assms [unfolded builder_ok_def, THEN conjunct2, THEN conjunct1],
      rule assms [unfolded builder_ok_def, THEN conjunct2, THEN conjunct2, THEN conjunct1, THEN spec, THEN spec, THEN spec, THEN spec, THEN spec, THEN spec],
      rule assms [unfolded builder_ok_def, THEN conjunct2, THEN conjunct2, THEN conjunct2])

section \<open>The set-up\<close>

text \<open>The certificate and the key that belong together.\<close>

definition pki_good :: "pkcs8_parser \<Rightarrow> ecdsa_scheme \<Rightarrow> TestPki \<Rightarrow> bytes \<Rightarrow> bool" where
  "pki_good pkcs8 E pki d \<longleftrightarrow>
     (\<exists>b. ec_key_bytes pkcs8 (server_key_der pki) = Some b \<and> es_sec1 E b d)
   \<and> cd_names (server_cert_der pki) = [''localhost'']
   \<and> cd_is_ca (server_cert_der pki) = NoCa
   \<and> cd_extended_key_usages (server_cert_der pki) = [ServerAuth]
   \<and> cd_public (server_cert_der pki) = es_pub E d"

lemma TestPki_new_yields:
  assumes R: "rcgen_ok pkcs8 E T pubof"
  shows "yields (TestPki_new T) (\<lambda>pki. \<exists>d. pki_good pkcs8 E pki d)"
proof -
  note R' = rcgen_okD [OF R]
  obtain p q where p: "st_params_new T [] = Inr p"
      and q: "st_params_new T [''localhost''] = Inr q" "cpar_subject_alt_names q = [''localhost'']"
    using R'(1) [of "[]"] R'(1) [of "[''localhost'']"] by auto
  show ?thesis
    unfolding TestPki_new_def Let_def p q(1) unwrap_of_result and_then_ok
    by (rule yields_and_then [OF yields_expect [OF R'(2)]], rule yields_and_then [OF yields_expect [OF R'(3)]],
        rule yields_and_then [OF yields_expect [OF R'(2)]], rule yields_and_then [OF yields_expect [OF R'(4)]])
       (auto simp: pki_good_def q(2) OID_EC_PUBLIC_KEY_def OID_ED25519_def OID_ED448_def intro!: yields_ok)
qed

lemma single_cert_yields:
  assumes B: "builder_ok T" and load: "yields (load key) P"
    and matches: "\<And>k. P k \<Longrightarrow> key_public k \<in> {None, Some (cd_public cert)}"
  shows "yields (st_with_single_cert T prov versions load [cert] key)
    (\<lambda>cfg. sc_chain cfg = [cert] \<and> P (sc_key cfg))"
proof (rule yieldsI)
  fix s
  obtain k s' where k: "load key s = (Ok k, s')" "P k" using yieldsD [OF load] by blast
  with builder_okD(3) [OF B, where load = load and key = key and s = s and cert = cert and prov = prov and versions = versions] matches [OF k(2)]
  show "\<exists>cfg s'. st_with_single_cert T prov versions load [cert] key s = (Ok cfg, s')
      \<and> sc_chain cfg = [cert] \<and> P (sc_key cfg)" by auto
qed

lemma server_config_yields:
  assumes B: "builder_ok T" and load: "yields (load_private_key pkcs8 w (server_key_der pki)) P"
    and matches: "\<And>k. P k \<Longrightarrow> key_public k \<in> {None, Some (cd_public (server_cert_der pki))}"
  shows "yields (TestPki_server_config pkcs8 w T pki)
    (\<lambda>cfg. sc_chain cfg = [server_cert_der pki] \<and> P (sc_key cfg))"
proof -
  have "\<exists>suite\<in>set (cp_cipher_suites provider). suite_version suite \<in> set (st_safe_default_versions T)"
    using builder_okD(2) [OF B]
    by (intro bexI [of _ TLS13_AES_128_GCM_SHA256]) (simp_all add: provider_def ALL_CIPHER_SUITES_def TLS13_AES_128_GCM_SHA256_def)
  then have versions: "st_check_versions T provider (st_safe_default_versions T) = Inr ()"
    by (intro builder_okD(1) [OF B]) (simp add: provider_def ALL_KX_GROUPS_def)
  show ?thesis
    unfolding TestPki_server_config_def versions unwrap_of_result and_then_ok
    by (auto intro!: yields_and_then [OF builder_okD(4) [OF B]] yields_ok
        yields_and_then [OF yields_expect_result [OF single_cert_yields [where load = "load_private_key pkcs8 w", OF B load matches]]])
qed

text \<open>What follows the set-up.\<close>

lemma server_main_after_setup:
  assumes "and_then (TestPki_new T) (TestPki_server_config pkcs8 w T) s = (Ok cfg, s')"
  shows "server_main pkcs8 w T L s = (case st_bind T ''[::]:4443'' s' of
          (Inl _, s'') \<Rightarrow> Some (Panic unwrap_failed, s'')
        | (Inr listener, s'') \<Rightarrow> serve_incoming L cfg (st_incoming T listener) s'')"
proof -
  have "and_then (TestPki_new T) (\<lambda>pki. and_then (TestPki_server_config pkcs8 w T pki) k) s = k cfg s'"
    for k :: "ServerConfig \<Rightarrow> ('a, unit, ServerConfig \<times> TcpListener) rust"
    using assms by (simp add: and_then_assoc [symmetric]) (simp add: and_then_def)
  then show ?thesis
    by (simp add: server_main_def) (simp add: and_then_def expect_def ok_def unwrap_failed_def split: prod.split sum.split)
qed

section \<open>Properties\<close>

text \<open>C17. The example server comes up exactly if it gets its port, with a certificate that fits its key.  Given
  that \<open>rcgen\<close> makes keys and certificates, everything before the port succeeds: neither the loader nor the check of the
  key against the certificate refuses.  Then \<open>main\<close> panics if the port cannot be bound, and otherwise
  serves the connections that come in, over a configuration whose one certificate is for localhost, is
  not a CA, and carries the public key that verifies, through the provider's own table, whatever the
  key in the configuration signs: the key that \<open>rcgen\<close> wrote is the key that the provider loads.\<close>

theorem example_server_starts:
  assumes "rng_ok r" and "sigs_ok r w G" and "ecc_load_ok (ws_ecc w) (es_p256 (sg_ecdsa G)) eccof"
    and "rcgen_ok pkcs8 (es_p256 (sg_ecdsa G)) T pubof" and "builder_ok T"
  shows "\<exists>cfg s' der signer.
      server_main pkcs8 w T L s = (case st_bind T ''[::]:4443'' s' of
          (Inl _, s'') \<Rightarrow> Some (Panic unwrap_failed, s'')
        | (Inr listener, s'') \<Rightarrow> serve_incoming L cfg (st_incoming T listener) s'')
    \<and> sc_chain cfg = [der]
    \<and> cd_names der = [''localhost''] \<and> cd_is_ca der = NoCa
    \<and> cd_extended_key_usages der = [ServerAuth]
    \<and> key_choose_scheme (sc_key cfg) [ECDSA_NISTP256_SHA256] = Some signer
    \<and> signer_scheme signer = ECDSA_NISTP256_SHA256
    \<and> (\<exists>a. mapped_algorithms ECDSA_NISTP256_SHA256 = [a]
         \<and> (\<forall>m. yields (signer_sign r w signer m)
              (\<lambda>sig. yields (alg_verify_signature w a (cd_public der) m sig) (\<lambda>_. True))))"
proof -
  let ?E = "es_p256 (sg_ecdsa G)" and ?sch = ECDSA_NISTP256_SHA256
  have E: "ecdsa_scheme_for (sg_ecdsa G) ?sch = Some ?E" by simp
  let ?good = "\<lambda>cfg. \<exists>pki d. pki_good pkcs8 ?E pki d \<and> sc_chain cfg = [server_cert_der pki]
      \<and> sc_key cfg = KeyEcdsa \<lparr>esk_priv_key = d, esk_pub_x963 = es_pub ?E d, esk_scheme = ?sch\<rparr>"
  have "yields (and_then (TestPki_new T) (TestPki_server_config pkcs8 w T)) ?good"
  proof (rule yields_and_then [OF TestPki_new_yields [OF assms(4)]], elim exE)
    fix pki d assume good: "pki_good pkcs8 ?E pki d"
    then obtain b where b: "ec_key_bytes pkcs8 (server_key_der pki) = Some b" "es_sec1 ?E b d"
      by (auto simp: pki_good_def)
    show "yields (TestPki_server_config pkcs8 w T pki) ?good"
      by (rule yields_weaken [OF server_config_yields [OF assms(5) loaded_ecdsa_key [OF assms(2) E assms(3) b]]])
         (use good in \<open>auto simp: pki_good_def\<close>)
  qed
  from yieldsD [OF this, of s] obtain cfg s' pki d where ready:
        "and_then (TestPki_new T) (TestPki_server_config pkcs8 w T) s = (Ok cfg, s')"
      and good: "pki_good pkcs8 ?E pki d" "sc_chain cfg = [server_cert_der pki]"
        "sc_key cfg = KeyEcdsa \<lparr>esk_priv_key = d, esk_pub_x963 = es_pub ?E d, esk_scheme = ?sch\<rparr>"
    by blast
  have main: "server_main pkcs8 w T L s = (case st_bind T ''[::]:4443'' s' of
          (Inl _, s'') \<Rightarrow> Some (Panic unwrap_failed, s'')
        | (Inr listener, s'') \<Rightarrow> serve_incoming L cfg (st_incoming T listener) s'')"
    using ready by (rule server_main_after_setup)
  have "length d = es_field ?E" using good(1) ecc_load_okD(1) [OF assms(3)] by (auto simp: pki_good_def)
  from loaded_ecdsa_key_signs [OF assms(1,2) E this] obtain signer where
    signer: "key_choose_scheme (sc_key cfg) [?sch] = Some signer" "signer_scheme signer = ?sch"
      "\<And>m. yields (signer_sign r w signer m) (genuine G ?sch (es_pub ?E d) m)"
    by (auto simp: good(3))
  have sch: "?sch \<in> set provider_schemes" using E by (auto simp: provider_schemes_def elim: ecdsa_scheme_for_Some)
  obtain a where a: "mapped_algorithms ?sch = [a]" using mapped_verify(1) [OF E] by blast
  have "yields (signer_sign r w signer m) (\<lambda>sig. yields (alg_verify_signature w a (es_pub ?E d) m sig) (\<lambda>_. True))" for m
    by (rule yields_weaken [OF signer(3)]) (use table_verifies(1) [OF assms(2) sch] a in auto)
  then show ?thesis using main good signer(1,2) a
    by (intro exI [of _ cfg] exI [of _ s'] exI [of _ "server_cert_der pki"] exI [of _ signer])
       (simp add: pki_good_def)
qed

text \<open>A generator whose key pairs all have the scalar 5, and a builder that runs the loader.\<close>

fun demo_kp_public :: "KeyPair \<Rightarrow> bytes" where
  "demo_kp_public (KeyPair_ctx d) = es_pub (demo_scheme 32) d"

fun demo_kp_der :: "KeyPair \<Rightarrow> bytes" where
  "demo_kp_der (KeyPair_ctx d) = [0x31, 7] @ OID_EC_PUBLIC_KEY @ [0x30] @ d"

fun demo_certificate :: "Certificate \<Rightarrow> CertificateDer" where
  "demo_certificate (Certificate_ctx c) = c"

definition demo_setup :: "'s setup_lib" where
  "demo_setup = \<lparr>
     st_params_new = (\<lambda>names. Inr \<lparr>cpar_subject_alt_names = names,
        cpar_distinguished_name = DistinguishedName_ctx [], cpar_is_ca = NoCa, cpar_key_usages = [],
        cpar_extended_key_usages = []\<rparr>),
     st_dn_push = (\<lambda>dn t v. case dn of DistinguishedName_ctx entries \<Rightarrow> DistinguishedName_ctx (entries @ [(t, v)])),
     st_generate_for = (\<lambda>alg s. (Inr (KeyPair_ctx (norm 32 [5])), s)),
     st_self_signed = (\<lambda>p k s. (Inr (Certificate_ctx (CertificateDer_ctx [] (cpar_is_ca p) [] (demo_kp_public k)
        (demo_kp_public k))), s)),
     st_signed_by = (\<lambda>p k c ca s. (Inr (Certificate_ctx (CertificateDer_ctx (cpar_subject_alt_names p) (cpar_is_ca p)
        (cpar_extended_key_usages p) (demo_kp_public k) (demo_kp_public ca))), s)),
     st_certificate_der = demo_certificate,
     st_serialize_der = demo_kp_der,
     st_safe_default_versions = [TLSv1_3, TLSv1_2],
     st_with_single_cert = (\<lambda>prov versions load chain key.
        and_then (load key) (\<lambda>k. ok \<lparr>sc_chain = chain, sc_key = k, sc_key_log = NoKeyLog\<rparr>)),
     st_check_versions = (\<lambda>prov versions. Inr ()),
     st_key_log_file_new = ok (KeyLogFile None),
     st_bind = (\<lambda>addr s. (Inr (TcpListener_fd 3), s)),
     st_incoming = (\<lambda>l. [Inr (TcpStream_fd 0)])\<rparr>"

lemma demo_rcgen_ok: "rcgen_ok demo_pkcs8 (es_p256 demo_ecdsa_schemes) demo_setup demo_kp_public"
  unfolding rcgen_ok_def
  by (simp add: demo_setup_def ffi_yields_def demo_pkcs8_def OID_EC_PUBLIC_KEY_def demo_ecdsa_schemes_def demo_scheme_def)

lemma demo_builder_ok: "builder_ok demo_setup"
  unfolding builder_ok_def
  by (auto simp: demo_setup_def yields_ok and_then_def ok_def yields_def split: prod.split outcome.split)

theorem example_server_starts_witness:
  "\<exists>cfg der s'. server_main demo_pkcs8 demo_sigs demo_setup demo_server [22, 1]
      = serve_incoming demo_server cfg [Inr (TcpStream_fd 0)] s'
    \<and> sc_chain cfg = [der] \<and> cd_names der = [''localhost'']"
proof -
  have ecc: "ecc_load_ok (ws_ecc (demo_sigs :: bytes wolf_sigs)) (es_p256 (sg_ecdsa demo_sig_spec)) (demo_eccof 32)"
    using demo_ecc_load_ok [of 32] by (simp add: demo_sigs_def demo_sig_spec_def demo_ecdsa_schemes_def)
  have rcgen: "rcgen_ok demo_pkcs8 (es_p256 (sg_ecdsa demo_sig_spec)) demo_setup demo_kp_public"
    using demo_rcgen_ok by (simp add: demo_sig_spec_def)
  show ?thesis
    using example_server_starts [where s = "[22, 1]" and L = demo_server, OF demo_rng_ok demo_sigs_ok ecc rcgen demo_builder_ok]
    by (fastforce simp: demo_setup_def)
qed

end
