(* ===== verification/ClientSessions.thy ===== *)
theory ClientSessions
  imports TestHarness ServerExample ProviderLib
begin

text \<open>
  TLS sessions as a client: \<open>examples/client.rs\<close>, and the four tests of \<open>tests/e2e.rs\<close> that fetch a page
  with one cipher suite at a time.  What a session is made of (the builder of the configuration, the
  connection, the sockets) is rustls and the standard library, a parameter record, and so is what the
  tests use of the operating system: the working directory, processes and files.  What can be observed of it all is a \<open>world\<close>: the directory,
  the log, and which peers can be reached.  The tests against a local server share a global mutex; its poison flag is part of their state.
\<close>

section \<open>Parameters\<close>

datatype RootCertStore = RootCertStore_ctx "bytes list"
datatype ServerName = ServerName_ctx string

text \<open>A configuration and a connection carry what they were made from.\<close>

datatype ClientConfig = ClientConfig_ctx CryptoProvider "ProtocolVersion list" RootCertStore
datatype ClientConnection = ClientConnection_ctx ClientConfig ServerName bytes

record 's tls_client =
  tc_webpki_roots :: "bytes list"
  tc_roots_from_iter :: "bytes list \<Rightarrow> RootCertStore"
  tc_add_parsable_certificates :: "RootCertStore \<Rightarrow> bytes list \<Rightarrow> RootCertStore"
  tc_safe_default_versions :: "ProtocolVersion list"
  tc_build_config :: "CryptoProvider \<Rightarrow> ProtocolVersion list \<Rightarrow> RootCertStore \<Rightarrow> rustls_error + ClientConfig"
    \<comment> \<open>\<open>with_protocol_versions\<close>, which may fail, and the two steps after it\<close>
  tc_server_name :: "string \<Rightarrow> unit + ServerName"
  tc_connection_new :: "ClientConfig \<Rightarrow> ServerName \<Rightarrow> rustls_error + ClientConnection"
  tc_connect :: "string \<Rightarrow> ('s, unit, TcpStream) ffi"
  tc_write_all :: "ClientConnection \<Rightarrow> TcpStream \<Rightarrow> bytes \<Rightarrow> ('s, unit, ClientConnection) ffi"
    \<comment> \<open>\<open>Stream::write_all\<close>, which completes the handshake\<close>
  tc_negotiated_cipher_suite :: "ClientConnection \<Rightarrow> SupportedCipherSuite option"
  tc_suite_debug :: "CipherSuite \<Rightarrow> string"
  tc_read_to_end :: "ClientConnection \<Rightarrow> TcpStream \<Rightarrow> bytes \<Rightarrow> ('s, unit, ClientConnection \<times> bytes) ffi"
  tc_stderr :: "bytes \<Rightarrow> ('s, unit, unit) ffi"
  tc_stdout :: "bytes \<Rightarrow> ('s, unit, unit) ffi"

datatype Child = Child_pid nat
datatype JoinHandle = JoinHandle_ctx nat
datatype File = File_fd nat

record 's test_os =
  os_current_dir :: "('s, unit, string) ffi"
  os_set_current_dir :: "string \<Rightarrow> ('s, string, unit) ffi"
    \<comment> \<open>the error is given by its text\<close>
  os_println :: "string \<Rightarrow> ('s, unit, unit) rust"
  os_spawn :: "string \<Rightarrow> string list \<Rightarrow> ('s, unit, Child) ffi"
    \<comment> \<open>program and arguments, output to null\<close>
  os_thread_spawn_wait :: "Child \<Rightarrow> ('s, unit, JoinHandle) rust"
    \<comment> \<open>\<open>thread::spawn\<close> of a thread that waits for the child\<close>
  os_sleep_secs :: "u64 \<Rightarrow> ('s, unit, unit) rust"
  os_open :: "string \<Rightarrow> ('s, unit, File) ffi"
  os_pem_certs :: "File \<Rightarrow> ('s, unit, bytes list) ffi"
  os_drop_thread :: "JoinHandle \<Rightarrow> ('s, unit, unit) rust"

section \<open>The standard library\<close>

text \<open>\<open>String::from_utf8_lossy\<close>: the length of the longest prefix that is one character or could start
  one, and whether it is complete.\<close>

definition cont_byte :: "u8 \<Rightarrow> bool" where
  "cont_byte b \<longleftrightarrow> b AND 192 = 128"

definition second_ok :: "u8 \<Rightarrow> u8 \<Rightarrow> bool" where
  "second_ok b c \<longleftrightarrow>
     (if b = 0xE0 then 0xA0 \<le> c \<and> c \<le> 0xBF
      else if b = 0xED then 0x80 \<le> c \<and> c \<le> 0x9F
      else if b = 0xF0 then 0x90 \<le> c \<and> c \<le> 0xBF
      else if b = 0xF4 then 0x80 \<le> c \<and> c \<le> 0x8F
      else cont_byte c)"

definition utf8_char_width :: "u8 \<Rightarrow> nat" where
  "utf8_char_width b =
     (if b < 0x80 then 1 else if 0xC2 \<le> b \<and> b \<le> 0xDF then 2
      else if 0xE0 \<le> b \<and> b \<le> 0xEF then 3 else if 0xF0 \<le> b \<and> b \<le> 0xF4 then 4 else 0)"

text \<open>How many of the continuation bytes of a character are there, at most \<open>n\<close>.\<close>

definition cont_count :: "nat \<Rightarrow> bytes \<Rightarrow> nat" where
  "cont_count n bs = length (takeWhile cont_byte (take n bs))"

definition utf8_chunk :: "u8 \<Rightarrow> bytes \<Rightarrow> nat \<times> bool" where
  "utf8_chunk b rest =
     (let w = utf8_char_width b in
      if w = 0 then (1, False)
      else if w = 1 then (1, True)
      else case rest of
          [] \<Rightarrow> (1, False)
        | c # rest' \<Rightarrow>
            if second_ok b c then let k = cont_count (w - 2) rest' in (2 + k, k = w - 2) else (1, False))"

definition replacement :: bytes where
  "replacement = [0xEF, 0xBF, 0xBD]"

lemma utf8_chunk_pos: "0 < fst (utf8_chunk b rest)"
  by (simp add: utf8_chunk_def Let_def split: list.split)

lemma utf8_chunk_nonempty: "(n, good) = utf8_chunk b rest \<Longrightarrow> 0 < n"
  using utf8_chunk_pos [of b rest] by (metis fst_conv)

function from_utf8_lossy :: "bytes \<Rightarrow> bytes" where
  "from_utf8_lossy [] = []"
| "from_utf8_lossy (b # rest) =
     (case utf8_chunk b rest of (n, good) \<Rightarrow>
        (if good then take n (b # rest) else replacement) @ from_utf8_lossy (drop n (b # rest)))"
  by pat_completeness auto
termination by (relation "measure length") (auto dest: utf8_chunk_nonempty)

text \<open>\<open>lines().next()\<close>: the first line without its line end.\<close>

definition first_line :: "bytes \<Rightarrow> bytes option" where
  "first_line b =
     (if b = [] then None
      else if 10 \<notin> set b then Some b
      else let line = takeWhile (\<lambda>c. c \<noteq> 10) b in
           Some (if line \<noteq> [] \<and> last line = 13 then butlast line else line))"

section \<open>One session\<close>

definition http_request :: "string \<Rightarrow> bytes" where
  "http_request host = as_bytes
     (''GET / HTTP/1.1'' @ crlf @ ''Host: '' @ host @ crlf @ ''Connection: close'' @ crlf
      @ ''Accept-Encoding: identity'' @ crlf @ crlf)"

definition suite_line :: "'s tls_client \<Rightarrow> SupportedCipherSuite \<Rightarrow> bytes" where
  "suite_line L ciphersuite =
     as_bytes (''Current ciphersuite: '' @ tc_suite_debug L (cs_suite (suite_common ciphersuite)) @ [CHR 0x0A])"

text \<open>From the name of the server to the plaintext it sent: the same steps in the example and in the
  four tests.\<close>

definition tls_session :: "'s tls_client \<Rightarrow> ClientConfig \<Rightarrow> string \<Rightarrow> string \<Rightarrow> ('s, unit, bytes) rust" where
  "tls_session L config host addr =
     and_then (unwrap (of_result (tc_server_name L host))) (\<lambda>server_name.
     and_then (unwrap (of_result (tc_connection_new L config server_name))) (\<lambda>conn.
     and_then (unwrap (tc_connect L addr)) (\<lambda>sock.
     and_then (unwrap (tc_write_all L conn sock (http_request host))) (\<lambda>conn.
     and_then (some_or_panic (tc_negotiated_cipher_suite L conn)
         ''called Option::unwrap() on a None value'') (\<lambda>ciphersuite.
     and_then (unwrap (tc_stderr L (suite_line L ciphersuite))) (\<lambda>_.
     let plaintext = [] in
     and_then (unwrap (tc_read_to_end L conn sock plaintext)) (\<lambda>(conn, plaintext).
     ok plaintext)))))))"

text \<open>\<open>main\<close> of \<open>examples/client.rs\<close>, without the logger.\<close>

definition client_main :: "'s tls_client \<Rightarrow> 's test" where
  "client_main L =
     (let root_store = tc_roots_from_iter L (tc_webpki_roots L) in
      and_then (unwrap (of_result (tc_build_config L provider (tc_safe_default_versions L) root_store))) (\<lambda>config.
      and_then (tls_session L config ''www.rust-lang.org'' ''www.rust-lang.org:443'') (\<lambda>plaintext.
      unwrap (tc_stdout L plaintext))))"

section \<open>The tests against a web site\<close>

definition print_first_line :: "'s tls_client \<Rightarrow> bytes \<Rightarrow> 's test" where
  "print_first_line L plaintext =
     (let plaintext_str = from_utf8_lossy plaintext in
      case first_line plaintext_str of
        Some line \<Rightarrow>
          and_then (unwrap (tc_stdout L line)) (\<lambda>_. unwrap (tc_stdout L [10]))
      | None \<Rightarrow> ok ())"

definition website_case :: "'s tls_client \<Rightarrow> ProtocolVersion list \<Rightarrow> SupportedCipherSuite \<Rightarrow> 's test" where
  "website_case L versions cipher =
     (let root_store = tc_roots_from_iter L (tc_webpki_roots L) in
      and_then (unwrap (of_result (tc_build_config L (provider_with_specified_ciphers [cipher]) versions root_store)))
        (\<lambda>config.
      and_then (tls_session L config ''www.rust-lang.org'' ''www.rust-lang.org:443'') (\<lambda>plaintext.
      print_first_line L plaintext)))"

definition tls12_test_ciphers :: "SupportedCipherSuite list" where
  "tls12_test_ciphers = [TLS12_ECDHE_RSA_WITH_CHACHA20_POLY1305_SHA256,
     TLS12_ECDHE_RSA_WITH_AES_128_GCM_SHA256, TLS12_ECDHE_RSA_WITH_AES_256_GCM_SHA384]"

definition tls13_test_ciphers :: "SupportedCipherSuite list" where
  "tls13_test_ciphers = [TLS13_CHACHA20_POLY1305_SHA256, TLS13_AES_128_GCM_SHA256, TLS13_AES_256_GCM_SHA384]"

definition test_tl12_against_website :: "'s tls_client \<Rightarrow> 's test" where
  "test_tl12_against_website L = for_each (website_case L [TLSv1_2]) tls12_test_ciphers"

definition test_tl13_against_website :: "'s tls_client \<Rightarrow> 's test" where
  "test_tl13_against_website L = for_each (website_case L [TLSv1_3]) tls13_test_ciphers"

section \<open>The tests against a local server\<close>

definition start_wolfssl_server :: "'s test_os \<Rightarrow> string \<Rightarrow> string \<Rightarrow> ('s, unit, Child) rust" where
  "start_wolfssl_server os current_dir_string tls_version = (\<lambda>s.
     case os_set_current_dir os ''../wolfcrypt-rs/wolfssl-5.7.6-stable/'' s of
       (Inl e, s) \<Rightarrow> (Panic (''Error changing directory: '' @ e), s)
     | (Inr _, s) \<Rightarrow>
         and_then (os_println os ''Changed directory to wolfssl-5.7.6-stable.'') (\<lambda>_.
         expect (os_spawn os ''./examples/server/server'' [
             ''-d'',
             ''-c'', current_dir_string @ ''/tests/certs/localhost.pem'',
             ''-k'', current_dir_string @ ''/tests/certs/localhost.key'',
             ''-p'', ''4443'',
             tls_version]) ''Failed to start wolfssl server.'') s)"

definition server_case ::
    "'s tls_client \<Rightarrow> 's test_os \<Rightarrow> string \<Rightarrow> string \<Rightarrow> ProtocolVersion list \<Rightarrow> SupportedCipherSuite \<Rightarrow> 's test" where
  "server_case L os current_dir_string tls_version versions cipher =
     and_then (start_wolfssl_server os current_dir_string tls_version) (\<lambda>wolfssl_server.
     and_then (os_thread_spawn_wait os wolfssl_server) (\<lambda>server_thread.
     and_then (os_sleep_secs os 1) (\<lambda>_.
     let root_store = tc_roots_from_iter L (tc_webpki_roots L) in
     and_then (unwrap (os_open os (current_dir_string @ ''/tests/certs/RootCA.pem''))) (\<lambda>pem.
     and_then (unwrap (os_pem_certs os pem)) (\<lambda>certs.
     let root_store = tc_add_parsable_certificates L root_store certs in
     and_then (unwrap (of_result (tc_build_config L (provider_with_specified_ciphers [cipher]) versions root_store)))
       (\<lambda>config.
     and_then (tls_session L config ''localhost'' ''localhost:4443'') (\<lambda>plaintext.
     and_then (print_first_line L plaintext) (\<lambda>_.
     and_then (attempt (os_set_current_dir os current_dir_string)) (\<lambda>_.
     os_drop_thread os server_thread)))))))))"

definition server_test ::
    "'s tls_client \<Rightarrow> 's test_os \<Rightarrow> string \<Rightarrow> ProtocolVersion list \<Rightarrow> SupportedCipherSuite list \<Rightarrow> 's test" where
  "server_test L os tls_version versions ciphers =
     and_then (unwrap (os_current_dir os)) (\<lambda>current_dir_string.
     for_each (server_case L os current_dir_string tls_version versions) ciphers)"

text \<open>\<open>let _guard = SERVER_LOCK.lock().unwrap();\<close> and the rest of the test, in the state of the poison flag
  of the mutex and the world.  A panic while the guard is held poisons the mutex, and a poisoned mutex
  gives its guard only in an error.\<close>

definition poison_error :: string where
  "poison_error = ''called Result::unwrap() on an Err value: PoisonError { .. }''"

definition with_server_lock :: "'s test \<Rightarrow> (bool \<times> 's) test" where
  "with_server_lock body = (\<lambda>(poisoned, s).
     if poisoned then (Panic poison_error, (True, s))
     else case body s of
         (Panic p, s') \<Rightarrow> (Panic p, (True, s'))
       | (r, s') \<Rightarrow> (r, (False, s')))"

definition TLSV1_2 :: string where
  "TLSV1_2 = ''-v 3''"

definition TLSV1_3 :: string where
  "TLSV1_3 = ''-v 4''"

definition test_tls12_against_server :: "'s tls_client \<Rightarrow> 's test_os \<Rightarrow> (bool \<times> 's) test" where
  "test_tls12_against_server L os = with_server_lock (server_test L os TLSV1_2 [TLSv1_2] tls12_test_ciphers)"

definition test_tls13_against_server :: "'s tls_client \<Rightarrow> 's test_os \<Rightarrow> (bool \<times> 's) test" where
  "test_tls13_against_server L os = with_server_lock (server_test L os TLSV1_3 [TLSv1_3] tls13_test_ciphers)"

text \<open>The harness runs each test in a thread of its own and notes how it ended.  The mutex puts the tests
  that share it into some order.\<close>

fun run_tests :: "'s test list \<Rightarrow> 's \<Rightarrow> (unit, unit) outcome list \<times> 's" where
  "run_tests [] s = ([], s)"
| "run_tests (t # ts) s =
     (case t s of (r, s') \<Rightarrow> case run_tests ts s' of (rs, s'') \<Rightarrow> (r # rs, s''))"

section \<open>A shared mutex\<close>

text \<open>The first test that panics under the lock decides the fate of all later ones, which do not
  reach the world any more.\<close>

fun run_until_panic :: "'s test list \<Rightarrow> 's \<Rightarrow> (unit, unit) outcome list \<times> bool \<times> 's" where
  "run_until_panic [] s = ([], False, s)"
| "run_until_panic (b # bs) s =
     (case b s of
        (Panic p, s') \<Rightarrow> (Panic p # replicate (length bs) (Panic poison_error), True, s')
      | (r, s') \<Rightarrow> case run_until_panic bs s' of (rs, q, s'') \<Rightarrow> (r # rs, q, s''))"

lemma run_poisoned:
  "run_tests (map with_server_lock bs) (True, s) = (replicate (length bs) (Panic poison_error), (True, s))"
  by (induction bs) (simp_all add: with_server_lock_def)

lemma run_locked:
  "run_tests (map with_server_lock bs) (False, s) = run_until_panic bs s"
  by (induction bs arbitrary: s)
     (auto simp: with_server_lock_def run_poisoned split: prod.split outcome.split)

fun is_panic :: "('e, 'a) outcome \<Rightarrow> bool" where
  "is_panic (Panic p) = True"
| "is_panic _ = False"

lemma run_until_panic_poison:
  "run_until_panic bs s = (rs, q, s') \<Longrightarrow> length rs = length bs \<and> (q \<longleftrightarrow> (\<exists>r\<in>set rs. is_panic r))"
proof (induction bs arbitrary: s rs)
  case (Cons b bs)
  then show ?case by (fastforce split: prod.splits outcome.splits)
qed simp

lemma run_until_panic_all:
  assumes "\<And>b s. b \<in> set bs \<Longrightarrow> \<exists>s'. b s = (Panic p, s')" and "bs \<noteq> []"
  shows "\<exists>s'. run_until_panic bs s = (Panic p # replicate (length bs - 1) (Panic poison_error), True, s')"
proof (cases bs)
  case (Cons b bs')
  then show ?thesis using assms(1) [of b s] by auto
qed (use assms(2) in simp)

lemma run_until_panic_after:
  assumes "run_until_panic bs s = (rs, q, s')" and "i < j" and "j < length rs" and "is_panic (rs ! i)"
  shows "rs ! j = Panic poison_error"
  using assms
proof (induction bs arbitrary: s rs i j)
  case (Cons b bs)
  obtain r s1 where r: "b s = (r, s1)" by fastforce
  obtain rs1 q1 s2 where rs1: "run_until_panic bs s1 = (rs1, q1, s2)" by (metis prod_cases3)
  show ?case
  proof (cases "is_panic r")
    case True
    then obtain p where "r = Panic p" by (cases r) auto
    then show ?thesis using Cons.prems r by (auto simp: nth_Cons split: nat.splits)
  next
    case False
    then have rs: "rs = r # rs1" "q1 = q" "s2 = s'" using Cons.prems(1) r rs1 by (auto split: outcome.splits)
    from Cons.prems(2-4) False obtain i' j' where "i = Suc i'" "j = Suc j'"
      by (cases i; cases j) (auto simp: rs)
    then show ?thesis using Cons.IH [of s1 rs1 i' j'] Cons.prems(2-4) rs1 by (simp add: rs)
  qed
qed simp

definition server_body :: "'s tls_client \<Rightarrow> 's test_os \<Rightarrow> bool \<Rightarrow> 's test" where
  "server_body L os tls12 =
     (if tls12 then server_test L os TLSV1_2 [TLSv1_2] tls12_test_ciphers
      else server_test L os TLSV1_3 [TLSv1_3] tls13_test_ciphers)"

lemma server_tests_locked:
  "map (\<lambda>tls12. if tls12 then test_tls12_against_server L os else test_tls13_against_server L os) picks
   = map with_server_lock (map (server_body L os) picks)"
  by (simp add: server_body_def test_tls12_against_server_def test_tls13_against_server_def)

lemma server_body_no_directory:
  assumes dir: "\<And>s. \<exists>d s'. os_current_dir os s = (Inr d, s')"
    and wolf: "\<And>s. \<exists>s'. os_set_current_dir os ''../wolfcrypt-rs/wolfssl-5.7.6-stable/'' s = (Inl e, s')"
  shows "\<exists>s'. server_body L os tls12 s = (Panic (''Error changing directory: '' @ e), s')"
proof -
  obtain d s1 where d: "os_current_dir os s = (Inr d, s1)" using dir by blast
  obtain s2 where "os_set_current_dir os ''../wolfcrypt-rs/wolfssl-5.7.6-stable/'' s1 = (Inl e, s2)" using wolf by blast
  with d show ?thesis
    by (auto simp: server_body_def server_test_def tls12_test_ciphers_def tls13_test_ciphers_def server_case_def
        start_wolfssl_server_def and_then_def expect_def)
qed

section \<open>Total correctness over what can be observed\<close>

text \<open>Started where the observation of the world is \<open>x\<close>, the computation returns, with a value and an
  observation afterwards that satisfy \<open>Q\<close>.\<close>

definition runs_to :: "('s \<Rightarrow> 'o) \<Rightarrow> ('s, 'e, 'a) rust \<Rightarrow> 'o \<Rightarrow> ('a \<Rightarrow> 'o \<Rightarrow> bool) \<Rightarrow> bool" where
  "runs_to obs m x Q \<longleftrightarrow> (\<forall>s. obs s = x \<longrightarrow> (\<exists>v s'. m s = (Ok v, s') \<and> Q v (obs s')))"

definition ffi_runs_to :: "('s \<Rightarrow> 'o) \<Rightarrow> ('s, 'e, 'a) ffi \<Rightarrow> 'o \<Rightarrow> ('a \<Rightarrow> 'o \<Rightarrow> bool) \<Rightarrow> bool" where
  "ffi_runs_to obs c x Q \<longleftrightarrow> (\<forall>s. obs s = x \<longrightarrow> (\<exists>v s'. c s = (Inr v, s') \<and> Q v (obs s')))"

lemma runs_to_ok: "Q v x \<Longrightarrow> runs_to obs (ok v) x Q"
  by (simp add: runs_to_def ok_def)

lemma runs_to_and_then:
  assumes "runs_to obs m x P" and "\<And>v y. P v y \<Longrightarrow> runs_to obs (k v) y Q"
  shows "runs_to obs (and_then m k) x Q"
  using assms unfolding runs_to_def and_then_def by fastforce

lemma runs_to_expect: "ffi_runs_to obs c x Q \<Longrightarrow> runs_to obs (expect c msg) x Q"
  unfolding runs_to_def ffi_runs_to_def expect_def by fastforce

lemma runs_to_attempt: "ffi_runs_to obs c x Q \<Longrightarrow> runs_to obs (attempt c) x (\<lambda>r y. \<exists>v. r = Inr v \<and> Q v y)"
  unfolding runs_to_def ffi_runs_to_def attempt_def by fastforce

lemma runs_to_weaken: "runs_to obs m x P \<Longrightarrow> (\<And>v y. P v y \<Longrightarrow> Q v y) \<Longrightarrow> runs_to obs m x Q"
  unfolding runs_to_def by fast

lemma runs_toD: "runs_to obs m (obs s) Q \<Longrightarrow> \<exists>v s'. m s = (Ok v, s') \<and> Q v (obs s')"
  by (simp add: runs_to_def)

text \<open>A loop that adds to a log, under an invariant that says what is in it.\<close>

lemma runs_to_for_each_log:
  assumes "\<And>c log x. c \<in> set cs \<Longrightarrow> I log x \<Longrightarrow> runs_to obs (body c) x (\<lambda>_. I (log @ [f c]))" and "I log x"
  shows "runs_to obs (for_each body cs) x (\<lambda>_. I (log @ map f cs))"
  using assms
proof (induction cs arbitrary: log x)
  case (Cons c cs)
  have "runs_to obs (for_each body cs) y (\<lambda>_. I (log @ map f (c # cs)))" if "I (log @ [f c]) y" for y
    using Cons.IH [of "log @ [f c]" y] Cons.prems(1) that by simp
  then show ?case using Cons.prems by (auto intro!: runs_to_and_then [where m = "body c"])
qed (simp add: runs_to_ok)

section \<open>The world of the sessions\<close>

text \<open>A server: the names and the trust anchors of its certificate, what it can negotiate, whether it answers a request
  and closes its side of the connection with an alert, and whether it stops after one session, as the example server of
  wolfSSL does unless it is told to loop.\<close>

record peer =
  pe_names :: "string set"
  pe_anchors :: "bytes set"
  pe_versions :: "ProtocolVersion set"
  pe_suites :: "CipherSuite set"
  pe_groups :: "NamedGroup set"
  pe_schemes :: "SignatureScheme set"
  pe_answers :: bool
  pe_serves_once :: bool

text \<open>What the world shows of itself: the working directory, whether the standard streams can be written, the lines on
  standard error, the servers that can be reached, those that are about to listen, and the peers of the sockets.\<close>

record world =
  wd_dir :: string
  wd_stdio :: bool
  wd_log :: "bytes list"
  wd_listening :: "string \<rightharpoonup> peer"
  wd_starting :: "string \<rightharpoonup> peer"
  wd_socks :: "TcpStream \<rightharpoonup> peer"

fun root_set :: "RootCertStore \<Rightarrow> bytes set" where
  "root_set (RootCertStore_ctx anchors) = set anchors"

definition usable_suites :: "CryptoProvider \<Rightarrow> ProtocolVersion list \<Rightarrow> SupportedCipherSuite list" where
  "usable_suites prov versions = filter (\<lambda>suite. suite_version suite \<in> set versions) (cp_cipher_suites prov)"

text \<open>The signature schemes that a server may use under a suite.\<close>

fun suite_schemes :: "SupportedCipherSuite \<Rightarrow> SignatureScheme set" where
  "suite_schemes (SuiteTls12 s) = set (t12_sign s)"
| "suite_schemes (SuiteTls13 s) = - {RSA_PKCS1_SHA256, RSA_PKCS1_SHA384, RSA_PKCS1_SHA512}"

definition common_suites :: "CryptoProvider \<Rightarrow> ProtocolVersion list \<Rightarrow> peer \<Rightarrow> SupportedCipherSuite list" where
  "common_suites prov versions p = filter (\<lambda>suite.
       suite_version suite \<in> pe_versions p \<and> cs_suite (suite_common suite) \<in> pe_suites p
     \<and> suite_schemes suite \<inter> pe_schemes p \<inter> fst ` set (wp_mapping (cp_signature_verification_algorithms prov)) \<noteq> {})
     (usable_suites prov versions)"

text \<open>When a handshake succeeds: the certificate is for the name and verifies under a root, there is a common
  group, there is a common version, and for every common version a common suite.\<close>

definition can_talk :: "CryptoProvider \<Rightarrow> ProtocolVersion list \<Rightarrow> RootCertStore \<Rightarrow> string \<Rightarrow> peer \<Rightarrow> bool" where
  "can_talk prov versions roots name p \<longleftrightarrow>
     name \<in> pe_names p \<and> root_set roots \<inter> pe_anchors p \<noteq> {}
   \<and> kx_name ` set (cp_kx_groups prov) \<inter> pe_groups p \<noteq> {}
   \<and> common_suites prov versions p \<noteq> []
   \<and> (\<forall>suite\<in>set (usable_suites prov versions). suite_version suite \<in> pe_versions p \<longrightarrow>
        (\<exists>c\<in>set (common_suites prov versions p). suite_version c = suite_version suite))"

definition connected :: "string \<Rightarrow> peer \<Rightarrow> TcpStream \<Rightarrow> world \<Rightarrow> world" where
  "connected addr p sock x = x\<lparr>
     wd_listening := (if pe_serves_once p then (wd_listening x)(addr := None) else wd_listening x),
     wd_socks := (wd_socks x)(sock \<mapsto> p)\<rparr>"

section \<open>The documented behaviour\<close>

text \<open>The root store holds what is put in, of certificates those that can be parsed.  A configuration is built if a suite and
  a group can be used.  A connection to a server that can be reached succeeds; the first write makes the
  handshake, which succeeds if the two can talk, with a common suite; from a server that answers and closes its side properly
  everything can be read.\<close>

definition client_ok :: "'s tls_client \<Rightarrow> ('s \<Rightarrow> world) \<Rightarrow> (bytes \<Rightarrow> bool) \<Rightarrow> bool" where
  "client_ok L obs parsable \<longleftrightarrow>
     (\<forall>anchors. root_set (tc_roots_from_iter L anchors) = set anchors)
   \<and> (\<forall>roots certs. root_set (tc_add_parsable_certificates L roots certs) = root_set roots \<union> {c \<in> set certs. parsable c})
   \<and> (\<forall>prov versions roots. cp_kx_groups prov \<noteq> [] \<longrightarrow> usable_suites prov versions \<noteq> [] \<longrightarrow>
        tc_build_config L prov versions roots = Inr (ClientConfig_ctx prov versions roots))
   \<and> (\<forall>host\<in>{''www.rust-lang.org'', ''localhost''}. tc_server_name L host = Inr (ServerName_ctx host))
   \<and> (\<forall>prov versions roots c n. tc_build_config L prov versions roots = Inr c \<longrightarrow>
        (\<exists>b. tc_connection_new L c n = Inr (ClientConnection_ctx c n b)))
   \<and> (\<forall>addr p x. wd_listening x addr = Some p \<longrightarrow>
        ffi_runs_to obs (tc_connect L addr) x (\<lambda>sock y. y = connected addr p sock x))
   \<and> (\<forall>prov versions roots name b sock data p x. wd_socks x sock = Some p \<longrightarrow> can_talk prov versions roots name p \<longrightarrow>
        ffi_runs_to obs
          (tc_write_all L (ClientConnection_ctx (ClientConfig_ctx prov versions roots) (ServerName_ctx name) b) sock data) x
          (\<lambda>conn y. y = x \<and> (\<exists>suite\<in>set (common_suites prov versions p). tc_negotiated_cipher_suite L conn = Some suite)))
   \<and> (\<forall>conn sock buf p x. wd_socks x sock = Some p \<longrightarrow> pe_answers p \<longrightarrow> tc_negotiated_cipher_suite L conn \<noteq> None \<longrightarrow>
        ffi_runs_to obs (tc_read_to_end L conn sock buf) x (\<lambda>_ y. y = x))
   \<and> (\<forall>b x. wd_stdio x \<longrightarrow> ffi_runs_to obs (tc_stderr L b) x (\<lambda>_ y. y = x\<lparr>wd_log := wd_log x @ [b]\<rparr>))
   \<and> (\<forall>b x. wd_stdio x \<longrightarrow> ffi_runs_to obs (tc_stdout L b) x (\<lambda>_ y. y = x))"

lemma client_okD:
  assumes "client_ok L obs parsable"
  shows "root_set (tc_roots_from_iter L anchors) = set anchors"
    and "root_set (tc_add_parsable_certificates L roots certs) = root_set roots \<union> {c \<in> set certs. parsable c}"
    and "cp_kx_groups prov \<noteq> [] \<Longrightarrow> usable_suites prov versions \<noteq> [] \<Longrightarrow>
        tc_build_config L prov versions roots = Inr (ClientConfig_ctx prov versions roots)"
    and "host \<in> {''www.rust-lang.org'', ''localhost''} \<Longrightarrow> tc_server_name L host = Inr (ServerName_ctx host)"
    and "tc_build_config L prov versions roots = Inr c \<Longrightarrow> \<exists>b. tc_connection_new L c n = Inr (ClientConnection_ctx c n b)"
    and "wd_listening x addr = Some p \<Longrightarrow>
        ffi_runs_to obs (tc_connect L addr) x (\<lambda>sock y. y = connected addr p sock x)"
    and "wd_socks x sock = Some p \<Longrightarrow> can_talk prov versions roots name p \<Longrightarrow>
        ffi_runs_to obs
          (tc_write_all L (ClientConnection_ctx (ClientConfig_ctx prov versions roots) (ServerName_ctx name) b) sock data) x
          (\<lambda>conn y. y = x \<and> (\<exists>suite\<in>set (common_suites prov versions p). tc_negotiated_cipher_suite L conn = Some suite))"
    and "wd_socks x sock = Some p \<Longrightarrow> pe_answers p \<Longrightarrow> tc_negotiated_cipher_suite L conn \<noteq> None \<Longrightarrow>
        ffi_runs_to obs (tc_read_to_end L conn sock buf) x (\<lambda>_ y. y = x)"
    and "wd_stdio x \<Longrightarrow> ffi_runs_to obs (tc_stderr L line) x (\<lambda>_ y. y = x\<lparr>wd_log := wd_log x @ [line]\<rparr>)"
    and "wd_stdio x \<Longrightarrow> ffi_runs_to obs (tc_stdout L line) x (\<lambda>_ y. y = x)"
  subgoal by (rule assms [unfolded client_ok_def, THEN conjunct1, rule_format])
  subgoal by (rule assms [unfolded client_ok_def, THEN conjunct2, THEN conjunct1, rule_format])
  subgoal by (rule assms [unfolded client_ok_def, THEN conjunct2, THEN conjunct2, THEN conjunct1, rule_format])
  subgoal by (rule assms [unfolded client_ok_def, THEN conjunct2, THEN conjunct2, THEN conjunct2, THEN conjunct1, rule_format])
  subgoal by (rule assms [unfolded client_ok_def, THEN conjunct2, THEN conjunct2, THEN conjunct2, THEN conjunct2, THEN conjunct1, rule_format])
  subgoal by (rule assms [unfolded client_ok_def, THEN conjunct2, THEN conjunct2, THEN conjunct2, THEN conjunct2, THEN conjunct2, THEN conjunct1, rule_format])
  subgoal by (rule assms [unfolded client_ok_def, THEN conjunct2, THEN conjunct2, THEN conjunct2, THEN conjunct2, THEN conjunct2, THEN conjunct2, THEN conjunct1, rule_format])
  subgoal by (rule assms [unfolded client_ok_def, THEN conjunct2, THEN conjunct2, THEN conjunct2, THEN conjunct2, THEN conjunct2, THEN conjunct2, THEN conjunct2, THEN conjunct1, rule_format])
  subgoal by (rule assms [unfolded client_ok_def, THEN conjunct2, THEN conjunct2, THEN conjunct2, THEN conjunct2, THEN conjunct2, THEN conjunct2, THEN conjunct2, THEN conjunct2, THEN conjunct1, rule_format])
  subgoal by (rule assms [unfolded client_ok_def, THEN conjunct2, THEN conjunct2, THEN conjunct2, THEN conjunct2, THEN conjunct2, THEN conjunct2, THEN conjunct2, THEN conjunct2, THEN conjunct2, rule_format])
  done

text \<open>The working directory of the tests is \<open>start\<close>; \<open>wolf\<close> is where the relative path leads from there.
  Started there with a certificate, its key, a port that is free and a version, the example server of wolfSSL is
  the peer \<open>peer_of\<close> of these, and listens after a second.  \<open>file_certs\<close> are the certificates in a file.\<close>

definition wolf_version :: "string \<Rightarrow> ProtocolVersion option" where
  "wolf_version v = (if v = ''-v 3'' then Some TLSv1_2 else if v = ''-v 4'' then Some TLSv1_3 else None)"

definition os_ok ::
    "'s test_os \<Rightarrow> ('s \<Rightarrow> world) \<Rightarrow> string \<Rightarrow> string \<Rightarrow> (string \<Rightarrow> bytes list) \<Rightarrow>
     (string \<Rightarrow> string \<Rightarrow> ProtocolVersion \<Rightarrow> peer) \<Rightarrow> bool" where
  "os_ok os obs start wolf file_certs peer_of \<longleftrightarrow>
     (\<forall>x. wd_dir x = start \<longrightarrow> ffi_runs_to obs (os_current_dir os) x (\<lambda>r y. r = start \<and> y = x))
   \<and> (\<forall>x. wd_dir x = start \<longrightarrow>
        ffi_runs_to obs (os_set_current_dir os ''../wolfcrypt-rs/wolfssl-5.7.6-stable/'') x (\<lambda>_ y. y = x\<lparr>wd_dir := wolf\<rparr>))
   \<and> (\<forall>x. ffi_runs_to obs (os_set_current_dir os start) x (\<lambda>_ y. y = x\<lparr>wd_dir := start\<rparr>))
   \<and> (\<forall>t x. wd_stdio x \<longrightarrow> runs_to obs (os_println os t) x (\<lambda>_ y. y = x))
   \<and> (\<forall>cert key port v ver x. wd_dir x = wolf \<longrightarrow> wolf_version v = Some ver \<longrightarrow>
        wd_listening x (''localhost:'' @ port) = None \<longrightarrow>
        ffi_runs_to obs (os_spawn os ''./examples/server/server'' [''-d'', ''-c'', cert, ''-k'', key, ''-p'', port, v]) x
          (\<lambda>_ y. y = x\<lparr>wd_starting := (wd_starting x)(''localhost:'' @ port \<mapsto> peer_of cert key ver)\<rparr>))
   \<and> (\<forall>c x. runs_to obs (os_thread_spawn_wait os c) x (\<lambda>_ y. y = x))
   \<and> (\<forall>n x. 1 \<le> n \<longrightarrow> runs_to obs (os_sleep_secs os n) x
        (\<lambda>_ y. y = x\<lparr>wd_listening := wd_listening x ++ wd_starting x, wd_starting := Map.empty\<rparr>))
   \<and> (\<forall>x. ffi_runs_to obs (os_open os (start @ ''/tests/certs/RootCA.pem'')) x (\<lambda>f y. y = x
        \<and> (\<forall>z. ffi_runs_to obs (os_pem_certs os f) z (\<lambda>r y. r = file_certs (start @ ''/tests/certs/RootCA.pem'') \<and> y = z))))
   \<and> (\<forall>h x. runs_to obs (os_drop_thread os h) x (\<lambda>_ y. y = x))"

lemma os_okD:
  assumes "os_ok os obs start wolf file_certs peer_of"
  shows "wd_dir x = start \<Longrightarrow> ffi_runs_to obs (os_current_dir os) x (\<lambda>r y. r = start \<and> y = x)"
    and "wd_dir x = start \<Longrightarrow>
        ffi_runs_to obs (os_set_current_dir os ''../wolfcrypt-rs/wolfssl-5.7.6-stable/'') x (\<lambda>_ y. y = x\<lparr>wd_dir := wolf\<rparr>)"
    and "ffi_runs_to obs (os_set_current_dir os start) x (\<lambda>_ y. y = x\<lparr>wd_dir := start\<rparr>)"
    and "wd_stdio x \<Longrightarrow> runs_to obs (os_println os line) x (\<lambda>_ y. y = x)"
    and "wd_dir x = wolf \<Longrightarrow> wolf_version v = Some ver \<Longrightarrow> wd_listening x (''localhost:'' @ port) = None \<Longrightarrow>
        ffi_runs_to obs (os_spawn os ''./examples/server/server'' [''-d'', ''-c'', cert, ''-k'', key, ''-p'', port, v]) x
          (\<lambda>_ y. y = x\<lparr>wd_starting := (wd_starting x)(''localhost:'' @ port \<mapsto> peer_of cert key ver)\<rparr>)"
    and "runs_to obs (os_thread_spawn_wait os c) x (\<lambda>_ y. y = x)"
    and "1 \<le> n \<Longrightarrow> runs_to obs (os_sleep_secs os n) x
        (\<lambda>_ y. y = x\<lparr>wd_listening := wd_listening x ++ wd_starting x, wd_starting := Map.empty\<rparr>)"
    and "ffi_runs_to obs (os_open os (start @ ''/tests/certs/RootCA.pem'')) x (\<lambda>f y. y = x
        \<and> (\<forall>z. ffi_runs_to obs (os_pem_certs os f) z (\<lambda>r y. r = file_certs (start @ ''/tests/certs/RootCA.pem'') \<and> y = z)))"
    and "runs_to obs (os_drop_thread os h) x (\<lambda>_ y. y = x)"
  subgoal by (rule assms [unfolded os_ok_def, THEN conjunct1, rule_format])
  subgoal by (rule assms [unfolded os_ok_def, THEN conjunct2, THEN conjunct1, rule_format])
  subgoal by (rule assms [unfolded os_ok_def, THEN conjunct2, THEN conjunct2, THEN conjunct1, rule_format])
  subgoal by (rule assms [unfolded os_ok_def, THEN conjunct2, THEN conjunct2, THEN conjunct2, THEN conjunct1, rule_format])
  subgoal by (rule assms [unfolded os_ok_def, THEN conjunct2, THEN conjunct2, THEN conjunct2, THEN conjunct2, THEN conjunct1, rule_format])
  subgoal by (rule assms [unfolded os_ok_def, THEN conjunct2, THEN conjunct2, THEN conjunct2, THEN conjunct2, THEN conjunct2, THEN conjunct1, rule_format])
  subgoal by (rule assms [unfolded os_ok_def, THEN conjunct2, THEN conjunct2, THEN conjunct2, THEN conjunct2, THEN conjunct2, THEN conjunct2, THEN conjunct1, rule_format])
  subgoal by (rule assms [unfolded os_ok_def, THEN conjunct2, THEN conjunct2, THEN conjunct2, THEN conjunct2, THEN conjunct2, THEN conjunct2, THEN conjunct2, THEN conjunct1, rule_format])
  subgoal by (rule assms [unfolded os_ok_def, THEN conjunct2, THEN conjunct2, THEN conjunct2, THEN conjunct2, THEN conjunct2, THEN conjunct2, THEN conjunct2, THEN conjunct2, rule_format])
  done

text \<open>A server that can do what the tests try: the six suites, a group of the provider, RSA-PSS with SHA-256, and an answer
  to the request.  Which versions it speaks is left open.\<close>

definition capable :: "peer \<Rightarrow> bool" where
  "capable p \<longleftrightarrow> (\<forall>c\<in>set (tls12_test_ciphers @ tls13_test_ciphers). cs_suite (suite_common c) \<in> pe_suites p)
   \<and> kx_name ` set ALL_KX_GROUPS \<inter> pe_groups p \<noteq> {} \<and> RSA_PSS_SHA256 \<in> pe_schemes p \<and> pe_answers p"

section \<open>Sessions that succeed\<close>

lemma can_talk_config:
  assumes "client_ok L obs parsable" and "can_talk prov versions roots name p"
  shows "tc_build_config L prov versions roots' = Inr (ClientConfig_ctx prov versions roots')"
  using assms(2) by (intro client_okD(3) [OF assms(1)]) (auto simp: can_talk_def common_suites_def)

lemma connected_simps [simp]:
  "wd_stdio (connected addr p sock x) = wd_stdio x" "wd_dir (connected addr p sock x) = wd_dir x"
  "wd_log (connected addr p sock x) = wd_log x" "wd_socks (connected addr p sock x) sock = Some p"
  by (simp_all add: connected_def)

lemma session_runs_to:
  assumes L: "client_ok L obs parsable" and host: "host \<in> {''www.rust-lang.org'', ''localhost''}"
    and up: "wd_listening x addr = Some p" "can_talk prov versions roots host p" "pe_answers p" and io: "wd_stdio x"
  shows "runs_to obs (tls_session L (ClientConfig_ctx prov versions roots) host addr) x
    (\<lambda>_ y. \<exists>sock. \<exists>suite\<in>set (common_suites prov versions p).
       y = (connected addr p sock x)\<lparr>wd_log := wd_log x @ [suite_line L suite]\<rparr>)"
proof -
  let ?config = "ClientConfig_ctx prov versions roots"
  obtain b where conn: "tc_connection_new L ?config (ServerName_ctx host) = Inr (ClientConnection_ctx ?config (ServerName_ctx host) b)"
    using client_okD(5) [OF L can_talk_config [OF L up(2)]] by blast
  have one: "runs_to obs (and_then (unwrap (tc_stderr L (suite_line L suite)))
        (\<lambda>_. and_then (unwrap (tc_read_to_end L conn sock [])) (\<lambda>(conn, plaintext). ok plaintext))) (connected addr p sock x)
      (\<lambda>_ y. y = (connected addr p sock x)\<lparr>wd_log := wd_log x @ [suite_line L suite]\<rparr>)"
    if "tc_negotiated_cipher_suite L conn = Some suite" for suite conn sock
    using that io up(3)
    by (auto intro!: runs_to_ok runs_to_and_then [OF runs_to_expect [OF client_okD(9) [OF L]]]
        runs_to_and_then [OF runs_to_expect [OF client_okD(8) [OF L, where p = p]]])
  have after: "runs_to obs (and_then (unwrap (tc_stderr L (suite_line L suite)))
        (\<lambda>_. and_then (unwrap (tc_read_to_end L conn sock [])) (\<lambda>(conn, plaintext). ok plaintext))) (connected addr p sock x)
      (\<lambda>_ y. \<exists>sock. \<exists>suite\<in>set (common_suites prov versions p).
         y = (connected addr p sock x)\<lparr>wd_log := wd_log x @ [suite_line L suite]\<rparr>)"
    if "suite \<in> set (common_suites prov versions p)" "tc_negotiated_cipher_suite L conn = Some suite" for suite conn sock
    by (rule runs_to_weaken [OF one [OF that(2)]]) (use that(1) in blast)
  show ?thesis
    by (auto simp: tls_session_def client_okD(4) [OF L host] conn Let_def
        intro!: runs_to_and_then [OF runs_to_expect [OF client_okD(6) [OF L up(1)]]] after
          runs_to_and_then [OF runs_to_expect [OF client_okD(7) [OF L _ up(2)]]])
qed

lemma print_first_line_runs_to:
  "client_ok L obs parsable \<Longrightarrow> wd_stdio x \<Longrightarrow> runs_to obs (print_first_line L plaintext) x (\<lambda>_ y. y = x)"
  by (auto simp: print_first_line_def Let_def split: option.split
      intro!: runs_to_ok runs_to_and_then [OF runs_to_expect [OF client_okD(10)]] runs_to_expect [OF client_okD(10)])

text \<open>A test configures one suite.  With a capable server of its version, that suite is negotiated.\<close>

lemma tested_suite_schemes:
  "c \<in> set (tls12_test_ciphers @ tls13_test_ciphers) \<Longrightarrow> RSA_PSS_SHA256 \<in> suite_schemes c"
  by (auto simp: tls12_test_ciphers_def tls13_test_ciphers_def suite_defs ALL_RSA_SCHEMES_def)

lemma rsa_pss_verifiable: "RSA_PSS_SHA256 \<in> fst ` set (wp_mapping ALGORITHMS)"
  by (simp add: ALGORITHMS_def)

lemma common_suites_capable:
  assumes "capable p" and "cp_signature_verification_algorithms prov = ALGORITHMS"
    and "c \<in> set (tls12_test_ciphers @ tls13_test_ciphers)" and "c \<in> set (usable_suites prov versions)"
    and "suite_version c \<in> pe_versions p"
  shows "c \<in> set (common_suites prov versions p)"
  using assms tested_suite_schemes [OF assms(3)] rsa_pss_verifiable
  unfolding common_suites_def capable_def by auto

lemma usable_suites_one:
  "suite_version c \<in> set versions \<Longrightarrow> usable_suites (provider_with_specified_ciphers [c]) versions = [c]"
  by (simp add: usable_suites_def provider_with_specified_ciphers_def)

lemma one_suite_can_talk:
  assumes c: "c \<in> set (tls12_test_ciphers @ tls13_test_ciphers)" "suite_version c \<in> set versions"
    and p: "capable p" "suite_version c \<in> pe_versions p" "name \<in> pe_names p" "root_set roots \<inter> pe_anchors p \<noteq> {}"
  shows "common_suites (provider_with_specified_ciphers [c]) versions p = [c]"
    and "can_talk (provider_with_specified_ciphers [c]) versions roots name p"
proof -
  have "c \<in> set (common_suites (provider_with_specified_ciphers [c]) versions p)"
    by (rule common_suites_capable) (use c p in \<open>simp_all only: usable_suites_one, simp_all add: provider_with_specified_ciphers_def\<close>)
  then show common: "common_suites (provider_with_specified_ciphers [c]) versions p = [c]"
    by (simp add: common_suites_def usable_suites_one c(2) split: if_splits)
  show "can_talk (provider_with_specified_ciphers [c]) versions roots name p"
    unfolding can_talk_def common usable_suites_one [OF c(2)]
    using p by (simp add: capable_def provider_with_specified_ciphers_def)
qed

lemma one_suite_session:
  assumes L: "client_ok L obs parsable" and host: "host \<in> {''www.rust-lang.org'', ''localhost''}"
    and c: "c \<in> set (tls12_test_ciphers @ tls13_test_ciphers)" "suite_version c \<in> set versions"
    and up: "wd_listening x addr = Some p" and io: "wd_stdio x"
    and p: "capable p" "suite_version c \<in> pe_versions p" "host \<in> pe_names p" "root_set roots \<inter> pe_anchors p \<noteq> {}"
    and k: "\<And>plaintext sock. runs_to obs (k plaintext)
      ((connected addr p sock x)\<lparr>wd_log := wd_log x @ [suite_line L c]\<rparr>) Q"
  shows "runs_to obs
    (and_then (unwrap (of_result (tc_build_config L (provider_with_specified_ciphers [c]) versions roots))) (\<lambda>config.
     and_then (tls_session L config host addr) k)) x Q"
proof -
  note talk = one_suite_can_talk [OF c p]
  have answers: "pe_answers p" using p(1) by (simp add: capable_def)
  have "runs_to obs (and_then (tls_session L (ClientConfig_ctx (provider_with_specified_ciphers [c]) versions roots) host addr) k) x Q"
    by (rule runs_to_and_then [OF session_runs_to [OF L host up talk(2) answers io]]) (use k in \<open>auto simp: talk(1)\<close>)
  then show ?thesis by (simp add: can_talk_config [OF L talk(2)])
qed

text \<open>The web site is up, and with what the tests and the client have logged.\<close>

definition site_up :: "string \<Rightarrow> peer \<Rightarrow> bytes list \<Rightarrow> world \<Rightarrow> bool" where
  "site_up start web log x \<longleftrightarrow> wd_stdio x \<and> wd_dir x = start \<and> wd_log x = log
     \<and> wd_listening x ''www.rust-lang.org:443'' = Some web"

text \<open>A site that the roots of webpki vouch for.\<close>

definition trusted_site :: "'s tls_client \<Rightarrow> peer \<Rightarrow> bool" where
  "trusted_site L web \<longleftrightarrow> capable web \<and> {TLSv1_2, TLSv1_3} \<subseteq> pe_versions web \<and> \<not> pe_serves_once web
     \<and> ''www.rust-lang.org'' \<in> pe_names web \<and> set (tc_webpki_roots L) \<inter> pe_anchors web \<noteq> {}"

lemma site_up_connected:
  "site_up start web log x \<Longrightarrow> \<not> pe_serves_once web \<Longrightarrow>
   site_up start web log' ((connected ''www.rust-lang.org:443'' web sock x)\<lparr>wd_log := log'\<rparr>)"
  by (simp add: site_up_def connected_def)

lemma website_case_runs_to:
  assumes L: "client_ok L obs parsable" and web: "trusted_site L web" and x: "site_up start web log x"
    and c: "c \<in> set (tls12_test_ciphers @ tls13_test_ciphers)" "suite_version c \<in> set versions"
  shows "runs_to obs (website_case L versions c) x (\<lambda>_. site_up start web (log @ [suite_line L c]))"
proof -
  have version: "suite_version c \<in> pe_versions web"
    using web by (cases c) (auto simp: trusted_site_def)
  have after: "site_up start web (log @ [suite_line L c])
      ((connected ''www.rust-lang.org:443'' web sock x)\<lparr>wd_log := wd_log x @ [suite_line L c]\<rparr>)" for sock
    using site_up_connected [OF x] x web by (simp add: trusted_site_def site_up_def)
  show ?thesis
    unfolding website_case_def Let_def
    using web x version after
    by (intro one_suite_session [OF L _ c, where p = web] runs_to_weaken [OF print_first_line_runs_to [OF L]])
      (auto simp: trusted_site_def client_okD(1) [OF L] site_up_def connected_def)
qed

text \<open>The port of the local tests is free, and with what they have logged.\<close>

definition port_free :: "string \<Rightarrow> bytes list \<Rightarrow> world \<Rightarrow> bool" where
  "port_free start log x \<longleftrightarrow> wd_stdio x \<and> wd_dir x = start \<and> wd_log x = log
     \<and> wd_listening x ''localhost:4443'' = None"

lemma port_freeD:
  assumes "port_free start log x"
  shows "wd_stdio x" "wd_dir x = start" "wd_log x = log" "wd_listening x ''localhost:4443'' = None"
  using assms by (simp_all add: port_free_def)

text \<open>The example server of wolfSSL with the certificate of the tests: one of the certificates in \<open>RootCA.pem\<close>
  vouches for it.\<close>

definition test_peer :: "(string \<Rightarrow> string \<Rightarrow> ProtocolVersion \<Rightarrow> peer) \<Rightarrow> string \<Rightarrow> ProtocolVersion \<Rightarrow> peer" where
  "test_peer peer_of start ver = peer_of (start @ ''/tests/certs/localhost.pem'') (start @ ''/tests/certs/localhost.key'') ver"

definition trusted_server :: "(bytes \<Rightarrow> bool) \<Rightarrow> bytes list \<Rightarrow> peer \<Rightarrow> ProtocolVersion \<Rightarrow> bool" where
  "trusted_server parsable certs p ver \<longleftrightarrow> capable p \<and> ver \<in> pe_versions p \<and> pe_serves_once p
     \<and> ''localhost'' \<in> pe_names p \<and> {c \<in> set certs. parsable c} \<inter> pe_anchors p \<noteq> {}"

definition server_in :: "string \<Rightarrow> peer \<Rightarrow> bytes list \<Rightarrow> world \<Rightarrow> bool" where
  "server_in dir p log x \<longleftrightarrow> wd_stdio x \<and> wd_dir x = dir \<and> wd_log x = log
     \<and> wd_listening x ''localhost:4443'' = Some p"

lemma start_wolfssl_server_runs_to:
  assumes os: "os_ok os obs start wolf file_certs peer_of" and x: "port_free start log x"
    and v: "wolf_version v = Some ver"
  shows "runs_to obs (start_wolfssl_server os start v) x
    (\<lambda>_ y. y = x\<lparr>wd_dir := wolf, wd_starting := (wd_starting x)(''localhost:4443'' \<mapsto> test_peer peer_of start ver)\<rparr>)"
    (is "runs_to obs _ x ?Q")
proof (unfold runs_to_def, intro allI impI)
  fix s assume s: "obs s = x"
  have dir: "wd_dir x = start" using x by (simp add: port_free_def)
  obtain u s' where s': "os_set_current_dir os ''../wolfcrypt-rs/wolfssl-5.7.6-stable/'' s = (Inr u, s')"
      "obs s' = x\<lparr>wd_dir := wolf\<rparr>"
    using os_okD(2) [OF os dir] s unfolding ffi_runs_to_def by blast
  have "runs_to obs (and_then (os_println os t) (\<lambda>_. expect (os_spawn os ''./examples/server/server''
      [''-d'', ''-c'', start @ ''/tests/certs/localhost.pem'', ''-k'', start @ ''/tests/certs/localhost.key'',
       ''-p'', ''4443'', v]) msg)) (x\<lparr>wd_dir := wolf\<rparr>) ?Q" for t msg
    using x os_okD(5) [OF os _ v, of "x\<lparr>wd_dir := wolf\<rparr>" "''4443''"]
    by (auto simp: port_free_def test_peer_def intro!: runs_to_and_then [OF os_okD(4) [OF os]] runs_to_expect)
  from runs_toD [OF this [folded s'(2)]] show "\<exists>u s'. start_wolfssl_server os start v s = (Ok u, s') \<and> ?Q u (obs s')"
    by (simp add: start_wolfssl_server_def s')
qed

lemma read_certs_runs_to:
  assumes "os_ok os obs start wolf file_certs peer_of"
    and "runs_to obs (k (file_certs (start @ ''/tests/certs/RootCA.pem''))) x Q"
  shows "runs_to obs (and_then (unwrap (os_open os (start @ ''/tests/certs/RootCA.pem''))) (\<lambda>pem.
    and_then (unwrap (os_pem_certs os pem)) k)) x Q"
proof (rule runs_to_and_then [OF runs_to_expect [OF os_okD(8) [OF assms(1)]]], elim conjE)
  fix pem y
  assume y: "y = x" and pem: "\<forall>z. ffi_runs_to obs (os_pem_certs os pem) z
      (\<lambda>r y. r = file_certs (start @ ''/tests/certs/RootCA.pem'') \<and> y = z)"
  show "runs_to obs (and_then (unwrap (os_pem_certs os pem)) k) y Q"
    by (rule runs_to_and_then [OF runs_to_expect [OF pem [THEN spec]]]) (use assms(2) y in auto)
qed

lemma server_case_runs_to:
  assumes L: "client_ok L obs parsable" and os: "os_ok os obs start wolf file_certs peer_of"
    and v: "wolf_version v = Some ver"
    and p: "trusted_server parsable (file_certs (start @ ''/tests/certs/RootCA.pem'')) (test_peer peer_of start ver) ver"
    and c: "c \<in> set (tls12_test_ciphers @ tls13_test_ciphers)" "suite_version c = ver" and x: "port_free start log x"
  shows "runs_to obs (server_case L os start v [ver] c) x (\<lambda>_. port_free start (log @ [suite_line L c]))"
proof -
  let ?p = "test_peer peer_of start ver"
  let ?up = "server_in wolf ?p log"
  let ?roots = "tc_add_parsable_certificates L (tc_roots_from_iter L (tc_webpki_roots L)) (file_certs (start @ ''/tests/certs/RootCA.pem''))"
  have roots: "root_set ?roots \<inter> pe_anchors ?p \<noteq> {}"
    using p by (auto simp: trusted_server_def client_okD(2) [OF L])
  have rest: "runs_to obs (and_then (print_first_line L plaintext) (\<lambda>_.
       and_then (attempt (os_set_current_dir os start)) (\<lambda>_. os_drop_thread os t)))
       ((connected ''localhost:4443'' ?p sock y)\<lparr>wd_log := wd_log y @ [suite_line L c]\<rparr>)
       (\<lambda>_. port_free start (log @ [suite_line L c]))" if "?up y" for y plaintext t sock
    using that p
    by (auto simp: server_in_def port_free_def trusted_server_def connected_def
        intro!: runs_to_and_then [OF print_first_line_runs_to [OF L]]
          runs_to_and_then [OF runs_to_attempt [OF os_okD(3) [OF os]]] runs_to_weaken [OF os_okD(9) [OF os]])
  have session: "runs_to obs
     (and_then (unwrap (of_result (tc_build_config L (provider_with_specified_ciphers [c]) [ver] ?roots))) (\<lambda>config.
      and_then (tls_session L config ''localhost'' ''localhost:4443'') (\<lambda>plaintext.
      and_then (print_first_line L plaintext) (\<lambda>_.
      and_then (attempt (os_set_current_dir os start)) (\<lambda>_. os_drop_thread os t))))) y
      (\<lambda>_. port_free start (log @ [suite_line L c]))" if "?up y" for y t
    by (rule one_suite_session [OF L _ c(1), where p = ?p, OF _ _ _ _ _ _ _ _ rest [OF that]])
      (use that p c(2) roots in \<open>simp_all add: server_in_def trusted_server_def\<close>)
  show ?thesis
    unfolding server_case_def Let_def
    by (auto simp: port_freeD [OF x] server_in_def
        intro!: runs_to_and_then [OF start_wolfssl_server_runs_to [OF os x v]] runs_to_and_then [OF os_okD(6) [OF os]]
        runs_to_and_then [OF os_okD(7) [OF os]] read_certs_runs_to [OF os] session)
qed

lemma server_test_runs_to:
  assumes L: "client_ok L obs parsable" and os: "os_ok os obs start wolf file_certs peer_of"
    and v: "wolf_version v = Some ver"
    and p: "trusted_server parsable (file_certs (start @ ''/tests/certs/RootCA.pem'')) (test_peer peer_of start ver) ver"
    and cs: "set ciphers \<subseteq> set (tls12_test_ciphers @ tls13_test_ciphers)" "\<forall>c\<in>set ciphers. suite_version c = ver"
    and x: "port_free start log x"
  shows "runs_to obs (server_test L os v [ver] ciphers) x (\<lambda>_. port_free start (log @ map (suite_line L) ciphers))"
proof -
  have "runs_to obs (for_each (server_case L os start v [ver]) ciphers) x
      (\<lambda>_. port_free start (log @ map (suite_line L) ciphers))"
    by (rule runs_to_for_each_log [where I = "port_free start"])
      (use cs x server_case_runs_to [OF L os v p] in auto)
  moreover have "wd_dir x = start" using x by (simp add: port_free_def)
  ultimately show ?thesis
    unfolding server_test_def by (auto intro!: runs_to_and_then [OF runs_to_expect [OF os_okD(1) [OF os]]])
qed

lemma test_cipher_versions:
  "\<forall>c\<in>set tls12_test_ciphers. suite_version c = TLSv1_2"
  "\<forall>c\<in>set tls13_test_ciphers. suite_version c = TLSv1_3"
  by (simp_all add: tls12_test_ciphers_def tls13_test_ciphers_def suite_defs)

lemma client_main_runs_to:
  assumes L: "client_ok L obs parsable" and web: "trusted_site L web" and x: "site_up start web log x"
    and versions: "TLSv1_3 \<in> set (tc_safe_default_versions L)"
  shows "runs_to obs (client_main L) x (\<lambda>_ y. \<exists>suite\<in>set ALL_CIPHER_SUITES.
    cs_suite (suite_common suite) \<in> pe_suites web \<and> site_up start web (log @ [suite_line L suite]) y)"
proof -
  let ?versions = "tc_safe_default_versions L"
  let ?common = "common_suites provider ?versions web"
  have common: "c \<in> set ?common"
    if "c \<in> set (tls12_test_ciphers @ tls13_test_ciphers)" "suite_version c \<in> set ?versions" for c
  proof (rule common_suites_capable [OF _ _ that(1)])
    show "c \<in> set (usable_suites provider ?versions)" using that
      by (auto simp: usable_suites_def provider_def ALL_CIPHER_SUITES_def tls12_test_ciphers_def tls13_test_ciphers_def)
    show "suite_version c \<in> pe_versions web" using web by (cases c) (auto simp: trusted_site_def)
  qed (use web in \<open>simp_all add: trusted_site_def provider_def\<close>)
  have "\<exists>c\<in>set ?common. suite_version c = suite_version suite" if "suite_version suite \<in> set ?versions" for suite
  proof (cases suite)
    case (SuiteTls12 s)
    with that have "hd tls12_test_ciphers \<in> set ?common" by (intro common) (auto simp: tls12_test_ciphers_def suite_defs)
    then show ?thesis by (rule rev_bexI) (simp add: SuiteTls12 tls12_test_ciphers_def suite_defs)
  next
    case (SuiteTls13 s)
    with that have "hd tls13_test_ciphers \<in> set ?common" by (intro common) (auto simp: tls13_test_ciphers_def suite_defs)
    then show ?thesis by (rule rev_bexI) (simp add: SuiteTls13 tls13_test_ciphers_def suite_defs)
  qed
  moreover have "?common \<noteq> []"
    using common [of "hd tls13_test_ciphers"] versions by (auto simp: tls13_test_ciphers_def suite_defs)
  ultimately have talk: "can_talk provider ?versions (tc_roots_from_iter L (tc_webpki_roots L)) ''www.rust-lang.org'' web"
    using web by (auto simp: can_talk_def trusted_site_def capable_def client_okD(1) [OF L] provider_def usable_suites_def)
  have after: "runs_to obs (unwrap (tc_stdout L plaintext)) ((connected ''www.rust-lang.org:443'' web sock x)\<lparr>wd_log := wd_log x @ [suite_line L suite]\<rparr>)
      (\<lambda>_ y. \<exists>suite\<in>set ALL_CIPHER_SUITES.
        cs_suite (suite_common suite) \<in> pe_suites web \<and> site_up start web (log @ [suite_line L suite]) y)"
    if "suite \<in> set ?common" for suite sock plaintext
  proof (rule runs_to_weaken [OF runs_to_expect [OF client_okD(10) [OF L]]])
    show "wd_stdio ((connected ''www.rust-lang.org:443'' web sock x)\<lparr>wd_log := wd_log x @ [suite_line L suite]\<rparr>)"
      using x by (simp add: site_up_def)
    show "\<exists>suite\<in>set ALL_CIPHER_SUITES. cs_suite (suite_common suite) \<in> pe_suites web \<and> site_up start web (log @ [suite_line L suite]) y"
      if "y = (connected ''www.rust-lang.org:443'' web sock x)\<lparr>wd_log := wd_log x @ [suite_line L suite]\<rparr>" for y
      using that \<open>suite \<in> set ?common\<close> site_up_connected [OF x] web x
      by (auto simp: common_suites_def usable_suites_def provider_def trusted_site_def site_up_def)
  qed
  show ?thesis
    unfolding client_main_def Let_def can_talk_config [OF L talk] unwrap_of_result and_then_ok
    by (rule runs_to_and_then [OF session_runs_to [OF L _ _ talk]]) (use web x after in \<open>auto simp: site_up_def trusted_site_def capable_def\<close>)
qed

section \<open>Properties\<close>

text \<open>C22. The tests against the local server and their mutex.  Whatever number of them runs, in whatever
  order the mutex lets them in: the mutex ends up poisoned exactly if one of them has panicked, and
  after one has panicked every later one fails on the mutex without reaching the server.  In a check-out
  that lacks the directory of the wolfSSL server, the first one fails on that directory and the
  others on the mutex: whether a test reports the missing directory or the poisoned mutex depends on the order.\<close>

theorem server_tests_share_a_lock:
  assumes run: "run_tests (map (\<lambda>tls12. if tls12 then test_tls12_against_server L os else test_tls13_against_server L os)
      picks) (False, s) = (rs, (poisoned, s'))"
  shows "length rs = length picks
   \<and> (poisoned \<longleftrightarrow> (\<exists>r\<in>set rs. is_panic r))
   \<and> (\<forall>i j. i < j \<and> j < length rs \<and> is_panic (rs ! i) \<longrightarrow> rs ! j = Panic poison_error)
   \<and> ((\<forall>s. \<exists>d s'. os_current_dir os s = (Inr d, s'))
      \<and> (\<forall>s. \<exists>s'. os_set_current_dir os ''../wolfcrypt-rs/wolfssl-5.7.6-stable/'' s = (Inl e, s')) \<and> picks \<noteq> []
      \<longrightarrow> rs = Panic (''Error changing directory: '' @ e) # replicate (length picks - 1) (Panic poison_error))"
proof -
  let ?bs = "map (server_body L os) picks"
  have until: "run_until_panic ?bs s = (rs, poisoned, s')" using run unfolding server_tests_locked run_locked .
  have "rs = Panic (''Error changing directory: '' @ e) # replicate (length picks - 1) (Panic poison_error)"
    if "\<forall>s. \<exists>d s'. os_current_dir os s = (Inr d, s')" "picks \<noteq> []"
      "\<forall>s. \<exists>s'. os_set_current_dir os ''../wolfcrypt-rs/wolfssl-5.7.6-stable/'' s = (Inl e, s')"
    using run_until_panic_all [of ?bs "''Error changing directory: '' @ e" s] server_body_no_directory [of os e L] that until
    by fastforce
  then show ?thesis using run_until_panic_poison [OF until] run_until_panic_after [OF until] by auto
qed

text \<open>A small world and its client.  The client takes the first common suite, and keeps its place in the list of the provider
  in the state of the connection.\<close>

definition suite_place :: "CryptoProvider \<Rightarrow> SupportedCipherSuite \<Rightarrow> bytes" where
  "suite_place prov suite = 1 # replicate (length (takeWhile (\<lambda>c. c \<noteq> suite) (cp_cipher_suites prov))) 0"

fun demo_conn_suite :: "ClientConnection \<Rightarrow> SupportedCipherSuite option" where
  "demo_conn_suite (ClientConnection_ctx (ClientConfig_ctx prov versions roots) n b) =
     (if b = [] then None else Some (cp_cipher_suites prov ! (length b - 1)))"

fun demo_handshake :: "ClientConnection \<Rightarrow> peer \<Rightarrow> ClientConnection option" where
  "demo_handshake (ClientConnection_ctx (ClientConfig_ctx prov versions roots) (ServerName_ctx name) b) p =
     (if can_talk prov versions roots name p
      then Some (ClientConnection_ctx (ClientConfig_ctx prov versions roots) (ServerName_ctx name)
        (suite_place prov (hd (common_suites prov versions p))))
      else None)"

definition demo_tls :: "world tls_client" where
  "demo_tls = \<lparr>
     tc_webpki_roots = [[7]],
     tc_roots_from_iter = RootCertStore_ctx,
     tc_add_parsable_certificates = (\<lambda>r certs. case r of RootCertStore_ctx roots \<Rightarrow>
        RootCertStore_ctx (roots @ filter (\<lambda>c. c \<noteq> []) certs)),
     tc_safe_default_versions = [TLSv1_3, TLSv1_2],
     tc_build_config = (\<lambda>prov versions roots.
        if usable_suites prov versions = [] then Inl (General ''no usable cipher suites configured'')
        else Inr (ClientConfig_ctx prov versions roots)),
     tc_server_name = (\<lambda>h. Inr (ServerName_ctx h)),
     tc_connection_new = (\<lambda>c n. Inr (ClientConnection_ctx c n [])),
     tc_connect = (\<lambda>addr x. case wd_listening x addr of
        None \<Rightarrow> (Inl (), x) | Some p \<Rightarrow> (Inr (TcpStream_fd 3), connected addr p (TcpStream_fd 3) x)),
     tc_write_all = (\<lambda>c st b x. case Option.bind (wd_socks x st) (demo_handshake c) of
        None \<Rightarrow> (Inl (), x) | Some c \<Rightarrow> (Inr c, x)),
     tc_negotiated_cipher_suite = demo_conn_suite,
     tc_suite_debug = (\<lambda>suite. if suite = Suite_TLS13_AES_128_GCM_SHA256 then ''TLS13_AES_128_GCM_SHA256'' else ''other''),
     tc_read_to_end = (\<lambda>c st b x. case wd_socks x st of
        None \<Rightarrow> (Inl (), x) | Some p \<Rightarrow> if pe_answers p then (Inr (c, as_bytes ''HTTP/1.1 200 OK''), x) else (Inl (), x)),
     tc_stderr = (\<lambda>b x. if wd_stdio x then (Inr (), x\<lparr>wd_log := wd_log x @ [b]\<rparr>) else (Inl (), x)),
     tc_stdout = (\<lambda>b x. if wd_stdio x then (Inr (), x) else (Inl (), x))\<rparr>"

text \<open>A peer that speaks the given versions, in the place of the web site or of the example server.\<close>

definition demo_peer :: "string \<Rightarrow> bytes \<Rightarrow> ProtocolVersion set \<Rightarrow> bool \<Rightarrow> peer" where
  "demo_peer name anchor versions once = \<lparr>pe_names = {name}, pe_anchors = {anchor}, pe_versions = versions,
     pe_suites = UNIV, pe_groups = kx_name ` set ALL_KX_GROUPS, pe_schemes = {RSA_PSS_SHA256}, pe_answers = True,
     pe_serves_once = once\<rparr>"

definition demo_server :: "string \<Rightarrow> string \<Rightarrow> ProtocolVersion \<Rightarrow> peer" where
  "demo_server cert key ver = demo_peer ''localhost'' [1] {ver} True"

definition demo_spawn :: "string list \<Rightarrow> world \<Rightarrow> (unit + Child) \<times> world" where
  "demo_spawn args x = (case wolf_version (args ! 7) of
     None \<Rightarrow> (Inl (), x)
   | Some ver \<Rightarrow> (Inr (Child_pid 7),
       x\<lparr>wd_starting := (wd_starting x)(''localhost:'' @ args ! 6 \<mapsto> demo_server (args ! 2) (args ! 4) ver)\<rparr>))"

definition demo_os :: "bool \<Rightarrow> world test_os" where
  "demo_os has_server = \<lparr>
     os_current_dir = (\<lambda>x. (Inr (wd_dir x), x)),
     os_set_current_dir = (\<lambda>d x.
        if d = ''../wolfcrypt-rs/wolfssl-5.7.6-stable/''
        then if has_server then (Inr (), x\<lparr>wd_dir := ''/wolf''\<rparr>) else (Inl ''No such file or directory (os error 2)'', x)
        else (Inr (), x\<lparr>wd_dir := d\<rparr>)),
     os_println = (\<lambda>t. ok ()),
     os_spawn = (\<lambda>p. demo_spawn),
     os_thread_spawn_wait = (\<lambda>c. ok (JoinHandle_ctx 1)),
     os_sleep_secs = (\<lambda>n x. (Ok (), x\<lparr>wd_listening := wd_listening x ++ wd_starting x, wd_starting := Map.empty\<rparr>)),
     os_open = (\<lambda>p x. (Inr (File_fd 4), x)),
     os_pem_certs = (\<lambda>f x. (Inr [[1]], x)),
     os_drop_thread = (\<lambda>h. ok ())\<rparr>"

definition demo_site :: peer where
  "demo_site = demo_peer ''www.rust-lang.org'' [7] {TLSv1_2, TLSv1_3} False"

definition demo_world :: world where
  "demo_world = \<lparr>wd_dir = ''/src'', wd_stdio = True, wd_log = [], wd_listening = [''www.rust-lang.org:443'' \<mapsto> demo_site],
     wd_starting = Map.empty, wd_socks = Map.empty\<rparr>"

theorem server_tests_share_a_lock_witness:
  "fst (run_tests [test_tls12_against_server demo_tls (demo_os False), test_tls13_against_server demo_tls (demo_os False)]
      (False, demo_world))
   = [Panic ''Error changing directory: No such file or directory (os error 2)'', Panic poison_error]"
proof -
  obtain rs q s' where run: "run_tests (map (\<lambda>tls12. if tls12 then test_tls12_against_server demo_tls (demo_os False)
      else test_tls13_against_server demo_tls (demo_os False)) [True, False]) (False, demo_world) = (rs, (q, s'))"
    by (metis prod_cases3)
  from server_tests_share_a_lock [OF this, of "''No such file or directory (os error 2)''"] run
  show ?thesis by (simp add: demo_os_def)
qed

lemma suite_place_nth:
  assumes "suite \<in> set (cp_cipher_suites prov)"
  shows "suite_place prov suite \<noteq> []" "cp_cipher_suites prov ! (length (suite_place prov suite) - 1) = suite"
proof -
  obtain before after where "cp_cipher_suites prov = before @ suite # after" "suite \<notin> set before"
    using split_list_first [OF assms] by blast
  moreover from this have "takeWhile (\<lambda>c. c \<noteq> suite) (cp_cipher_suites prov) = before" by (auto simp: takeWhile_append)
  ultimately show "suite_place prov suite \<noteq> []" "cp_cipher_suites prov ! (length (suite_place prov suite) - 1) = suite"
    by (simp_all add: suite_place_def)
qed

lemma demo_handshake_suite:
  assumes "can_talk prov versions roots name p"
  shows "\<exists>c. demo_handshake (ClientConnection_ctx (ClientConfig_ctx prov versions roots) (ServerName_ctx name) b) p = Some c
    \<and> (\<exists>suite\<in>set (common_suites prov versions p). demo_conn_suite c = Some suite)"
proof -
  let ?suite = "hd (common_suites prov versions p)"
  have "?suite \<in> set (common_suites prov versions p)" using assms by (simp add: can_talk_def)
  moreover from this have "?suite \<in> set (cp_cipher_suites prov)" by (auto simp: common_suites_def usable_suites_def)
  ultimately show ?thesis using assms suite_place_nth [of ?suite prov] by auto
qed

lemma demo_client_ok: "client_ok demo_tls id (\<lambda>c. c \<noteq> [])"
proof -
  have writes: "ffi_runs_to id
      (tc_write_all demo_tls (ClientConnection_ctx (ClientConfig_ctx prov versions roots) (ServerName_ctx name) b) sock data) x
      (\<lambda>conn y. y = x \<and> (\<exists>suite\<in>set (common_suites prov versions p). tc_negotiated_cipher_suite demo_tls conn = Some suite))"
    if "wd_socks x sock = Some p" "can_talk prov versions roots name p" for prov versions roots name b sock data p x
    using demo_handshake_suite [OF that(2), of b] that(1)
    by (auto simp: ffi_runs_to_def demo_tls_def simp del: demo_handshake.simps)
  show ?thesis
    unfolding client_ok_def
    by (intro conjI allI impI writes; auto simp: demo_tls_def ffi_runs_to_def split: RootCertStore.split)
qed

lemma demo_os_ok: "os_ok (demo_os True) id ''/src'' ''/wolf'' (\<lambda>_. [[1]]) demo_server"
  unfolding os_ok_def
  by (intro conjI allI impI) (auto simp: demo_os_def demo_spawn_def ffi_runs_to_def runs_to_def ok_def)

lemma demo_peers:
  "trusted_site demo_tls demo_site"
  "trusted_server (\<lambda>c. c \<noteq> []) [[1]] (test_peer demo_server start ver) ver"
  "site_up ''/src'' demo_site [] demo_world" "port_free ''/src'' [] demo_world"
  by (auto simp: trusted_site_def trusted_server_def capable_def demo_site_def demo_server_def demo_peer_def test_peer_def
      demo_tls_def ALL_KX_GROUPS_def site_up_def port_free_def demo_world_def)



end
