(* ===== verification/Spec2Isabelle.thy ===== *)
theory Spec2Isabelle
  imports Handshake AeadVectors KeyTests DebugText ServerSetup ClientSessions
begin

text \<open>
  A model of \<open>rustls-wolfcrypt-provider\<close>, the cryptography provider that puts the wolfCrypt library
  under the TLS implementation rustls, with the theorems that make it correct.  All paths below are
  relative to \<open>rustls-wolfcrypt-provider/src\<close>.

  The program.  The provider implements the traits of rustls: record protection (\<open>aead/\<close>), hashes
  (\<open>hash/\<close>), HMAC (\<open>hmac/mod.rs\<close>), HKDF (\<open>hkdf.rs\<close>), the TLS 1.2 PRF (\<open>prf.rs\<close>), key exchange
  (\<open>kx.rs\<close>, \<open>kx/\<close>), signature verification (\<open>verify.rs\<close>, \<open>verify/\<close>), signing and key loading
  (\<open>sign/\<close>), random buffers (\<open>random.rs\<close>) and error codes (\<open>error.rs\<close>); \<open>lib.rs\<close> puts them together
  as cipher suites and as a \<open>CryptoProvider\<close>.  Its own logic is what lies between the two
  libraries: lengths, offsets and nonces, the order of foreign calls, which inputs are refused
  with which error, the choice of schemes and groups, and the tables.

  How it is modelled.  A Rust function is a HOL function of the same shape, called after it (with a
  prefix for methods of the same name).  A computation maps the state of the foreign library to an
  outcome and a new state (\<open>rust\<close> in Prelude); an outcome is \<open>Ok\<close>, \<open>Err\<close> or \<open>Panic\<close>, so that every
  \<open>?\<close>, early return, \<open>expect\<close>, slice out of range and length mismatch of \<open>copy_from_slice\<close> is a
  branch.  A mutable argument is passed in and returned.  Bytes, sequence numbers and C integers
  are words of their width; \<open>usize\<close> is \<open>nat\<close>, with subtraction below zero a panic.  Structs are
  records, enums datatypes, and a trait object is a datatype of its implementations.

  What is a parameter.  The code of rustls and wolfCrypt is not part of the repository.  Each part
  of it the provider calls is a record of functions over an arbitrary foreign state \<open>'s\<close>, passed to
  the definitions that use it (\<open>rustls_cipher\<close>, \<open>wolf_gcm\<close>, \<open>wolf_chacha\<close>, \<open>wolf_sha\<close>, \<open>wolf_kdf\<close>,
  \<open>wolf_rng\<close>, \<open>wolf_curve25519\<close>, \<open>wolf_ecc\<close>, \<open>wolf_ecdsa\<close>, \<open>wolf_ed25519\<close>, \<open>wolf_rsa\<close>,
  \<open>pkcs8_parser\<close>).  What the theorems need of it is a predicate on the record (\<open>gcm_sound\<close>,
  \<open>gcm_live\<close>, \<open>sha_ok\<close>, \<open>hkdf_ok\<close>, \<open>ecc_ecdh_ok\<close>, \<open>ecdsa_ok\<close>, \<open>rsa_pss_ok\<close>, ...) that states the
  documented behaviour: the result as a mathematical function of the arguments, and which calls
  succeed.  Instances called \<open>demo_...\<close> show that the predicates hold together; witnesses use them.

  The theories.
  \<^item> Prelude: types, outcomes, the Rust operations on slices, and the rules for \<open>yields\<close> (returns, and
    the value satisfies), \<open>ensures\<close> (if it returns) and \<open>no_panic\<close>.
  \<^item> RustlsTypes: the types of rustls and of \<open>rustls-pki-types\<close> that cross the interface.
  \<^item> WcError: \<open>error.rs\<close>, the three checks and the classification of codes.
  \<^item> WolfAead, RecordLayer, AeadSpec, AeadDemo: the foreign AEADs; the locales \<open>record_protection\<close> and
    \<open>exact_protection\<close>, the contract of an encrypter and a decrypter; the bytes on the wire.
  \<^item> Aes128Gcm, Aes256Gcm, Chacha20: \<open>aead/\<close>, each interpreted as a record protection.
  \<^item> Channel: one direction of a connection as a transition system with interleaved sending, receiving
    and other uses of the library, its invariant, and its equivalence, event by event, with a queue.
  \<^item> SuiteCiphers, Connection: the ciphers of all suites behind one interface, and what every suite
    promises: the invariant, the refinement, progress, and faithful exported secrets.
  \<^item> Handshake: key exchange, key schedule and records in one run.
  \<^item> WolfSha, HashContext, Sha256, Sha384: \<open>hash/\<close>, contexts as transcripts of the bytes they were fed.
  \<^item> WolfKdf, Hmac, Hkdf, Prf: \<open>hmac/mod.rs\<close>, \<open>hkdf.rs\<close>, \<open>prf.rs\<close> against RFC 2104, 5869 and 5246.
  \<^item> WolfKx, WolfKxDemo, KeyExchange, KxX25519, KxSec256r1, KxSec384r1, KxSec521r1, Kx: \<open>kx.rs\<close> and
    \<open>kx/\<close>, each group interpreted as a key exchange on which two parties agree.
  \<^item> WolfSig, WolfSigDemo, Der, SignatureFlow, VerifyEcdsa, SignEcdsa, VerifyEddsa, SignEddsa,
    VerifyRsaPkcs1, VerifyRsaPss, SignRsa, Verify: \<open>verify.rs\<close>, \<open>verify/\<close>, \<open>sign/\<close>; each kind of
    signature interpreted as a verifier that accepts exactly the genuine signatures and as a
    signature scheme whose signatures verify.
  \<^item> RandomBuffer, Suites, ProviderLib: \<open>random.rs\<close> and \<open>lib.rs\<close>, the suites, the key loader, the random
    source, and the provider from a key file to an accepted signature.
  \<^item> TestHarness: what a Rust test is made of, and \<open>passes\<close>, \<open>panics\<close> and \<open>decides\<close>, the verdicts on it.
  \<^item> AeadVectors, KdfTests, UnitTests, KeyTests: the \<open>#[cfg(test)]\<close> modules of the source files.
  \<^item> EndToEnd: the signature tests of \<open>tests/e2e.rs\<close>, from generated keys to verified signatures.
  \<^item> DebugText: the \<open>Debug\<close> implementations of keys and signers, over the debug builders of the
    standard library.
  \<^item> ServerExample: the accept loop of \<open>examples/server.rs\<close>, a partial function, and what it serves.
  \<^item> ServerSetup: the rest of \<open>examples/server.rs\<close>, from the certificates to the loop.
  \<^item> ClientSessions: \<open>examples/client.rs\<close> and the network tests of \<open>tests/e2e.rs\<close>, with the mutex that the
    tests against a local server share; \<open>world\<close> and \<open>peer\<close>, what can be observed of the system and of the servers,
    and \<open>runs_to\<close>, total correctness over it.

  What the theorems show.  For the AEADs: what one side sends the other receives, under every
  interleaving and every sequence number (which wraps at 64 bits); whatever arrives is answered
  without a panic, short records before any foreign call, and what is accepted is the AEAD's
  encryption of what is returned.  For key derivation: the RFC functions, with the limit of 255
  blocks of HKDF; an empty output is left to the library, which may refuse it, and then \<open>for_secret\<close> panics.  For key exchange: both parties get the same secret, and peer keys of another
  length are refused.  For signatures: exactly the genuine ones are accepted, keys load exactly if
  they have the format, and loading, choosing, signing and verifying fit together for all ten
  schemes.  For the error codes: which codes each check accepts and what it reports, and where that is
  not what its comment announces.

  For the tests: those that compare the provider with itself pass over every library that behaves as
  documented, and those that compare it with vectors pass exactly if the vectors are right for the
  functions the library implements.  The network tests pass, and negotiate the suites under test
  and no other, if the servers can be reached, have certificates that verify under the roots the tests load,
  and can do what the tests ask for; the mutex of two of them is poisoned exactly if one has
  panicked.  For the example server: it comes up, with a certificate that verifies what its key
  signs, if it gets its port, and panics otherwise; its accept loop ends exactly if the bytes of the client have a
  verdict or the stream breaks.  For the texts:
  no key material appears in the \<open>Debug\<close> form of a key.

  Bounds.  Loops are structural recursion over lists of chunks, sizes and algorithms, so no fuel is
  needed; only the accept loop of the example server need not end, and a run that does not is \<open>None\<close>.
  TLS 1.3 messages are bounded by the maximum fragment of 16384 bytes, which is what unpadding
  accepts; sizes passed to C as \<open>u32\<close> are below \<open>2 ^ 32\<close>.  The counters of the vector tests are
  \<open>i32\<close> with the overflow check of a test build, and sets of vectors are bounded accordingly.

  Parameters of the tests.  The vectors of the \<open>wycheproof\<close> crate, \<open>hex::encode\<close>, the key generators of
  wolfCrypt and of the \<open>rsa\<close> crate, and the encoders of \<open>sec1\<close>, \<open>der\<close> and \<open>pkcs8\<close> are arguments; what the
  pass of a test needs of them is a named hypothesis (\<open>run_shaped\<close>, \<open>e2e_ok\<close>, \<open>p256_keys_ok\<close>,
  \<open>ed_keys_ok\<close>).  A thread pool (\<open>par_iter\<close>) runs its cases one after the other, in any order.

  Parameters of the examples and the network tests.  The builders and connections of rustls, \<open>rcgen\<close>,
  sockets, processes and the working directory are the records \<open>server_lib\<close>, \<open>setup_lib\<close>, \<open>tls_client\<close> and
  \<open>test_os\<close>; \<open>acceptor_ok\<close>, \<open>rcgen_ok\<close>, \<open>builder_ok\<close>, \<open>client_ok\<close> and \<open>os_ok\<close> state what is documented of them, failures
  included: a port that is taken, a read that fails, a key that does not belong to the certificate, a handshake with
  a server that is not trusted or has no suite in common.
  The connections that come in are a finite list, those there have been so far.

  Not modelled.  Clearing of secrets on drop and sharing through \<open>Arc\<close>, which have no effect on
  values; the capacity of vectors; the loggers of the examples; module declarations and build
  files.  The secrecy and unforgeability of the primitives are properties
  of the foreign library, which the model takes as functions.
\<close>

end
